(* ===== verification/Prelude.thy ===== *)
theory Prelude
  imports Main "HOL-Library.AList" "HOL-Library.Char_ord" "HOL-Library.List_Lexorder"
    "HOL-Library.Multiset"
begin

text \<open>
  The Go runtime that the AnoPKI service is written against, as far as the service uses it:
  byte strings and the functions of package \<open>strings\<close>, times and durations of package
  \<open>time\<close>, 64-bit integer wrap-around, built-in maps, and \<open>sort.Slice\<close>.
  The component theories import it together with \<open>Effects\<close>.
\<close>

named_theorems go_defs \<open>definitions of the Go runtime functions\<close>
named_theorems table_simps \<open>what lookups see after table updates\<close>

section \<open>Times, durations and machine integers\<close>

text \<open>
  A \<open>time.Time\<close> is the number of nanoseconds since the zero time; the zero value is 0.
  A \<open>time.Duration\<close> is a signed 64-bit count of nanoseconds.
\<close>

type_synonym time = int
type_synonym duration = int

definition wrap64 :: "int \<Rightarrow> int" where
  "wrap64 x = (x + 2 ^ 63) mod 2 ^ 64 - 2 ^ 63"

definition IsZero :: "time \<Rightarrow> bool" where
  [go_defs]: "IsZero t \<longleftrightarrow> t = 0"

definition After :: "time \<Rightarrow> time \<Rightarrow> bool" where
  [go_defs]: "After t u \<longleftrightarrow> u < t"

definition Before :: "time \<Rightarrow> time \<Rightarrow> bool" where
  [go_defs]: "Before t u \<longleftrightarrow> t < u"

definition AddD :: "time \<Rightarrow> duration \<Rightarrow> time" where
  [go_defs]: "AddD t d = t + d"

definition Second :: duration where "Second = 1000000000"
definition Minute :: duration where "Minute = 60000000000"
definition Hour :: duration where "Hour = 3600000000000"

lemma wrap64_range: "- (2 ^ 63) \<le> wrap64 x" "wrap64 x < 2 ^ 63"
proof -
  have "0 \<le> (x + 2 ^ 63) mod 2 ^ 64" and "(x + 2 ^ 63) mod 2 ^ 64 < (2 ^ 64 :: int)"
    by simp_all
  then show "- (2 ^ 63) \<le> wrap64 x" "wrap64 x < 2 ^ 63"
    by (simp_all add: wrap64_def)
qed

lemma wrap64_id: "- (2 ^ 63) \<le> x \<Longrightarrow> x < 2 ^ 63 \<Longrightarrow> wrap64 x = x"
  by (simp add: wrap64_def)

section \<open>Strings\<close>

text \<open>
  A Go string is a sequence of bytes. \<open>strings.TrimSpace\<close> removes the UTF-8 encodings of the
  code points with the Unicode property White_Space at both ends; the encodings have one, two
  or three bytes. Case conversion is modelled on ASCII, bytes from 128 on are kept.
\<close>

definition ascii_space :: "char \<Rightarrow> bool" where
  "ascii_space c \<longleftrightarrow> of_char c \<in> {9, 10, 11, 12, 13, 32 :: nat}"

definition space2 :: "char \<Rightarrow> char \<Rightarrow> bool" where
  "space2 c d \<longleftrightarrow> of_char c = (194 :: nat) \<and> of_char d \<in> {133, 160 :: nat}"

definition space3 :: "char \<Rightarrow> char \<Rightarrow> char \<Rightarrow> bool" where
  "space3 c d e \<longleftrightarrow>
     (let a = (of_char c :: nat); b = (of_char d :: nat); f = (of_char e :: nat) in
      (a = 225 \<and> b = 154 \<and> f = 128) \<or>
      (a = 226 \<and> b = 128 \<and> (128 \<le> f \<and> f \<le> 138 \<or> f = 168 \<or> f = 169 \<or> f = 175)) \<or>
      (a = 226 \<and> b = 129 \<and> f = 159) \<or>
      (a = 227 \<and> b = 128 \<and> f = 128))"

fun trim_left :: "string \<Rightarrow> string" where
  "trim_left [] = []"
| "trim_left [c] = (if ascii_space c then [] else [c])"
| "trim_left [c, d] =
     (if ascii_space c then trim_left [d] else if space2 c d then [] else [c, d])"
| "trim_left (c # d # e # s) =
     (if ascii_space c then trim_left (d # e # s)
      else if space2 c d then trim_left (e # s)
      else if space3 c d e then trim_left s
      else c # d # e # s)"

text \<open>The right end is trimmed on the reversed string, where the encodings are reversed too.\<close>

fun trim_rev :: "string \<Rightarrow> string" where
  "trim_rev [] = []"
| "trim_rev [c] = (if ascii_space c then [] else [c])"
| "trim_rev [d, c] =
     (if ascii_space d then trim_rev [c] else if space2 c d then [] else [d, c])"
| "trim_rev (e # d # c # s) =
     (if ascii_space e then trim_rev (d # c # s)
      else if space2 d e then trim_rev (c # s)
      else if space3 c d e then trim_rev s
      else e # d # c # s)"

definition TrimSpace :: "string \<Rightarrow> string" where
  "TrimSpace s = rev (trim_rev (rev (trim_left s)))"

definition char_lower :: "char \<Rightarrow> char" where
  "char_lower c =
     (let n = of_char c :: nat in if 65 \<le> n \<and> n \<le> 90 then char_of (n + 32) else c)"

definition ToLower :: "string \<Rightarrow> string" where
  "ToLower s = map char_lower s"

definition EqualFold :: "string \<Rightarrow> string \<Rightarrow> bool" where
  "EqualFold s t \<longleftrightarrow> ToLower s = ToLower t"

definition HasPrefix :: "string \<Rightarrow> string \<Rightarrow> bool" where
  "HasPrefix s p \<longleftrightarrow> take (length p) s = p"

definition HasSuffix :: "string \<Rightarrow> string \<Rightarrow> bool" where
  "HasSuffix s p \<longleftrightarrow> length p \<le> length s \<and> drop (length s - length p) s = p"

definition TrimPrefix :: "string \<Rightarrow> string \<Rightarrow> string" where
  "TrimPrefix s p = (if HasPrefix s p then drop (length p) s else s)"

definition TrimSuffix :: "string \<Rightarrow> string \<Rightarrow> string" where
  "TrimSuffix s p = (if HasSuffix s p then take (length s - length p) s else s)"

text \<open>\<open>strings.Cut\<close> and \<open>strings.Split\<close> for a one-byte separator.\<close>

definition Cut :: "string \<Rightarrow> char \<Rightarrow> string \<times> string \<times> bool" where
  "Cut s c =
     (let b = takeWhile (\<lambda>x. x \<noteq> c) s; r = dropWhile (\<lambda>x. x \<noteq> c) s
      in case r of [] \<Rightarrow> (s, [], False) | _ # a \<Rightarrow> (b, a, True))"

fun Split :: "string \<Rightarrow> char \<Rightarrow> string list" where
  "Split [] c = [[]]"
| "Split (x # s) c =
     (if x = c then [] # Split s c
      else case Split s c of [] \<Rightarrow> [[x]] | p # ps \<Rightarrow> (x # p) # ps)"

fun Contains :: "string \<Rightarrow> string \<Rightarrow> bool" where
  "Contains [] sub = (sub = [])"
| "Contains (c # s) sub = (HasPrefix (c # s) sub \<or> Contains s sub)"

definition remove_char :: "string \<Rightarrow> char \<Rightarrow> string" where
  "remove_char s c = filter (\<lambda>x. x \<noteq> c) s"

fun Join :: "string list \<Rightarrow> string \<Rightarrow> string" where
  "Join [] sep = []"
| "Join [x] sep = x"
| "Join (x # y # xs) sep = x @ sep @ Join (y # xs) sep"

lemma Split_nonempty: "Split s c \<noteq> []"
  by (induction s c rule: Split.induct) (auto split: list.splits)

lemma HasPrefix_iff: "HasPrefix s p \<longleftrightarrow> (\<exists>t. s = p @ t)"
  by (auto simp: HasPrefix_def) (metis append_take_drop_id)

lemma HasSuffix_iff: "HasSuffix s p \<longleftrightarrow> (\<exists>t. s = t @ p)"
  by (auto simp: HasSuffix_def) (metis append_take_drop_id)

text \<open>Decimal printing, \<open>fmt.Sprintf("%d")\<close> and the JSON encoding of an integer.\<close>

fun nat_dec :: "nat \<Rightarrow> string" where
  "nat_dec n = (if n < 10 then [char_of (48 + n)] else nat_dec (n div 10) @ [char_of (48 + n mod 10)])"

declare nat_dec.simps [simp del]

definition itoa :: "int \<Rightarrow> string" where
  "itoa i = (if i < 0 then CHR ''-'' # nat_dec (nat (- i)) else nat_dec (nat i))"

section \<open>Maps\<close>

text \<open>
  A \<open>map[string]V\<close> is an association list with distinct keys. The order of the list is the
  order in which a \<open>range\<close> loop visits the entries; Go leaves it open, so the theorems on
  functions that range over a map quantify over every list, and the order-independence lemmas
  say which results do not depend on it.
\<close>

type_synonym 'v gomap = "(string \<times> 'v) list"

definition mget :: "'v gomap \<Rightarrow> string \<Rightarrow> 'v option" where
  "mget m k = map_of m k"

definition mput :: "string \<Rightarrow> 'v \<Rightarrow> 'v gomap \<Rightarrow> 'v gomap" where
  "mput k v m = AList.update k v m"

definition mdel :: "string \<Rightarrow> 'v gomap \<Rightarrow> 'v gomap" where
  "mdel k m = AList.delete k m"

definition mvals :: "'v gomap \<Rightarrow> 'v list" where
  "mvals m = map snd m"

definition mkeys :: "'v gomap \<Rightarrow> string set" where
  "mkeys m = fst ` set m"

definition wf_map :: "'v gomap \<Rightarrow> bool" where
  "wf_map m \<longleftrightarrow> distinct (map fst m)"

lemma mget_mput [simp, table_simps]: "mget (mput k v m) k' = (if k' = k then Some v else mget m k')"
  by (simp add: mget_def mput_def update_conv')

lemma mget_mdel [simp, table_simps]: "mget (mdel k m) k' = (if k' = k then None else mget m k')"
  by (simp add: mget_def mdel_def delete_conv')

lemma mget_Nil [simp]: "mget [] k = None"
  by (simp add: mget_def)

lemma wf_map_Nil [simp]: "wf_map []"
  by (simp add: wf_map_def)

lemma wf_map_mput [simp, intro]: "wf_map m \<Longrightarrow> wf_map (mput k v m)"
  by (simp add: wf_map_def mput_def distinct_update)

lemma wf_map_mdel [simp, intro]: "wf_map m \<Longrightarrow> wf_map (mdel k m)"
  by (simp add: wf_map_def mdel_def distinct_delete)

lemma mget_in_vals: "mget m k = Some v \<Longrightarrow> v \<in> set (mvals m)"
  by (force simp: mget_def mvals_def dest: map_of_SomeD)

lemma in_vals_mget: "wf_map m \<Longrightarrow> v \<in> set (mvals m) \<Longrightarrow> \<exists>k. mget m k = Some v"
  by (force simp: mget_def mvals_def wf_map_def)

lemma in_vals_iff: "wf_map m \<Longrightarrow> v \<in> set (mvals m) \<longleftrightarrow> (\<exists>k. mget m k = Some v)"
  using in_vals_mget mget_in_vals by metis

lemma set_mvals_mput: "wf_map m \<Longrightarrow>
    v \<in> set (mvals (mput k w m)) \<longleftrightarrow> v = w \<or> (\<exists>k'. k' \<noteq> k \<and> mget m k' = Some v)"
  by (auto simp: in_vals_iff split: if_splits)

text \<open>A table is a map whose entries are filed under their own key field.\<close>

definition keyed :: "('v \<Rightarrow> string) \<Rightarrow> 'v gomap \<Rightarrow> bool" where
  "keyed key m \<longleftrightarrow> wf_map m \<and> (\<forall>k v. mget m k = Some v \<longrightarrow> key v = k)"

lemma keyed_Nil [simp]: "keyed key []"
  by (simp add: keyed_def)

lemma keyed_mput [intro]: "keyed key m \<Longrightarrow> key v = k \<Longrightarrow> keyed key (mput k v m)"
  by (auto simp: keyed_def)

lemma keyed_mdel [intro]: "keyed key m \<Longrightarrow> keyed key (mdel k m)"
  by (auto simp: keyed_def)

lemma keyed_vals: "keyed key m \<Longrightarrow> v \<in> set (mvals m) \<longleftrightarrow> mget m (key v) = Some v"
  by (auto simp: keyed_def in_vals_iff)

lemma keyed_wf: "keyed key m \<Longrightarrow> wf_map m"
  by (simp add: keyed_def)

lemma keyed_key: "keyed key m \<Longrightarrow> mget m k = Some v \<Longrightarrow> key v = k"
  by (simp add: keyed_def)

section \<open>Sorting\<close>

text \<open>
  \<open>sort.Slice(xs, less)\<close> as insertion sort. Go's sort is not stable; every comparison function
  of the service breaks ties by the unique identifier, so the sorted slice is determined.
\<close>

fun insert_by :: "('a \<Rightarrow> 'a \<Rightarrow> bool) \<Rightarrow> 'a \<Rightarrow> 'a list \<Rightarrow> 'a list" where
  "insert_by lt x [] = [x]"
| "insert_by lt x (y # ys) = (if lt y x then y # insert_by lt x ys else x # y # ys)"

fun sort_slice :: "('a \<Rightarrow> 'a \<Rightarrow> bool) \<Rightarrow> 'a list \<Rightarrow> 'a list" where
  "sort_slice lt [] = []"
| "sort_slice lt (x # xs) = insert_by lt x (sort_slice lt xs)"

text \<open>Every listing of the service orders by a time and breaks ties by identifier.\<close>

definition less_time_id :: "('a \<Rightarrow> time) \<Rightarrow> ('a \<Rightarrow> string) \<Rightarrow> 'a \<Rightarrow> 'a \<Rightarrow> bool" where
  "less_time_id t i a b \<longleftrightarrow> (if t a \<noteq> t b then Before (t a) (t b) else i a < i b)"

lemma mset_insert_by [simp]: "mset (insert_by lt x xs) = add_mset x (mset xs)"
  by (induction xs) auto

lemma mset_sort_slice [simp]: "mset (sort_slice lt xs) = mset xs"
  by (induction xs) auto

lemma set_sort_slice [simp]: "set (sort_slice lt xs) = set xs"
  by (metis mset_sort_slice set_mset_mset)

lemma length_sort_slice [simp]: "length (sort_slice lt xs) = length xs"
  by (metis mset_sort_slice size_mset)

lemma distinct_sort_slice [simp]: "distinct (sort_slice lt xs) = distinct xs"
  by (metis mset_sort_slice mset_eq_imp_distinct_iff)

text \<open>
  A comparison function that a sort accepts: asymmetric, and incomparability is transitive.
\<close>

locale slice_order =
  fixes lt :: "'a \<Rightarrow> 'a \<Rightarrow> bool"
  assumes lt_asym: "lt x y \<Longrightarrow> \<not> lt y x"
    and lt_negtrans: "lt x z \<Longrightarrow> lt x y \<or> lt y z"
begin

lemma lt_irrefl: "\<not> lt x x"
  using lt_asym by blast

lemma not_lt_trans: "\<not> lt y x \<Longrightarrow> \<not> lt z y \<Longrightarrow> \<not> lt z x"
  using lt_negtrans by blast

lemma set_insert_by: "set (insert_by lt x ys) = insert x (set ys)"
  by (induction ys) auto

lemma sorted_insert_by:
  "sorted_wrt (\<lambda>a b. \<not> lt b a) xs \<Longrightarrow> sorted_wrt (\<lambda>a b. \<not> lt b a) (insert_by lt x xs)"
proof (induction xs)
  case Nil
  then show ?case by simp
next
  case (Cons y ys)
  show ?case
  proof (cases "lt y x")
    case True
    then have "\<not> lt x y" by (rule lt_asym)
    with True Cons show ?thesis by (simp add: set_insert_by)
  next
    case False
    have "\<not> lt b x" if "b \<in> set ys" for b
      using False Cons.prems that by (intro not_lt_trans [of y x b]) auto
    with False Cons show ?thesis by simp
  qed
qed

lemma sorted_sort_slice: "sorted_wrt (\<lambda>a b. \<not> lt b a) (sort_slice lt xs)"
  by (induction xs) (auto intro: sorted_insert_by)

text \<open>Where the order separates distinct elements, the sorted slice does not depend on the input order.\<close>

lemma sorted_unique:
  assumes "mset xs = mset ys"
    and "sorted_wrt (\<lambda>a b. \<not> lt b a) xs" and "sorted_wrt (\<lambda>a b. \<not> lt b a) ys"
    and sep: "\<And>a b. a \<in> set xs \<Longrightarrow> b \<in> set xs \<Longrightarrow> a \<noteq> b \<Longrightarrow> lt a b \<or> lt b a"
  shows "xs = ys"
  using assms
proof (induction xs arbitrary: ys)
  case Nil
  then show ?case by simp
next
  case (Cons x xs)
  then obtain y ys' where ys: "ys = y # ys'"
    by (cases ys) auto
  have "set ys = set (x # xs)"
    using Cons.prems(1) by (metis set_mset_mset)
  then have mem: "x \<in> set ys" "y \<in> set (x # xs)"
    unfolding ys by auto
  have xy: "x = y"
  proof (rule ccontr)
    assume "x \<noteq> y"
    with mem have "x \<in> set ys'" and "y \<in> set xs"
      unfolding ys by auto
    then have "\<not> lt y x" and "\<not> lt x y"
      using Cons.prems(2,3) unfolding ys by auto
    with \<open>x \<noteq> y\<close> \<open>y \<in> set xs\<close> Cons.prems(4)[of x y] show False by simp
  qed
  have "xs = ys'"
  proof (rule Cons.IH)
    show "mset xs = mset ys'" using Cons.prems(1) unfolding ys xy by simp
    show "sorted_wrt (\<lambda>a b. \<not> lt b a) xs" using Cons.prems(2) by simp
    show "sorted_wrt (\<lambda>a b. \<not> lt b a) ys'" using Cons.prems(3) unfolding ys by simp
    show "lt a b \<or> lt b a" if "a \<in> set xs" "b \<in> set xs" "a \<noteq> b" for a b
      using Cons.prems(4)[of a b] that by simp
  qed
  with xy ys show ?case by simp
qed

lemma sort_slice_perm:
  assumes "mset xs = mset ys"
    and "\<And>a b. a \<in> set xs \<Longrightarrow> b \<in> set xs \<Longrightarrow> a \<noteq> b \<Longrightarrow> lt a b \<or> lt b a"
  shows "sort_slice lt xs = sort_slice lt ys"
  by (rule sorted_unique) (auto simp: assms sorted_sort_slice)

end

interpretation by_time_id: slice_order "less_time_id t i" for t i
  by unfold_locales (auto simp: less_time_id_def Before_def split: if_splits)

end
