(* ===== verification/Effects.thy ===== *)
theory Effects
  imports Prelude
begin

text \<open>
  Effects of the service code: a computation reads and writes a state and returns a value or an
  error. As in Go, the state changes made before an error stay, unless a transaction rolls them
  back. \<open>wp\<close> is the weakest precondition of a computation for a postcondition on success and
  one on error; its equations are collected in \<open>wp_simps\<close>, so that \<open>simp\<close> computes it.
  \<open>keeps\<close> is the contract "whatever the outcome, the states are related", for relations that
  compose.
\<close>

named_theorems wp_simps \<open>equations of the weakest precondition\<close>
named_theorems keeps_intros \<open>compositional rules for \<open>keeps\<close>\<close>

section \<open>Computations\<close>

type_synonym ('s, 'e, 'a) eff = "'s \<Rightarrow> ('e + 'a) \<times> 's"

definition returnE :: "'a \<Rightarrow> ('s, 'e, 'a) eff" where
  "returnE x = (\<lambda>s. (Inr x, s))"

definition throwE :: "'e \<Rightarrow> ('s, 'e, 'a) eff" where
  "throwE e = (\<lambda>s. (Inl e, s))"

definition bindE :: "('s, 'e, 'a) eff \<Rightarrow> ('a \<Rightarrow> ('s, 'e, 'b) eff) \<Rightarrow> ('s, 'e, 'b) eff" where
  "bindE m k = (\<lambda>s. case m s of (Inl e, s') \<Rightarrow> (Inl e, s') | (Inr x, s') \<Rightarrow> k x s')"

definition thenE :: "('s, 'e, 'a) eff \<Rightarrow> ('s, 'e, 'b) eff \<Rightarrow> ('s, 'e, 'b) eff" where
  "thenE m n = bindE m (\<lambda>_. n)"

text \<open>\<open>if cond \{ return err \}\<close>\<close>

definition failIf :: "bool \<Rightarrow> 'e \<Rightarrow> ('s, 'e, unit) eff" where
  "failIf b e = (if b then throwE e else returnE ())"

text \<open>A read of the state, a read that may fail, and an update that may fail.\<close>

definition getE :: "('s \<Rightarrow> 'a) \<Rightarrow> ('s, 'e, 'a) eff" where
  "getE f = (\<lambda>s. (Inr (f s), s))"

definition readE :: "('s \<Rightarrow> 'e + 'a) \<Rightarrow> ('s, 'e, 'a) eff" where
  "readE f = (\<lambda>s. (f s, s))"

definition updE :: "('s \<Rightarrow> 'e + 's) \<Rightarrow> ('s, 'e, unit) eff" where
  "updE f = (\<lambda>s. case f s of Inl e \<Rightarrow> (Inl e, s) | Inr s' \<Rightarrow> (Inr (), s'))"

definition fromSum :: "'e + 'a \<Rightarrow> ('s, 'e, 'a) eff" where
  "fromSum r = (\<lambda>s. (r, s))"

text \<open>\<open>x, err := f()\<close>: the outcome as a value.\<close>

definition attemptE :: "('s, 'e, 'a) eff \<Rightarrow> ('s, 'e, 'e + 'a) eff" where
  "attemptE m = (\<lambda>s. case m s of (r, s') \<Rightarrow> (Inr r, s'))"

text \<open>\<open>x, err := f(); if err != nil \{ return g(err) \}\<close>\<close>

definition mapErrE :: "('e \<Rightarrow> 'f) \<Rightarrow> ('s, 'e, 'a) eff \<Rightarrow> ('s, 'f, 'a) eff" where
  "mapErrE g m = (\<lambda>s. case m s of (Inl e, s') \<Rightarrow> (Inl (g e), s') | (Inr x, s') \<Rightarrow> (Inr x, s'))"

text \<open>A \<open>range\<close> loop that returns at the first error, and one that accumulates.\<close>

primrec forE :: "'a list \<Rightarrow> ('a \<Rightarrow> ('s, 'e, unit) eff) \<Rightarrow> ('s, 'e, unit) eff" where
  "forE [] f = returnE ()"
| "forE (x # xs) f = thenE (f x) (forE xs f)"

primrec foldE :: "'a list \<Rightarrow> 'b \<Rightarrow> ('b \<Rightarrow> 'a \<Rightarrow> ('s, 'e, 'b) eff) \<Rightarrow> ('s, 'e, 'b) eff" where
  "foldE [] b f = returnE b"
| "foldE (x # xs) b f = bindE (f b x) (\<lambda>b'. foldE xs b' f)"

section \<open>Weakest preconditions\<close>

definition wp :: "('s, 'e, 'a) eff \<Rightarrow> ('a \<Rightarrow> 's \<Rightarrow> bool) \<Rightarrow> ('e \<Rightarrow> 's \<Rightarrow> bool) \<Rightarrow> 's \<Rightarrow> bool" where
  "wp m Q E s = (case m s of (Inl e, s') \<Rightarrow> E e s' | (Inr x, s') \<Rightarrow> Q x s')"

lemma wp_returnE [wp_simps]: "wp (returnE x) Q E s = Q x s"
  by (simp add: wp_def returnE_def)

lemma wp_throwE [wp_simps]: "wp (throwE e) Q E s = E e s"
  by (simp add: wp_def throwE_def)

lemma wp_bindE [wp_simps]: "wp (bindE m k) Q E s = wp m (\<lambda>x. wp (k x) Q E) E s"
  by (simp add: wp_def bindE_def split: prod.splits sum.splits)

lemma wp_thenE [wp_simps]: "wp (thenE m n) Q E s = wp m (\<lambda>_. wp n Q E) E s"
  by (simp add: thenE_def wp_bindE)

lemma wp_failIf [wp_simps]: "wp (failIf b e) Q E s = (if b then E e s else Q () s)"
  by (simp add: failIf_def wp_throwE wp_returnE)

lemma wp_getE [wp_simps]: "wp (getE f) Q E s = Q (f s) s"
  by (simp add: wp_def getE_def)

lemma wp_readE [wp_simps]:
  "wp (readE f) Q E s = (case f s of Inl e \<Rightarrow> E e s | Inr x \<Rightarrow> Q x s)"
  by (simp add: wp_def readE_def)

lemma wp_updE [wp_simps]:
  "wp (updE f) Q E s = (case f s of Inl e \<Rightarrow> E e s | Inr s' \<Rightarrow> Q () s')"
  by (simp add: wp_def updE_def split: sum.splits)

lemma wp_fromSum [wp_simps]:
  "wp (fromSum r) Q E s = (case r of Inl e \<Rightarrow> E e s | Inr x \<Rightarrow> Q x s)"
  by (simp add: wp_def fromSum_def)

lemma wp_attemptE [wp_simps]:
  "wp (attemptE m) Q E s = wp m (\<lambda>x. Q (Inr x)) (\<lambda>e. Q (Inl e)) s"
  by (simp add: wp_def attemptE_def split: prod.splits sum.splits)

lemma wp_mapErrE [wp_simps]: "wp (mapErrE g m) Q E s = wp m Q (\<lambda>e. E (g e)) s"
  by (simp add: wp_def mapErrE_def split: prod.splits sum.splits)

lemma wp_if [wp_simps]: "wp (if b then m else n) Q E s = (if b then wp m Q E s else wp n Q E s)"
  by simp

lemma wp_case_sum [wp_simps]:
  "wp (case r of Inl e \<Rightarrow> f e | Inr x \<Rightarrow> g x) Q E s =
     (case r of Inl e \<Rightarrow> wp (f e) Q E s | Inr x \<Rightarrow> wp (g x) Q E s)"
  by (simp split: sum.splits)

lemma wp_case_option [wp_simps]:
  "wp (case r of None \<Rightarrow> m | Some x \<Rightarrow> g x) Q E s =
     (case r of None \<Rightarrow> wp m Q E s | Some x \<Rightarrow> wp (g x) Q E s)"
  by (simp split: option.splits)

lemma wp_case_prod [wp_simps]:
  "wp (case p of (x, y) \<Rightarrow> g x y) Q E s = (case p of (x, y) \<Rightarrow> wp (g x y) Q E s)"
  by (simp split: prod.splits)

lemma wp_let [wp_simps]: "wp (Let x f) Q E s = (let y = x in wp (f y) Q E s)"
  by simp

lemma wp_forE_Nil [wp_simps]: "wp (forE [] f) Q E s = Q () s"
  by (simp add: wp_returnE)

lemma wp_forE_Cons [wp_simps]: "wp (forE (x # xs) f) Q E s = wp (f x) (\<lambda>_. wp (forE xs f) Q E) E s"
  by (simp add: wp_thenE)

lemma wp_foldE_Nil [wp_simps]: "wp (foldE [] b f) Q E s = Q b s"
  by (simp add: wp_returnE)

lemma wp_foldE_Cons [wp_simps]:
  "wp (foldE (x # xs) b f) Q E s = wp (f b x) (\<lambda>b'. wp (foldE xs b' f) Q E) E s"
  by (simp add: wp_bindE)

lemma wp_mono:
  "wp m Q E s \<Longrightarrow> (\<And>x s'. m s = (Inr x, s') \<Longrightarrow> Q x s' \<Longrightarrow> Q' x s') \<Longrightarrow>
   (\<And>e s'. m s = (Inl e, s') \<Longrightarrow> E e s' \<Longrightarrow> E' e s') \<Longrightarrow> wp m Q' E' s"
  by (auto simp: wp_def split: prod.splits sum.splits)

lemma wp_conj: "wp m Q E s \<Longrightarrow> wp m Q' E' s \<Longrightarrow> wp m (\<lambda>x s. Q x s \<and> Q' x s) (\<lambda>e s. E e s \<and> E' e s) s"
  by (auto simp: wp_def split: prod.splits sum.splits)

lemma wp_success: "wp m Q E s \<Longrightarrow> m s = (Inr x, s') \<Longrightarrow> Q x s'"
  by (simp add: wp_def)

lemma wp_error: "wp m Q E s \<Longrightarrow> m s = (Inl e, s') \<Longrightarrow> E e s'"
  by (simp add: wp_def)

lemma wp_intro_success:
  "(\<And>x s'. m s = (Inr x, s') \<Longrightarrow> Q x s') \<Longrightarrow> wp m Q (\<lambda>_ _. True) s"
  by (auto simp: wp_def split: prod.splits sum.splits)

text \<open>Loops: a fact that the body keeps.\<close>

lemma wp_forE:
  assumes "I s" and "\<And>x s. x \<in> set xs \<Longrightarrow> I s \<Longrightarrow> wp (f x) (\<lambda>_. I) E s"
    and "\<And>s. I s \<Longrightarrow> Q () s"
  shows "wp (forE xs f) Q E s"
  using assms
proof (induction xs arbitrary: s)
  case Nil
  then show ?case by (simp add: wp_returnE)
next
  case (Cons x xs)
  have "wp (f x) (\<lambda>_. I) E s"
    using Cons.prems by simp
  then have "wp (f x) (\<lambda>_. wp (forE xs f) Q E) E s"
    by (rule wp_mono) (use Cons in auto)
  then show ?case by (simp add: wp_thenE)
qed

lemma wp_foldE:
  assumes "I b s" and "\<And>x b s. x \<in> set xs \<Longrightarrow> I b s \<Longrightarrow> wp (f b x) I E s"
    and "\<And>b s. I b s \<Longrightarrow> Q b s"
  shows "wp (foldE xs b f) Q E s"
  using assms
proof (induction xs arbitrary: b s)
  case Nil
  then show ?case by (simp add: wp_returnE)
next
  case (Cons x xs)
  have "wp (f b x) I E s"
    using Cons.prems by simp
  then have "wp (f b x) (\<lambda>b'. wp (foldE xs b' f) Q E) E s"
    by (rule wp_mono) (use Cons in auto)
  then show ?case by (simp add: wp_bindE)
qed

section \<open>Relations kept by a computation\<close>

definition keeps :: "('s \<Rightarrow> 's \<Rightarrow> bool) \<Rightarrow> ('s, 'e, 'a) eff \<Rightarrow> bool" where
  "keeps R m \<longleftrightarrow> (\<forall>s. R s (snd (m s)))"

text \<open>The relations of interest are preorders on states: "no event is lost", "terminal states stay".\<close>

locale state_preorder =
  fixes R :: "'s \<Rightarrow> 's \<Rightarrow> bool"
  assumes R_refl: "R s s" and R_trans: "R s t \<Longrightarrow> R t u \<Longrightarrow> R s u"
begin

lemma keeps_returnE [keeps_intros]: "keeps R (returnE x)"
  by (simp add: keeps_def returnE_def R_refl)

lemma keeps_throwE [keeps_intros]: "keeps R (throwE e)"
  by (simp add: keeps_def throwE_def R_refl)

lemma keeps_failIf [keeps_intros]: "keeps R (failIf b e)"
  by (simp add: keeps_def failIf_def returnE_def throwE_def R_refl)

lemma keeps_getE [keeps_intros]: "keeps R (getE f)"
  by (simp add: keeps_def getE_def R_refl)

lemma keeps_readE [keeps_intros]: "keeps R (readE f)"
  by (simp add: keeps_def readE_def R_refl)

lemma keeps_fromSum [keeps_intros]: "keeps R (fromSum r)"
  by (simp add: keeps_def fromSum_def R_refl)

lemma keeps_updE: "(\<And>s s'. f s = Inr s' \<Longrightarrow> R s s') \<Longrightarrow> keeps R (updE f)"
  by (auto simp: keeps_def updE_def R_refl split: sum.splits)

lemma keeps_bindE [keeps_intros]:
  assumes "keeps R m" and "\<And>x. keeps R (k x)"
  shows "keeps R (bindE m k)"
  unfolding keeps_def
proof
  fix s
  obtain r s' where ms: "m s = (r, s')" by (cases "m s")
  have "R s s'" using assms(1) ms unfolding keeps_def by (metis snd_conv)
  moreover have "R s' (snd (k x s'))" for x using assms(2) unfolding keeps_def by blast
  ultimately show "R s (snd (bindE m k s))"
    by (cases r) (auto simp: bindE_def ms intro: R_trans)
qed

lemma keeps_thenE [keeps_intros]: "keeps R m \<Longrightarrow> keeps R n \<Longrightarrow> keeps R (thenE m n)"
  by (simp add: thenE_def keeps_bindE)

lemma keeps_attemptE [keeps_intros]: "keeps R m \<Longrightarrow> keeps R (attemptE m)"
  by (simp add: keeps_def attemptE_def case_prod_beta)

lemma keeps_mapErrE [keeps_intros]: "keeps R m \<Longrightarrow> keeps R (mapErrE g m)"
  by (auto simp: keeps_def mapErrE_def case_prod_beta split: sum.splits)

lemma keeps_forE [keeps_intros]: "(\<And>x. keeps R (f x)) \<Longrightarrow> keeps R (forE xs f)"
  by (induction xs) (auto intro: keeps_returnE keeps_thenE)

lemma keeps_foldE [keeps_intros]: "(\<And>b x. keeps R (f b x)) \<Longrightarrow> keeps R (foldE xs b f)"
  by (induction xs arbitrary: b) (auto intro: keeps_returnE keeps_bindE)

lemma keeps_if [keeps_intros]: "keeps R m \<Longrightarrow> keeps R n \<Longrightarrow> keeps R (if b then m else n)"
  by simp

lemma keeps_case_sum [keeps_intros]:
  "(\<And>e. keeps R (f e)) \<Longrightarrow> (\<And>x. keeps R (g x)) \<Longrightarrow>
   keeps R (case r of Inl e \<Rightarrow> f e | Inr x \<Rightarrow> g x)"
  by (simp split: sum.splits)

lemma keeps_case_option [keeps_intros]:
  "keeps R m \<Longrightarrow> (\<And>x. keeps R (g x)) \<Longrightarrow>
   keeps R (case r of None \<Rightarrow> m | Some x \<Rightarrow> g x)"
  by (simp split: option.splits)

lemma keeps_case_prod [keeps_intros]:
  "(\<And>x y. keeps R (g x y)) \<Longrightarrow> keeps R (case p of (x, y) \<Rightarrow> g x y)"
  by (simp split: prod.splits)

end

text \<open>An invariant is the preorder "if it held before, it holds after".\<close>

interpretation invariant_preorder: state_preorder "\<lambda>s t. I s \<longrightarrow> I t" for I
  by unfold_locales auto

end
