(* ===== verification/Domain.thy ===== *)
theory Domain
  imports Effects
begin

text \<open>
  The domain model of the service: \<open>service/internal/domain/types.go\<close> and
  \<open>errors.go\<close>. A Go type that is declared as a string with named constants is a datatype with
  those constants and one constructor for every other string. Structs are records whose field
  names carry a prefix, since the records share names such as \<open>ID\<close> and \<open>Status\<close>. A slice
  is a list (nil and the empty slice are both \<open>[]\<close>) and a pointer that may be nil is an option.
\<close>

section \<open>Enumerations\<close>

datatype IdentityType =
    IdentityUser
  | IdentityMachine
  | IdentityService
  | IdentityIoTDevice
  | IdentityWorkload
  | IdentityTypeOther string

datatype IdentityStatus =
    IdentityActive
  | IdentityDisabled
  | IdentityStatusOther string

datatype IssuerStatus =
    IssuerActive
  | IssuerDisabled
  | IssuerStatusOther string

datatype OCSPResponderStatus =
    OCSPResponderActive
  | OCSPResponderDisabled
  | OCSPResponderStatusOther string

datatype NotificationEndpointType =
    NotificationEndpointWebhook
  | NotificationEndpointTypeOther string

datatype NotificationEndpointStatus =
    NotificationEndpointActive
  | NotificationEndpointDisabled
  | NotificationEndpointStatusOther string

datatype EnrollmentStatus =
    EnrollmentPending
  | EnrollmentApproved
  | EnrollmentRejected
  | EnrollmentIssued
  | EnrollmentCanceled
  | EnrollmentStatusOther string

datatype IssuanceAttemptStatus =
    IssuanceAttemptSigning
  | IssuanceAttemptSigned
  | IssuanceAttemptFinalized
  | IssuanceAttemptFailed
  | IssuanceAttemptStatusOther string

datatype CertificateStatus =
    CertificateValid
  | CertificateSuspended
  | CertificateRevoked
  | CertificateExpired
  | CertificateStatusOther string

datatype CRLPublicationStatus =
    CRLPublicationPublished
  | CRLPublicationStatusOther string

datatype OutboxMessageStatus =
    OutboxPending
  | OutboxProcessing
  | OutboxCompleted
  | OutboxFailed
  | OutboxDeadLetter
  | OutboxMessageStatusOther string

datatype JobAttemptStatus =
    JobAttemptSucceeded
  | JobAttemptFailed
  | JobAttemptStatusOther string

datatype APIKeyStatus =
    APIKeyActive
  | APIKeyDisabled
  | APIKeyStatusOther string

datatype APIKeyScope =
    APIKeyScopeRead
  | APIKeyScopeWrite
  | APIKeyScopeOperator
  | APIKeyScopeOther string

datatype ACMEAccountStatus =
    ACMEAccountValid
  | ACMEAccountDeactivated
  | ACMEAccountStatusOther string

datatype ACMEOrderStatus =
    ACMEOrderPending
  | ACMEOrderReady
  | ACMEOrderValid
  | ACMEOrderInvalid
  | ACMEOrderStatusOther string

datatype ACMEAuthorizationStatus =
    ACMEAuthorizationPending
  | ACMEAuthorizationValid
  | ACMEAuthorizationInvalid
  | ACMEAuthorizationStatusOther string

datatype ACMEChallengeType =
    ACMEChallengeHTTP01
  | ACMEChallengeDNS01
  | ACMEChallengeTypeOther string

datatype ACMEChallengeStatus =
    ACMEChallengePending
  | ACMEChallengeProcessing
  | ACMEChallengeValid
  | ACMEChallengeInvalid
  | ACMEChallengeStatusOther string

datatype RevocationReason =
    RevocationKeyCompromise
  | RevocationCACompromise
  | RevocationAffiliationChanged
  | RevocationSuperseded
  | RevocationCessationOfOperation
  | RevocationPrivilegeWithdrawn
  | RevocationUnspecified
  | RevocationReasonOther string

datatype IssuerKind =
    IssuerRootCA
  | IssuerIntermediateCA
  | IssuerKindOther string

section \<open>The string values of the enumerations\<close>

fun str_NotificationEndpointType :: "NotificationEndpointType \<Rightarrow> string" where
  "str_NotificationEndpointType NotificationEndpointWebhook = ''webhook''"
| "str_NotificationEndpointType (NotificationEndpointTypeOther s) = s"

fun str_EnrollmentStatus :: "EnrollmentStatus \<Rightarrow> string" where
  "str_EnrollmentStatus EnrollmentPending = ''pending''"
| "str_EnrollmentStatus EnrollmentApproved = ''approved''"
| "str_EnrollmentStatus EnrollmentRejected = ''rejected''"
| "str_EnrollmentStatus EnrollmentIssued = ''issued''"
| "str_EnrollmentStatus EnrollmentCanceled = ''canceled''"
| "str_EnrollmentStatus (EnrollmentStatusOther s) = s"

fun str_CertificateStatus :: "CertificateStatus \<Rightarrow> string" where
  "str_CertificateStatus CertificateValid = ''valid''"
| "str_CertificateStatus CertificateSuspended = ''suspended''"
| "str_CertificateStatus CertificateRevoked = ''revoked''"
| "str_CertificateStatus CertificateExpired = ''expired''"
| "str_CertificateStatus (CertificateStatusOther s) = s"

fun str_APIKeyStatus :: "APIKeyStatus \<Rightarrow> string" where
  "str_APIKeyStatus APIKeyActive = ''active''"
| "str_APIKeyStatus APIKeyDisabled = ''disabled''"
| "str_APIKeyStatus (APIKeyStatusOther s) = s"

fun str_APIKeyScope :: "APIKeyScope \<Rightarrow> string" where
  "str_APIKeyScope APIKeyScopeRead = ''read''"
| "str_APIKeyScope APIKeyScopeWrite = ''write''"
| "str_APIKeyScope APIKeyScopeOperator = ''operator''"
| "str_APIKeyScope (APIKeyScopeOther s) = s"

fun str_ACMEChallengeType :: "ACMEChallengeType \<Rightarrow> string" where
  "str_ACMEChallengeType ACMEChallengeHTTP01 = ''http-01''"
| "str_ACMEChallengeType ACMEChallengeDNS01 = ''dns-01''"
| "str_ACMEChallengeType (ACMEChallengeTypeOther s) = s"

fun str_RevocationReason :: "RevocationReason \<Rightarrow> string" where
  "str_RevocationReason RevocationKeyCompromise = ''key_compromise''"
| "str_RevocationReason RevocationCACompromise = ''ca_compromise''"
| "str_RevocationReason RevocationAffiliationChanged = ''affiliation_changed''"
| "str_RevocationReason RevocationSuperseded = ''superseded''"
| "str_RevocationReason RevocationCessationOfOperation = ''cessation_of_operation''"
| "str_RevocationReason RevocationPrivilegeWithdrawn = ''privilege_withdrawn''"
| "str_RevocationReason RevocationUnspecified = ''unspecified''"
| "str_RevocationReason (RevocationReasonOther s) = s"

section \<open>Structs\<close>

record Identity =
  idn_ID :: string
  idn_Type :: IdentityType
  idn_Name :: string
  idn_ExternalID :: string
  idn_Owner :: string
  idn_Team :: string
  idn_Service :: string
  idn_Environment :: string
  idn_DeploymentTarget :: string
  idn_LastSeenAt :: time
  idn_MetadataJSON :: string
  idn_AllowedDNSNames :: "string list"
  idn_AllowedIPAddresses :: "string list"
  idn_Status :: IdentityStatus
  idn_CreatedAt :: time
  idn_UpdatedAt :: time

record Issuer =
  iss_ID :: string
  iss_Name :: string
  iss_Kind :: IssuerKind
  iss_Status :: IssuerStatus
  iss_ParentIssuerID :: string
  iss_CertificatePEM :: string
  iss_KeyRef :: string
  iss_AIAURL :: string
  iss_CRLDistributionPoints :: "string list"
  iss_TrustAnchor :: bool
  iss_CreatedAt :: time
  iss_UpdatedAt :: time

record OCSPResponder =
  rsp_ID :: string
  rsp_IssuerID :: string
  rsp_Name :: string
  rsp_Status :: OCSPResponderStatus
  rsp_CertificatePEM :: string
  rsp_KeyRef :: string
  rsp_CreatedAt :: time
  rsp_UpdatedAt :: time

record NotificationEndpoint =
  ep_ID :: string
  ep_Name :: string
  ep_Type :: NotificationEndpointType
  ep_Status :: NotificationEndpointStatus
  ep_URL :: string
  ep_Secret :: string
  ep_EventTypes :: "string list"
  ep_CreatedAt :: time
  ep_UpdatedAt :: time

record StringListExtensionPolicy =
  slp_Critical :: bool
  slp_Values :: "string list"

record BasicConstraintsPolicy =
  bc_Critical :: bool
  bc_CA :: bool
  bc_MaxPathLen :: "int option"

record CertificateProfile =
  prof_ID :: string
  prof_Name :: string
  prof_Description :: string
  prof_IssuerID :: string
  prof_ValidityPeriodSeconds :: int
  prof_PublicTLS :: bool
  prof_SubjectTemplate :: string
  prof_AllowedDNSPatterns :: "string list"
  prof_AllowedIPRanges :: "string list"
  prof_AllowedKeyAlgorithms :: "string list"
  prof_MinKeySizeBits :: int
  prof_AllowedSignatureAlgorithms :: "string list"
  prof_KeyUsage :: StringListExtensionPolicy
  prof_ExtendedKeyUsage :: StringListExtensionPolicy
  prof_BasicConstraints :: BasicConstraintsPolicy
  prof_SubjectKeyIdentifier :: bool
  prof_AuthorityKeyIdentifier :: bool
  prof_CreatedAt :: time
  prof_UpdatedAt :: time

record Enrollment =
  enr_ID :: string
  enr_IdentityID :: string
  enr_IssuerID :: string
  enr_CertificateProfileID :: string
  enr_SourceCertificateID :: string
  enr_CSRPEM :: string
  enr_Status :: EnrollmentStatus
  enr_RequestedSubject :: string
  enr_RequestedDNSNames :: "string list"
  enr_RequestedIPAddresses :: "string list"
  enr_CSRDNSNames :: "string list"
  enr_CSRIPAddresses :: "string list"
  enr_RequestedNotAfter :: time
  enr_ApprovedBy :: string
  enr_ApprovedAt :: time
  enr_CreatedAt :: time
  enr_UpdatedAt :: time

record Certificate =
  cert_ID :: string
  cert_IdentityID :: string
  cert_IssuerID :: string
  cert_EnrollmentID :: string
  cert_CertificateProfileID :: string
  cert_SerialNumber :: string
  cert_Subject :: string
  cert_DNSNames :: "string list"
  cert_IPAddresses :: "string list"
  cert_NotBefore :: time
  cert_NotAfter :: time
  cert_Status :: CertificateStatus
  cert_CertificatePEM :: string
  cert_RenewalNotifiedAt :: time
  cert_CreatedAt :: time
  cert_UpdatedAt :: time

record IssuanceAttempt =
  att_EnrollmentID :: string
  att_Status :: IssuanceAttemptStatus
  att_LeaseExpiresAt :: time
  att_CertificateID :: string
  att_CertificatePEM :: string
  att_SerialNumber :: string
  att_Subject :: string
  att_NotBefore :: time
  att_NotAfter :: time
  att_SigningStartedAt :: time
  att_SignedAt :: time
  att_FinalizedAt :: time
  att_LastError :: string
  att_SigningEvidenceJSON :: string
  att_CreatedAt :: time
  att_UpdatedAt :: time

record Revocation =
  rev_ID :: string
  rev_CertificateID :: string
  rev_Reason :: RevocationReason
  rev_RevokedBy :: string
  rev_RevokedAt :: time
  rev_CreatedAt :: time

record RevokedCertificateEntry =
  rce_CertificateID :: string
  rce_SerialNumber :: string
  rce_RevokedAt :: time
  rce_Reason :: RevocationReason

record CRLPublication =
  crl_ID :: string
  crl_IssuerID :: string
  crl_DistributionPoint :: string
  crl_CRLNumber :: int
  crl_ThisUpdate :: time
  crl_NextUpdate :: time
  crl_Status :: CRLPublicationStatus
  crl_CRLPEM :: string
  crl_CreatedAt :: time
  crl_UpdatedAt :: time

record CRLGenerationClaim =
  claim_IssuerID :: string
  claim_DistributionPoint :: string
  claim_CRLNumber :: int
  claim_LeaseExpiresAt :: time
  claim_CreatedAt :: time
  claim_UpdatedAt :: time

record AuditEvent =
  ev_ID :: string
  ev_Sequence :: int
  ev_Actor :: string
  ev_Action :: string
  ev_ResourceType :: string
  ev_ResourceID :: string
  ev_MetadataJSON :: string
  ev_HashAlgorithm :: string
  ev_PreviousEventHash :: string
  ev_EventHash :: string
  ev_CreatedAt :: time

record AuditChainCheckpoint =
  cp_Sequence :: int
  cp_HashAlgorithm :: string
  cp_EventHash :: string
  cp_CreatedAt :: time

record AuditIntegrity =
  rep_Valid :: bool
  rep_HashAlgorithm :: string
  rep_EventCount :: int
  rep_FirstSequence :: int
  rep_LastSequence :: int
  rep_LastEventHash :: string
  rep_CheckpointSequence :: int
  rep_CheckpointEventHash :: string
  rep_FailureReason :: string

record OutboxMessage =
  msg_ID :: string
  msg_Type :: string
  msg_PayloadJSON :: string
  msg_Status :: OutboxMessageStatus
  msg_AvailableAt :: time
  msg_ProcessingDeadlineAt :: time
  msg_AttemptCount :: int
  msg_MaxAttempts :: int
  msg_LastError :: string
  msg_CreatedAt :: time
  msg_UpdatedAt :: time

record JobAttempt =
  job_ID :: string
  job_OutboxMessageID :: string
  job_Status :: JobAttemptStatus
  job_Error :: string
  job_StartedAt :: time
  job_FinishedAt :: time
  job_CreatedAt :: time

record WebhookDelivery =
  whd_OutboxMessageID :: string
  whd_EndpointID :: string
  whd_Status :: JobAttemptStatus
  whd_AttemptCount :: int
  whd_LastError :: string
  whd_LastAttemptedAt :: time
  whd_CreatedAt :: time
  whd_UpdatedAt :: time

record APIKey =
  key_ID :: string
  key_Name :: string
  key_TokenHash :: string
  key_Status :: APIKeyStatus
  key_Actor :: string
  key_Scopes :: "APIKeyScope list"
  key_ExpiresAt :: time
  key_LastUsedAt :: time
  key_CreatedAt :: time
  key_UpdatedAt :: time

record ACMEAccount =
  acct_ID :: string
  acct_Contacts :: "string list"
  acct_Status :: ACMEAccountStatus
  acct_TermsOfServiceAgreed :: bool
  acct_KeyThumbprint :: string
  acct_KeyJWKJSON :: string
  acct_CreatedAt :: time
  acct_UpdatedAt :: time

record ACMEOrder =
  ord_ID :: string
  ord_AccountID :: string
  ord_IdentityID :: string
  ord_IssuerID :: string
  ord_CertificateProfileID :: string
  ord_Status :: ACMEOrderStatus
  ord_CSRPEM :: string
  ord_RequestedSubject :: string
  ord_RequestedDNSNames :: "string list"
  ord_RequestedIPAddresses :: "string list"
  ord_RequestedNotAfter :: time
  ord_EnrollmentID :: string
  ord_CertificateID :: string
  ord_ExpiresAt :: time
  ord_CreatedAt :: time
  ord_UpdatedAt :: time

record ACMEAuthorization =
  authz_ID :: string
  authz_OrderID :: string
  authz_IdentifierType :: string
  authz_IdentifierValue :: string
  authz_Status :: ACMEAuthorizationStatus
  authz_ExpiresAt :: time
  authz_ValidationReuseExpiresAt :: time
  authz_CreatedAt :: time
  authz_UpdatedAt :: time

record ACMEChallenge =
  chal_ID :: string
  chal_AuthorizationID :: string
  chal_Type :: ACMEChallengeType
  chal_Token :: string
  chal_Status :: ACMEChallengeStatus
  chal_ValidatedAt :: time
  chal_CreatedAt :: time
  chal_UpdatedAt :: time

section \<open>Errors\<close>

text \<open>
  The sentinel errors, and the ways the service builds errors from them:
  \<open>ErrWrap a b\<close> is \<open>fmt.Errorf("%w: %w", a, b)\<close>, \<open>ErrDetail a d\<close> is
  \<open>fmt.Errorf("%w: %s", a, d)\<close>, \<open>PolicyDecision\<close> is \<open>policyDecisionError\<close> (which unwraps
  to \<open>ErrInvalidRequest\<close>), \<open>CommandError\<close> is the error of a core command with its code,
  and \<open>ErrText\<close> is any other error.
\<close>

datatype err =
    ErrInvalidRequest
  | ErrUnsupportedMediaType
  | ErrUnauthorized
  | ErrForbidden
  | ErrRateLimited
  | ErrIdentityNotFound
  | ErrIssuerNotFound
  | ErrOCSPResponderNotFound
  | ErrNotificationEndpointNotFound
  | ErrCertificateProfileNotFound
  | ErrEnrollmentNotFound
  | ErrCertificateNotFound
  | ErrIssuanceAttemptNotFound
  | ErrCRLPublicationNotFound
  | ErrCRLGenerationClaimNotFound
  | ErrOutboxMessageNotFound
  | ErrWebhookDeliveryNotFound
  | ErrAPIKeyNotFound
  | ErrACMEAccountNotFound
  | ErrACMEAccountDeactivated
  | ErrACMEOrderNotFound
  | ErrACMEAuthorizationNotFound
  | ErrACMEChallengeNotFound
  | ErrInvalidTransition
  | ErrCSRParseFailed
  | ErrCertificateIssuanceFailed
  | ErrCRLGenerationFailed
  | ErrOCSPDecodeFailed
  | ErrOCSPResponseFailed
  | ErrOCSPResponderValidationFailed
  | ErrAuditIntegrity
  | ErrStorageFailure
  | ErrOutboxHandlerNotFound
  | PolicyDecision string "string list"
  | CommandError string string "string list" "err option"
  | ErrText string
  | ErrWrap err err
  | ErrDetail err string

text \<open>\<open>CommandError.Error\<close>; \<open>tail\<close> is the text of the wrapped error with its separator.\<close>

definition command_text :: "string \<Rightarrow> string \<Rightarrow> string list \<Rightarrow> string \<Rightarrow> string" where
  "command_text code message opensslErrors tail =
     (let prefix = ''anopki-core command failed'';
          detail = code @ (if message = [] then [] else (if code = [] then [] else '': '') @ message)
      in if detail = [] then prefix @ tail
         else prefix @ '': '' @ detail
           @ (if opensslErrors = [] then [] else '': '' @ Join opensslErrors ''; '') @ tail)"

text \<open>\<open>errors.Is\<close>: the error itself or one it wraps.\<close>

fun errors_Is :: "err \<Rightarrow> err \<Rightarrow> bool" where
  "errors_Is (ErrWrap a b) t = (t = ErrWrap a b \<or> errors_Is a t \<or> errors_Is b t)"
| "errors_Is (ErrDetail a d) t = (t = ErrDetail a d \<or> errors_Is a t)"
| "errors_Is (PolicyDecision r refs) t = (t = PolicyDecision r refs \<or> t = ErrInvalidRequest)"
| "errors_Is (CommandError c m os (Some e)) t = (t = CommandError c m os (Some e) \<or> errors_Is e t)"
| "errors_Is e t = (e = t)"

fun err_Error :: "err \<Rightarrow> string" where
  "err_Error ErrInvalidRequest = ''invalid request''"
| "err_Error ErrUnsupportedMediaType = ''unsupported media type''"
| "err_Error ErrUnauthorized = ''unauthorized''"
| "err_Error ErrForbidden = ''forbidden''"
| "err_Error ErrRateLimited = ''rate limited''"
| "err_Error ErrIdentityNotFound = ''identity not found''"
| "err_Error ErrIssuerNotFound = ''issuer not found''"
| "err_Error ErrOCSPResponderNotFound = ''ocsp responder not found''"
| "err_Error ErrNotificationEndpointNotFound = ''notification endpoint not found''"
| "err_Error ErrCertificateProfileNotFound = ''certificate profile not found''"
| "err_Error ErrEnrollmentNotFound = ''enrollment not found''"
| "err_Error ErrCertificateNotFound = ''certificate not found''"
| "err_Error ErrIssuanceAttemptNotFound = ''issuance attempt not found''"
| "err_Error ErrCRLPublicationNotFound = ''crl publication not found''"
| "err_Error ErrCRLGenerationClaimNotFound = ''crl generation claim not found''"
| "err_Error ErrOutboxMessageNotFound = ''outbox message not found''"
| "err_Error ErrWebhookDeliveryNotFound = ''webhook delivery not found''"
| "err_Error ErrAPIKeyNotFound = ''api key not found''"
| "err_Error ErrACMEAccountNotFound = ''acme account not found''"
| "err_Error ErrACMEAccountDeactivated = ''acme account deactivated''"
| "err_Error ErrACMEOrderNotFound = ''acme order not found''"
| "err_Error ErrACMEAuthorizationNotFound = ''acme authorization not found''"
| "err_Error ErrACMEChallengeNotFound = ''acme challenge not found''"
| "err_Error ErrInvalidTransition = ''invalid lifecycle transition''"
| "err_Error ErrCSRParseFailed = ''csr parse failed''"
| "err_Error ErrCertificateIssuanceFailed = ''certificate issuance failed''"
| "err_Error ErrCRLGenerationFailed = ''crl generation failed''"
| "err_Error ErrOCSPDecodeFailed = ''ocsp decode failed''"
| "err_Error ErrOCSPResponseFailed = ''ocsp response failed''"
| "err_Error ErrOCSPResponderValidationFailed = ''ocsp responder validation failed''"
| "err_Error ErrAuditIntegrity = ''audit integrity check failed''"
| "err_Error ErrStorageFailure = ''storage failure''"
| "err_Error ErrOutboxHandlerNotFound = ''outbox handler not found''"
| "err_Error (PolicyDecision r refs) = ''invalid request''"
| "err_Error (CommandError c m os None) = command_text c m os []"
| "err_Error (CommandError c m os (Some e)) = command_text c m os ('': '' @ err_Error e)"
| "err_Error (ErrText t) = t"
| "err_Error (ErrWrap a b) = err_Error a @ '': '' @ err_Error b"
| "err_Error (ErrDetail a d) = err_Error a @ '': '' @ d"

lemma errors_Is_refl [simp]: "errors_Is e e"
  by (cases "(e, e)" rule: errors_Is.cases) auto

end
