(* ===== verification/Tables.thy ===== *)
theory Tables
  imports Domain
begin

text \<open>
  The table functions of \<open>service/internal/store/memory.go\<close>: compare-and-set updates, lookups,
  uniqueness checks and sorted listings on the maps of the in-memory store. The functions
  \<open>copyX\<close> and \<open>cloneX\<close> of the file, which only stop slices from being shared, are identities
  on values and do not appear.
\<close>

section \<open>Compare-and-set updates\<close>

definition lookup :: "err \<Rightarrow> 'v gomap \<Rightarrow> string \<Rightarrow> err + 'v" where
  "lookup e m k = (case mget m k of None \<Rightarrow> Inl e | Some v \<Rightarrow> Inr v)"

definition updateEnrollmentIfStatus :: "Enrollment gomap \<Rightarrow> Enrollment \<Rightarrow> EnrollmentStatus \<Rightarrow> err + Enrollment gomap" where
  "updateEnrollmentIfStatus tbl enrollment currentStatus =
     (case mget tbl (enr_ID enrollment) of
        None \<Rightarrow> Inl ErrEnrollmentNotFound
      | Some current \<Rightarrow>
          if enr_Status current \<noteq> currentStatus then Inl ErrInvalidTransition
          else Inr (mput (enr_ID enrollment) enrollment tbl))"

definition updateCertificateIfStatus :: "Certificate gomap \<Rightarrow> Certificate \<Rightarrow> CertificateStatus \<Rightarrow> err + Certificate gomap" where
  "updateCertificateIfStatus tbl certificate currentStatus =
     (case mget tbl (cert_ID certificate) of
        None \<Rightarrow> Inl ErrCertificateNotFound
      | Some current \<Rightarrow>
          if cert_Status current \<noteq> currentStatus then Inl ErrInvalidTransition
          else Inr (mput (cert_ID certificate) certificate tbl))"

definition same_attempt :: "IssuanceAttempt \<Rightarrow> IssuanceAttempt \<Rightarrow> bool" where
  "same_attempt stored current \<longleftrightarrow>
     att_Status stored = att_Status current \<and> att_LeaseExpiresAt stored = att_LeaseExpiresAt current \<and>
     att_UpdatedAt stored = att_UpdatedAt current"

definition createIssuanceAttempt :: "IssuanceAttempt gomap \<Rightarrow> IssuanceAttempt \<Rightarrow> err + IssuanceAttempt gomap" where
  "createIssuanceAttempt tbl attempt =
     (case mget tbl (att_EnrollmentID attempt) of
        Some _ \<Rightarrow> Inl ErrInvalidTransition
      | None \<Rightarrow> Inr (mput (att_EnrollmentID attempt) attempt tbl))"

definition updateIssuanceAttemptIfCurrent ::
  "IssuanceAttempt gomap \<Rightarrow> IssuanceAttempt \<Rightarrow> IssuanceAttempt \<Rightarrow> err + IssuanceAttempt gomap" where
  "updateIssuanceAttemptIfCurrent tbl attempt current =
     (case mget tbl (att_EnrollmentID attempt) of
        None \<Rightarrow> Inl ErrIssuanceAttemptNotFound
      | Some stored \<Rightarrow>
          if \<not> same_attempt stored current then Inl ErrInvalidTransition
          else Inr (mput (att_EnrollmentID attempt) attempt tbl))"

definition crlGenerationClaimKey :: "string \<Rightarrow> string \<Rightarrow> string" where
  "crlGenerationClaimKey issuerID distributionPoint = issuerID @ [CHR 0x00] @ distributionPoint"

abbreviation claim_key :: "CRLGenerationClaim \<Rightarrow> string" where
  "claim_key claim \<equiv> crlGenerationClaimKey (claim_IssuerID claim) (claim_DistributionPoint claim)"

definition same_claim :: "CRLGenerationClaim \<Rightarrow> CRLGenerationClaim \<Rightarrow> bool" where
  "same_claim stored current \<longleftrightarrow>
     claim_CRLNumber stored = claim_CRLNumber current \<and>
     claim_LeaseExpiresAt stored = claim_LeaseExpiresAt current \<and>
     claim_UpdatedAt stored = claim_UpdatedAt current"

definition createCRLGenerationClaim ::
  "CRLGenerationClaim gomap \<Rightarrow> CRLGenerationClaim \<Rightarrow> err + CRLGenerationClaim gomap" where
  "createCRLGenerationClaim tbl claim =
     (case mget tbl (claim_key claim) of
        Some _ \<Rightarrow> Inl ErrInvalidTransition
      | None \<Rightarrow> Inr (mput (claim_key claim) claim tbl))"

definition updateCRLGenerationClaimIfCurrent ::
  "CRLGenerationClaim gomap \<Rightarrow> CRLGenerationClaim \<Rightarrow> CRLGenerationClaim \<Rightarrow> err + CRLGenerationClaim gomap" where
  "updateCRLGenerationClaimIfCurrent tbl claim current =
     (case mget tbl (claim_key claim) of
        None \<Rightarrow> Inl ErrCRLGenerationClaimNotFound
      | Some stored \<Rightarrow>
          if \<not> same_claim stored current then Inl ErrInvalidTransition
          else Inr (mput (claim_key claim) claim tbl))"

definition deleteCRLGenerationClaimIfCurrent ::
  "CRLGenerationClaim gomap \<Rightarrow> CRLGenerationClaim \<Rightarrow> err + CRLGenerationClaim gomap" where
  "deleteCRLGenerationClaimIfCurrent tbl current =
     (case mget tbl (claim_key current) of
        None \<Rightarrow> Inl ErrCRLGenerationClaimNotFound
      | Some stored \<Rightarrow>
          if \<not> same_claim stored current then Inl ErrInvalidTransition
          else Inr (mdel (claim_key current) tbl))"

text \<open>The latest active responder of an issuer: the newest one, ties broken by identifier.\<close>

fun active_responder_step :: "string \<Rightarrow> OCSPResponder option \<Rightarrow> OCSPResponder \<Rightarrow> OCSPResponder option" where
  "active_responder_step issuerID found responder =
     (if rsp_IssuerID responder \<noteq> issuerID \<or> rsp_Status responder \<noteq> OCSPResponderActive then found
      else case found of
        None \<Rightarrow> Some responder
      | Some active \<Rightarrow>
          if After (rsp_CreatedAt responder) (rsp_CreatedAt active) \<or>
             (rsp_CreatedAt responder = rsp_CreatedAt active \<and> rsp_ID active < rsp_ID responder)
          then Some responder else found)"

definition activeOCSPResponderByIssuer :: "OCSPResponder gomap \<Rightarrow> string \<Rightarrow> err + OCSPResponder" where
  "activeOCSPResponderByIssuer tbl issuerID =
     (case foldl (active_responder_step issuerID) None (mvals tbl) of
        None \<Rightarrow> Inl ErrOCSPResponderNotFound
      | Some active \<Rightarrow> Inr active)"

text \<open>No other responder of the issuer is active when an active one is written.\<close>

definition other_active :: "OCSPResponder gomap \<Rightarrow> OCSPResponder \<Rightarrow> bool" where
  "other_active tbl responder =
     (rsp_Status responder = OCSPResponderActive \<and>
      (case activeOCSPResponderByIssuer tbl (rsp_IssuerID responder) of
         Inl _ \<Rightarrow> False
       | Inr active \<Rightarrow> rsp_ID active \<noteq> rsp_ID responder))"

definition updateOCSPResponderIfStatus ::
  "OCSPResponder gomap \<Rightarrow> OCSPResponder \<Rightarrow> OCSPResponderStatus \<Rightarrow> err + OCSPResponder gomap" where
  "updateOCSPResponderIfStatus tbl responder currentStatus =
     (case mget tbl (rsp_ID responder) of
        None \<Rightarrow> Inl ErrOCSPResponderNotFound
      | Some current \<Rightarrow>
          if rsp_Status current \<noteq> currentStatus then Inl ErrInvalidTransition
          else if other_active tbl responder then Inl ErrInvalidTransition
          else Inr (mput (rsp_ID responder) responder tbl))"

definition updateNotificationEndpointIfStatus ::
  "NotificationEndpoint gomap \<Rightarrow> NotificationEndpoint \<Rightarrow> NotificationEndpointStatus \<Rightarrow>
   err + NotificationEndpoint gomap" where
  "updateNotificationEndpointIfStatus tbl endpoint currentStatus =
     (case mget tbl (ep_ID endpoint) of
        None \<Rightarrow> Inl ErrNotificationEndpointNotFound
      | Some current \<Rightarrow>
          if ep_Status current \<noteq> currentStatus then Inl ErrInvalidTransition
          else Inr (mput (ep_ID endpoint) endpoint tbl))"

definition updateCertificateProfileIssuerIfCurrent ::
  "CertificateProfile gomap \<Rightarrow> CertificateProfile \<Rightarrow> string \<Rightarrow> time \<Rightarrow> err + CertificateProfile gomap" where
  "updateCertificateProfileIssuerIfCurrent tbl profile currentIssuerID currentUpdatedAt =
     (case mget tbl (prof_ID profile) of
        None \<Rightarrow> Inl ErrCertificateProfileNotFound
      | Some stored \<Rightarrow>
          if prof_IssuerID stored \<noteq> currentIssuerID \<or> prof_UpdatedAt stored \<noteq> currentUpdatedAt
          then Inl ErrInvalidTransition
          else Inr (mput (prof_ID profile) profile tbl))"

definition updateOutboxMessageStatusIfStatus ::
  "OutboxMessage gomap \<Rightarrow> OutboxMessage \<Rightarrow> OutboxMessageStatus \<Rightarrow> err + OutboxMessage gomap" where
  "updateOutboxMessageStatusIfStatus tbl message currentStatus =
     (case mget tbl (msg_ID message) of
        None \<Rightarrow> Inl ErrOutboxMessageNotFound
      | Some current \<Rightarrow>
          if msg_Status current \<noteq> currentStatus then Inl ErrInvalidTransition
          else Inr (mput (msg_ID message) message tbl))"

definition same_message :: "OutboxMessage \<Rightarrow> OutboxMessage \<Rightarrow> bool" where
  "same_message stored current \<longleftrightarrow>
     msg_Status stored = msg_Status current \<and>
     msg_ProcessingDeadlineAt stored = msg_ProcessingDeadlineAt current \<and>
     msg_UpdatedAt stored = msg_UpdatedAt current"

definition updateOutboxMessageIfCurrent ::
  "OutboxMessage gomap \<Rightarrow> OutboxMessage \<Rightarrow> OutboxMessage \<Rightarrow> err + OutboxMessage gomap" where
  "updateOutboxMessageIfCurrent tbl message current =
     (case mget tbl (msg_ID message) of
        None \<Rightarrow> Inl ErrOutboxMessageNotFound
      | Some stored \<Rightarrow>
          if \<not> same_message stored current then Inl ErrInvalidTransition
          else Inr (mput (msg_ID message) message tbl))"

definition updateAPIKeyIfStatus :: "APIKey gomap \<Rightarrow> APIKey \<Rightarrow> APIKeyStatus \<Rightarrow> err + APIKey gomap" where
  "updateAPIKeyIfStatus tbl key currentStatus =
     (case mget tbl (key_ID key) of
        None \<Rightarrow> Inl ErrAPIKeyNotFound
      | Some current \<Rightarrow>
          if key_Status current \<noteq> currentStatus then Inl ErrInvalidTransition
          else Inr (mput (key_ID key) key tbl))"

definition ensureACMEAccountThumbprintAvailable :: "ACMEAccount gomap \<Rightarrow> ACMEAccount \<Rightarrow> err + unit" where
  "ensureACMEAccountThumbprintAvailable tbl candidate =
     (if acct_KeyThumbprint candidate = [] then Inr ()
      else if list_ex (\<lambda>account. acct_ID account \<noteq> acct_ID candidate \<and>
                acct_KeyThumbprint account = acct_KeyThumbprint candidate) (mvals tbl)
      then Inl ErrInvalidTransition else Inr ())"

definition updateACMEAccountIfStatus ::
  "ACMEAccount gomap \<Rightarrow> ACMEAccount \<Rightarrow> ACMEAccountStatus \<Rightarrow> err + ACMEAccount gomap" where
  "updateACMEAccountIfStatus tbl account currentStatus =
     (case mget tbl (acct_ID account) of
        None \<Rightarrow> Inl ErrACMEAccountNotFound
      | Some current \<Rightarrow>
          if acct_Status current \<noteq> currentStatus then Inl ErrInvalidTransition
          else (case ensureACMEAccountThumbprintAvailable tbl account of
                  Inl e \<Rightarrow> Inl e
                | Inr _ \<Rightarrow> Inr (mput (acct_ID account) account tbl)))"

definition updateACMEOrderIfStatus ::
  "ACMEOrder gomap \<Rightarrow> ACMEOrder \<Rightarrow> ACMEOrderStatus \<Rightarrow> err + ACMEOrder gomap" where
  "updateACMEOrderIfStatus tbl order currentStatus =
     (case mget tbl (ord_ID order) of
        None \<Rightarrow> Inl ErrACMEOrderNotFound
      | Some current \<Rightarrow>
          if ord_Status current \<noteq> currentStatus then Inl ErrInvalidTransition
          else Inr (mput (ord_ID order) order tbl))"

definition updateACMEAuthorizationIfStatus ::
  "ACMEAuthorization gomap \<Rightarrow> ACMEAuthorization \<Rightarrow> ACMEAuthorizationStatus \<Rightarrow> err + ACMEAuthorization gomap" where
  "updateACMEAuthorizationIfStatus tbl authorization currentStatus =
     (case mget tbl (authz_ID authorization) of
        None \<Rightarrow> Inl ErrACMEAuthorizationNotFound
      | Some current \<Rightarrow>
          if authz_Status current \<noteq> currentStatus then Inl ErrInvalidTransition
          else Inr (mput (authz_ID authorization) authorization tbl))"

definition updateACMEChallengeIfStatus ::
  "ACMEChallenge gomap \<Rightarrow> ACMEChallenge \<Rightarrow> ACMEChallengeStatus \<Rightarrow> err + ACMEChallenge gomap" where
  "updateACMEChallengeIfStatus tbl challenge currentStatus =
     (case mget tbl (chal_ID challenge) of
        None \<Rightarrow> Inl ErrACMEChallengeNotFound
      | Some current \<Rightarrow>
          if chal_Status current \<noteq> currentStatus then Inl ErrInvalidTransition
          else Inr (mput (chal_ID challenge) challenge tbl))"

section \<open>Uniqueness checks and lookups by other keys\<close>

definition ensureCertificateFinalizationKeysAvailable :: "Certificate gomap \<Rightarrow> Certificate \<Rightarrow> err + unit" where
  "ensureCertificateFinalizationKeysAvailable tbl certificate =
     (if list_ex (\<lambda>existing. cert_ID existing \<noteq> cert_ID certificate \<and>
           ((cert_EnrollmentID certificate \<noteq> [] \<and>
             cert_EnrollmentID existing = cert_EnrollmentID certificate) \<or>
            (cert_IssuerID certificate \<noteq> [] \<and> cert_SerialNumber certificate \<noteq> [] \<and>
             cert_IssuerID existing = cert_IssuerID certificate \<and>
             cert_SerialNumber existing = cert_SerialNumber certificate))) (mvals tbl)
      then Inl ErrInvalidTransition else Inr ())"

definition certificateByEnrollmentID :: "Certificate gomap \<Rightarrow> string \<Rightarrow> err + Certificate" where
  "certificateByEnrollmentID tbl enrollmentID =
     (case find (\<lambda>certificate. cert_EnrollmentID certificate = enrollmentID) (mvals tbl) of
        None \<Rightarrow> Inl ErrCertificateNotFound
      | Some certificate \<Rightarrow> Inr certificate)"

definition ensureCRLPublicationNumberAvailable :: "CRLPublication gomap \<Rightarrow> CRLPublication \<Rightarrow> err + unit" where
  "ensureCRLPublicationNumberAvailable tbl candidate =
     (if list_ex (\<lambda>publication. crl_ID publication \<noteq> crl_ID candidate \<and>
           crl_IssuerID publication = crl_IssuerID candidate \<and>
           crl_DistributionPoint publication = crl_DistributionPoint candidate \<and>
           crl_CRLNumber publication = crl_CRLNumber candidate) (mvals tbl)
      then Inl ErrInvalidTransition else Inr ())"

definition apiKeyByTokenHash :: "APIKey gomap \<Rightarrow> string \<Rightarrow> err + APIKey" where
  "apiKeyByTokenHash tbl tokenHash =
     (case find (\<lambda>key. key_TokenHash key = tokenHash) (mvals tbl) of
        None \<Rightarrow> Inl ErrAPIKeyNotFound
      | Some key \<Rightarrow> Inr key)"

definition webhookDeliveryKey :: "string \<Rightarrow> string \<Rightarrow> string" where
  "webhookDeliveryKey outboxMessageID endpointID = outboxMessageID @ [CHR 0x00] @ endpointID"

section \<open>Listings\<close>

definition by_created :: "('a \<Rightarrow> time) \<Rightarrow> ('a \<Rightarrow> string) \<Rightarrow> 'a list \<Rightarrow> 'a list" where
  "by_created created ident xs = sort_slice (less_time_id created ident) xs"

definition listNotificationEndpoints :: "NotificationEndpoint gomap \<Rightarrow> NotificationEndpoint list" where
  "listNotificationEndpoints tbl = by_created ep_CreatedAt ep_ID (mvals tbl)"

definition outboxMessageDue :: "OutboxMessage \<Rightarrow> time \<Rightarrow> bool" where
  "outboxMessageDue message now =
     (case msg_Status message of
        OutboxPending \<Rightarrow> \<not> After (msg_AvailableAt message) now
      | OutboxProcessing \<Rightarrow>
          \<not> IsZero (msg_ProcessingDeadlineAt message) \<and> \<not> After (msg_ProcessingDeadlineAt message) now
      | _ \<Rightarrow> False)"

definition outboxMessageDueAt :: "OutboxMessage \<Rightarrow> time" where
  "outboxMessageDueAt message =
     (if msg_Status message = OutboxProcessing then msg_ProcessingDeadlineAt message
      else msg_AvailableAt message)"

definition due_less :: "OutboxMessage \<Rightarrow> OutboxMessage \<Rightarrow> bool" where
  "due_less a b \<longleftrightarrow>
     (if outboxMessageDueAt a \<noteq> outboxMessageDueAt b then Before (outboxMessageDueAt a) (outboxMessageDueAt b)
      else if msg_CreatedAt a \<noteq> msg_CreatedAt b then Before (msg_CreatedAt a) (msg_CreatedAt b)
      else msg_ID a < msg_ID b)"

definition listDueOutboxMessages :: "OutboxMessage gomap \<Rightarrow> time \<Rightarrow> int \<Rightarrow> OutboxMessage list" where
  "listDueOutboxMessages tbl now limit =
     (if limit \<le> 0 then []
      else take (nat limit) (sort_slice due_less (filter (\<lambda>message. outboxMessageDue message now) (mvals tbl))))"

definition listOutboxMessages :: "OutboxMessage gomap \<Rightarrow> OutboxMessageStatus \<Rightarrow> OutboxMessage list" where
  "listOutboxMessages tbl status =
     by_created msg_CreatedAt msg_ID
       (filter (\<lambda>message. status = OutboxMessageStatusOther [] \<or> msg_Status message = status) (mvals tbl))"

definition listJobAttemptsByOutboxMessage :: "JobAttempt gomap \<Rightarrow> string \<Rightarrow> JobAttempt list" where
  "listJobAttemptsByOutboxMessage tbl outboxMessageID =
     by_created job_CreatedAt job_ID (filter (\<lambda>attempt. job_OutboxMessageID attempt = outboxMessageID) (mvals tbl))"

definition listAPIKeys :: "APIKey gomap \<Rightarrow> APIKey list" where
  "listAPIKeys tbl = by_created key_CreatedAt key_ID (mvals tbl)"

definition listACMEAccounts :: "ACMEAccount gomap \<Rightarrow> ACMEAccount list" where
  "listACMEAccounts tbl = by_created acct_CreatedAt acct_ID (mvals tbl)"

definition listACMEOrdersByAccount :: "ACMEOrder gomap \<Rightarrow> string \<Rightarrow> ACMEOrder list" where
  "listACMEOrdersByAccount tbl accountID =
     by_created ord_CreatedAt ord_ID (filter (\<lambda>order. ord_AccountID order = accountID) (mvals tbl))"

definition listACMEAuthorizationsByOrder :: "ACMEAuthorization gomap \<Rightarrow> string \<Rightarrow> ACMEAuthorization list" where
  "listACMEAuthorizationsByOrder tbl orderID =
     by_created authz_CreatedAt authz_ID (filter (\<lambda>authorization. authz_OrderID authorization = orderID) (mvals tbl))"

definition listACMEChallengesByAuthorization :: "ACMEChallenge gomap \<Rightarrow> string \<Rightarrow> ACMEChallenge list" where
  "listACMEChallengesByAuthorization tbl authorizationID =
     by_created chal_CreatedAt chal_ID (filter (\<lambda>challenge. chal_AuthorizationID challenge = authorizationID) (mvals tbl))"

definition listRevocationsByIssuer ::
  "Certificate gomap \<Rightarrow> Revocation gomap \<Rightarrow> string \<Rightarrow> RevokedCertificateEntry list" where
  "listRevocationsByIssuer certs revocations issuerID =
     List.map_filter (\<lambda>revocation.
       case mget certs (rev_CertificateID revocation) of
         None \<Rightarrow> None
       | Some certificate \<Rightarrow>
           if cert_IssuerID certificate \<noteq> issuerID \<or> cert_Status certificate \<noteq> CertificateRevoked then None
           else Some \<lparr>rce_CertificateID = cert_ID certificate, rce_SerialNumber = cert_SerialNumber certificate,
                      rce_RevokedAt = rev_RevokedAt revocation, rce_Reason = rev_Reason revocation\<rparr>)
       (mvals revocations)"

definition listCRLPublicationsByIssuer :: "CRLPublication gomap \<Rightarrow> string \<Rightarrow> CRLPublication list" where
  "listCRLPublicationsByIssuer tbl issuerID = filter (\<lambda>publication. crl_IssuerID publication = issuerID) (mvals tbl)"

definition listOCSPRespondersByIssuer :: "OCSPResponder gomap \<Rightarrow> string \<Rightarrow> OCSPResponder list" where
  "listOCSPRespondersByIssuer tbl issuerID =
     by_created rsp_CreatedAt rsp_ID (filter (\<lambda>responder. rsp_IssuerID responder = issuerID) (mvals tbl))"

definition certificateNeedsExpirationScan :: "Certificate \<Rightarrow> time \<Rightarrow> time \<Rightarrow> bool" where
  "certificateNeedsExpirationScan certificate now warningBefore =
     (((cert_Status certificate = CertificateValid \<or> cert_Status certificate = CertificateSuspended) \<and>
       \<not> After (cert_NotAfter certificate) now) \<or>
      (cert_Status certificate = CertificateValid \<and> After (cert_NotAfter certificate) now \<and>
       \<not> After (cert_NotAfter certificate) warningBefore \<and> IsZero (cert_RenewalNotifiedAt certificate)))"

definition listCertificatesForExpirationScan :: "Certificate gomap \<Rightarrow> time \<Rightarrow> time \<Rightarrow> int \<Rightarrow> Certificate list" where
  "listCertificatesForExpirationScan tbl now warningBefore limit =
     (if limit \<le> 0 then []
      else take (nat limit) (by_created cert_NotAfter cert_ID
        (filter (\<lambda>certificate. certificateNeedsExpirationScan certificate now warningBefore) (mvals tbl))))"

definition listCertificatesExpiringWithin :: "Certificate gomap \<Rightarrow> time \<Rightarrow> time \<Rightarrow> int \<Rightarrow> int \<Rightarrow> Certificate list" where
  "listCertificatesExpiringWithin tbl now cutoff limit offset =
     (let result = by_created cert_NotAfter cert_ID
            (filter (\<lambda>certificate. cert_Status certificate = CertificateValid \<and>
               After (cert_NotAfter certificate) now \<and> \<not> After (cert_NotAfter certificate) cutoff) (mvals tbl));
          page = (if int (length result) \<le> offset then [] else drop (nat offset) result)
      in if 0 < limit \<and> limit < int (length page) then take (nat limit) page else page)"

text \<open>
  \<open>latestCRLPublicationByIssuer\<close> replaces the candidate by any publication with a higher number
  or a later creation time.
\<close>

definition latest_crl_step :: "string \<Rightarrow> CRLPublication option \<Rightarrow> CRLPublication \<Rightarrow> CRLPublication option" where
  "latest_crl_step issuerID found publication =
     (if crl_IssuerID publication \<noteq> issuerID then found
      else case found of
        None \<Rightarrow> Some publication
      | Some latest \<Rightarrow>
          if crl_CRLNumber latest < crl_CRLNumber publication \<or>
             After (crl_CreatedAt publication) (crl_CreatedAt latest)
          then Some publication else found)"

definition latestCRLPublicationByIssuer :: "CRLPublication gomap \<Rightarrow> string \<Rightarrow> err + CRLPublication" where
  "latestCRLPublicationByIssuer tbl issuerID =
     (case foldl (latest_crl_step issuerID) None (mvals tbl) of
        None \<Rightarrow> Inl ErrCRLPublicationNotFound
      | Some latest \<Rightarrow> Inr latest)"

section \<open>The compare-and-set contract\<close>

text \<open>
  What the service relies on when it updates a record it has read before: the update names the
  state it expects (\<open>matches\<close>), fails with \<open>ErrInvalidTransition\<close> when the stored record is in
  another one or a guard forbids the new record, and touches no other record. From it follows
  that of two updates that expect the same state only the first one succeeds, provided it leaves
  that state.
\<close>

locale cas_table =
  fixes key :: "'v \<Rightarrow> string" and matches :: "'v \<Rightarrow> 'c \<Rightarrow> bool" and guard :: "'v gomap \<Rightarrow> 'v \<Rightarrow> bool"
    and notfound :: err and upd :: "'v gomap \<Rightarrow> 'v \<Rightarrow> 'c \<Rightarrow> err + 'v gomap"
  assumes upd_absent: "mget m (key v) = None \<Longrightarrow> upd m v c = Inl notfound"
    and upd_stale: "mget m (key v) = Some x \<Longrightarrow> \<not> matches x c \<Longrightarrow> upd m v c = Inl ErrInvalidTransition"
    and upd_refused: "mget m (key v) = Some x \<Longrightarrow> matches x c \<Longrightarrow> \<not> guard m v \<Longrightarrow>
      upd m v c = Inl ErrInvalidTransition"
    and upd_done: "mget m (key v) = Some x \<Longrightarrow> matches x c \<Longrightarrow> guard m v \<Longrightarrow>
      upd m v c = Inr (mput (key v) v m)"
begin

lemma upd_success_iff:
  "upd m v c = Inr m' \<longleftrightarrow>
     (\<exists>x. mget m (key v) = Some x \<and> matches x c) \<and> guard m v \<and> m' = mput (key v) v m"
  using upd_absent [of m v c] upd_stale [of m v _ c] upd_refused [of m v _ c] upd_done [of m v _ c]
  by (cases "mget m (key v)") fastforce+

lemma upd_error:
  "upd m v c = Inl e \<Longrightarrow> e = notfound \<or> e = ErrInvalidTransition"
  using upd_absent [of m v c] upd_stale [of m v _ c] upd_refused [of m v _ c] upd_done [of m v _ c]
  by (cases "mget m (key v)") fastforce+

lemma upd_read_back: "upd m v c = Inr m' \<Longrightarrow> mget m' (key v) = Some v"
  by (auto simp: upd_success_iff)

lemma upd_frame: "upd m v c = Inr m' \<Longrightarrow> k \<noteq> key v \<Longrightarrow> mget m' k = mget m k"
  by (auto simp: upd_success_iff)

lemma upd_no_insert: "upd m v c = Inr m' \<Longrightarrow> mget m' k = None \<longleftrightarrow> mget m k = None"
  by (auto simp: upd_success_iff)

lemma upd_keyed: "upd m v c = Inr m' \<Longrightarrow> keyed key m \<Longrightarrow> keyed key m'"
  by (auto simp: upd_success_iff)

lemma second_update_loses:
  "upd m v c = Inr m' \<Longrightarrow> key u = key v \<Longrightarrow> \<not> matches v c \<Longrightarrow> upd m' u c = Inl ErrInvalidTransition"
  using upd_read_back upd_stale by metis

end

interpretation cas_enrollment: cas_table enr_ID "\<lambda>x st. enr_Status x = st" "\<lambda>_ _. True"
    ErrEnrollmentNotFound updateEnrollmentIfStatus
  by unfold_locales (simp_all add: updateEnrollmentIfStatus_def)

interpretation cas_certificate: cas_table cert_ID "\<lambda>x st. cert_Status x = st" "\<lambda>_ _. True"
    ErrCertificateNotFound updateCertificateIfStatus
  by unfold_locales (simp_all add: updateCertificateIfStatus_def)

interpretation cas_attempt: cas_table att_EnrollmentID same_attempt "\<lambda>_ _. True"
    ErrIssuanceAttemptNotFound updateIssuanceAttemptIfCurrent
  by unfold_locales (simp_all add: updateIssuanceAttemptIfCurrent_def)

interpretation cas_claim: cas_table "\<lambda>claim. claim_key claim" same_claim "\<lambda>_ _. True"
    ErrCRLGenerationClaimNotFound updateCRLGenerationClaimIfCurrent
  by unfold_locales (simp_all add: updateCRLGenerationClaimIfCurrent_def)

interpretation cas_responder: cas_table rsp_ID "\<lambda>x st. rsp_Status x = st" "\<lambda>m v. \<not> other_active m v"
    ErrOCSPResponderNotFound updateOCSPResponderIfStatus
  by unfold_locales (simp_all add: updateOCSPResponderIfStatus_def)

interpretation cas_endpoint: cas_table ep_ID "\<lambda>x st. ep_Status x = st" "\<lambda>_ _. True"
    ErrNotificationEndpointNotFound updateNotificationEndpointIfStatus
  by unfold_locales (simp_all add: updateNotificationEndpointIfStatus_def)

interpretation cas_profile: cas_table prof_ID "\<lambda>x (i, t). prof_IssuerID x = i \<and> prof_UpdatedAt x = t"
    "\<lambda>_ _. True" ErrCertificateProfileNotFound "\<lambda>m v (i, t). updateCertificateProfileIssuerIfCurrent m v i t"
  by unfold_locales (auto simp: updateCertificateProfileIssuerIfCurrent_def split: if_splits)

interpretation cas_outbox_status: cas_table msg_ID "\<lambda>x st. msg_Status x = st" "\<lambda>_ _. True"
    ErrOutboxMessageNotFound updateOutboxMessageStatusIfStatus
  by unfold_locales (simp_all add: updateOutboxMessageStatusIfStatus_def)

interpretation cas_outbox: cas_table msg_ID same_message "\<lambda>_ _. True"
    ErrOutboxMessageNotFound updateOutboxMessageIfCurrent
  by unfold_locales (simp_all add: updateOutboxMessageIfCurrent_def)

interpretation cas_api_key: cas_table key_ID "\<lambda>x st. key_Status x = st" "\<lambda>_ _. True"
    ErrAPIKeyNotFound updateAPIKeyIfStatus
  by unfold_locales (simp_all add: updateAPIKeyIfStatus_def)

lemma ensure_thumbprint_error:
  "ensureACMEAccountThumbprintAvailable m v = Inl e \<Longrightarrow> e = ErrInvalidTransition"
  by (auto simp: ensureACMEAccountThumbprintAvailable_def split: if_splits)

interpretation cas_account: cas_table acct_ID "\<lambda>x st. acct_Status x = st"
    "\<lambda>m v. ensureACMEAccountThumbprintAvailable m v = Inr ()" ErrACMEAccountNotFound updateACMEAccountIfStatus
  by unfold_locales
     (auto simp: updateACMEAccountIfStatus_def dest: ensure_thumbprint_error split: sum.splits)

interpretation cas_order: cas_table ord_ID "\<lambda>x st. ord_Status x = st" "\<lambda>_ _. True"
    ErrACMEOrderNotFound updateACMEOrderIfStatus
  by unfold_locales (simp_all add: updateACMEOrderIfStatus_def)

interpretation cas_authorization: cas_table authz_ID "\<lambda>x st. authz_Status x = st" "\<lambda>_ _. True"
    ErrACMEAuthorizationNotFound updateACMEAuthorizationIfStatus
  by unfold_locales (simp_all add: updateACMEAuthorizationIfStatus_def)

interpretation cas_challenge: cas_table chal_ID "\<lambda>x st. chal_Status x = st" "\<lambda>_ _. True"
    ErrACMEChallengeNotFound updateACMEChallengeIfStatus
  by unfold_locales (simp_all add: updateACMEChallengeIfStatus_def)

section \<open>What the checks and lookups find\<close>

lemma active_fold:
  "foldl (active_responder_step i) acc xs = None \<longleftrightarrow>
     acc = None \<and> (\<forall>r \<in> set xs. rsp_IssuerID r = i \<longrightarrow> rsp_Status r \<noteq> OCSPResponderActive)"
  by (induction xs arbitrary: acc) (auto split: option.splits)

lemma active_fold_Some:
  "foldl (active_responder_step i) acc xs = Some a \<Longrightarrow>
     acc = Some a \<or> (a \<in> set xs \<and> rsp_IssuerID a = i \<and> rsp_Status a = OCSPResponderActive)"
proof (induction xs arbitrary: acc)
  case Nil
  then show ?case by simp
next
  case (Cons r xs)
  then have "active_responder_step i acc r = Some a \<or>
      (a \<in> set xs \<and> rsp_IssuerID a = i \<and> rsp_Status a = OCSPResponderActive)"
    by simp
  then show ?case
    by (auto split: if_splits option.splits)
qed

lemma active_none:
  "activeOCSPResponderByIssuer m i = Inl e \<longleftrightarrow> e = ErrOCSPResponderNotFound \<and>
     (\<forall>r \<in> set (mvals m). rsp_IssuerID r = i \<longrightarrow> rsp_Status r \<noteq> OCSPResponderActive)"
  using active_fold [of i None "mvals m"]
  by (cases "foldl (active_responder_step i) None (mvals m)") (auto simp: activeOCSPResponderByIssuer_def)

lemma active_some:
  "activeOCSPResponderByIssuer m i = Inr a \<Longrightarrow>
     a \<in> set (mvals m) \<and> rsp_IssuerID a = i \<and> rsp_Status a = OCSPResponderActive"
  by (auto simp: activeOCSPResponderByIssuer_def dest!: active_fold_Some split: option.splits)

lemma ensure_certificate_keys:
  "ensureCertificateFinalizationKeysAvailable m c = Inr () \<longleftrightarrow>
     (\<forall>x \<in> set (mvals m). cert_ID x \<noteq> cert_ID c \<longrightarrow>
        (cert_EnrollmentID c \<noteq> [] \<longrightarrow> cert_EnrollmentID x \<noteq> cert_EnrollmentID c) \<and>
        (cert_IssuerID c \<noteq> [] \<longrightarrow> cert_SerialNumber c \<noteq> [] \<longrightarrow>
           \<not> (cert_IssuerID x = cert_IssuerID c \<and> cert_SerialNumber x = cert_SerialNumber c)))"
  by (auto simp: ensureCertificateFinalizationKeysAvailable_def list_ex_iff split: if_splits)

lemma certificate_by_enrollment_none:
  "certificateByEnrollmentID m i = Inl e \<longleftrightarrow>
     e = ErrCertificateNotFound \<and> (\<forall>c \<in> set (mvals m). cert_EnrollmentID c \<noteq> i)"
  using find_None_iff [of "\<lambda>c. cert_EnrollmentID c = i" "mvals m"]
  by (cases "find (\<lambda>c. cert_EnrollmentID c = i) (mvals m)") (auto simp: certificateByEnrollmentID_def)

lemma certificate_by_enrollment_some:
  "certificateByEnrollmentID m i = Inr c \<Longrightarrow> c \<in> set (mvals m) \<and> cert_EnrollmentID c = i"
  by (auto simp: certificateByEnrollmentID_def find_Some_iff in_set_conv_nth split: option.splits)

lemma ensure_crl_number:
  "ensureCRLPublicationNumberAvailable m p = Inr () \<longleftrightarrow>
     (\<forall>x \<in> set (mvals m). crl_ID x \<noteq> crl_ID p \<longrightarrow> crl_IssuerID x = crl_IssuerID p \<longrightarrow>
        crl_DistributionPoint x = crl_DistributionPoint p \<longrightarrow> crl_CRLNumber x \<noteq> crl_CRLNumber p)"
  by (auto simp: ensureCRLPublicationNumberAvailable_def list_ex_iff split: if_splits)

lemma ensure_thumbprint:
  "ensureACMEAccountThumbprintAvailable m a = Inr () \<longleftrightarrow>
     (acct_KeyThumbprint a \<noteq> [] \<longrightarrow>
       (\<forall>x \<in> set (mvals m). acct_ID x \<noteq> acct_ID a \<longrightarrow> acct_KeyThumbprint x \<noteq> acct_KeyThumbprint a))"
  by (auto simp: ensureACMEAccountThumbprintAvailable_def list_ex_iff split: if_splits)

lemma api_key_by_hash_some:
  "apiKeyByTokenHash m h = Inr k \<Longrightarrow> k \<in> set (mvals m) \<and> key_TokenHash k = h"
  by (auto simp: apiKeyByTokenHash_def find_Some_iff in_set_conv_nth split: option.splits)

interpretation due_order: slice_order due_less
  by unfold_locales (auto simp: due_less_def Before_def split: if_splits)

end
