(* ===== verification/Encoding.thy ===== *)
theory Encoding
  imports Domain "HOL-Library.Word"
begin

unbundle bit_operations_syntax

text \<open>
  The encodings of Go's standard library that the service hashes, signs and stores:
  hexadecimal (\<open>encoding/hex\<close>), SHA-256 and HMAC (\<open>crypto/sha256\<close>, \<open>crypto/hmac\<close>),
  JSON (\<open>encoding/json\<close>) and RFC 3339 times (\<open>time.Format\<close>).
\<close>

section \<open>Hexadecimal\<close>

definition hex_digit :: "nat \<Rightarrow> char" where
  "hex_digit n = (if n < 10 then char_of (48 + n) else char_of (87 + n))"

definition hex_value :: "char \<Rightarrow> nat option" where
  "hex_value c =
     (let n = (of_char c :: nat) in
      if 48 \<le> n \<and> n \<le> 57 then Some (n - 48)
      else if 97 \<le> n \<and> n \<le> 102 then Some (n - 87)
      else if 65 \<le> n \<and> n \<le> 70 then Some (n - 55)
      else None)"

definition hex_encode :: "nat list \<Rightarrow> string" where
  "hex_encode bs = concat (map (\<lambda>b. [hex_digit (b div 16), hex_digit (b mod 16)]) bs)"

fun hex_decode :: "string \<Rightarrow> nat list option" where
  "hex_decode [] = Some []"
| "hex_decode [c] = None"
| "hex_decode (c # d # s) =
     (case (hex_value c, hex_value d, hex_decode s) of
        (Some h, Some l, Some bs) \<Rightarrow> Some ((16 * h + l) # bs)
      | _ \<Rightarrow> None)"

lemma hex_value_digit: "n < 16 \<Longrightarrow> hex_value (hex_digit n) = Some n"
  by (auto simp: hex_value_def hex_digit_def Let_def)

lemma length_hex_encode [simp]: "length (hex_encode bs) = 2 * length bs"
  by (induction bs) (auto simp: hex_encode_def)

lemma hex_encode_Cons: "hex_encode (b # bs) = hex_digit (b div 16) # hex_digit (b mod 16) # hex_encode bs"
  by (simp add: hex_encode_def)

lemma hex_roundtrip: "\<forall>b \<in> set bs. b < 256 \<Longrightarrow> hex_decode (hex_encode bs) = Some bs"
proof (induction bs)
  case Nil
  then show ?case by (simp add: hex_encode_def)
next
  case (Cons b bs)
  then have "b div 16 < 16" by auto
  with Cons show ?case by (simp add: hex_encode_Cons hex_value_digit)
qed

section \<open>SHA-256\<close>

definition sha256_K :: "32 word list" where
  "sha256_K =
    [1116352408, 1899447441, 3049323471, 3921009573, 961987163, 1508970993, 2453635748, 2870763221,
     3624381080, 310598401, 607225278, 1426881987, 1925078388, 2162078206, 2614888103, 3248222580,
     3835390401, 4022224774, 264347078, 604807628, 770255983, 1249150122, 1555081692, 1996064986,
     2554220882, 2821834349, 2952996808, 3210313671, 3336571891, 3584528711, 113926993, 338241895,
     666307205, 773529912, 1294757372, 1396182291, 1695183700, 1986661051, 2177026350, 2456956037,
     2730485921, 2820302411, 3259730800, 3345764771, 3516065817, 3600352804, 4094571909, 275423344,
     430227734, 506948616, 659060556, 883997877, 958139571, 1322822218, 1537002063, 1747873779,
     1955562222, 2024104815, 2227730452, 2361852424, 2428436474, 2756734187, 3204031479, 3329325298]"

definition sha256_H0 :: "32 word list" where
  "sha256_H0 =
    [1779033703, 3144134277, 1013904242, 2773480762, 1359893119, 2600822924, 528734635, 1541459225]"

definition rotr32 :: "nat \<Rightarrow> 32 word \<Rightarrow> 32 word" where
  "rotr32 n x = drop_bit n x OR push_bit (32 - n) x"

primrec sha256_extend :: "nat \<Rightarrow> 32 word list \<Rightarrow> 32 word list" where
  "sha256_extend 0 ws = ws"
| "sha256_extend (Suc n) ws =
     (let x = ws ! 14; y = ws ! 1;
          s0 = rotr32 7 x XOR rotr32 18 x XOR drop_bit 3 x;
          s1 = rotr32 17 y XOR rotr32 19 y XOR drop_bit 10 y
      in sha256_extend n ((s1 + ws ! 6 + s0 + ws ! 15) # ws))"

fun sha256_round :: "32 word list \<Rightarrow> 32 word \<times> 32 word \<Rightarrow> 32 word list" where
  "sha256_round [a, b, c, d, e, f, g, h] (k, w) =
     (let S1 = rotr32 6 e XOR rotr32 11 e XOR rotr32 25 e;
          ch = (e AND f) XOR (NOT e AND g);
          t1 = h + S1 + ch + k + w;
          S0 = rotr32 2 a XOR rotr32 13 a XOR rotr32 22 a;
          maj = (a AND b) XOR (a AND c) XOR (b AND c)
      in [t1 + (S0 + maj), a, b, c, d + t1, e, f, g])"
| "sha256_round st kw = st"

definition sha256_block :: "32 word list \<Rightarrow> 32 word list \<Rightarrow> 32 word list" where
  "sha256_block st ws =
     (let sched = rev (sha256_extend 48 (rev ws))
      in map2 (+) st (foldl sha256_round st (zip sha256_K sched)))"

definition be_word :: "nat list \<Rightarrow> 32 word" where
  "be_word bs = word_of_nat (foldl (\<lambda>a b. 256 * a + b) 0 bs)"

fun chunks :: "nat \<Rightarrow> 'a list \<Rightarrow> 'a list list" where
  "chunks n xs = (if n = 0 \<or> xs = [] then [] else take n xs # chunks n (drop n xs))"

declare chunks.simps [simp del]

definition be_bytes :: "nat \<Rightarrow> nat \<Rightarrow> nat list" where
  "be_bytes n x = map (\<lambda>i. (x div 256 ^ (n - 1 - i)) mod 256) [0..<n]"

definition sha256_pad :: "nat list \<Rightarrow> nat list" where
  "sha256_pad bs =
     (let l = length bs in
      bs @ [128] @ replicate ((119 - l mod 64) mod 64) 0 @ be_bytes 8 (8 * l mod 2 ^ 64))"

definition sha256_words :: "nat list \<Rightarrow> 32 word list" where
  "sha256_words bs =
     foldl sha256_block sha256_H0 (map (\<lambda>blk. map be_word (chunks 4 blk)) (chunks 64 (sha256_pad bs)))"

definition Sum256 :: "nat list \<Rightarrow> nat list" where
  "Sum256 bs = concat (map (\<lambda>i. be_bytes 4 (unat (sha256_words bs ! i))) [0..<8])"

definition string_bytes :: "string \<Rightarrow> nat list" where
  "string_bytes s = map of_char s"

definition sha256_hex :: "string \<Rightarrow> string" where
  "sha256_hex s = hex_encode (Sum256 (string_bytes s))"

lemma length_be_bytes [simp]: "length (be_bytes n x) = n"
  by (simp add: be_bytes_def)

lemma be_bytes_less: "b \<in> set (be_bytes n x) \<Longrightarrow> b < 256"
  by (auto simp: be_bytes_def)

lemma length_Sum256 [simp]: "length (Sum256 bs) = 32"
  by (simp add: Sum256_def length_concat comp_def upt_conv_Cons)

lemma Sum256_less: "\<forall>b \<in> set (Sum256 bs). b < 256"
  by (auto simp: Sum256_def dest: be_bytes_less)

text \<open>\<open>hmac.New(sha256.New, key)\<close>, then \<open>Write\<close> and \<open>Sum\<close>.\<close>

definition hmac_sha256 :: "nat list \<Rightarrow> nat list \<Rightarrow> nat list" where
  "hmac_sha256 key msg =
     (let k = (if 64 < length key then Sum256 key else key);
          k0 = k @ replicate (64 - length k) 0;
          xor = (\<lambda>p. map (\<lambda>b. unat ((word_of_nat b :: 8 word) XOR p)) k0)
      in Sum256 (xor 0x5c @ Sum256 (xor 0x36 @ msg)))"

section \<open>JSON\<close>

text \<open>
  Values as \<open>encoding/json\<close> sees them. A number is its literal text (as with
  \<open>UseNumber\<close>), \<open>JRaw\<close> is a \<open>json.RawMessage\<close> that is already compact, and an object keeps
  the order of its members: the field order for a struct, the sorted keys for a map.
\<close>

datatype json =
    JNull
  | JBool bool
  | JNum string
  | JStr string
  | JArr "json list"
  | JObj "(string \<times> json) list"
  | JRaw string

abbreviation JInt :: "int \<Rightarrow> json" where
  "JInt i \<equiv> JNum (itoa i)"

definition cont :: "nat \<Rightarrow> nat \<Rightarrow> char \<Rightarrow> bool" where
  "cont lo hi c \<longleftrightarrow> lo \<le> (of_char c :: nat) \<and> (of_char c :: nat) \<le> hi"

text \<open>The length of the valid UTF-8 encoding at the head of a string, 0 if there is none.\<close>

fun utf8_len :: "string \<Rightarrow> nat" where
  "utf8_len [] = 0"
| "utf8_len (a # s) =
     (let n = (of_char a :: nat) in
      if n < 128 then 1
      else case s of
        [] \<Rightarrow> 0
      | b # s2 \<Rightarrow>
          if 194 \<le> n \<and> n \<le> 223 then (if cont 128 191 b then 2 else 0)
          else case s2 of
            [] \<Rightarrow> 0
          | c # s3 \<Rightarrow>
              if 224 \<le> n \<and> n \<le> 239 then
                (if cont (if n = 224 then 160 else 128) (if n = 237 then 159 else 191) b \<and> cont 128 191 c
                 then 3 else 0)
              else if 240 \<le> n \<and> n \<le> 244 then
                (case s3 of
                   [] \<Rightarrow> 0
                 | d # _ \<Rightarrow>
                     if cont (if n = 240 then 144 else 128) (if n = 244 then 143 else 191) b
                        \<and> cont 128 191 c \<and> cont 128 191 d then 4 else 0)
              else 0)"

definition json_esc_ascii :: "char \<Rightarrow> string" where
  "json_esc_ascii c =
     (let n = (of_char c :: nat) in
      if n = 34 \<or> n = 92 then [CHR 0x5C, c]
      else if n = 8 then [CHR 0x5C, CHR ''b'']
      else if n = 12 then [CHR 0x5C, CHR ''f'']
      else if n = 10 then [CHR 0x5C, CHR ''n'']
      else if n = 13 then [CHR 0x5C, CHR ''r'']
      else if n = 9 then [CHR 0x5C, CHR ''t'']
      else if n < 32 \<or> n = 38 \<or> n = 60 \<or> n = 62
      then [CHR 0x5C, CHR ''u'', CHR ''0'', CHR ''0'', hex_digit (n div 16), hex_digit (n mod 16)]
      else [c])"

fun json_esc :: "string \<Rightarrow> string" where
  "json_esc [] = []"
| "json_esc (c # s) =
     (if (of_char c :: nat) < 128 then json_esc_ascii c @ json_esc s
      else let n = utf8_len (c # s) in
        if n = 0 then CHR 0x5C # ''ufffd'' @ json_esc s
        else if map of_char (take n (c # s)) = [226, 128, 168 :: nat]
        then CHR 0x5C # ''u2028'' @ json_esc (drop (n - 1) s)
        else if map of_char (take n (c # s)) = [226, 128, 169 :: nat]
        then CHR 0x5C # ''u2029'' @ json_esc (drop (n - 1) s)
        else take n (c # s) @ json_esc (drop (n - 1) s))"

definition json_quote :: "string \<Rightarrow> string" where
  "json_quote s = CHR 0x22 # json_esc s @ [CHR 0x22]"

fun json_marshal :: "json \<Rightarrow> string" where
  "json_marshal JNull = ''null''"
| "json_marshal (JBool b) = (if b then ''true'' else ''false'')"
| "json_marshal (JNum n) = n"
| "json_marshal (JStr s) = json_quote s"
| "json_marshal (JArr vs) = ''['' @ Join (map json_marshal vs) '','' @ '']''"
| "json_marshal (JObj kvs) =
     ''{'' @ Join (map (\<lambda>(k, v). json_quote k @ '':'' @ json_marshal v) kvs) '','' @ ''}''"
| "json_marshal (JRaw s) = s"

text \<open>A Go map as a JSON object: the keys are sorted.\<close>

definition json_map :: "json gomap \<Rightarrow> json" where
  "json_map m = JObj (sort_slice (\<lambda>a b. fst a < fst b) m)"

text \<open>Decoding into \<open>any\<close> and encoding again: later duplicates win, keys are sorted.\<close>

fun json_canon :: "json \<Rightarrow> json" where
  "json_canon (JArr vs) = JArr (map json_canon vs)"
| "json_canon (JObj kvs) =
     json_map (foldl (\<lambda>m (k, v). mput k v m) [] (map (\<lambda>(k, v). (k, json_canon v)) kvs))"
| "json_canon v = v"

definition json_space :: "char \<Rightarrow> bool" where
  "json_space c \<longleftrightarrow> of_char c \<in> {9, 10, 13, 32 :: nat}"

section \<open>RFC 3339 times\<close>

definition pad_dec :: "nat \<Rightarrow> nat \<Rightarrow> string" where
  "pad_dec w n = (let s = nat_dec n in replicate (w - length s) (CHR ''0'') @ s)"

text \<open>The proleptic Gregorian date of a day number, day 0 being 0001-01-01.\<close>

definition civil_date :: "int \<Rightarrow> int \<times> int \<times> int" where
  "civil_date days =
     (let z = days + 306; era = z div 146097; doe = z mod 146097;
          yoe = (doe - doe div 1460 + doe div 36524 - doe div 146096) div 365;
          doy = doe - (365 * yoe + yoe div 4 - yoe div 100);
          mp = (5 * doy + 2) div 153;
          d = doy - (153 * mp + 2) div 5 + 1;
          m = (if mp < 10 then mp + 3 else mp - 9)
      in (yoe + era * 400 + (if m \<le> 2 then 1 else 0), m, d))"

definition rfc3339_date_time :: "time \<Rightarrow> string" where
  "rfc3339_date_time t =
     (let secs = t div 1000000000; sod = secs mod 86400;
          (y, m, d) = civil_date (secs div 86400)
      in pad_dec 4 (nat y) @ ''-'' @ pad_dec 2 (nat m) @ ''-'' @ pad_dec 2 (nat d) @ ''T''
         @ pad_dec 2 (nat (sod div 3600)) @ '':'' @ pad_dec 2 (nat (sod div 60 mod 60)) @ '':''
         @ pad_dec 2 (nat (sod mod 60)))"

definition FormatRFC3339 :: "time \<Rightarrow> string" where
  "FormatRFC3339 t = rfc3339_date_time t @ ''Z''"

definition FormatRFC3339Nano :: "time \<Rightarrow> string" where
  "FormatRFC3339Nano t =
     (let frac = rev (dropWhile (\<lambda>c. c = CHR ''0'') (rev (pad_dec 9 (nat (t mod 1000000000)))))
      in rfc3339_date_time t @ (if frac = [] then [] else CHR ''.'' # frac) @ ''Z'')"

end
