(* ===== verification/JsonDecoder.thy ===== *)
theory JsonDecoder
  imports Encoding
begin

text \<open>
  The JSON decoder of Go's standard library, \<open>json.NewDecoder(r).Decode(&v)\<close> with
  \<open>UseNumber\<close> into \<open>any\<close>: the first JSON value of the input and the rest of it, or \<open>None\<close>
  for a syntax error or the end of input. Invalid UTF-8 and lone surrogates become U+FFFD. The
  fuel bounds the calls of the recursive descent; twice the length of the input is enough, since
  at least every other call consumes a byte. Nesting deeper than 10000 is an error.
\<close>

definition utf8_encode :: "nat \<Rightarrow> string" where
  "utf8_encode r =
     (if r < 128 then [char_of r]
      else if r < 2048 then [char_of (192 + r div 64), char_of (128 + r mod 64)]
      else if r < 65536
      then [char_of (224 + r div 4096), char_of (128 + r div 64 mod 64), char_of (128 + r mod 64)]
      else [char_of (240 + r div 262144), char_of (128 + r div 4096 mod 64),
            char_of (128 + r div 64 mod 64), char_of (128 + r mod 64)])"

definition replacement :: string where
  "replacement = [CHR 0xEF, CHR 0xBF, CHR 0xBD]"

fun hex4 :: "string \<Rightarrow> nat option" where
  "hex4 (a # b # c # d # s) =
     (case (hex_value a, hex_value b, hex_value c, hex_value d) of
        (Some w, Some x, Some y, Some z) \<Rightarrow> Some (4096 * w + 256 * x + 16 * y + z)
      | _ \<Rightarrow> None)"
| "hex4 s = None"

text \<open>\<open>getu4\<close>: the code unit of an escape at the head of the string.\<close>

definition getu4 :: "string \<Rightarrow> nat option" where
  "getu4 s = (if HasPrefix s [CHR 0x5C, CHR ''u''] then hex4 (drop 2 s) else None)"

definition surrogate_pair :: "nat \<Rightarrow> nat option \<Rightarrow> nat option" where
  "surrogate_pair r q =
     (case q of
        None \<Rightarrow> None
      | Some r1 \<Rightarrow>
          if 0xD800 \<le> r \<and> r < 0xDC00 \<and> 0xDC00 \<le> r1 \<and> r1 < 0xE000
          then Some ((r - 0xD800) * 1024 + (r1 - 0xDC00) + 0x10000) else None)"

definition json_simple_escape :: "char \<Rightarrow> char option" where
  "json_simple_escape e =
     (if e = CHR 0x22 \<or> e = CHR 0x5C \<or> e = CHR ''/'' then Some e
      else if e = CHR ''b'' then Some (CHR 0x08)
      else if e = CHR ''f'' then Some (CHR 0x0C)
      else if e = CHR ''n'' then Some (CHR 0x0A)
      else if e = CHR ''r'' then Some (CHR 0x0D)
      else if e = CHR ''t'' then Some (CHR 0x09)
      else None)"

definition prepend :: "string \<Rightarrow> (string \<times> string) option \<Rightarrow> (string \<times> string) option" where
  "prepend p = map_option (\<lambda>(t, r). (p @ t, r))"

text \<open>The body of a string literal after its opening quote.\<close>

function json_str :: "string \<Rightarrow> (string \<times> string) option" where
  "json_str s =
     (case s of
        [] \<Rightarrow> None
      | c # s1 \<Rightarrow>
          if c = CHR 0x22 then Some ([], s1)
          else if c = CHR 0x5C then
            (case s1 of
               [] \<Rightarrow> None
             | e # s2 \<Rightarrow>
                 (case json_simple_escape e of
                    Some d \<Rightarrow> prepend [d] (json_str s2)
                  | None \<Rightarrow>
                      if e \<noteq> CHR ''u'' then None
                      else case hex4 s2 of
                        None \<Rightarrow> None
                      | Some r \<Rightarrow>
                          if 0xD800 \<le> r \<and> r < 0xE000 then
                            (case surrogate_pair r (getu4 (drop 4 s2)) of
                               Some d \<Rightarrow> prepend (utf8_encode d) (json_str (drop 10 s2))
                             | None \<Rightarrow> prepend replacement (json_str (drop 4 s2)))
                          else prepend (utf8_encode r) (json_str (drop 4 s2))))
          else if (of_char c :: nat) < 32 then None
          else if (of_char c :: nat) < 128 then prepend [c] (json_str s1)
          else let n = utf8_len s in
            if n = 0 then prepend replacement (json_str s1)
            else prepend (take n s) (json_str (drop (n - 1) s1)))"
  by pat_completeness auto
termination by (relation "measure length") auto

declare json_str.simps [simp del]

definition is_digit :: "char \<Rightarrow> bool" where
  "is_digit c \<longleftrightarrow> 48 \<le> (of_char c :: nat) \<and> (of_char c :: nat) \<le> 57"

text \<open>Numbers: one or more digits, the integer part, the fraction and the exponent.\<close>

definition digits1 :: "string \<Rightarrow> (string \<times> string) option" where
  "digits1 s =
     (let d = takeWhile is_digit s in if d = [] then None else Some (d, dropWhile is_digit s))"

definition num_int :: "string \<Rightarrow> (string \<times> string) option" where
  "num_int s =
     (case s of
        c # r \<Rightarrow> if c = CHR ''0'' then Some ([c], r) else digits1 s
      | [] \<Rightarrow> None)"

definition num_frac :: "string \<Rightarrow> (string \<times> string) option" where
  "num_frac s =
     (case s of
        c # r \<Rightarrow> if c = CHR ''.'' then prepend [c] (digits1 r) else Some ([], s)
      | [] \<Rightarrow> Some ([], []))"

definition num_exp :: "string \<Rightarrow> (string \<times> string) option" where
  "num_exp s =
     (case s of
        c # r \<Rightarrow>
          if c = CHR ''e'' \<or> c = CHR ''E'' then
            (case r of
               d # r2 \<Rightarrow> if d = CHR ''+'' \<or> d = CHR ''-'' then prepend [c, d] (digits1 r2)
                         else prepend [c] (digits1 r)
             | [] \<Rightarrow> None)
          else Some ([], s)
      | [] \<Rightarrow> Some ([], []))"

definition seq_num ::
  "(string \<times> string) option \<Rightarrow> (string \<Rightarrow> (string \<times> string) option) \<Rightarrow> (string \<times> string) option" where
  "seq_num m k = (case m of None \<Rightarrow> None | Some (t, r) \<Rightarrow> prepend t (k r))"

definition json_number :: "string \<Rightarrow> (string \<times> string) option" where
  "json_number s =
     (let sign = (if HasPrefix s ''-'' then ''-'' else [])
      in prepend sign (seq_num (seq_num (num_int (drop (length sign) s)) num_frac) num_exp))"

definition skip_ws :: "string \<Rightarrow> string" where
  "skip_ws s = dropWhile json_space s"

fun parse_value :: "nat \<Rightarrow> string \<Rightarrow> (json \<times> string) option"
  and parse_elems :: "nat \<Rightarrow> string \<Rightarrow> (json list \<times> string) option"
  and parse_members :: "nat \<Rightarrow> string \<Rightarrow> ((string \<times> json) list \<times> string) option" where
  "parse_value 0 s = None"
| "parse_value (Suc n) s0 =
     (let s = skip_ws s0 in
      if HasPrefix s ''null'' then Some (JNull, drop 4 s)
      else if HasPrefix s ''true'' then Some (JBool True, drop 4 s)
      else if HasPrefix s ''false'' then Some (JBool False, drop 5 s)
      else if HasPrefix s [CHR 0x22] then map_option (\<lambda>(t, r). (JStr t, r)) (json_str (drop 1 s))
      else if HasPrefix s ''['' then
        (if HasPrefix (skip_ws (drop 1 s)) '']'' then Some (JArr [], drop 1 (skip_ws (drop 1 s)))
         else map_option (\<lambda>(vs, r). (JArr vs, r)) (parse_elems n (drop 1 s)))
      else if HasPrefix s ''{'' then
        (if HasPrefix (skip_ws (drop 1 s)) ''}'' then Some (JObj [], drop 1 (skip_ws (drop 1 s)))
         else map_option (\<lambda>(vs, r). (JObj vs, r)) (parse_members n (drop 1 s)))
      else map_option (\<lambda>(t, r). (JNum t, r)) (json_number s))"
| "parse_elems 0 s = None"
| "parse_elems (Suc n) s =
     (case parse_value n s of
        None \<Rightarrow> None
      | Some (v, r0) \<Rightarrow>
          let r = skip_ws r0 in
          if HasPrefix r '','' then map_option (\<lambda>(vs, t). (v # vs, t)) (parse_elems n (drop 1 r))
          else if HasPrefix r '']'' then Some ([v], drop 1 r)
          else None)"
| "parse_members 0 s = None"
| "parse_members (Suc n) s0 =
     (let s = skip_ws s0 in
      if \<not> HasPrefix s [CHR 0x22] then None
      else case json_str (drop 1 s) of
        None \<Rightarrow> None
      | Some (k, s1) \<Rightarrow>
          if \<not> HasPrefix (skip_ws s1) '':'' then None
          else case parse_value n (drop 1 (skip_ws s1)) of
            None \<Rightarrow> None
          | Some (v, r0) \<Rightarrow>
              let r = skip_ws r0 in
              if HasPrefix r '','' then map_option (\<lambda>(kvs, t). ((k, v) # kvs, t)) (parse_members n (drop 1 r))
              else if HasPrefix r ''}'' then Some ([(k, v)], drop 1 r)
              else None)"

fun json_depth :: "json \<Rightarrow> nat" where
  "json_depth (JArr vs) = Suc (foldr (\<lambda>v d. max (json_depth v) d) vs 0)"
| "json_depth (JObj kvs) = Suc (foldr (\<lambda>(k, v) d. max (json_depth v) d) kvs 0)"
| "json_depth v = 0"

definition json_decode :: "string \<Rightarrow> (json \<times> string) option" where
  "json_decode s =
     (case parse_value (2 * length s + 2) s of
        None \<Rightarrow> None
      | Some (v, r) \<Rightarrow> if 10000 < json_depth v then None else Some (v, r))"

end
