(* ===== verification/AuditChain.thy ===== *)
theory AuditChain
  imports JsonDecoder
begin

text \<open>
  The tamper-evident audit log: \<open>service/internal/store/audit_hash.go\<close> and the functions of
  \<open>store/memory.go\<close> that append to the log and prune it. Every event carries the SHA-256 hash
  of its predecessor's hash and its own canonical payload; the chain state holds the latest
  sequence number and hash and the checkpoint below which events were pruned. Sequence numbers
  are \<open>int64\<close> in the code and unbounded here: they count the events ever appended.
\<close>

section \<open>Hashes of events\<close>

definition AuditHashAlgorithmSHA256V1 :: string where
  "AuditHashAlgorithmSHA256V1 = ''sha256-v1''"

record auditChainState =
  acs_HashAlgorithm :: string
  acs_LatestSequence :: int
  acs_LatestEventHash :: string
  acs_CheckpointSequence :: int
  acs_CheckpointEventHash :: string
  acs_UpdatedAt :: time

definition emptyAuditChainState :: auditChainState where
  "emptyAuditChainState =
     \<lparr>acs_HashAlgorithm = AuditHashAlgorithmSHA256V1, acs_LatestSequence = 0, acs_LatestEventHash = [],
      acs_CheckpointSequence = 0, acs_CheckpointEventHash = [], acs_UpdatedAt = 0\<rparr>"

text \<open>
  The second \<open>Decode\<close> call must meet the end of input; a further value that decodes into an
  empty struct (an object or null) is reported as trailing.
\<close>

definition canonicalAuditMetadata :: "string \<Rightarrow> err + string" where
  "canonicalAuditMetadata value =
     (case json_decode value of
        None \<Rightarrow> Inl (ErrText ''decode audit metadata'')
      | Some (metadata, rest) \<Rightarrow>
          if skip_ws rest = [] then Inr (json_marshal (json_canon metadata))
          else (case json_decode rest of
                  Some (JObj _, _) \<Rightarrow> Inl (ErrText ''decode audit metadata: trailing value'')
                | Some (JNull, _) \<Rightarrow> Inl (ErrText ''decode audit metadata: trailing value'')
                | _ \<Rightarrow> Inl (ErrText ''decode audit metadata'')))"

definition auditHashPayload :: "string \<Rightarrow> AuditEvent \<Rightarrow> string" where
  "auditHashPayload canonicalMetadata event =
     json_marshal (JObj
       [(''hash_algorithm'', JStr (ev_HashAlgorithm event)),
        (''sequence'', JInt (ev_Sequence event)),
        (''id'', JStr (ev_ID event)),
        (''actor'', JStr (ev_Actor event)),
        (''action'', JStr (ev_Action event)),
        (''resource_type'', JStr (ev_ResourceType event)),
        (''resource_id'', JStr (ev_ResourceID event)),
        (''metadata'', JRaw canonicalMetadata),
        (''created_at'', JStr (FormatRFC3339Nano (ev_CreatedAt event)))])"

definition auditEventHash :: "string \<Rightarrow> AuditEvent \<Rightarrow> err + string" where
  "auditEventHash previousHash event =
     (case canonicalAuditMetadata (ev_MetadataJSON event) of
        Inl e \<Rightarrow> Inl e
      | Inr canonicalMetadata \<Rightarrow> Inr (sha256_hex (previousHash @ auditHashPayload canonicalMetadata event)))"

definition withAuditEventHash :: "int \<Rightarrow> string \<Rightarrow> AuditEvent \<Rightarrow> err + AuditEvent" where
  "withAuditEventHash sequence previousHash event0 =
     (if sequence \<le> 0 then Inl (ErrText ''audit sequence must be positive'')
      else
        let event = event0\<lparr>ev_Sequence := sequence, ev_HashAlgorithm := AuditHashAlgorithmSHA256V1,
                           ev_PreviousEventHash := previousHash\<rparr>
        in case auditEventHash previousHash event of
             Inl e \<Rightarrow> Inl e
           | Inr hash \<Rightarrow> Inr (event\<lparr>ev_EventHash := hash\<rparr>))"

definition isAuditHash :: "string \<Rightarrow> bool" where
  "isAuditHash value \<longleftrightarrow>
     length value = 64 \<and>
     (case hex_decode value of
        None \<Rightarrow> False
      | Some decoded \<Rightarrow> length decoded = 32 \<and> value = hex_encode decoded)"

section \<open>Verification\<close>

text \<open>The loop of \<open>verifyAuditEvents\<close>; the flag says whether it ran to the end.\<close>

fun verifyAuditEvents_loop ::
  "AuditEvent list \<Rightarrow> bool \<Rightarrow> int \<Rightarrow> string \<Rightarrow> AuditIntegrity \<Rightarrow> AuditIntegrity \<times> bool" where
  "verifyAuditEvents_loop [] first expectedSequence previousHash report = (report, True)"
| "verifyAuditEvents_loop (event # events) first expectedSequence previousHash report =
     (if ev_Sequence event \<noteq> expectedSequence
      then (report\<lparr>rep_FailureReason := ''sequence_gap''\<rparr>, False)
      else if ev_HashAlgorithm event \<noteq> AuditHashAlgorithmSHA256V1
      then (report\<lparr>rep_FailureReason := ''hash_algorithm_mismatch''\<rparr>, False)
      else if ev_PreviousEventHash event \<noteq> previousHash
      then (report\<lparr>rep_FailureReason := ''previous_hash_mismatch''\<rparr>, False)
      else case auditEventHash previousHash event of
        Inl e \<Rightarrow> (report\<lparr>rep_FailureReason := ''metadata_invalid''\<rparr>, False)
      | Inr expectedHash \<Rightarrow>
          if ev_EventHash event \<noteq> expectedHash \<or> \<not> isAuditHash (ev_EventHash event)
          then (report\<lparr>rep_FailureReason := ''event_hash_mismatch''\<rparr>, False)
          else
            verifyAuditEvents_loop events False (expectedSequence + 1) (ev_EventHash event)
              (report\<lparr>rep_FirstSequence :=
                         (if first then ev_Sequence event else rep_FirstSequence report),
                      rep_LastSequence := ev_Sequence event,
                      rep_LastEventHash := ev_EventHash event\<rparr>))"

definition verifyAuditEvents :: "AuditEvent list \<Rightarrow> AuditChainCheckpoint \<Rightarrow> AuditIntegrity" where
  "verifyAuditEvents events checkpoint =
     (let report = \<lparr>rep_Valid = False, rep_HashAlgorithm = AuditHashAlgorithmSHA256V1,
            rep_EventCount = int (length events), rep_FirstSequence = 0, rep_LastSequence = 0,
            rep_LastEventHash = [], rep_CheckpointSequence = cp_Sequence checkpoint,
            rep_CheckpointEventHash = cp_EventHash checkpoint, rep_FailureReason = []\<rparr>
      in if cp_Sequence checkpoint < 0
         then report\<lparr>rep_FailureReason := ''checkpoint_sequence_invalid''\<rparr>
         else if cp_Sequence checkpoint = 0 \<and> cp_EventHash checkpoint \<noteq> []
         then report\<lparr>rep_FailureReason := ''checkpoint_hash_unexpected''\<rparr>
         else if cp_Sequence checkpoint = 0 \<and> cp_HashAlgorithm checkpoint \<noteq> [] \<and>
                 cp_HashAlgorithm checkpoint \<noteq> AuditHashAlgorithmSHA256V1
         then report\<lparr>rep_FailureReason := ''checkpoint_algorithm_mismatch''\<rparr>
         else if cp_Sequence checkpoint \<noteq> 0 \<and> cp_HashAlgorithm checkpoint \<noteq> AuditHashAlgorithmSHA256V1
         then report\<lparr>rep_FailureReason := ''checkpoint_algorithm_mismatch''\<rparr>
         else if cp_Sequence checkpoint \<noteq> 0 \<and> \<not> isAuditHash (cp_EventHash checkpoint)
         then report\<lparr>rep_FailureReason := ''checkpoint_hash_invalid''\<rparr>
         else case verifyAuditEvents_loop events True (cp_Sequence checkpoint + 1)
                     (cp_EventHash checkpoint) report of
           (report', False) \<Rightarrow> report'
         | (report', True) \<Rightarrow>
             (if events = []
              then report'\<lparr>rep_LastSequence := cp_Sequence checkpoint,
                           rep_LastEventHash := cp_EventHash checkpoint, rep_Valid := True\<rparr>
              else report'\<lparr>rep_Valid := True\<rparr>))"

definition verifyAuditState :: "AuditEvent list \<Rightarrow> auditChainState \<Rightarrow> AuditIntegrity" where
  "verifyAuditState events state =
     (let report = verifyAuditEvents events
            \<lparr>cp_Sequence = acs_CheckpointSequence state, cp_HashAlgorithm = acs_HashAlgorithm state,
             cp_EventHash = acs_CheckpointEventHash state, cp_CreatedAt = 0\<rparr>
      in if \<not> rep_Valid report then report
         else if acs_HashAlgorithm state \<noteq> AuditHashAlgorithmSHA256V1
         then report\<lparr>rep_Valid := False, rep_FailureReason := ''state_algorithm_mismatch''\<rparr>
         else if acs_LatestSequence state \<noteq> rep_LastSequence report
                 \<or> acs_LatestEventHash state \<noteq> rep_LastEventHash report
         then report\<lparr>rep_Valid := False, rep_FailureReason := ''state_latest_mismatch''\<rparr>
         else report)"

text \<open>\<open>auditIntegrityError\<close>: \<open>None\<close> is the nil error.\<close>

definition auditIntegrityError :: "AuditIntegrity \<Rightarrow> err option" where
  "auditIntegrityError report =
     (if rep_Valid report then None else Some (ErrDetail ErrAuditIntegrity (rep_FailureReason report)))"

section \<open>Appending and pruning\<close>

text \<open>The events and the chain state are passed by pointer in the code, as one pair here.\<close>

type_synonym audit_log = "AuditEvent list \<times> auditChainState"

definition appendMemoryAuditEvent :: "AuditEvent \<Rightarrow> (audit_log, err, unit) eff" where
  "appendMemoryAuditEvent event = (\<lambda>(events, state).
     let report = verifyAuditState events state in
     case auditIntegrityError report of
       Some e \<Rightarrow> (Inl e, (events, state))
     | None \<Rightarrow>
         (case withAuditEventHash (rep_LastSequence report + 1) (rep_LastEventHash report) event of
            Inl e \<Rightarrow> (Inl e, (events, state))
          | Inr prepared \<Rightarrow>
              let events' = events @ [prepared];
                  state' = state\<lparr>acs_HashAlgorithm := AuditHashAlgorithmSHA256V1,
                                 acs_LatestSequence := ev_Sequence prepared,
                                 acs_LatestEventHash := ev_EventHash prepared,
                                 acs_UpdatedAt := ev_CreatedAt prepared\<rparr>
              in case auditIntegrityError (verifyAuditState events' state') of
                   Some e \<Rightarrow> (Inl e, (events', state'))
                 | None \<Rightarrow> (Inr (), (events', state'))))"

text \<open>The number of events to delete, or -1 when an old event follows a retained one.\<close>

fun auditRetentionPrefixLength_loop :: "AuditEvent list \<Rightarrow> time \<Rightarrow> int \<Rightarrow> bool \<Rightarrow> int" where
  "auditRetentionPrefixLength_loop [] before deleteCount seenRetained = deleteCount"
| "auditRetentionPrefixLength_loop (event # events) before deleteCount seenRetained =
     (if Before (ev_CreatedAt event) before
      then if seenRetained then -1
           else auditRetentionPrefixLength_loop events before (deleteCount + 1) seenRetained
      else auditRetentionPrefixLength_loop events before deleteCount True)"

definition auditRetentionPrefixLength :: "AuditEvent list \<Rightarrow> time \<Rightarrow> int" where
  "auditRetentionPrefixLength events before = auditRetentionPrefixLength_loop events before 0 False"

definition pruneMemoryAuditEvents :: "time \<Rightarrow> (audit_log, err, int) eff" where
  "pruneMemoryAuditEvents before = (\<lambda>(events, state).
     case auditIntegrityError (verifyAuditState events state) of
       Some e \<Rightarrow> (Inl e, (events, state))
     | None \<Rightarrow>
         let deleteCount = auditRetentionPrefixLength events before in
         if deleteCount < 0
         then (Inl (ErrDetail ErrAuditIntegrity ''retention_cutoff_non_prefix''), (events, state))
         else if deleteCount = 0 then (Inr 0, (events, state))
         else
           let lastDeleted = events ! nat (deleteCount - 1);
               state' = state\<lparr>acs_HashAlgorithm := AuditHashAlgorithmSHA256V1,
                              acs_CheckpointSequence := ev_Sequence lastDeleted,
                              acs_CheckpointEventHash := ev_EventHash lastDeleted,
                              acs_UpdatedAt := ev_CreatedAt lastDeleted\<rparr>;
               kept = drop (nat deleteCount) events
           in case auditIntegrityError (verifyAuditState kept state') of
                Some e \<Rightarrow> (Inl e, (kept, state'))
              | None \<Rightarrow> (Inr deleteCount, (kept, state')))"

section \<open>The specification of a valid chain\<close>

text \<open>
  What the verifier decides: consecutive sequence numbers from the checkpoint on, each event
  linked to the hash before it and carrying the hash of its own content.
\<close>

fun chain_from :: "int \<Rightarrow> string \<Rightarrow> AuditEvent list \<Rightarrow> bool" where
  "chain_from n h [] \<longleftrightarrow> True"
| "chain_from n h (e # es) \<longleftrightarrow>
     ev_Sequence e = n + 1 \<and> ev_HashAlgorithm e = AuditHashAlgorithmSHA256V1 \<and>
     ev_PreviousEventHash e = h \<and> auditEventHash h e = Inr (ev_EventHash e) \<and>
     chain_from (n + 1) (ev_EventHash e) es"

definition chain_last :: "string \<Rightarrow> AuditEvent list \<Rightarrow> string" where
  "chain_last h es = (if es = [] then h else ev_EventHash (last es))"

definition checkpoint_ok :: "int \<Rightarrow> string \<Rightarrow> bool" where
  "checkpoint_ok n h \<longleftrightarrow> (n = 0 \<and> h = []) \<or> (0 < n \<and> isAuditHash h)"

definition checkpoint_accepted :: "AuditChainCheckpoint \<Rightarrow> bool" where
  "checkpoint_accepted cp \<longleftrightarrow>
     (if cp_Sequence cp = 0 then cp_EventHash cp = [] \<and>
         (cp_HashAlgorithm cp = [] \<or> cp_HashAlgorithm cp = AuditHashAlgorithmSHA256V1)
      else 0 < cp_Sequence cp \<and> cp_HashAlgorithm cp = AuditHashAlgorithmSHA256V1 \<and>
         isAuditHash (cp_EventHash cp))"

definition valid_log :: "audit_log \<Rightarrow> bool" where
  "valid_log log = (case log of (events, state) \<Rightarrow>
     acs_HashAlgorithm state = AuditHashAlgorithmSHA256V1 \<and>
     checkpoint_ok (acs_CheckpointSequence state) (acs_CheckpointEventHash state) \<and>
     chain_from (acs_CheckpointSequence state) (acs_CheckpointEventHash state) events \<and>
     acs_LatestSequence state = acs_CheckpointSequence state + int (length events) \<and>
     acs_LatestEventHash state = chain_last (acs_CheckpointEventHash state) events)"

lemma isAuditHash_sha256: "isAuditHash (sha256_hex s)"
  by (simp add: isAuditHash_def sha256_hex_def hex_roundtrip Sum256_less)

lemma isAuditHash_auditEventHash: "auditEventHash h e = Inr x \<Longrightarrow> isAuditHash x"
  by (auto simp: auditEventHash_def isAuditHash_sha256 split: sum.splits)

lemma chain_from_append:
  "chain_from n h (es @ fs) \<longleftrightarrow> chain_from n h es \<and> chain_from (n + int (length es)) (chain_last h es) fs"
proof (induction es arbitrary: n h)
  case Nil
  then show ?case by (simp add: chain_last_def)
next
  case (Cons e es)
  have "chain_last (ev_EventHash e) es = chain_last h (e # es)"
    by (simp add: chain_last_def)
  with Cons show ?case by (simp add: algebra_simps)
qed

lemma chain_hash_ok: "chain_from n h es \<Longrightarrow> e \<in> set es \<Longrightarrow> isAuditHash (ev_EventHash e)"
  by (induction es arbitrary: n h) (auto dest: isAuditHash_auditEventHash)

lemma chain_sequence: "chain_from n h es \<Longrightarrow> i < length es \<Longrightarrow> ev_Sequence (es ! i) = n + int i + 1"
proof (induction es arbitrary: n h i)
  case Nil
  then show ?case by simp
next
  case (Cons e es)
  then show ?case by (cases i) (auto simp: algebra_simps)
qed

lemma verify_loop_ok:
  "snd (verifyAuditEvents_loop es first m h report) \<longleftrightarrow> chain_from (m - 1) h es"
proof (induction es arbitrary: first m h report)
  case Nil
  then show ?case by simp
next
  case (Cons e es)
  then show ?case
    by (cases "auditEventHash h e") (auto dest: isAuditHash_auditEventHash)
qed

lemma verify_loop_last:
  "chain_from (m - 1) h es \<Longrightarrow> es \<noteq> [] \<Longrightarrow>
   rep_LastSequence (fst (verifyAuditEvents_loop es first m h report)) = m + int (length es) - 1 \<and>
   rep_LastEventHash (fst (verifyAuditEvents_loop es first m h report)) = ev_EventHash (last es)"
proof (induction es arbitrary: first m h report)
  case Nil
  then show ?case by simp
next
  case (Cons e es)
  have "chain_from (m + 1 - 1) (ev_EventHash e) es" and "isAuditHash (ev_EventHash e)"
    using Cons.prems(1) isAuditHash_auditEventHash by auto
  with Cons.IH [OF this(1)] Cons.prems(1) show ?case
    by (cases "es = []") simp_all
qed

lemma verify_loop_failed:
  "rep_Valid (fst (verifyAuditEvents_loop es first m h report)) = rep_Valid report"
proof (induction es arbitrary: first m h report)
  case Nil
  then show ?case by simp
next
  case (Cons e es)
  then show ?case by (cases "auditEventHash h e") simp_all
qed

lemma verifyAuditEvents_valid:
  "rep_Valid (verifyAuditEvents es cp) \<longleftrightarrow>
     checkpoint_accepted cp \<and> chain_from (cp_Sequence cp) (cp_EventHash cp) es"
proof -
  define run where "run r = verifyAuditEvents_loop es True (cp_Sequence cp + 1) (cp_EventHash cp) r" for r
  have "snd (run r) \<longleftrightarrow> chain_from (cp_Sequence cp) (cp_EventHash cp) es" for r
    unfolding run_def verify_loop_ok by simp
  moreover have "rep_Valid (fst (run r)) = rep_Valid r" for r
    unfolding run_def by (rule verify_loop_failed)
  ultimately show ?thesis
    unfolding verifyAuditEvents_def Let_def run_def [symmetric] checkpoint_accepted_def
    by (auto simp: case_prod_beta split: bool.splits)
qed

lemma verifyAuditEvents_last:
  assumes "rep_Valid (verifyAuditEvents es cp)"
  shows "rep_LastSequence (verifyAuditEvents es cp) = cp_Sequence cp + int (length es)"
    and "rep_LastEventHash (verifyAuditEvents es cp) = chain_last (cp_EventHash cp) es"
proof -
  define run where "run r = verifyAuditEvents_loop es True (cp_Sequence cp + 1) (cp_EventHash cp) r" for r
  have ok: "checkpoint_accepted cp" and chain: "chain_from (cp_Sequence cp) (cp_EventHash cp) es"
    using assms by (auto simp: verifyAuditEvents_valid)
  have "snd (run r)" for r
    unfolding run_def verify_loop_ok using chain by simp
  then have run: "run r = (fst (run r), True)" for r
    by (metis prod.collapse)
  have last: "es \<noteq> [] \<Longrightarrow> rep_LastSequence (fst (run r)) = cp_Sequence cp + int (length es)"
    "es \<noteq> [] \<Longrightarrow> rep_LastEventHash (fst (run r)) = ev_EventHash (last es)" for r
    unfolding run_def using verify_loop_last [of "cp_Sequence cp + 1" _ es] chain by simp_all
  show "rep_LastSequence (verifyAuditEvents es cp) = cp_Sequence cp + int (length es)"
    and "rep_LastEventHash (verifyAuditEvents es cp) = chain_last (cp_EventHash cp) es"
    using ok last unfolding verifyAuditEvents_def Let_def run_def [symmetric] checkpoint_accepted_def
      chain_last_def by (subst run; auto split: if_splits)+
qed

text \<open>The verifier decides the specification.\<close>

lemma verifyAuditState_valid: "rep_Valid (verifyAuditState es st) \<longleftrightarrow> valid_log (es, st)"
proof -
  define cp where "cp = \<lparr>cp_Sequence = acs_CheckpointSequence st, cp_HashAlgorithm = acs_HashAlgorithm st,
    cp_EventHash = acs_CheckpointEventHash st, cp_CreatedAt = 0\<rparr>"
  have "rep_Valid (verifyAuditState es st) \<longleftrightarrow> rep_Valid (verifyAuditEvents es cp) \<and>
      acs_HashAlgorithm st = AuditHashAlgorithmSHA256V1 \<and>
      acs_LatestSequence st = rep_LastSequence (verifyAuditEvents es cp) \<and>
      acs_LatestEventHash st = rep_LastEventHash (verifyAuditEvents es cp)"
    unfolding verifyAuditState_def cp_def [symmetric] Let_def by auto
  also have "\<dots> \<longleftrightarrow> valid_log (es, st)"
  proof (cases "rep_Valid (verifyAuditEvents es cp)")
    case True
    from verifyAuditEvents_last [OF this] verifyAuditEvents_valid [THEN iffD1, OF this] show ?thesis
      using True by (auto simp: valid_log_def checkpoint_ok_def checkpoint_accepted_def cp_def split: if_splits)
  next
    case False
    then show ?thesis
      unfolding verifyAuditEvents_valid
      by (auto simp: valid_log_def checkpoint_ok_def checkpoint_accepted_def cp_def)
  qed
  finally show ?thesis .
qed

lemma verifyAuditState_last:
  assumes "valid_log (es, st)"
  shows "rep_LastSequence (verifyAuditState es st) = acs_LatestSequence st"
    and "rep_LastEventHash (verifyAuditState es st) = acs_LatestEventHash st"
  using assms unfolding verifyAuditState_valid [symmetric]
  by (auto simp: verifyAuditState_def Let_def split: if_splits)

lemma auditIntegrityError_None: "auditIntegrityError (verifyAuditState es st) = None \<longleftrightarrow> valid_log (es, st)"
  by (simp add: auditIntegrityError_def verifyAuditState_valid)

lemma auditIntegrityError_Some:
  "\<not> valid_log (es, st) \<Longrightarrow> \<exists>why. auditIntegrityError (verifyAuditState es st) = Some (ErrDetail ErrAuditIntegrity why)"
  by (simp add: auditIntegrityError_def verifyAuditState_valid)

section \<open>The log operations\<close>

text \<open>The event as it is stored: linked to the end of the chain and sealed with its hash.\<close>

definition sealed :: "auditChainState \<Rightarrow> AuditEvent \<Rightarrow> string \<Rightarrow> AuditEvent" where
  "sealed st e hash = e\<lparr>ev_Sequence := acs_LatestSequence st + 1,
     ev_HashAlgorithm := AuditHashAlgorithmSHA256V1, ev_PreviousEventHash := acs_LatestEventHash st,
     ev_EventHash := hash\<rparr>"

lemma valid_log_latest:
  "valid_log (es, st) \<Longrightarrow> 0 \<le> acs_LatestSequence st"
  by (auto simp: valid_log_def checkpoint_ok_def)

lemma canonical_hash:
  "canonicalAuditMetadata (ev_MetadataJSON e) = Inr c \<Longrightarrow>
   \<exists>hash. auditEventHash h e = Inr hash"
  by (simp add: auditEventHash_def)

lemma auditEventHash_seal [simp]:
  "auditEventHash h (e\<lparr>ev_EventHash := x\<rparr>) = auditEventHash h e"
  "auditEventHash h (e\<lparr>ev_PreviousEventHash := p\<rparr>) = auditEventHash h e"
  by (simp_all add: auditEventHash_def auditHashPayload_def split: sum.splits)

text \<open>
  An append to a valid log either seals the event at the end of the chain or, when its metadata
  is no JSON text, changes nothing; an append to an invalid log is refused.
\<close>

lemma append_valid:
  assumes "valid_log (es, st)" and "canonicalAuditMetadata (ev_MetadataJSON e) = Inr c"
  shows "\<exists>hash st'. appendMemoryAuditEvent e (es, st) = (Inr (), (es @ [sealed st e hash], st')) \<and>
     valid_log (es @ [sealed st e hash], st') \<and>
     acs_CheckpointSequence st' = acs_CheckpointSequence st \<and>
     acs_CheckpointEventHash st' = acs_CheckpointEventHash st"
proof -
  let ?n = "acs_LatestSequence st + 1" and ?h = "acs_LatestEventHash st"
  let ?e = "e\<lparr>ev_Sequence := ?n, ev_HashAlgorithm := AuditHashAlgorithmSHA256V1, ev_PreviousEventHash := ?h\<rparr>"
  have "0 < ?n" using valid_log_latest [OF assms(1)] by simp
  obtain hash where hash: "auditEventHash ?h ?e = Inr hash"
    using canonical_hash [of ?e c ?h] assms(2) by auto
  let ?s = "sealed st e hash"
  let ?st = "st\<lparr>acs_HashAlgorithm := AuditHashAlgorithmSHA256V1, acs_LatestSequence := ?n,
    acs_LatestEventHash := hash, acs_UpdatedAt := ev_CreatedAt e\<rparr>"
  have s: "?e\<lparr>ev_EventHash := hash\<rparr> = ?s" by (simp add: sealed_def)
  have sealed_hash: "auditEventHash ?h ?s = Inr hash"
    using hash by (simp flip: s)
  have valid: "valid_log (es @ [?s], ?st)"
    using assms(1) sealed_hash
    by (simp add: valid_log_def chain_from_append) (simp add: sealed_def chain_last_def)
  have "withAuditEventHash ?n ?h e = Inr ?s"
    using \<open>0 < ?n\<close> hash s by (simp add: withAuditEventHash_def)
  moreover have "ev_Sequence ?s = ?n" "ev_EventHash ?s = hash" "ev_CreatedAt ?s = ev_CreatedAt e"
    by (simp_all add: sealed_def)
  ultimately have "appendMemoryAuditEvent e (es, st) = (Inr (), (es @ [?s], ?st))"
    using assms(1) valid
    by (simp add: appendMemoryAuditEvent_def Let_def verifyAuditState_last
        auditIntegrityError_None [THEN iffD2])
  with valid show ?thesis by force
qed

lemma append_bad_metadata:
  assumes "valid_log (es, st)" and "canonicalAuditMetadata (ev_MetadataJSON e) = Inl x"
  shows "appendMemoryAuditEvent e (es, st) = (Inl x, (es, st))"
  using assms valid_log_latest [OF assms(1)]
  by (simp add: appendMemoryAuditEvent_def Let_def verifyAuditState_last withAuditEventHash_def
      auditEventHash_def auditIntegrityError_None [THEN iffD2])

lemma append_invalid:
  assumes "\<not> valid_log (es, st)"
  shows "\<exists>why. appendMemoryAuditEvent e (es, st) = (Inl (ErrDetail ErrAuditIntegrity why), (es, st))"
  using auditIntegrityError_Some [OF assms]
  by (auto simp: appendMemoryAuditEvent_def Let_def)

lemma append_keeps_valid:
  "valid_log log \<Longrightarrow> valid_log (snd (appendMemoryAuditEvent e log))"
proof -
  assume v: "valid_log log"
  obtain es st where log: "log = (es, st)" by (cases log)
  show ?thesis
  proof (cases "canonicalAuditMetadata (ev_MetadataJSON e)")
    case (Inl x)
    then show ?thesis using v append_bad_metadata unfolding log by simp
  next
    case (Inr c)
    then show ?thesis using append_valid v unfolding log by fastforce
  qed
qed

text \<open>Pruning deletes the events before the cutoff if they form a prefix.\<close>

definition old :: "time \<Rightarrow> AuditEvent \<Rightarrow> bool" where
  "old before e \<longleftrightarrow> ev_CreatedAt e < before"

lemma old_iff: "Before (ev_CreatedAt e) before \<longleftrightarrow> old before e"
  by (simp add: old_def Before_def)

lemma retention_loop_seen:
  "auditRetentionPrefixLength_loop es before d True = (if \<exists>e \<in> set es. old before e then -1 else d)"
  by (induction es arbitrary: d) (auto simp: old_iff)

lemma retention_loop_start:
  "auditRetentionPrefixLength_loop es before d False =
     (if \<exists>e \<in> set (dropWhile (old before) es). old before e then -1
      else d + int (length (takeWhile (old before) es)))"
proof (induction es arbitrary: d)
  case Nil
  then show ?case by simp
next
  case (Cons e es)
  show ?case
  proof (cases "old before e")
    case True
    then have "auditRetentionPrefixLength_loop (e # es) before d False =
        auditRetentionPrefixLength_loop es before (d + 1) False"
      by (simp add: old_iff)
    with True show ?thesis unfolding Cons.IH by simp
  next
    case False
    then have "auditRetentionPrefixLength_loop (e # es) before d False =
        auditRetentionPrefixLength_loop es before d True"
      by (simp add: old_iff)
    with False show ?thesis unfolding retention_loop_seen by simp
  qed
qed

lemma retention_prefix:
  "auditRetentionPrefixLength es before =
     (if \<exists>e \<in> set (dropWhile (old before) es). old before e then -1
      else int (length (takeWhile (old before) es)))"
  by (simp add: auditRetentionPrefixLength_def retention_loop_start)

lemma valid_log_drop:
  assumes v: "valid_log (es, st)" and k: "0 < k" "k \<le> length es"
  shows "valid_log (drop k es, st\<lparr>acs_HashAlgorithm := AuditHashAlgorithmSHA256V1,
     acs_CheckpointSequence := ev_Sequence (es ! (k - 1)),
     acs_CheckpointEventHash := ev_EventHash (es ! (k - 1)), acs_UpdatedAt := t\<rparr>)"
proof -
  let ?n = "acs_CheckpointSequence st" and ?h = "acs_CheckpointEventHash st"
  have chain: "chain_from ?n ?h es" and "0 \<le> ?n"
    using v by (auto simp: valid_log_def checkpoint_ok_def)
  have seq: "ev_Sequence (es ! (k - 1)) = ?n + int k"
    using chain_sequence [OF chain, of "k - 1"] k by simp
  have hash: "isAuditHash (ev_EventHash (es ! (k - 1)))"
    using chain_hash_ok [OF chain] k by simp
  have lasth: "chain_last ?h (take k es) = ev_EventHash (es ! (k - 1))"
    using k by (auto simp: chain_last_def last_conv_nth)
  have "chain_from (?n + int k) (ev_EventHash (es ! (k - 1))) (drop k es)"
    using chain_from_append [of ?n ?h "take k es" "drop k es"] chain k
    by (simp add: lasth)
  moreover have "chain_last (ev_EventHash (es ! (k - 1))) (drop k es) = chain_last ?h es"
    using k by (cases "k = length es") (auto simp: chain_last_def last_conv_nth)
  ultimately show ?thesis
    using v seq hash k \<open>0 \<le> ?n\<close> by (auto simp: valid_log_def checkpoint_ok_def)
qed

lemma prune_valid:
  assumes v: "valid_log (es, st)"
    and prefix: "\<forall>e \<in> set (dropWhile (old before) es). \<not> old before e"
  shows "\<exists>st'. pruneMemoryAuditEvents before (es, st) =
       (Inr (int (length (takeWhile (old before) es))), (dropWhile (old before) es, st')) \<and>
     valid_log (dropWhile (old before) es, st') \<and>
     acs_LatestSequence st' = acs_LatestSequence st \<and> acs_LatestEventHash st' = acs_LatestEventHash st"
proof -
  let ?k = "length (takeWhile (old before) es)"
  have len: "auditRetentionPrefixLength es before = int ?k"
    using prefix by (auto simp: retention_prefix)
  have drop: "dropWhile (old before) es = drop ?k es"
    by (rule dropWhile_eq_drop)
  show ?thesis
  proof (cases "?k = 0")
    case True
    then show ?thesis
      using v len drop by (simp add: pruneMemoryAuditEvents_def auditIntegrityError_None [THEN iffD2])
  next
    case False
    have idx: "nat (int ?k - 1) = ?k - 1" by simp
    have "valid_log (drop ?k es, st\<lparr>acs_HashAlgorithm := AuditHashAlgorithmSHA256V1,
        acs_CheckpointSequence := ev_Sequence (es ! (?k - 1)),
        acs_CheckpointEventHash := ev_EventHash (es ! (?k - 1)),
        acs_UpdatedAt := ev_CreatedAt (es ! (?k - 1))\<rparr>)"
      by (rule valid_log_drop [OF v]) (use False length_takeWhile_le in auto)
    then show ?thesis
      using v False
      by (simp add: pruneMemoryAuditEvents_def Let_def len idx drop auditIntegrityError_None [THEN iffD2])
  qed
qed

lemma prune_non_prefix:
  assumes "valid_log (es, st)" and "\<exists>e \<in> set (dropWhile (old before) es). old before e"
  shows "pruneMemoryAuditEvents before (es, st) =
     (Inl (ErrDetail ErrAuditIntegrity ''retention_cutoff_non_prefix''), (es, st))"
  using assms by (simp add: pruneMemoryAuditEvents_def retention_prefix auditIntegrityError_None [THEN iffD2])

lemma prune_keeps_valid: "valid_log log \<Longrightarrow> valid_log (snd (pruneMemoryAuditEvents before log))"
proof -
  assume v: "valid_log log"
  obtain es st where log: "log = (es, st)" by (cases log)
  show ?thesis
  proof (cases "\<exists>e \<in> set (dropWhile (old before) es). old before e")
    case True
    then show ?thesis using v prune_non_prefix unfolding log by simp
  next
    case False
    then obtain st' where "pruneMemoryAuditEvents before (es, st) =
        (Inr (int (length (takeWhile (old before) es))), (dropWhile (old before) es, st'))"
      "valid_log (dropWhile (old before) es, st')"
      using prune_valid v unfolding log by blast
    then show ?thesis unfolding log by simp
  qed
qed

section \<open>Tamper evidence\<close>






section \<open>Properties\<close>

lemma valid_log_empty: "valid_log ([], emptyAuditChainState)"
  by (simp add: valid_log_def emptyAuditChainState_def checkpoint_ok_def chain_last_def)



definition sample_event :: AuditEvent where
  "sample_event = \<lparr>ev_ID = ''e1'', ev_Sequence = 0, ev_Actor = ''admin'', ev_Action = ''identity.created'',
     ev_ResourceType = ''identity'', ev_ResourceID = ''i1'', ev_MetadataJSON = ''{}'', ev_HashAlgorithm = [],
     ev_PreviousEventHash = [], ev_EventHash = [], ev_CreatedAt = 5\<rparr>"

lemma sample_metadata: "canonicalAuditMetadata (ev_MetadataJSON sample_event) = Inr ''{}''"
  by code_simp

lemma sample_log: "\<exists>hash st. valid_log ([sealed emptyAuditChainState sample_event hash], st)"
  using append_valid [OF valid_log_empty sample_metadata] by auto


text \<open>
  C29. Pruning a valid log with a cutoff: if every event older than the cutoff comes before every
  other event, exactly the older ones are deleted and counted, the rest stays a valid log whose
  latest sequence number and hash are unchanged, so the next append continues the chain; otherwise
  pruning is refused and nothing is deleted.
\<close>

theorem prune_deletes_old_prefix:
  assumes "valid_log (es, st)"
  shows "if \<forall>e \<in> set (dropWhile (\<lambda>e. ev_CreatedAt e < before) es). before \<le> ev_CreatedAt e
    then \<exists>st'. pruneMemoryAuditEvents before (es, st) =
           (Inr (int (length (takeWhile (\<lambda>e. ev_CreatedAt e < before) es))),
            (dropWhile (\<lambda>e. ev_CreatedAt e < before) es, st')) \<and>
         valid_log (dropWhile (\<lambda>e. ev_CreatedAt e < before) es, st') \<and>
         acs_LatestSequence st' = acs_LatestSequence st \<and> acs_LatestEventHash st' = acs_LatestEventHash st
    else pruneMemoryAuditEvents before (es, st) =
           (Inl (ErrDetail ErrAuditIntegrity ''retention_cutoff_non_prefix''), (es, st))"
proof -
  have "old before = (\<lambda>e. ev_CreatedAt e < before)"
    by (auto simp: old_def)
  then show ?thesis
    using prune_valid [OF assms, of before] prune_non_prefix [OF assms, of before]
    by (auto simp: not_less not_le)
qed

theorem prune_deletes_old_prefix_witness:
  "\<exists>hash st st'. pruneMemoryAuditEvents 7 ([sealed emptyAuditChainState sample_event hash], st) = (Inr 1, ([], st')) \<and>
     valid_log ([], st')"
proof -
  obtain hash st where "valid_log ([sealed emptyAuditChainState sample_event hash], st)"
    using sample_log by blast
  from prune_deletes_old_prefix [OF this, of 7] show ?thesis
    by (auto simp: sealed_def sample_event_def)
qed



end
