(* ===== verification/MemoryStore.thy ===== *)
theory MemoryStore
  imports Tables AuditChain
begin

text \<open>
  The in-memory store, \<open>MemoryStore\<close> of \<open>service/internal/store/memory.go\<close>, which implements
  the interface \<open>Repository\<close> of \<open>store/store.go\<close>. Each method is a computation on the record of
  its tables. The methods of \<open>memoryTx\<close>, on which the body of a transaction runs, have the same
  bodies on the transaction's own copy of the tables; the lock that \<open>MemoryStore\<close> takes makes each
  method, and each transaction, one atomic step.
\<close>

named_theorems repo_defs \<open>definitions of the repository operations\<close>

section \<open>The tables\<close>

record memory_store =
  t_identities :: "Identity gomap"
  t_issuers :: "Issuer gomap"
  t_ocspResponders :: "OCSPResponder gomap"
  t_notifications :: "NotificationEndpoint gomap"
  t_profiles :: "CertificateProfile gomap"
  t_enrollments :: "Enrollment gomap"
  t_certificates :: "Certificate gomap"
  t_issuanceAttempts :: "IssuanceAttempt gomap"
  t_revocations :: "Revocation gomap"
  t_crls :: "CRLPublication gomap"
  t_crlClaims :: "CRLGenerationClaim gomap"
  t_audit :: audit_log
  t_outbox :: "OutboxMessage gomap"
  t_jobAttempts :: "JobAttempt gomap"
  t_webhookDeliveries :: "WebhookDelivery gomap"
  t_apiKeys :: "APIKey gomap"
  t_acmeAccounts :: "ACMEAccount gomap"
  t_acmeOrders :: "ACMEOrder gomap"
  t_acmeAuthzs :: "ACMEAuthorization gomap"
  t_acmeChallenges :: "ACMEChallenge gomap"

definition NewMemoryStore :: memory_store where
  "NewMemoryStore =
     \<lparr>t_identities = [], t_issuers = [], t_ocspResponders = [], t_notifications = [], t_profiles = [],
      t_enrollments = [], t_certificates = [], t_issuanceAttempts = [], t_revocations = [], t_crls = [],
      t_crlClaims = [], t_audit = ([], emptyAuditChainState), t_outbox = [], t_jobAttempts = [],
      t_webhookDeliveries = [], t_apiKeys = [], t_acmeAccounts = [], t_acmeOrders = [],
      t_acmeAuthzs = [], t_acmeChallenges = []\<rparr>"

text \<open>An update of one table that may fail.\<close>

abbreviation on_table ::
  "(memory_store \<Rightarrow> 't) \<Rightarrow> (('t \<Rightarrow> 't) \<Rightarrow> memory_store \<Rightarrow> memory_store) \<Rightarrow> ('t \<Rightarrow> err + 't) \<Rightarrow>
   (memory_store, err, unit) eff" where
  "on_table sel up f \<equiv> updE (\<lambda>s. case f (sel s) of Inl e \<Rightarrow> Inl e | Inr t \<Rightarrow> Inr (up (\<lambda>_. t) s))"

section \<open>The repository operations\<close>


definition repo_CreateIdentity :: "Identity \<Rightarrow> (memory_store, err, unit) eff" where
  [repo_defs]: "repo_CreateIdentity x = on_table t_identities t_identities_update (\<lambda>t. Inr (mput (idn_ID x) x t))"

definition repo_GetIdentity :: "string \<Rightarrow> (memory_store, err, Identity) eff" where
  [repo_defs]: "repo_GetIdentity ident = readE (\<lambda>s. lookup ErrIdentityNotFound (t_identities s) ident)"

definition repo_ListIdentities :: "(memory_store, err, Identity list) eff" where
  [repo_defs]: "repo_ListIdentities = getE (\<lambda>s. mvals (t_identities s))"

definition repo_CreateIssuer :: "Issuer \<Rightarrow> (memory_store, err, unit) eff" where
  [repo_defs]: "repo_CreateIssuer x = on_table t_issuers t_issuers_update (\<lambda>t. Inr (mput (iss_ID x) x t))"

definition repo_GetIssuer :: "string \<Rightarrow> (memory_store, err, Issuer) eff" where
  [repo_defs]: "repo_GetIssuer ident = readE (\<lambda>s. lookup ErrIssuerNotFound (t_issuers s) ident)"

definition repo_ListIssuers :: "(memory_store, err, Issuer list) eff" where
  [repo_defs]: "repo_ListIssuers = getE (\<lambda>s. mvals (t_issuers s))"

definition repo_CreateOCSPResponder :: "OCSPResponder \<Rightarrow> (memory_store, err, unit) eff" where
  [repo_defs]: "repo_CreateOCSPResponder x = on_table t_ocspResponders t_ocspResponders_update (\<lambda>t.
     if rsp_Status x = OCSPResponderActive \<and>
        (case activeOCSPResponderByIssuer t (rsp_IssuerID x) of Inl _ \<Rightarrow> False | Inr _ \<Rightarrow> True)
     then Inl ErrInvalidTransition
     else Inr (mput (rsp_ID x) x t))"

definition repo_GetOCSPResponder :: "string \<Rightarrow> (memory_store, err, OCSPResponder) eff" where
  [repo_defs]: "repo_GetOCSPResponder ident = readE (\<lambda>s. lookup ErrOCSPResponderNotFound (t_ocspResponders s) ident)"

definition repo_ListOCSPRespondersByIssuer :: "string \<Rightarrow> (memory_store, err, OCSPResponder list) eff" where
  [repo_defs]: "repo_ListOCSPRespondersByIssuer issuerID = getE (\<lambda>s. listOCSPRespondersByIssuer (t_ocspResponders s) issuerID)"

definition repo_GetActiveOCSPResponderByIssuer :: "string \<Rightarrow> (memory_store, err, OCSPResponder) eff" where
  [repo_defs]: "repo_GetActiveOCSPResponderByIssuer issuerID =
     readE (\<lambda>s. activeOCSPResponderByIssuer (t_ocspResponders s) issuerID)"

definition repo_UpdateOCSPResponderIfStatus :: "OCSPResponder \<Rightarrow> OCSPResponderStatus \<Rightarrow> (memory_store, err, unit) eff" where
  [repo_defs]: "repo_UpdateOCSPResponderIfStatus x currentStatus =
     on_table t_ocspResponders t_ocspResponders_update (\<lambda>t. updateOCSPResponderIfStatus t x currentStatus)"

definition repo_CreateNotificationEndpoint :: "NotificationEndpoint \<Rightarrow> (memory_store, err, unit) eff" where
  [repo_defs]: "repo_CreateNotificationEndpoint x = on_table t_notifications t_notifications_update (\<lambda>t. Inr (mput (ep_ID x) x t))"

definition repo_GetNotificationEndpoint :: "string \<Rightarrow> (memory_store, err, NotificationEndpoint) eff" where
  [repo_defs]: "repo_GetNotificationEndpoint ident = readE (\<lambda>s. lookup ErrNotificationEndpointNotFound (t_notifications s) ident)"

definition repo_ListNotificationEndpoints :: "(memory_store, err, NotificationEndpoint list) eff" where
  [repo_defs]: "repo_ListNotificationEndpoints = getE (\<lambda>s. listNotificationEndpoints (t_notifications s))"

definition repo_UpdateNotificationEndpointIfStatus :: "NotificationEndpoint \<Rightarrow> NotificationEndpointStatus \<Rightarrow> (memory_store, err, unit) eff" where
  [repo_defs]: "repo_UpdateNotificationEndpointIfStatus x currentStatus =
     on_table t_notifications t_notifications_update (\<lambda>t. updateNotificationEndpointIfStatus t x currentStatus)"

definition repo_CreateCertificateProfile :: "CertificateProfile \<Rightarrow> (memory_store, err, unit) eff" where
  [repo_defs]: "repo_CreateCertificateProfile x = on_table t_profiles t_profiles_update (\<lambda>t. Inr (mput (prof_ID x) x t))"

definition repo_GetCertificateProfile :: "string \<Rightarrow> (memory_store, err, CertificateProfile) eff" where
  [repo_defs]: "repo_GetCertificateProfile ident = readE (\<lambda>s. lookup ErrCertificateProfileNotFound (t_profiles s) ident)"

definition repo_ListCertificateProfiles :: "(memory_store, err, CertificateProfile list) eff" where
  [repo_defs]: "repo_ListCertificateProfiles = getE (\<lambda>s. mvals (t_profiles s))"

definition repo_UpdateCertificateProfileIssuerIfCurrent ::
  "CertificateProfile \<Rightarrow> string \<Rightarrow> time \<Rightarrow> (memory_store, err, unit) eff" where
  [repo_defs]: "repo_UpdateCertificateProfileIssuerIfCurrent x currentIssuerID currentUpdatedAt =
     on_table t_profiles t_profiles_update
       (\<lambda>t. updateCertificateProfileIssuerIfCurrent t x currentIssuerID currentUpdatedAt)"

definition repo_CreateEnrollment :: "Enrollment \<Rightarrow> (memory_store, err, unit) eff" where
  [repo_defs]: "repo_CreateEnrollment x = on_table t_enrollments t_enrollments_update (\<lambda>t. Inr (mput (enr_ID x) x t))"

definition repo_GetEnrollment :: "string \<Rightarrow> (memory_store, err, Enrollment) eff" where
  [repo_defs]: "repo_GetEnrollment ident = readE (\<lambda>s. lookup ErrEnrollmentNotFound (t_enrollments s) ident)"

definition repo_ListEnrollments :: "(memory_store, err, Enrollment list) eff" where
  [repo_defs]: "repo_ListEnrollments = getE (\<lambda>s. mvals (t_enrollments s))"

definition repo_UpdateEnrollment :: "Enrollment \<Rightarrow> (memory_store, err, unit) eff" where
  [repo_defs]: "repo_UpdateEnrollment x = on_table t_enrollments t_enrollments_update (\<lambda>t.
     if mget t (enr_ID x) = None then Inl ErrEnrollmentNotFound else Inr (mput (enr_ID x) x t))"

definition repo_UpdateEnrollmentIfStatus :: "Enrollment \<Rightarrow> EnrollmentStatus \<Rightarrow> (memory_store, err, unit) eff" where
  [repo_defs]: "repo_UpdateEnrollmentIfStatus x currentStatus =
     on_table t_enrollments t_enrollments_update (\<lambda>t. updateEnrollmentIfStatus t x currentStatus)"

definition repo_CreateCertificate :: "Certificate \<Rightarrow> (memory_store, err, unit) eff" where
  [repo_defs]: "repo_CreateCertificate x = on_table t_certificates t_certificates_update (\<lambda>t.
     case ensureCertificateFinalizationKeysAvailable t x of
       Inl e \<Rightarrow> Inl e
     | Inr _ \<Rightarrow> Inr (mput (cert_ID x) x t))"

definition repo_GetCertificate :: "string \<Rightarrow> (memory_store, err, Certificate) eff" where
  [repo_defs]: "repo_GetCertificate ident = readE (\<lambda>s. lookup ErrCertificateNotFound (t_certificates s) ident)"

definition repo_GetCertificateByEnrollmentID :: "string \<Rightarrow> (memory_store, err, Certificate) eff" where
  [repo_defs]: "repo_GetCertificateByEnrollmentID enrollmentID =
     readE (\<lambda>s. certificateByEnrollmentID (t_certificates s) enrollmentID)"

definition repo_ListCertificates :: "(memory_store, err, Certificate list) eff" where
  [repo_defs]: "repo_ListCertificates = getE (\<lambda>s. mvals (t_certificates s))"

definition repo_ListCertificatesExpiringWithin :: "time \<Rightarrow> time \<Rightarrow> int \<Rightarrow> int \<Rightarrow> (memory_store, err, Certificate list) eff" where
  [repo_defs]: "repo_ListCertificatesExpiringWithin now cutoff limit offset = getE (\<lambda>s. listCertificatesExpiringWithin (t_certificates s) now cutoff limit offset)"

definition repo_ListCertificatesForExpirationScan :: "time \<Rightarrow> time \<Rightarrow> int \<Rightarrow> (memory_store, err, Certificate list) eff" where
  [repo_defs]: "repo_ListCertificatesForExpirationScan now warningBefore limit = getE (\<lambda>s. listCertificatesForExpirationScan (t_certificates s) now warningBefore limit)"

definition repo_UpdateCertificate :: "Certificate \<Rightarrow> (memory_store, err, unit) eff" where
  [repo_defs]: "repo_UpdateCertificate x = on_table t_certificates t_certificates_update (\<lambda>t.
     if mget t (cert_ID x) = None then Inl ErrCertificateNotFound else Inr (mput (cert_ID x) x t))"

definition repo_UpdateCertificateIfStatus :: "Certificate \<Rightarrow> CertificateStatus \<Rightarrow> (memory_store, err, unit) eff" where
  [repo_defs]: "repo_UpdateCertificateIfStatus x currentStatus =
     on_table t_certificates t_certificates_update (\<lambda>t. updateCertificateIfStatus t x currentStatus)"

definition repo_CreateIssuanceAttempt :: "IssuanceAttempt \<Rightarrow> (memory_store, err, unit) eff" where
  [repo_defs]: "repo_CreateIssuanceAttempt x =
     on_table t_issuanceAttempts t_issuanceAttempts_update (\<lambda>t. createIssuanceAttempt t x)"

definition repo_GetIssuanceAttempt :: "string \<Rightarrow> (memory_store, err, IssuanceAttempt) eff" where
  [repo_defs]: "repo_GetIssuanceAttempt ident = readE (\<lambda>s. lookup ErrIssuanceAttemptNotFound (t_issuanceAttempts s) ident)"

definition repo_UpdateIssuanceAttemptIfCurrent :: "IssuanceAttempt \<Rightarrow> IssuanceAttempt \<Rightarrow> (memory_store, err, unit) eff" where
  [repo_defs]: "repo_UpdateIssuanceAttemptIfCurrent x current =
     on_table t_issuanceAttempts t_issuanceAttempts_update (\<lambda>t. updateIssuanceAttemptIfCurrent t x current)"

definition repo_CreateRevocation :: "Revocation \<Rightarrow> (memory_store, err, unit) eff" where
  [repo_defs]: "repo_CreateRevocation x = on_table t_revocations t_revocations_update (\<lambda>t. Inr (mput (rev_ID x) x t))"

definition repo_ListRevocationsByIssuer :: "string \<Rightarrow> (memory_store, err, RevokedCertificateEntry list) eff" where
  [repo_defs]: "repo_ListRevocationsByIssuer issuerID = getE (\<lambda>s. listRevocationsByIssuer (t_certificates s) (t_revocations s) issuerID)"

definition repo_CreateCRLPublication :: "CRLPublication \<Rightarrow> (memory_store, err, unit) eff" where
  [repo_defs]: "repo_CreateCRLPublication x = on_table t_crls t_crls_update (\<lambda>t.
     case ensureCRLPublicationNumberAvailable t x of
       Inl e \<Rightarrow> Inl e
     | Inr _ \<Rightarrow> Inr (mput (crl_ID x) x t))"

definition repo_GetCRLPublication :: "string \<Rightarrow> (memory_store, err, CRLPublication) eff" where
  [repo_defs]: "repo_GetCRLPublication ident = readE (\<lambda>s. lookup ErrCRLPublicationNotFound (t_crls s) ident)"

definition repo_GetLatestCRLPublicationByIssuer :: "string \<Rightarrow> (memory_store, err, CRLPublication) eff" where
  [repo_defs]: "repo_GetLatestCRLPublicationByIssuer issuerID =
     readE (\<lambda>s. latestCRLPublicationByIssuer (t_crls s) issuerID)"

definition repo_ListCRLPublicationsByIssuer :: "string \<Rightarrow> (memory_store, err, CRLPublication list) eff" where
  [repo_defs]: "repo_ListCRLPublicationsByIssuer issuerID = getE (\<lambda>s. listCRLPublicationsByIssuer (t_crls s) issuerID)"

definition repo_CreateCRLGenerationClaim :: "CRLGenerationClaim \<Rightarrow> (memory_store, err, unit) eff" where
  [repo_defs]: "repo_CreateCRLGenerationClaim x =
     on_table t_crlClaims t_crlClaims_update (\<lambda>t. createCRLGenerationClaim t x)"

definition repo_GetCRLGenerationClaim :: "string \<Rightarrow> string \<Rightarrow> (memory_store, err, CRLGenerationClaim) eff" where
  [repo_defs]: "repo_GetCRLGenerationClaim issuerID distributionPoint =
     readE (\<lambda>s. lookup ErrCRLGenerationClaimNotFound (t_crlClaims s)
       (crlGenerationClaimKey issuerID distributionPoint))"

definition repo_UpdateCRLGenerationClaimIfCurrent :: "CRLGenerationClaim \<Rightarrow> CRLGenerationClaim \<Rightarrow> (memory_store, err, unit) eff" where
  [repo_defs]: "repo_UpdateCRLGenerationClaimIfCurrent x current =
     on_table t_crlClaims t_crlClaims_update (\<lambda>t. updateCRLGenerationClaimIfCurrent t x current)"

definition repo_DeleteCRLGenerationClaimIfCurrent :: "CRLGenerationClaim \<Rightarrow> (memory_store, err, unit) eff" where
  [repo_defs]: "repo_DeleteCRLGenerationClaimIfCurrent current =
     on_table t_crlClaims t_crlClaims_update (\<lambda>t. deleteCRLGenerationClaimIfCurrent t current)"

definition repo_CreateAuditEvent :: "AuditEvent \<Rightarrow> (memory_store, err, unit) eff" where
  "repo_CreateAuditEvent event = (\<lambda>s.
     case appendMemoryAuditEvent event (t_audit s) of (r, log) \<Rightarrow> (r, s\<lparr>t_audit := log\<rparr>))"

definition repo_ListAuditEvents :: "(memory_store, err, AuditEvent list) eff" where
  [repo_defs]: "repo_ListAuditEvents = getE (\<lambda>s. fst (t_audit s))"

definition repo_VerifyAuditChain :: "(memory_store, err, AuditIntegrity) eff" where
  [repo_defs]: "repo_VerifyAuditChain = getE (\<lambda>s. verifyAuditState (fst (t_audit s)) (snd (t_audit s)))"

definition repo_DeleteAuditEventsBefore :: "time \<Rightarrow> (memory_store, err, int) eff" where
  "repo_DeleteAuditEventsBefore before = (\<lambda>s.
     case pruneMemoryAuditEvents before (t_audit s) of (r, log) \<Rightarrow> (r, s\<lparr>t_audit := log\<rparr>))"

definition repo_CreateOutboxMessage :: "OutboxMessage \<Rightarrow> (memory_store, err, unit) eff" where
  [repo_defs]: "repo_CreateOutboxMessage x = on_table t_outbox t_outbox_update (\<lambda>t. Inr (mput (msg_ID x) x t))"

definition repo_GetOutboxMessage :: "string \<Rightarrow> (memory_store, err, OutboxMessage) eff" where
  [repo_defs]: "repo_GetOutboxMessage ident = readE (\<lambda>s. lookup ErrOutboxMessageNotFound (t_outbox s) ident)"

definition repo_ListOutboxMessages :: "OutboxMessageStatus \<Rightarrow> (memory_store, err, OutboxMessage list) eff" where
  [repo_defs]: "repo_ListOutboxMessages status = getE (\<lambda>s. listOutboxMessages (t_outbox s) status)"

definition repo_ListDueOutboxMessages :: "time \<Rightarrow> int \<Rightarrow> (memory_store, err, OutboxMessage list) eff" where
  [repo_defs]: "repo_ListDueOutboxMessages now limit = getE (\<lambda>s. listDueOutboxMessages (t_outbox s) now limit)"

definition repo_UpdateOutboxMessageStatusIfStatus :: "OutboxMessage \<Rightarrow> OutboxMessageStatus \<Rightarrow> (memory_store, err, unit) eff" where
  [repo_defs]: "repo_UpdateOutboxMessageStatusIfStatus x currentStatus =
     on_table t_outbox t_outbox_update (\<lambda>t. updateOutboxMessageStatusIfStatus t x currentStatus)"

definition repo_UpdateOutboxMessageIfCurrent :: "OutboxMessage \<Rightarrow> OutboxMessage \<Rightarrow> (memory_store, err, unit) eff" where
  [repo_defs]: "repo_UpdateOutboxMessageIfCurrent x current =
     on_table t_outbox t_outbox_update (\<lambda>t. updateOutboxMessageIfCurrent t x current)"

definition repo_CreateJobAttempt :: "JobAttempt \<Rightarrow> (memory_store, err, unit) eff" where
  [repo_defs]: "repo_CreateJobAttempt x = on_table t_jobAttempts t_jobAttempts_update (\<lambda>t. Inr (mput (job_ID x) x t))"

definition repo_ListJobAttemptsByOutboxMessage :: "string \<Rightarrow> (memory_store, err, JobAttempt list) eff" where
  [repo_defs]: "repo_ListJobAttemptsByOutboxMessage outboxMessageID = getE (\<lambda>s. listJobAttemptsByOutboxMessage (t_jobAttempts s) outboxMessageID)"

definition repo_GetWebhookDelivery :: "string \<Rightarrow> string \<Rightarrow> (memory_store, err, WebhookDelivery) eff" where
  [repo_defs]: "repo_GetWebhookDelivery outboxMessageID endpointID =
     readE (\<lambda>s. lookup ErrWebhookDeliveryNotFound (t_webhookDeliveries s)
       (webhookDeliveryKey outboxMessageID endpointID))"

definition repo_UpsertWebhookDelivery :: "WebhookDelivery \<Rightarrow> (memory_store, err, unit) eff" where
  [repo_defs]: "repo_UpsertWebhookDelivery x =
     on_table t_webhookDeliveries t_webhookDeliveries_update
       (\<lambda>t. Inr (mput (webhookDeliveryKey (whd_OutboxMessageID x) (whd_EndpointID x)) x t))"

definition repo_CreateAPIKey :: "APIKey \<Rightarrow> (memory_store, err, unit) eff" where
  [repo_defs]: "repo_CreateAPIKey x = on_table t_apiKeys t_apiKeys_update (\<lambda>t. Inr (mput (key_ID x) x t))"

definition repo_GetAPIKey :: "string \<Rightarrow> (memory_store, err, APIKey) eff" where
  [repo_defs]: "repo_GetAPIKey ident = readE (\<lambda>s. lookup ErrAPIKeyNotFound (t_apiKeys s) ident)"

definition repo_GetAPIKeyByTokenHash :: "string \<Rightarrow> (memory_store, err, APIKey) eff" where
  [repo_defs]: "repo_GetAPIKeyByTokenHash tokenHash = readE (\<lambda>s. apiKeyByTokenHash (t_apiKeys s) tokenHash)"

definition repo_ListAPIKeys :: "(memory_store, err, APIKey list) eff" where
  [repo_defs]: "repo_ListAPIKeys = getE (\<lambda>s. listAPIKeys (t_apiKeys s))"

definition repo_UpdateAPIKeyIfStatus :: "APIKey \<Rightarrow> APIKeyStatus \<Rightarrow> (memory_store, err, unit) eff" where
  [repo_defs]: "repo_UpdateAPIKeyIfStatus x currentStatus =
     on_table t_apiKeys t_apiKeys_update (\<lambda>t. updateAPIKeyIfStatus t x currentStatus)"

definition repo_CreateACMEAccount :: "ACMEAccount \<Rightarrow> (memory_store, err, unit) eff" where
  [repo_defs]: "repo_CreateACMEAccount x = on_table t_acmeAccounts t_acmeAccounts_update (\<lambda>t.
     case ensureACMEAccountThumbprintAvailable t x of
       Inl e \<Rightarrow> Inl e
     | Inr _ \<Rightarrow> Inr (mput (acct_ID x) x t))"

definition repo_GetACMEAccount :: "string \<Rightarrow> (memory_store, err, ACMEAccount) eff" where
  [repo_defs]: "repo_GetACMEAccount ident = readE (\<lambda>s. lookup ErrACMEAccountNotFound (t_acmeAccounts s) ident)"

definition repo_ListACMEAccounts :: "(memory_store, err, ACMEAccount list) eff" where
  [repo_defs]: "repo_ListACMEAccounts = getE (\<lambda>s. listACMEAccounts (t_acmeAccounts s))"

definition repo_UpdateACMEAccountIfStatus :: "ACMEAccount \<Rightarrow> ACMEAccountStatus \<Rightarrow> (memory_store, err, unit) eff" where
  [repo_defs]: "repo_UpdateACMEAccountIfStatus x currentStatus =
     on_table t_acmeAccounts t_acmeAccounts_update (\<lambda>t. updateACMEAccountIfStatus t x currentStatus)"

definition repo_CreateACMEOrder :: "ACMEOrder \<Rightarrow> (memory_store, err, unit) eff" where
  [repo_defs]: "repo_CreateACMEOrder x = on_table t_acmeOrders t_acmeOrders_update (\<lambda>t. Inr (mput (ord_ID x) x t))"

definition repo_GetACMEOrder :: "string \<Rightarrow> (memory_store, err, ACMEOrder) eff" where
  [repo_defs]: "repo_GetACMEOrder ident = readE (\<lambda>s. lookup ErrACMEOrderNotFound (t_acmeOrders s) ident)"

definition repo_ListACMEOrdersByAccount :: "string \<Rightarrow> (memory_store, err, ACMEOrder list) eff" where
  [repo_defs]: "repo_ListACMEOrdersByAccount accountID = getE (\<lambda>s. listACMEOrdersByAccount (t_acmeOrders s) accountID)"

definition repo_UpdateACMEOrderIfStatus :: "ACMEOrder \<Rightarrow> ACMEOrderStatus \<Rightarrow> (memory_store, err, unit) eff" where
  [repo_defs]: "repo_UpdateACMEOrderIfStatus x currentStatus =
     on_table t_acmeOrders t_acmeOrders_update (\<lambda>t. updateACMEOrderIfStatus t x currentStatus)"

definition repo_CreateACMEAuthorization :: "ACMEAuthorization \<Rightarrow> (memory_store, err, unit) eff" where
  [repo_defs]: "repo_CreateACMEAuthorization x = on_table t_acmeAuthzs t_acmeAuthzs_update (\<lambda>t. Inr (mput (authz_ID x) x t))"

definition repo_GetACMEAuthorization :: "string \<Rightarrow> (memory_store, err, ACMEAuthorization) eff" where
  [repo_defs]: "repo_GetACMEAuthorization ident = readE (\<lambda>s. lookup ErrACMEAuthorizationNotFound (t_acmeAuthzs s) ident)"

definition repo_ListACMEAuthorizationsByOrder :: "string \<Rightarrow> (memory_store, err, ACMEAuthorization list) eff" where
  [repo_defs]: "repo_ListACMEAuthorizationsByOrder orderID = getE (\<lambda>s. listACMEAuthorizationsByOrder (t_acmeAuthzs s) orderID)"

definition repo_UpdateACMEAuthorizationIfStatus :: "ACMEAuthorization \<Rightarrow> ACMEAuthorizationStatus \<Rightarrow> (memory_store, err, unit) eff" where
  [repo_defs]: "repo_UpdateACMEAuthorizationIfStatus x currentStatus =
     on_table t_acmeAuthzs t_acmeAuthzs_update (\<lambda>t. updateACMEAuthorizationIfStatus t x currentStatus)"

definition repo_CreateACMEChallenge :: "ACMEChallenge \<Rightarrow> (memory_store, err, unit) eff" where
  [repo_defs]: "repo_CreateACMEChallenge x = on_table t_acmeChallenges t_acmeChallenges_update (\<lambda>t. Inr (mput (chal_ID x) x t))"

definition repo_GetACMEChallenge :: "string \<Rightarrow> (memory_store, err, ACMEChallenge) eff" where
  [repo_defs]: "repo_GetACMEChallenge ident = readE (\<lambda>s. lookup ErrACMEChallengeNotFound (t_acmeChallenges s) ident)"

definition repo_ListACMEChallengesByAuthorization :: "string \<Rightarrow> (memory_store, err, ACMEChallenge list) eff" where
  [repo_defs]: "repo_ListACMEChallengesByAuthorization authorizationID = getE (\<lambda>s. listACMEChallengesByAuthorization (t_acmeChallenges s) authorizationID)"

definition repo_UpdateACMEChallengeIfStatus :: "ACMEChallenge \<Rightarrow> ACMEChallengeStatus \<Rightarrow> (memory_store, err, unit) eff" where
  [repo_defs]: "repo_UpdateACMEChallengeIfStatus x currentStatus =
     on_table t_acmeChallenges t_acmeChallenges_update (\<lambda>t. updateACMEChallengeIfStatus t x currentStatus)"

end
