(* ===== verification/CoreCli.thy ===== *)
theory CoreCli
  imports Encoding
begin

text \<open>
  The interface to the cryptographic core, \<open>service/internal/corecli\<close>, and key references,
  \<open>service/internal/keyref\<close>: the requests and results of the core's commands, the check of the
  signing evidence it returns and of its backend description, and the classification of key
  references. The core itself is a separate program; the service calls it through the interface
  \<open>CertificateIssuer\<close>, which is a parameter of the model. DER bytes are strings.
\<close>

section \<open>Requests and results\<close>

record IssueRequest =
  ireq_CSRPEM :: string
  ireq_IssuerCertificatePEM :: string
  ireq_IssuerKeyRef :: string
  ireq_AIAURL :: string
  ireq_CRLDistributionPoints :: "string list"
  ireq_Subject :: string
  ireq_DNSNames :: "string list"
  ireq_IPAddresses :: "string list"
  ireq_NotBefore :: time
  ireq_NotAfter :: time
  ireq_SignatureAlgorithm :: string
  ireq_ProfileID :: string
  ireq_BasicConstraintsCritical :: bool
  ireq_BasicConstraintsCA :: bool
  ireq_BasicConstraintsMaxPathLen :: "int option"
  ireq_KeyUsageCritical :: bool
  ireq_KeyUsage :: "string list"
  ireq_ExtendedKeyUsageCritical :: bool
  ireq_ExtendedKeyUsage :: "string list"
  ireq_SubjectKeyIdentifier :: bool
  ireq_AuthorityKeyIdentifier :: bool

record SigningEvidence =
  sev_SchemaVersion :: int
  sev_EvidenceSource :: string
  sev_Operation :: string
  sev_ProviderID :: string
  sev_ProviderClass :: string
  sev_ProviderReadiness :: string
  sev_ProviderExportability :: string
  sev_ReferenceClass :: string
  sev_KeyAlgorithm :: string
  sev_RequestedSignatureAlgorithm :: string
  sev_IssuerBindingVerified :: bool
  sev_FallbackUsed :: bool
  sev_ResultCode :: string

record IssueResult =
  ires_CertificatePEM :: string
  ires_SerialNumber :: string
  ires_Subject :: string
  ires_NotBefore :: time
  ires_NotAfter :: time
  ires_SigningEvidence :: SigningEvidence

record CSRInfo =
  csr_Subject :: string
  csr_DNSNames :: "string list"
  csr_IPAddresses :: "string list"
  csr_PublicKeyAlgorithm :: string
  csr_PublicKeySizeBits :: int
  csr_SignatureAlgorithm :: string
  csr_ExtensionOIDs :: "string list"

record RevokedCertificate =
  rvk_SerialNumber :: string
  rvk_RevokedAt :: time
  rvk_Reason :: string

record GenerateCRLRequest =
  greq_IssuerCertificatePEM :: string
  greq_IssuerKeyRef :: string
  greq_CRLNumber :: int
  greq_ThisUpdate :: time
  greq_NextUpdate :: time
  greq_RevokedCertificates :: "RevokedCertificate list"

record GenerateCRLResult =
  gres_CRLPEM :: string
  gres_SigningEvidence :: SigningEvidence

record OCSPCertificateID =
  oid_SerialNumber :: string
  oid_IssuerNameHash :: string
  oid_IssuerKeyHash :: string
  oid_HashAlgorithm :: string

record OCSPRequestInfo =
  oinfo_Certificates :: "OCSPCertificateID list"
  oinfo_HasNonce :: bool
  oinfo_NonceHex :: string

record OCSPIssuerInfo =
  oiss_IssuerNameHash :: string
  oiss_IssuerKeyHash :: string
  oiss_HashAlgorithm :: string

record ValidateOCSPResponderResult =
  vres_Valid :: bool

record OCSPCertificateStatus =
  ocs_SerialNumber :: string
  ocs_Status :: string
  ocs_RevokedAt :: time
  ocs_RevocationReason :: string
  ocs_HashAlgorithm :: string
  ocs_IssuerNameHash :: string
  ocs_IssuerKeyHash :: string

record GenerateOCSPResponseRequest =
  oreq_RequestDER :: string
  oreq_IssuerCertificatePEM :: string
  oreq_IssuerKeyRef :: string
  oreq_ThisUpdate :: time
  oreq_NextUpdate :: time
  oreq_Certificates :: "OCSPCertificateStatus list"

record GenerateOCSPResponseResult =
  ores_ResponseDER :: string
  ores_SigningEvidence :: SigningEvidence


section \<open>Signing evidence\<close>

definition ValidateSigningEvidence :: "SigningEvidence \<Rightarrow> string \<Rightarrow> string \<Rightarrow> err + unit" where
  "ValidateSigningEvidence evidence expectedOperation expectedAlgorithm =
     (if sev_SchemaVersion evidence \<noteq> 1 \<or>
         sev_EvidenceSource evidence \<noteq> ''core_signing'' \<or>
         sev_Operation evidence \<noteq> expectedOperation \<or>
         TrimSpace (sev_ProviderID evidence) = [] \<or>
         TrimSpace (sev_ProviderClass evidence) = [] \<or>
         sev_ProviderReadiness evidence \<noteq> ''ready'' \<or>
         (sev_ProviderExportability evidence \<noteq> ''exportable'' \<and>
          sev_ProviderExportability evidence \<noteq> ''non_exportable'') \<or>
         TrimSpace (sev_ReferenceClass evidence) = [] \<or>
         TrimSpace (sev_KeyAlgorithm evidence) = [] \<or>
         sev_RequestedSignatureAlgorithm evidence \<noteq> expectedAlgorithm \<or>
         \<not> sev_IssuerBindingVerified evidence \<or>
         sev_FallbackUsed evidence \<or>
         sev_ResultCode evidence \<noteq> ''ok''
      then Inl (ErrText ''validate signing evidence: inconsistent core signing result'')
      else Inr ())"

text \<open>\<open>json.Marshal\<close> of the evidence, which the service stores with the issuance attempt.\<close>

definition SigningEvidence_json :: "SigningEvidence \<Rightarrow> json" where
  "SigningEvidence_json e = JObj
     [(''schema_version'', JInt (sev_SchemaVersion e)),
      (''evidence_source'', JStr (sev_EvidenceSource e)),
      (''operation'', JStr (sev_Operation e)),
      (''provider_id'', JStr (sev_ProviderID e)),
      (''provider_class'', JStr (sev_ProviderClass e)),
      (''provider_readiness'', JStr (sev_ProviderReadiness e)),
      (''provider_exportability'', JStr (sev_ProviderExportability e)),
      (''reference_class'', JStr (sev_ReferenceClass e)),
      (''key_algorithm'', JStr (sev_KeyAlgorithm e)),
      (''requested_signature_algorithm'', JStr (sev_RequestedSignatureAlgorithm e)),
      (''issuer_binding_verified'', JBool (sev_IssuerBindingVerified e)),
      (''fallback_used'', JBool (sev_FallbackUsed e)),
      (''result_code'', JStr (sev_ResultCode e))]"

section \<open>Backend description\<close>

record BackendInfo =
  be_ProductProfile :: string
  be_Edition :: string
  be_SelectedBackend :: string
  be_FallbackEnabled :: bool
  be_BackendID :: string
  be_BackendDependency :: string
  be_BackendVersion :: string
  be_BackendReadiness :: string
  be_BackendCapabilities :: "string list"
  be_BackendABIVersion :: int
  be_BackendBuildFingerprint :: string

fun capabilities_ok :: "string list \<Rightarrow> string list \<Rightarrow> err + unit" where
  "capabilities_ok [] seen = Inr ()"
| "capabilities_ok (c # cs) seen =
     (let capability = TrimSpace c in
      if capability = [] then Inl (ErrText ''validate backend info: blank capability'')
      else if capability \<in> set seen then Inl (ErrText ''validate backend info: duplicate capability'')
      else capabilities_ok cs (capability # seen))"

text \<open>The names of the empty fields are visited in map order, so which one is reported is open.\<close>

definition ValidateBackendInfo :: "BackendInfo \<Rightarrow> err + unit" where
  "ValidateBackendInfo info =
     (if list_ex (\<lambda>value. TrimSpace value = [])
           [be_ProductProfile info, be_Edition info, be_SelectedBackend info, be_BackendID info,
            be_BackendDependency info, be_BackendVersion info, be_BackendReadiness info,
            be_BackendBuildFingerprint info]
      then Inl (ErrText ''validate backend info: empty'')
      else if be_FallbackEnabled info then Inl (ErrText ''validate backend info: fallback must be disabled'')
      else if be_SelectedBackend info \<noteq> be_BackendID info
      then Inl (ErrText ''validate backend info: selected backend does not match backend id'')
      else if be_BackendReadiness info \<noteq> ''ready''
      then Inl (ErrText ''validate backend info: backend is not ready'')
      else if be_BackendABIVersion info = 0
      then Inl (ErrText ''validate backend info: backend ABI version is zero'')
      else capabilities_ok (be_BackendCapabilities info) [])"

section \<open>Key references\<close>

text \<open>\<open>unicode.IsLetter\<close> on the code points up to 255.\<close>

definition latin1_letter :: "char \<Rightarrow> bool" where
  "latin1_letter c =
     (let n = (of_char c :: nat) in
      (65 \<le> n \<and> n \<le> 90) \<or> (97 \<le> n \<and> n \<le> 122) \<or> n = 170 \<or> n = 181 \<or> n = 186 \<or>
      (192 \<le> n \<and> n \<le> 214) \<or> (216 \<le> n \<and> n \<le> 246) \<or> 248 \<le> n)"

definition looksLikeWindowsAbs :: "string \<Rightarrow> bool" where
  "looksLikeWindowsAbs ref =
     (case ref of
        a # b # c # _ \<Rightarrow> latin1_letter a \<and> b = CHR '':'' \<and> (c = CHR 0x5C \<or> c = CHR ''/'')
      | _ \<Rightarrow> False)"

definition keyref_Class :: "string \<Rightarrow> string" where
  "keyref_Class ref =
     (let trimmed = TrimSpace ref in
      if HasPrefix (ToLower trimmed) ''file:'' \<or> looksLikeWindowsAbs trimmed then ''file''
      else case Cut trimmed (CHR '':'') of
        (before, _, found) \<Rightarrow> if found \<and> before \<noteq> [] then ToLower before else ''file'')"

definition keyref_FilePath :: "string \<Rightarrow> string" where
  "keyref_FilePath ref =
     (let trimmed = TrimSpace ref in
      if HasPrefix (ToLower trimmed) ''file:'' then TrimSpace (drop 5 trimmed) else trimmed)"

definition keyref_Exportability :: "string \<Rightarrow> string" where
  "keyref_Exportability ref =
     (let c = keyref_Class ref in
      if c = ''file'' then ''exportable''
      else if c = ''kms'' \<or> c = ''pkcs11'' then ''non_exportable_expected''
      else ''unknown'')"

record ProviderInfo =
  pi_Class :: string
  pi_Exportability :: string

definition FileProvider_CheckReady :: "string \<Rightarrow> err + ProviderInfo" where
  "FileProvider_CheckReady ref = Inr \<lparr>pi_Class = keyref_Class ref, pi_Exportability = keyref_Exportability ref\<rparr>"

end
