(* ===== verification/ServiceBase.thy ===== *)
theory ServiceBase
  imports MemoryStore CoreCli
begin

text \<open>
  The frame of the lifecycle service, \<open>service/internal/lifecycle/service.go\<close>: its
  configuration and collaborators (\<open>Service\<close>), the world its operations run in, transactions,
  and the helpers that every operation uses to write audit events and outbox messages.
\<close>

section \<open>The service and its world\<close>

datatype CAADNSSECStatus =
    CAADNSSECSecure
  | CAADNSSECInsecure
  | CAADNSSECBogus
  | CAADNSSECIndeterminate
  | CAADNSSECStatusOther string

record CAARecord =
  caa_Flag :: int
  caa_Tag :: string
  caa_Value :: string

record CAALookupResult =
  caal_Records :: "CAARecord list"
  caal_DNSSECStatus :: CAADNSSECStatus

record PublicTLSLintRequest =
  lint_Enrollment :: Enrollment
  lint_Profile :: CertificateProfile
  lint_CSRInfo :: CSRInfo

text \<open>
  A collaborator that is outside of the sources (clock, identifier generator, core, key
  provider, DNS, HTTP, entropy) is a function. It takes the number of the interaction as an
  argument, so that it can answer every call differently.
\<close>

record PublicTLSCAAPolicy =
  caap_IssuerDomain :: string
  caap_AccountURI :: string
  caap_ValidationMethod :: string
  caap_AllowDNSSECIndeterminate :: bool
  caap_Lookup :: "nat \<Rightarrow> string \<Rightarrow> err + CAALookupResult"

record service =
  svc_Issue :: "nat \<Rightarrow> IssueRequest \<Rightarrow> err + IssueResult"
  svc_InspectCSR :: "nat \<Rightarrow> string \<Rightarrow> err + CSRInfo"
  svc_GenerateCRL :: "nat \<Rightarrow> GenerateCRLRequest \<Rightarrow> err + GenerateCRLResult"
  svc_InspectOCSPIssuer :: "nat \<Rightarrow> string \<Rightarrow> string \<Rightarrow> err + OCSPIssuerInfo"
  svc_ValidateOCSPResponder :: "nat \<Rightarrow> string \<Rightarrow> string \<Rightarrow> err + ValidateOCSPResponderResult"
  svc_InspectOCSP :: "nat \<Rightarrow> string \<Rightarrow> err + OCSPRequestInfo"
  svc_GenerateOCSPResponse :: "nat \<Rightarrow> GenerateOCSPResponseRequest \<Rightarrow> err + GenerateOCSPResponseResult"
  svc_keyProvider :: "nat \<Rightarrow> string \<Rightarrow> err + ProviderInfo"
  svc_clock :: "nat \<Rightarrow> time"
  svc_timeNow :: "nat \<Rightarrow> time"
  svc_idgen :: "nat \<Rightarrow> string"
  svc_acmeHTTP01Verifier :: "nat \<Rightarrow> string \<Rightarrow> string \<Rightarrow> string \<Rightarrow> err + unit"
  svc_randRead :: "nat \<Rightarrow> err + nat list"
  svc_apiKeyPepper :: string
  svc_productionPolicy :: bool
  svc_publicTLSMaxValidityOverride :: duration
  svc_publicTLSCAAPolicy :: "PublicTLSCAAPolicy option"
  svc_publicTLSLintHook :: "(nat \<Rightarrow> PublicTLSLintRequest \<Rightarrow> err + unit) option"

record world =
  w_store :: memory_store
  w_tick :: nat

text \<open>A repository call, a draw from a collaborator that cannot fail, and a call that can.\<close>

definition repoE :: "(memory_store, err, 'a) eff \<Rightarrow> (world, err, 'a) eff" where
  "repoE m = (\<lambda>w. case m (w_store w) of (r, s) \<Rightarrow> (r, w\<lparr>w_store := s\<rparr>))"

definition drawE :: "(nat \<Rightarrow> 'a) \<Rightarrow> (world, err, 'a) eff" where
  "drawE f = (\<lambda>w. (Inr (f (w_tick w)), w\<lparr>w_tick := Suc (w_tick w)\<rparr>))"

definition callE :: "(nat \<Rightarrow> err + 'a) \<Rightarrow> (world, err, 'a) eff" where
  "callE f = (\<lambda>w. (f (w_tick w), w\<lparr>w_tick := Suc (w_tick w)\<rparr>))"

text \<open>
  \<open>MemoryStore.WithinTx\<close>: the body runs on a copy of the tables, which replaces them only when
  the body succeeds. Interactions with collaborators are not undone.
\<close>

definition WithinTx :: "(world, err, 'a) eff \<Rightarrow> (world, err, 'a) eff" where
  "WithinTx m = (\<lambda>w. case m w of
       (Inl e, w') \<Rightarrow> (Inl e, w'\<lparr>w_store := w_store w\<rparr>)
     | (Inr x, w') \<Rightarrow> (Inr x, w'))"

abbreviation newID :: "service \<Rightarrow> (world, err, string) eff" where
  "newID svc \<equiv> drawE (svc_idgen svc)"

abbreviation clockNow :: "service \<Rightarrow> (world, err, time) eff" where
  "clockNow svc \<equiv> drawE (svc_clock svc)"

lemma wp_repoE [wp_simps]:
  "wp (repoE m) Q E w = wp m (\<lambda>x s. Q x (w\<lparr>w_store := s\<rparr>)) (\<lambda>e s. E e (w\<lparr>w_store := s\<rparr>)) (w_store w)"
  by (simp add: wp_def repoE_def split: prod.splits sum.splits)

lemma wp_drawE [wp_simps]: "wp (drawE f) Q E w = Q (f (w_tick w)) (w\<lparr>w_tick := Suc (w_tick w)\<rparr>)"
  by (simp add: wp_def drawE_def)

lemma wp_callE [wp_simps]:
  "wp (callE f) Q E w =
     (case f (w_tick w) of Inl e \<Rightarrow> E e (w\<lparr>w_tick := Suc (w_tick w)\<rparr>)
      | Inr x \<Rightarrow> Q x (w\<lparr>w_tick := Suc (w_tick w)\<rparr>))"
  by (simp add: wp_def callE_def split: sum.splits)

lemma wp_WithinTx [wp_simps]:
  "wp (WithinTx m) Q E w = wp m Q (\<lambda>e w'. E e (w'\<lparr>w_store := w_store w\<rparr>)) w"
  by (simp add: wp_def WithinTx_def split: prod.splits sum.splits)

text \<open>
  A relation between stores that is a preorder is kept by transactions and by everything that
  does not touch the store.
\<close>

locale store_preorder =
  fixes R :: "memory_store \<Rightarrow> memory_store \<Rightarrow> bool"
  assumes store_refl: "R s s" and store_trans: "R s t \<Longrightarrow> R t u \<Longrightarrow> R s u"

sublocale store_preorder \<subseteq> tables: state_preorder R
  by unfold_locales (auto intro: store_refl store_trans)

sublocale store_preorder \<subseteq> worlds: state_preorder "\<lambda>w w'. R (w_store w) (w_store w')"
  by unfold_locales (auto intro: store_refl store_trans)

context store_preorder
begin

lemma keeps_repoE: "keeps R m \<Longrightarrow> keeps (\<lambda>w w'. R (w_store w) (w_store w')) (repoE m)"
  by (simp add: keeps_def repoE_def case_prod_beta)

lemma keeps_drawE: "keeps (\<lambda>w w'. R (w_store w) (w_store w')) (drawE f)"
  by (simp add: keeps_def drawE_def store_refl)

lemma keeps_callE: "keeps (\<lambda>w w'. R (w_store w) (w_store w')) (callE f)"
  by (simp add: keeps_def callE_def store_refl)

lemma keeps_WithinTx:
  "keeps (\<lambda>w w'. R (w_store w) (w_store w')) m \<Longrightarrow> keeps (\<lambda>w w'. R (w_store w) (w_store w')) (WithinTx m)"
  unfolding keeps_def WithinTx_def by (auto simp: store_refl split: prod.splits sum.splits) (metis snd_conv)

lemmas keeps_rules = worlds.keeps_returnE worlds.keeps_throwE worlds.keeps_failIf worlds.keeps_getE
  worlds.keeps_readE worlds.keeps_fromSum worlds.keeps_bindE worlds.keeps_thenE worlds.keeps_attemptE worlds.keeps_mapErrE
  worlds.keeps_forE worlds.keeps_foldE worlds.keeps_if worlds.keeps_case_sum worlds.keeps_case_option
  worlds.keeps_case_prod keeps_drawE keeps_callE keeps_WithinTx

end

section \<open>Requests\<close>

record AuditRequestMetadata =
  arm_RequestID :: string
  arm_Traceparent :: string
  arm_ClientIP :: string
  arm_UserAgent :: string
  arm_AuthMethod :: string
  arm_StartedAt :: time

record APIKeyAuditMetadata =
  akm_ID :: string
  akm_Name :: string
  akm_Actor :: string
  akm_Fingerprint :: string
  akm_Scopes :: "APIKeyScope list"

record AuthorizationAuditMetadata =
  aam_Outcome :: string
  aam_DecisionID :: string
  aam_ReasonCode :: string
  aam_PolicyRevision :: string
  aam_EvaluatorStatus :: string

text \<open>The values a request's context carries.\<close>

record request_ctx =
  ctx_request :: "AuditRequestMetadata option"
  ctx_authorization :: "AuthorizationAuditMetadata option"
  ctx_apiKey :: "APIKeyAuditMetadata option"

definition background :: request_ctx where
  "background = \<lparr>ctx_request = None, ctx_authorization = None, ctx_apiKey = None\<rparr>"

section \<open>Audit fields\<close>

type_synonym fields = "json gomap"

definition isBlank :: "string \<Rightarrow> bool" where
  "isBlank value \<longleftrightarrow> TrimSpace value = []"

fun auditFields :: "(string \<times> string) list \<Rightarrow> fields" where
  "auditFields [] = []"
| "auditFields ((k, v) # pairs) =
     (if k \<noteq> [] \<and> v \<noteq> [] \<and> mget (auditFields pairs) k = None
      then mput k (JStr v) (auditFields pairs) else auditFields pairs)"

definition JStrs :: "string list \<Rightarrow> json" where
  "JStrs xs = JArr (map JStr xs)"

definition apiKeyScopesToStrings :: "APIKeyScope list \<Rightarrow> string list" where
  "apiKeyScopesToStrings scopes = map str_APIKeyScope scopes"

definition addStatusTransition :: "fields \<Rightarrow> string \<Rightarrow> string \<Rightarrow> fields" where
  "addStatusTransition flds previous next' =
     mput ''new_status'' (JStr next') (mput ''previous_status'' (JStr previous) flds)"

definition addPolicyDecisionAuditFields :: "fields \<Rightarrow> string \<Rightarrow> string \<Rightarrow> string list \<Rightarrow> fields" where
  "addPolicyDecisionAuditFields flds decision reason refs =
     (let flds' = mput ''policy_decision_reason'' (JStr reason) (mput ''policy_decision'' (JStr decision) flds)
      in if refs = [] then flds' else mput ''policy_validation_evidence_refs'' (JStrs refs) flds')"

definition apiKeyAuditFields :: "APIKey \<Rightarrow> fields" where
  "apiKeyAuditFields key =
     mput ''api_key_scopes'' (JStrs (apiKeyScopesToStrings (key_Scopes key)))
       (auditFields [(''api_key_id'', key_ID key), (''api_key_name'', key_Name key),
                     (''api_key_actor'', key_Actor key)])"

definition coreSigningAuditFields :: "SigningEvidence \<Rightarrow> fields \<Rightarrow> fields" where
  "coreSigningAuditFields evidence flds =
     foldl (\<lambda>m (k, v). mput k v m) flds
       [(''key_provider_id'', JStr (sev_ProviderID evidence)),
        (''key_provider_class'', JStr (sev_ProviderClass evidence)),
        (''key_provider_readiness'', JStr (sev_ProviderReadiness evidence)),
        (''key_provider_exportability'', JStr (sev_ProviderExportability evidence)),
        (''key_provider_reference_class'', JStr (sev_ReferenceClass evidence)),
        (''key_provider_operation'', JStr (sev_Operation evidence)),
        (''key_provider_key_algorithm'', JStr (sev_KeyAlgorithm evidence)),
        (''key_provider_signature_algorithm'', JStr (sev_RequestedSignatureAlgorithm evidence)),
        (''key_provider_binding_verified'', JBool (sev_IssuerBindingVerified evidence)),
        (''key_provider_fallback_used'', JBool (sev_FallbackUsed evidence)),
        (''key_provider_result_code'', JStr (sev_ResultCode evidence)),
        (''key_provider_evidence_source'', JStr (sev_EvidenceSource evidence)),
        (''key_provider_signing_proven'', JBool True)]"

definition legacyKeyProviderAuditFields :: "string \<Rightarrow> fields \<Rightarrow> fields" where
  "legacyKeyProviderAuditFields keyRef flds =
     foldl (\<lambda>m (k, v). mput k v m) flds
       [(''key_provider_class'', JStr (keyref_Class keyRef)),
        (''key_provider_exportability'', JStr (keyref_Exportability keyRef)),
        (''key_provider_evidence_source'', JStr ''legacy_key_ref_classification''),
        (''key_provider_signing_proven'', JBool False)]"

definition acmeChallengeAuditFields :: "ACMEChallenge \<Rightarrow> ACMEAuthorization \<Rightarrow> fields" where
  "acmeChallengeAuditFields challenge authorization =
     (let flds = auditFields
            [(''acme_challenge_id'', chal_ID challenge), (''acme_authorization_id'', authz_ID authorization),
             (''acme_order_id'', authz_OrderID authorization),
             (''identifier_type'', authz_IdentifierType authorization),
             (''identifier_value'', authz_IdentifierValue authorization),
             (''challenge_type'', str_ACMEChallengeType (chal_Type challenge)),
             (''validation_method'', str_ACMEChallengeType (chal_Type challenge))];
          flds' = (if IsZero (chal_ValidatedAt challenge) then flds
            else mput ''validated_at'' (JStr (FormatRFC3339 (chal_ValidatedAt challenge))) flds)
      in if IsZero (authz_ValidationReuseExpiresAt authorization) then flds'
         else mput ''validation_reuse_expires_at''
                (JStr (FormatRFC3339 (authz_ValidationReuseExpiresAt authorization))) flds')"

text \<open>Division of \<open>int64\<close> values truncates towards zero.\<close>

definition quot64 :: "int \<Rightarrow> int \<Rightarrow> int" where
  "quot64 a b = (if 0 \<le> a then a div b else - ((- a) div b))"

definition certificateExpirationAuditFields :: "Certificate \<Rightarrow> duration \<Rightarrow> fields" where
  "certificateExpirationAuditFields certificate warningWindow =
     mput ''warning_window_seconds'' (JInt (quot64 warningWindow Second))
       (mput ''not_after'' (JStr (FormatRFC3339 (cert_NotAfter certificate)))
         (auditFields
           [(''identity_id'', cert_IdentityID certificate), (''issuer_id'', cert_IssuerID certificate),
            (''enrollment_id'', cert_EnrollmentID certificate), (''certificate_id'', cert_ID certificate),
            (''serial_number'', cert_SerialNumber certificate),
            (''profile_id'', cert_CertificateProfileID certificate)]))"

definition auditDecisionReference :: "string \<Rightarrow> string" where
  "auditDecisionReference value0 =
     (let value = TrimSpace value0 in
      if value = [] \<or> 128 < length value then []
      else if list_all (\<lambda>c. let n = (of_char c :: nat) in
                (97 \<le> n \<and> n \<le> 122) \<or> (65 \<le> n \<and> n \<le> 90) \<or> (48 \<le> n \<and> n \<le> 57) \<or>
                c \<in> set ''-._:/@+'') value
      then value else [])"

definition auditMetadataKeySensitive :: "string \<Rightarrow> bool" where
  "auditMetadataKeySensitive key0 =
     (let key = ToLower key0 in
      Contains key ''secret'' \<or> Contains key ''token'' \<or> Contains key ''password'' \<or>
      Contains key ''private_key'')"

definition auditMetadataValue :: "string \<Rightarrow> json \<Rightarrow> json" where
  "auditMetadataValue key value = (if auditMetadataKeySensitive key then JStr ''[redacted]'' else value)"

text \<open>\<open>if v != "" \{ metadata[k] = v \}\<close>\<close>

definition put_str :: "string \<Rightarrow> string \<Rightarrow> fields \<Rightarrow> fields" where
  "put_str k v m = (if v = [] then m else mput k (JStr v) m)"

definition request_fields :: "AuditRequestMetadata \<Rightarrow> time \<Rightarrow> fields \<Rightarrow> fields" where
  "request_fields r now m =
     (let m' = put_str ''auth_method'' (arm_AuthMethod r) (put_str ''user_agent'' (arm_UserAgent r)
            (put_str ''client_ip'' (arm_ClientIP r) (put_str ''traceparent'' (arm_Traceparent r)
              (put_str ''request_id'' (arm_RequestID r) m))))
      in if IsZero (arm_StartedAt r) then m'
         else mput ''elapsed_ms'' (JInt (quot64 (now - arm_StartedAt r) 1000000)) m')"

definition authorization_fields :: "AuthorizationAuditMetadata \<Rightarrow> fields \<Rightarrow> fields" where
  "authorization_fields a m =
     put_str ''authorization_evaluator_status'' (auditDecisionReference (aam_EvaluatorStatus a))
       (put_str ''authorization_policy_revision'' (auditDecisionReference (aam_PolicyRevision a))
         (put_str ''authorization_reason_code'' (auditDecisionReference (aam_ReasonCode a))
           (put_str ''authorization_decision_id'' (auditDecisionReference (aam_DecisionID a))
             (put_str ''authorization_outcome'' (auditDecisionReference (aam_Outcome a)) m))))"

definition api_key_fields :: "APIKeyAuditMetadata \<Rightarrow> fields \<Rightarrow> fields" where
  "api_key_fields k m =
     (let m' = put_str ''api_key_fingerprint'' (akm_Fingerprint k) (put_str ''api_key_actor'' (akm_Actor k)
            (put_str ''api_key_name'' (akm_Name k) (put_str ''api_key_id'' (akm_ID k) m)))
      in if akm_Scopes k = [] then m'
         else mput ''api_key_scopes'' (JStrs (apiKeyScopesToStrings (akm_Scopes k))) m')"

text \<open>\<open>now\<close> is the wall clock that \<open>time.Since\<close> reads.\<close>

definition audit_metadata :: "request_ctx \<Rightarrow> time \<Rightarrow> fields \<Rightarrow> string \<Rightarrow> string \<Rightarrow> fields" where
  "audit_metadata ctx now flds resultCode errorCode =
     (let m = map (\<lambda>(k, v). (k, auditMetadataValue k v)) flds;
          m = mput ''result_code'' (JStr resultCode) m;
          m = put_str ''error_code'' errorCode m;
          m = (case ctx_request ctx of None \<Rightarrow> m | Some r \<Rightarrow> request_fields r now m);
          m = (case ctx_authorization ctx of None \<Rightarrow> m | Some a \<Rightarrow> authorization_fields a m)
      in case ctx_apiKey ctx of None \<Rightarrow> m | Some k \<Rightarrow> api_key_fields k m)"

definition auditMetadataJSON :: "request_ctx \<Rightarrow> time \<Rightarrow> fields \<Rightarrow> string \<Rightarrow> string \<Rightarrow> string" where
  "auditMetadataJSON ctx now flds resultCode errorCode =
     json_marshal (json_map (audit_metadata ctx now flds resultCode errorCode))"

section \<open>Writing audit events and outbox messages\<close>

definition createAuditEventWithResult ::
  "service \<Rightarrow> request_ctx \<Rightarrow> string \<Rightarrow> string \<Rightarrow> string \<Rightarrow> string \<Rightarrow> time \<Rightarrow> fields \<Rightarrow> string \<Rightarrow> string \<Rightarrow>
   (world, err, unit) eff" where
  "createAuditEventWithResult svc ctx actor action resourceType resourceID createdAt flds resultCode errorCode =
     bindE (newID svc) (\<lambda>ident.
     bindE (drawE (svc_timeNow svc)) (\<lambda>now.
     repoE (repo_CreateAuditEvent
       \<lparr>ev_ID = ident, ev_Sequence = 0, ev_Actor = actor, ev_Action = action, ev_ResourceType = resourceType,
        ev_ResourceID = resourceID,
        ev_MetadataJSON = auditMetadataJSON ctx now flds resultCode errorCode,
        ev_HashAlgorithm = [], ev_PreviousEventHash = [], ev_EventHash = [], ev_CreatedAt = createdAt\<rparr>)))"

definition createAuditEvent ::
  "service \<Rightarrow> request_ctx \<Rightarrow> string \<Rightarrow> string \<Rightarrow> string \<Rightarrow> string \<Rightarrow> time \<Rightarrow> fields \<Rightarrow> (world, err, unit) eff" where
  "createAuditEvent svc ctx actor action resourceType resourceID createdAt flds =
     createAuditEventWithResult svc ctx actor action resourceType resourceID createdAt flds ''ok'' []"

definition defaultOutboxMaxAttempts :: int where
  "defaultOutboxMaxAttempts = 5"

definition createOutboxMessage :: "service \<Rightarrow> string \<Rightarrow> time \<Rightarrow> fields \<Rightarrow> (world, err, unit) eff" where
  "createOutboxMessage svc messageType createdAt flds =
     bindE (newID svc) (\<lambda>ident.
     repoE (repo_CreateOutboxMessage
       \<lparr>msg_ID = ident, msg_Type = messageType,
        msg_PayloadJSON = json_marshal (json_map (mput ''event_type'' (JStr messageType) flds)),
        msg_Status = OutboxPending, msg_AvailableAt = createdAt, msg_ProcessingDeadlineAt = 0,
        msg_AttemptCount = 0, msg_MaxAttempts = defaultOutboxMaxAttempts, msg_LastError = [],
        msg_CreatedAt = createdAt, msg_UpdatedAt = createdAt\<rparr>))"

section \<open>Errors\<close>

definition policyDecision :: "string \<Rightarrow> err" where
  "policyDecision reason = PolicyDecision reason []"

text \<open>\<open>errors.As\<close> for a policy decision: the first one in the tree of wrapped errors.\<close>

fun as_policy :: "err \<Rightarrow> (string \<times> string list) option" where
  "as_policy (PolicyDecision r refs) = Some (r, refs)"
| "as_policy (ErrWrap a b) = (case as_policy a of None \<Rightarrow> as_policy b | p \<Rightarrow> p)"
| "as_policy (ErrDetail a _) = as_policy a"
| "as_policy (CommandError _ _ _ (Some e)) = as_policy e"
| "as_policy e = None"

definition attachPolicyValidationEvidence :: "err \<Rightarrow> string list \<Rightarrow> err" where
  "attachPolicyValidationEvidence e refs =
     (case as_policy e of None \<Rightarrow> e | Some (reason, _) \<Rightarrow> PolicyDecision reason refs)"

definition policyDecisionReason :: "err \<Rightarrow> string" where
  "policyDecisionReason e = (case as_policy e of None \<Rightarrow> [] | Some (reason, _) \<Rightarrow> reason)"

definition policyDecisionEvidenceRefs :: "err \<Rightarrow> string list" where
  "policyDecisionEvidenceRefs e = (case as_policy e of None \<Rightarrow> [] | Some (_, refs) \<Rightarrow> refs)"

definition error_codes :: "(err \<times> string) list" where
  "error_codes =
     [(ErrInvalidRequest, ''invalid_request''), (ErrUnsupportedMediaType, ''unsupported_media_type''),
      (ErrUnauthorized, ''unauthorized''), (ErrForbidden, ''forbidden''), (ErrRateLimited, ''rate_limited''),
      (ErrInvalidTransition, ''invalid_lifecycle_transition''), (ErrIdentityNotFound, ''identity_not_found''),
      (ErrIssuerNotFound, ''issuer_not_found''), (ErrOCSPResponderNotFound, ''ocsp_responder_not_found''),
      (ErrNotificationEndpointNotFound, ''notification_endpoint_not_found''),
      (ErrCertificateProfileNotFound, ''certificate_profile_not_found''),
      (ErrEnrollmentNotFound, ''enrollment_not_found''), (ErrCertificateNotFound, ''certificate_not_found''),
      (ErrCRLPublicationNotFound, ''crl_publication_not_found''),
      (ErrOutboxMessageNotFound, ''outbox_message_not_found''), (ErrAPIKeyNotFound, ''api_key_not_found''),
      (ErrACMEAccountNotFound, ''acme_account_not_found''),
      (ErrACMEAccountDeactivated, ''acme_account_deactivated''),
      (ErrACMEOrderNotFound, ''acme_order_not_found''),
      (ErrACMEAuthorizationNotFound, ''acme_authorization_not_found''),
      (ErrACMEChallengeNotFound, ''acme_challenge_not_found''), (ErrCSRParseFailed, ''csr_parse_failed''),
      (ErrCertificateIssuanceFailed, ''certificate_issuance_failed''),
      (ErrCRLGenerationFailed, ''crl_generation_failed''), (ErrOCSPDecodeFailed, ''ocsp_decode_failed''),
      (ErrOCSPResponderValidationFailed, ''ocsp_responder_validation_failed''),
      (ErrOCSPResponseFailed, ''ocsp_response_failed''), (ErrAuditIntegrity, ''audit_integrity_failed''),
      (ErrStorageFailure, ''storage_failure'')]"

definition auditErrorCode :: "err \<Rightarrow> string" where
  "auditErrorCode e =
     (case find (\<lambda>(target, _). errors_Is e target) error_codes of
        None \<Rightarrow> ''internal''
      | Some (_, code) \<Rightarrow> code)"

end
