(* ===== verification/NetIP.thy ===== *)
theory NetIP
  imports Encoding
begin

text \<open>
  Addresses and prefixes of Go's package \<open>net/netip\<close>, as the profile policy and the HTTP-01
  fetch guard use them: parsing, prefix containment and the address classes.
\<close>

section \<open>Addresses\<close>

text \<open>An IPv6 address carries its zone, which is empty when there is none.\<close>

datatype ip_addr = V4 "32 word" | V6 "128 word" string

definition dec_value :: "string \<Rightarrow> nat" where
  "dec_value s = foldl (\<lambda>a c. 10 * a + (of_char c - 48)) 0 s"

definition all_digits :: "string \<Rightarrow> bool" where
  "all_digits s \<longleftrightarrow> s \<noteq> [] \<and> list_all (\<lambda>c. 48 \<le> (of_char c :: nat) \<and> (of_char c :: nat) \<le> 57) s"

text \<open>A decimal field of an IPv4 address: at most 255, without leading zeros.\<close>

definition ipv4_field :: "string \<Rightarrow> nat option" where
  "ipv4_field s =
     (if \<not> all_digits s \<or> 3 < length s \<or> (1 < length s \<and> hd s = CHR ''0'') \<or> 255 < dec_value s
      then None else Some (dec_value s))"

definition parseIPv4 :: "string \<Rightarrow> nat option" where
  "parseIPv4 s =
     (case map ipv4_field (Split s (CHR ''.'')) of
        [Some a, Some b, Some c, Some d] \<Rightarrow> Some (((a * 256 + b) * 256 + c) * 256 + d)
      | _ \<Rightarrow> None)"

definition hex_digits :: "string \<Rightarrow> string" where
  "hex_digits s = takeWhile (\<lambda>c. hex_value c \<noteq> None) s"

definition hex_number :: "string \<Rightarrow> nat" where
  "hex_number s = foldl (\<lambda>a c. 16 * a + (case hex_value c of None \<Rightarrow> 0 | Some d \<Rightarrow> d)) 0 s"

text \<open>
  The loop of \<open>parseIPv6\<close>: the 16-bit groups read so far, the position of the ellipsis, and the
  rest of the string. An IPv4 tail gives two groups. The fuel is the number of groups, at most 8.
\<close>

fun parse_groups :: "nat \<Rightarrow> nat list \<Rightarrow> nat option \<Rightarrow> string \<Rightarrow> (nat list \<times> nat option \<times> string) option" where
  "parse_groups 0 groups ellipsis s = Some (groups, ellipsis, s)"
| "parse_groups (Suc n) groups ellipsis s =
     (let digits = hex_digits s; rest = drop (length digits) s in
      if digits = [] \<or> 4 < length digits then None
      else if HasPrefix rest ''.'' then
        (if (ellipsis = None \<and> length groups \<noteq> 6) \<or> 6 < length groups then None
         else case parseIPv4 s of
           None \<Rightarrow> None
         | Some v \<Rightarrow> Some (groups @ [v div 65536, v mod 65536], ellipsis, []))
      else
        let groups' = groups @ [hex_number digits] in
        if rest = [] then Some (groups', ellipsis, [])
        else if \<not> HasPrefix rest '':'' \<or> length rest = 1 then None
        else if rest ! 1 = CHR '':'' then
          (if ellipsis \<noteq> None then None
           else if length rest = 2 then Some (groups', Some (length groups'), [])
           else parse_groups n groups' (Some (length groups')) (drop 2 rest))
        else parse_groups n groups' ellipsis (drop 1 rest))"

definition groups_value :: "nat list \<Rightarrow> nat" where
  "groups_value gs = foldl (\<lambda>a g. 65536 * a + g) 0 gs"

definition parseIPv6 :: "string \<Rightarrow> ip_addr option" where
  "parseIPv6 input =
     (case Cut input (CHR ''%'') of (s, zone, zoned) \<Rightarrow>
        if zoned \<and> zone = [] then None
        else if s = ''::'' then Some (V6 0 zone)
        else
          let lead = HasPrefix s ''::'' in
          case parse_groups 8 [] (if lead then Some 0 else None) (if lead then drop 2 s else s) of
            None \<Rightarrow> None
          | Some (groups, ellipsis, rest) \<Rightarrow>
              if rest \<noteq> [] then None
              else case ellipsis of
                None \<Rightarrow> if length groups < 8 then None else Some (V6 (word_of_nat (groups_value groups)) zone)
              | Some e \<Rightarrow>
                  if 8 \<le> length groups then None
                  else Some (V6 (word_of_nat (groups_value
                         (take e groups @ replicate (8 - length groups) 0 @ drop e groups))) zone))"

text \<open>\<open>ParseAddr\<close> decides by the first dot, colon or percent sign.\<close>

definition ParseAddr :: "string \<Rightarrow> ip_addr option" where
  "ParseAddr s =
     (case dropWhile (\<lambda>c. c \<noteq> CHR ''.'' \<and> c \<noteq> CHR '':'' \<and> c \<noteq> CHR ''%'') s of
        [] \<Rightarrow> None
      | c # _ \<Rightarrow>
          if c = CHR ''.'' then map_option (\<lambda>v. V4 (word_of_nat v)) (parseIPv4 s)
          else if c = CHR '':'' then parseIPv6 s
          else None)"

fun Unmap :: "ip_addr \<Rightarrow> ip_addr" where
  "Unmap (V4 a) = V4 a"
| "Unmap (V6 a zone) = (if drop_bit 32 a = 0xFFFF then V4 (ucast a) else V6 a zone)"

section \<open>Prefixes\<close>

datatype ip_prefix = Prefix ip_addr nat

text \<open>The text after the last slash is the length: digits without sign or leading zero.\<close>

definition ParsePrefix :: "string \<Rightarrow> ip_prefix option" where
  "ParsePrefix s =
     (let r = rev s; bits = rev (takeWhile (\<lambda>c. c \<noteq> CHR ''/'') r); addr = rev (drop 1 (dropWhile (\<lambda>c. c \<noteq> CHR ''/'') r)) in
      if CHR ''/'' \<notin> set s then None
      else case ParseAddr addr of
        None \<Rightarrow> None
      | Some a \<Rightarrow>
          let max = (case a of V4 _ \<Rightarrow> 32 | V6 _ _ \<Rightarrow> 128) in
          if (case a of V4 _ \<Rightarrow> False | V6 _ zone \<Rightarrow> zone \<noteq> []) then None
          else if \<not> all_digits bits \<or> (1 < length bits \<and> hd bits = CHR ''0'') \<or> max < dec_value bits then None
          else Some (Prefix a (dec_value bits)))"

fun prefix_Contains :: "ip_prefix \<Rightarrow> ip_addr \<Rightarrow> bool" where
  "prefix_Contains (Prefix (V4 p) n) (V4 a) = (drop_bit (32 - n) p = drop_bit (32 - n) a)"
| "prefix_Contains (Prefix (V6 p _) n) (V6 a zone) = (zone = [] \<and> drop_bit (128 - n) p = drop_bit (128 - n) a)"
| "prefix_Contains _ _ = False"

section \<open>Address classes\<close>

definition v4net :: "nat \<Rightarrow> nat \<Rightarrow> 32 word \<Rightarrow> bool" where
  "v4net n p a \<longleftrightarrow> drop_bit (32 - n) a = word_of_nat p"

definition v6net :: "nat \<Rightarrow> nat \<Rightarrow> 128 word \<Rightarrow> bool" where
  "v6net n p a \<longleftrightarrow> drop_bit (128 - n) a = word_of_nat p"

fun IsLoopback :: "ip_addr \<Rightarrow> bool" where
  "IsLoopback (V4 a) = v4net 8 127 a"
| "IsLoopback (V6 a _) = (a = 1)"

fun IsPrivate :: "ip_addr \<Rightarrow> bool" where
  "IsPrivate (V4 a) = (v4net 8 10 a \<or> v4net 12 (172 * 16 + 1) a \<or> v4net 16 (192 * 256 + 168) a)"
| "IsPrivate (V6 a _) = v6net 7 126 a"

fun IsLinkLocalUnicast :: "ip_addr \<Rightarrow> bool" where
  "IsLinkLocalUnicast (V4 a) = v4net 16 (169 * 256 + 254) a"
| "IsLinkLocalUnicast (V6 a _) = v6net 10 1018 a"

fun IsLinkLocalMulticast :: "ip_addr \<Rightarrow> bool" where
  "IsLinkLocalMulticast (V4 a) = v4net 24 (224 * 65536) a"
| "IsLinkLocalMulticast (V6 a _) = (v6net 8 255 a \<and> drop_bit 112 a AND 0xF = 2)"

fun IsMulticast :: "ip_addr \<Rightarrow> bool" where
  "IsMulticast (V4 a) = v4net 4 14 a"
| "IsMulticast (V6 a _) = v6net 8 255 a"

fun IsUnspecified :: "ip_addr \<Rightarrow> bool" where
  "IsUnspecified (V4 a) = (a = 0)"
| "IsUnspecified (V6 a zone) = (a = 0 \<and> zone = [])"

end
