(* ===== verification/Policy.thy ===== *)
theory Policy
  imports ServiceBase NetIP JsonDecoder
begin

text \<open>
  The validation and policy functions of \<open>service/internal/lifecycle/service.go\<close>: the checks on
  requests, the profile, identity and CSR policy that an enrollment passes when it is created and
  again when its certificate is issued, CAA checking, and the validity ceilings of public TLS.
\<close>

section \<open>Requests\<close>

datatype CertificateProfileIssuerTransition =
    CertificateProfileIssuerRollover
  | CertificateProfileIssuerRollback
  | CertificateProfileIssuerTransitionOther string

record CreateIdentityRequest =
  cid_Type :: IdentityType
  cid_Name :: string
  cid_ExternalID :: string
  cid_Owner :: string
  cid_Team :: string
  cid_Service :: string
  cid_Environment :: string
  cid_DeploymentTarget :: string
  cid_LastSeenAt :: time
  cid_MetadataJSON :: string
  cid_AllowedDNSNames :: "string list"
  cid_AllowedIPAddresses :: "string list"

record CreateIssuerRequest =
  cis_Name :: string
  cis_Kind :: IssuerKind
  cis_ParentIssuerID :: string
  cis_CertificatePEM :: string
  cis_KeyRef :: string
  cis_AIAURL :: string
  cis_CRLDistributionPoints :: "string list"
  cis_TrustAnchor :: bool

record CreateCertificateProfileRequest =
  ccp_Name :: string
  ccp_Description :: string
  ccp_IssuerID :: string
  ccp_ValidityPeriodSeconds :: int
  ccp_PublicTLS :: bool
  ccp_SubjectTemplate :: string
  ccp_AllowedDNSPatterns :: "string list"
  ccp_AllowedIPRanges :: "string list"
  ccp_AllowedKeyAlgorithms :: "string list"
  ccp_MinKeySizeBits :: int
  ccp_AllowedSignatureAlgorithms :: "string list"
  ccp_KeyUsage :: StringListExtensionPolicy
  ccp_ExtendedKeyUsage :: StringListExtensionPolicy
  ccp_BasicConstraints :: BasicConstraintsPolicy
  ccp_SubjectKeyIdentifier :: bool
  ccp_AuthorityKeyIdentifier :: bool

record TransitionCertificateProfileIssuerRequest =
  tcp_ProfileID :: string
  tcp_CurrentIssuerID :: string
  tcp_NextIssuerID :: string
  tcp_Transition :: CertificateProfileIssuerTransition
  tcp_Reason :: string

record CreateEnrollmentRequest =
  cer_IdentityID :: string
  cer_IssuerID :: string
  cer_CertificateProfileID :: string
  cer_CSRPEM :: string
  cer_RequestedSubject :: string
  cer_RequestedDNSNames :: "string list"
  cer_RequestedIPAddresses :: "string list"
  cer_RequestedNotAfter :: time

record CreateACMEAccountRequest =
  cac_Contacts :: "string list"
  cac_TermsOfServiceAgreed :: bool
  cac_KeyThumbprint :: string
  cac_KeyJWKJSON :: string

record CreateACMEOrderRequest =
  cao_AccountID :: string
  cao_IdentityID :: string
  cao_IssuerID :: string
  cao_CertificateProfileID :: string
  cao_RequestedDNSNames :: "string list"
  cao_RequestedIPAddresses :: "string list"
  cao_RequestedNotAfter :: time

record PublishCRLRequest =
  pcr_IssuerID :: string
  pcr_DistributionPoint :: string
  pcr_NextUpdate :: time


section \<open>Basic checks\<close>

fun isValidIdentityType :: "IdentityType \<Rightarrow> bool" where
  "isValidIdentityType (IdentityTypeOther _) = False"
| "isValidIdentityType _ = True"

fun isValidIssuerKind :: "IssuerKind \<Rightarrow> bool" where
  "isValidIssuerKind IssuerRootCA = True"
| "isValidIssuerKind IssuerIntermediateCA = True"
| "isValidIssuerKind _ = False"

fun isValidRevocationReason :: "RevocationReason \<Rightarrow> bool" where
  "isValidRevocationReason (RevocationReasonOther _) = False"
| "isValidRevocationReason _ = True"

fun isValidOutboxMessageStatus :: "OutboxMessageStatus \<Rightarrow> bool" where
  "isValidOutboxMessageStatus (OutboxMessageStatusOther _) = False"
| "isValidOutboxMessageStatus _ = True"

definition completeness_warnings :: "string \<Rightarrow> string \<Rightarrow> string \<Rightarrow> string list" where
  "completeness_warnings owner team serv =
     (if isBlank owner then [''missing_owner''] else []) @
     (if isBlank team then [''missing_team''] else []) @
     (if isBlank serv then [''missing_service''] else [])"

definition identityCompletenessWarnings :: "Identity \<Rightarrow> string list" where
  "identityCompletenessWarnings identity =
     completeness_warnings (idn_Owner identity) (idn_Team identity) (idn_Service identity)"

definition normalizeAlgorithm :: "string \<Rightarrow> string" where
  "normalizeAlgorithm value = ToLower (TrimSpace value)"

definition normalizeStringList :: "string list \<Rightarrow> string list" where
  "normalizeStringList values = map normalizeAlgorithm values"

definition isSupportedKeyAlgorithm :: "string \<Rightarrow> bool" where
  "isSupportedKeyAlgorithm value \<longleftrightarrow> normalizeAlgorithm value \<in> {''rsa'', ''ecdsa'', ''ed25519''}"

definition isSupportedSignatureAlgorithm :: "string \<Rightarrow> bool" where
  "isSupportedSignatureAlgorithm value \<longleftrightarrow>
     normalizeAlgorithm value \<in> {''sha256'', ''sha384'', ''sha512'', ''rsa_with_sha256'', ''rsa_with_sha384'',
       ''rsa_with_sha512'', ''ecdsa_with_sha256'', ''ecdsa_with_sha384'', ''ecdsa_with_sha512'', ''ed25519''}"

definition stringInList :: "string \<Rightarrow> string list \<Rightarrow> bool" where
  "stringInList value allowed = list_ex (\<lambda>candidate. normalizeAlgorithm candidate = normalizeAlgorithm value) allowed"

section \<open>Request validation\<close>

definition validateCreateIdentityRequest :: "CreateIdentityRequest \<Rightarrow> bool \<Rightarrow> err + unit" where
  "validateCreateIdentityRequest req productionPolicy =
     (if \<not> isValidIdentityType (cid_Type req) \<or> isBlank (cid_Name req) then Inl ErrInvalidRequest
      else if productionPolicy \<and> completeness_warnings (cid_Owner req) (cid_Team req) (cid_Service req) \<noteq> []
      then Inl ErrInvalidRequest
      else Inr ())"

definition validateSupportedSigningKeyRef :: "string \<Rightarrow> err + unit" where
  "validateSupportedSigningKeyRef ref = (if keyref_Class ref \<noteq> ''file'' then Inl ErrInvalidRequest else Inr ())"

definition validateCreateIssuerRequest :: "CreateIssuerRequest \<Rightarrow> bool \<Rightarrow> err + unit" where
  "validateCreateIssuerRequest req productionPolicy =
     (if isBlank (cis_Name req) \<or> \<not> isValidIssuerKind (cis_Kind req) \<or> isBlank (cis_CertificatePEM req) \<or>
         isBlank (cis_KeyRef req)
      then Inl ErrInvalidRequest
      else if productionPolicy \<and> keyref_Class (cis_KeyRef req) = ''file'' then Inl ErrInvalidRequest
      else case validateSupportedSigningKeyRef (cis_KeyRef req) of
        Inl e \<Rightarrow> Inl e
      | Inr _ \<Rightarrow>
          if cis_Kind req = IssuerRootCA \<and> \<not> isBlank (cis_ParentIssuerID req) then Inl ErrInvalidRequest
          else if list_ex isBlank (cis_CRLDistributionPoints req) then Inl ErrInvalidRequest
          else Inr ())"

definition validateCertificateProfileIssuerTransitionRequest ::
  "TransitionCertificateProfileIssuerRequest \<Rightarrow> err + unit" where
  "validateCertificateProfileIssuerTransitionRequest req =
     (if isBlank (tcp_ProfileID req) \<or> isBlank (tcp_CurrentIssuerID req) \<or> isBlank (tcp_NextIssuerID req) \<or>
         tcp_CurrentIssuerID req = tcp_NextIssuerID req
      then Inl ErrInvalidRequest
      else if tcp_Transition req \<noteq> CertificateProfileIssuerRollover \<and>
              tcp_Transition req \<noteq> CertificateProfileIssuerRollback
      then Inl ErrInvalidRequest
      else let reason = TrimSpace (tcp_Reason req) in
        if reason = [] \<or> 256 < length reason \<or> CHR 0x0D \<in> set reason \<or> CHR 0x0A \<in> set reason
        then Inl ErrInvalidRequest else Inr ())"

definition validateCertificateProfileExtensionCombination :: "CreateCertificateProfileRequest \<Rightarrow> err + unit" where
  "validateCertificateProfileExtensionCombination req =
     (if \<not> bc_CA (ccp_BasicConstraints req)
      then if list_ex (\<lambda>usage. normalizeAlgorithm usage \<in> {''key_cert_sign'', ''crl_sign''})
                (slp_Values (ccp_KeyUsage req))
           then Inl ErrInvalidRequest else Inr ()
      else if list_ex (\<lambda>usage. normalizeAlgorithm usage \<in> {''server_auth'', ''client_auth'', ''code_signing'',
                ''email_protection'', ''time_stamping'', ''ocsp_signing''})
                (slp_Values (ccp_ExtendedKeyUsage req))
           then Inl ErrInvalidRequest else Inr ())"

text \<open>
  The ceilings of public TLS: dates are days since 0001-01-01 (2026-03-15 is day 739689,
  2027-03-15 day 740054, 2029-03-15 day 740785).
\<close>

definition day :: "int \<Rightarrow> time" where
  "day n = n * (24 * Hour)"

definition publicTLSValidityCeilingSchedule :: "(time \<times> duration) list" where
  "publicTLSValidityCeilingSchedule =
     [(day 739689, 200 * (24 * Hour)), (day 740054, 100 * (24 * Hour)), (day 740785, 47 * (24 * Hour))]"

definition publicTLSValidationReuseCeilingSchedule :: "(time \<times> duration) list" where
  "publicTLSValidationReuseCeilingSchedule =
     [(day 739689, 200 * (24 * Hour)), (day 740054, 100 * (24 * Hour)), (day 740785, 10 * (24 * Hour))]"

definition schedule_at :: "(time \<times> duration) list \<Rightarrow> time \<Rightarrow> duration" where
  "schedule_at schedule now =
     foldl (\<lambda>m (start, mx). if \<not> Before now start then mx else m) (snd (hd schedule)) schedule"

definition publicTLSValidityCeiling :: "time \<Rightarrow> duration \<Rightarrow> duration" where
  "publicTLSValidityCeiling now override =
     (if 0 < override then override else schedule_at publicTLSValidityCeilingSchedule now)"

definition publicTLSValidationReuseCeiling :: "time \<Rightarrow> duration" where
  "publicTLSValidationReuseCeiling now = schedule_at publicTLSValidationReuseCeilingSchedule now"

text \<open>\<open>time.Duration(seconds) * time.Second\<close>, which wraps around at 64 bits.\<close>

definition validity_duration :: "int \<Rightarrow> duration" where
  "validity_duration seconds = wrap64 (seconds * Second)"

definition validateCreateCertificateProfileRequest ::
  "CreateCertificateProfileRequest \<Rightarrow> time \<Rightarrow> duration \<Rightarrow> err + unit" where
  "validateCreateCertificateProfileRequest req now publicTLSMaxValidityOverride =
     (if isBlank (ccp_Name req) \<or> isBlank (ccp_IssuerID req) \<or> ccp_ValidityPeriodSeconds req \<le> 0
      then Inl ErrInvalidRequest
      else if ccp_MinKeySizeBits req < 0 then Inl ErrInvalidRequest
      else if \<not> list_all isSupportedKeyAlgorithm (ccp_AllowedKeyAlgorithms req) then Inl ErrInvalidRequest
      else if \<not> list_all isSupportedSignatureAlgorithm (ccp_AllowedSignatureAlgorithms req) then Inl ErrInvalidRequest
      else if ccp_PublicTLS req \<and>
              publicTLSValidityCeiling now publicTLSMaxValidityOverride < validity_duration (ccp_ValidityPeriodSeconds req)
      then Inl ErrInvalidRequest
      else if (case bc_MaxPathLen (ccp_BasicConstraints req) of
                 None \<Rightarrow> False | Some n \<Rightarrow> n < 0 \<or> \<not> bc_CA (ccp_BasicConstraints req))
      then Inl ErrInvalidRequest
      else validateCertificateProfileExtensionCombination req)"

definition validateCreateEnrollmentRequest :: "CreateEnrollmentRequest \<Rightarrow> time \<Rightarrow> err + unit" where
  "validateCreateEnrollmentRequest req now =
     (if isBlank (cer_IdentityID req) \<or> isBlank (cer_IssuerID req) \<or> isBlank (cer_CSRPEM req) \<or>
         isBlank (cer_RequestedSubject req)
      then Inl ErrInvalidRequest
      else if \<not> After (cer_RequestedNotAfter req) now then Inl ErrInvalidRequest
      else Inr ())"

definition validateCreateACMEAccountRequest :: "CreateACMEAccountRequest \<Rightarrow> err + unit" where
  "validateCreateACMEAccountRequest req =
     (if cac_Contacts req = [] \<or> \<not> cac_TermsOfServiceAgreed req then Inl ErrInvalidRequest
      else if list_ex isBlank (cac_Contacts req) then Inl ErrInvalidRequest
      else Inr ())"

definition validateCreateACMEOrderRequest :: "CreateACMEOrderRequest \<Rightarrow> time \<Rightarrow> err + unit" where
  "validateCreateACMEOrderRequest req now =
     (if isBlank (cao_AccountID req) \<or> isBlank (cao_IdentityID req) \<or> isBlank (cao_IssuerID req)
      then Inl ErrInvalidRequest
      else if cao_RequestedDNSNames req = [] \<and> cao_RequestedIPAddresses req = [] then Inl ErrInvalidRequest
      else if \<not> After (cao_RequestedNotAfter req) now then Inl ErrInvalidRequest
      else if list_ex isBlank (cao_RequestedDNSNames req) then Inl ErrInvalidRequest
      else if list_ex isBlank (cao_RequestedIPAddresses req) then Inl ErrInvalidRequest
      else Inr ())"

definition validatePublishCRLRequest :: "PublishCRLRequest \<Rightarrow> time \<Rightarrow> err + unit" where
  "validatePublishCRLRequest req now =
     (if isBlank (pcr_IssuerID req) \<or> isBlank (pcr_DistributionPoint req) then Inl ErrInvalidRequest
      else if \<not> After (pcr_NextUpdate req) now then Inl ErrInvalidRequest
      else Inr ())"

section \<open>Names and addresses\<close>

definition valueAllowedByList :: "string \<Rightarrow> string list \<Rightarrow> bool" where
  "valueAllowedByList value allowed =
     (if allowed = [] then True
      else let v = TrimSpace value in
        if v = [] then False else list_ex (\<lambda>candidate. TrimSpace candidate = v) allowed)"

text \<open>The loop over the patterns, on the normalised name.\<close>

fun dns_patterns :: "string \<Rightarrow> string list \<Rightarrow> bool" where
  "dns_patterns name [] = False"
| "dns_patterns name (raw # patterns) =
     (let pattern = ToLower (TrimSpace raw) in
      if pattern = [] then False
      else if pattern = name then True
      else if HasPrefix pattern ''*.'' \<and> HasSuffix name (TrimPrefix pattern ''*'') \<and>
              length (TrimPrefix pattern ''*'') < length name
      then True
      else dns_patterns name patterns)"

definition dnsAllowedByProfile :: "string \<Rightarrow> string list \<Rightarrow> bool" where
  "dnsAllowedByProfile name0 patterns =
     (if patterns = [] then True
      else let name = ToLower (TrimSpace name0) in
        if name = [] then False else dns_patterns name patterns)"

definition wildcardAllowedByProfile :: "string \<Rightarrow> string list \<Rightarrow> bool" where
  "wildcardAllowedByProfile name0 patterns =
     (let name = ToLower (TrimSpace name0) in
      list_ex (\<lambda>raw. let pattern = ToLower (TrimSpace raw) in
        HasPrefix pattern ''*.'' \<and> dnsAllowedByProfile name [pattern]) patterns)"

fun ip_ranges :: "ip_addr \<Rightarrow> string list \<Rightarrow> bool" where
  "ip_ranges addr [] = False"
| "ip_ranges addr (raw # ranges) =
     (case ParsePrefix (TrimSpace raw) of
        None \<Rightarrow> False
      | Some prefix \<Rightarrow> if prefix_Contains prefix addr then True else ip_ranges addr ranges)"

definition ipAllowedByProfile :: "string \<Rightarrow> string list \<Rightarrow> bool" where
  "ipAllowedByProfile address ranges =
     (if ranges = [] then True
      else case ParseAddr (TrimSpace address) of None \<Rightarrow> False | Some addr \<Rightarrow> ip_ranges addr ranges)"

section \<open>Enrollment policy\<close>

definition maxCSRSANs :: int where
  "maxCSRSANs = 100"

definition profileRequiresCSRPolicy :: "CertificateProfile \<Rightarrow> bool" where
  "profileRequiresCSRPolicy profile \<longleftrightarrow>
     prof_ID profile \<noteq> [] \<or> prof_AllowedKeyAlgorithms profile \<noteq> [] \<or> 0 < prof_MinKeySizeBits profile"

definition profileSignatureAlgorithm :: "CertificateProfile \<Rightarrow> string" where
  "profileSignatureAlgorithm profile =
     (case prof_AllowedSignatureAlgorithms profile of
        a # _ \<Rightarrow> normalizeAlgorithm a
      | [] \<Rightarrow> ''ecdsa_with_sha256'')"

definition validateCSRPolicy :: "CreateEnrollmentRequest \<Rightarrow> CertificateProfile \<Rightarrow> CSRInfo \<Rightarrow> err + unit" where
  "validateCSRPolicy req profile csrInfo =
     (let totalSANs = int (length (cer_RequestedDNSNames req)) + int (length (cer_RequestedIPAddresses req)) in
      if totalSANs = 0 \<or> maxCSRSANs < totalSANs then Inl (policyDecision ''csr_san_count_invalid'')
      else if list_ex (\<lambda>oid. TrimSpace oid \<in> {''2.5.29.15'', ''2.5.29.19'', ''2.5.29.37''}) (csr_ExtensionOIDs csrInfo)
      then Inl (policyDecision ''csr_forbidden_extension_requested'')
      else if list_ex (\<lambda>dnsName. HasPrefix (TrimSpace dnsName) ''*.'' \<and>
                \<not> wildcardAllowedByProfile dnsName (prof_AllowedDNSPatterns profile)) (cer_RequestedDNSNames req)
      then Inl (policyDecision ''profile_wildcard_dns_not_allowed'')
      else if prof_PublicTLS profile \<and> cer_RequestedIPAddresses req \<noteq> [] \<and> prof_AllowedIPRanges profile = []
      then Inl (policyDecision ''profile_public_tls_ip_san_not_allowed'')
      else Inr ())"

definition validateEnrollmentProfilePolicy ::
  "CreateEnrollmentRequest \<Rightarrow> CertificateProfile \<Rightarrow> CSRInfo \<Rightarrow> time \<Rightarrow> err + unit" where
  "validateEnrollmentProfilePolicy req profile csrInfo now =
     (case validateCSRPolicy req profile csrInfo of
        Inl e \<Rightarrow> Inl e
      | Inr _ \<Rightarrow>
          if prof_ID profile = [] then Inr ()
          else if 0 < prof_ValidityPeriodSeconds profile \<and>
                  After (cer_RequestedNotAfter req)
                    (AddD now (validity_duration (prof_ValidityPeriodSeconds profile)))
          then Inl (policyDecision ''profile_validity_exceeded'')
          else if \<not> list_all (\<lambda>n. dnsAllowedByProfile n (prof_AllowedDNSPatterns profile)) (cer_RequestedDNSNames req)
          then Inl (policyDecision ''profile_dns_not_allowed'')
          else if \<not> list_all (\<lambda>a. ipAllowedByProfile a (prof_AllowedIPRanges profile)) (cer_RequestedIPAddresses req)
          then Inl (policyDecision ''profile_ip_not_allowed'')
          else if prof_AllowedKeyAlgorithms profile \<noteq> [] \<and>
                  \<not> stringInList (normalizeAlgorithm (csr_PublicKeyAlgorithm csrInfo)) (prof_AllowedKeyAlgorithms profile)
          then Inl (policyDecision ''profile_key_algorithm_not_allowed'')
          else if 0 < prof_MinKeySizeBits profile \<and> csr_PublicKeySizeBits csrInfo < prof_MinKeySizeBits profile
          then Inl (policyDecision ''profile_key_size_too_small'')
          else if prof_AllowedSignatureAlgorithms profile \<noteq> [] \<and>
                  \<not> stringInList (profileSignatureAlgorithm profile) (prof_AllowedSignatureAlgorithms profile)
          then Inl (policyDecision ''profile_signature_algorithm_not_allowed'')
          else Inr ())"

definition validateEnrollmentIdentityPolicy :: "CreateEnrollmentRequest \<Rightarrow> Identity \<Rightarrow> err + unit" where
  "validateEnrollmentIdentityPolicy req identity =
     (if idn_ID identity = [] then Inr ()
      else if \<not> list_all (\<lambda>n. valueAllowedByList n (idn_AllowedDNSNames identity)) (cer_RequestedDNSNames req)
      then Inl (policyDecision ''identity_dns_not_allowed'')
      else if \<not> list_all (\<lambda>a. valueAllowedByList a (idn_AllowedIPAddresses identity)) (cer_RequestedIPAddresses req)
      then Inl (policyDecision ''identity_ip_not_allowed'')
      else Inr ())"

definition enrollmentProfilePolicyRequest :: "Enrollment \<Rightarrow> CreateEnrollmentRequest" where
  "enrollmentProfilePolicyRequest enrollment =
     \<lparr>cer_IdentityID = enr_IdentityID enrollment, cer_IssuerID = enr_IssuerID enrollment,
      cer_CertificateProfileID = enr_CertificateProfileID enrollment, cer_CSRPEM = enr_CSRPEM enrollment,
      cer_RequestedSubject = enr_RequestedSubject enrollment,
      cer_RequestedDNSNames = enr_RequestedDNSNames enrollment,
      cer_RequestedIPAddresses = enr_RequestedIPAddresses enrollment,
      cer_RequestedNotAfter = enr_RequestedNotAfter enrollment\<rparr>"

definition sameStringSet :: "string list \<Rightarrow> string list \<Rightarrow> bool" where
  "sameStringSet left right \<longleftrightarrow>
     length left = length right \<and> sort_slice (<) left = sort_slice (<) right"

section \<open>Evidence references\<close>

definition sha256EvidenceReference :: "string \<Rightarrow> string \<Rightarrow> string" where
  "sha256EvidenceReference kind payload = kind @ '':sha256:'' @ sha256_hex payload"

definition sortedStrings :: "string list \<Rightarrow> string list" where
  "sortedStrings values = sort_slice (<) values"

definition policyValidationEvidenceSchema :: string where
  "policyValidationEvidenceSchema = ''anopki.policy.validation.v1''"

text \<open>Members with \<open>omitempty\<close>.\<close>

definition omit_strs :: "string \<Rightarrow> string list \<Rightarrow> (string \<times> json) list" where
  "omit_strs k vs = (if vs = [] then [] else [(k, JStrs vs)])"

definition omit_str :: "string \<Rightarrow> string \<Rightarrow> (string \<times> json) list" where
  "omit_str k v = (if v = [] then [] else [(k, JStr v)])"

definition omit_int :: "string \<Rightarrow> int \<Rightarrow> (string \<times> json) list" where
  "omit_int k i = (if i = 0 then [] else [(k, JInt i)])"

definition policyValidationEvidenceInput ::
  "CreateEnrollmentRequest \<Rightarrow> CertificateProfile \<Rightarrow> Identity \<Rightarrow> string \<Rightarrow> json" where
  "policyValidationEvidenceInput req profile identity csrRef = JObj
     ([(''schema'', JStr policyValidationEvidenceSchema)] @
      omit_str ''identity_id'' (idn_ID identity) @
      omit_strs ''identity_allowed_dns_names'' (sortedStrings (idn_AllowedDNSNames identity)) @
      omit_strs ''identity_allowed_ip_addresses'' (sortedStrings (idn_AllowedIPAddresses identity)) @
      [(''issuer_id'', JStr (cer_IssuerID req))] @
      omit_str ''profile_id'' (prof_ID profile) @
      omit_int ''profile_validity_seconds'' (prof_ValidityPeriodSeconds profile) @
      [(''profile_public_tls'', JBool (prof_PublicTLS profile))] @
      omit_strs ''profile_allowed_dns_patterns'' (sortedStrings (prof_AllowedDNSPatterns profile)) @
      omit_strs ''profile_allowed_ip_ranges'' (sortedStrings (prof_AllowedIPRanges profile)) @
      omit_strs ''profile_allowed_key_algorithms'' (sortedStrings (prof_AllowedKeyAlgorithms profile)) @
      omit_int ''profile_min_key_size_bits'' (prof_MinKeySizeBits profile) @
      omit_strs ''profile_allowed_signature_algorithms'' (sortedStrings (prof_AllowedSignatureAlgorithms profile)) @
      [(''requested_subject'', JStr (TrimSpace (cer_RequestedSubject req)))] @
      omit_strs ''requested_dns_names'' (sortedStrings (cer_RequestedDNSNames req)) @
      omit_strs ''requested_ip_addresses'' (sortedStrings (cer_RequestedIPAddresses req)) @
      [(''requested_not_after'', JStr (FormatRFC3339Nano (cer_RequestedNotAfter req))),
       (''csr_reference'', JStr csrRef)])"

definition policyValidationEvidenceRefs ::
  "CreateEnrollmentRequest \<Rightarrow> CertificateProfile \<Rightarrow> Identity \<Rightarrow> string list" where
  "policyValidationEvidenceRefs req profile identity =
     (let csrRef = sha256EvidenceReference ''csr'' (cer_CSRPEM req);
          encoded = json_marshal (policyValidationEvidenceInput req profile identity csrRef)
      in [''schema:'' @ policyValidationEvidenceSchema] @
         (if idn_ID identity = [] then [] else [''identity:'' @ idn_ID identity]) @
         (if cer_IssuerID req = [] then [] else [''issuer:'' @ cer_IssuerID req]) @
         (if prof_ID profile = [] then [] else [''profile:'' @ prof_ID profile]) @
         (if TrimSpace (cer_CSRPEM req) = [] then [] else [csrRef]) @
         [sha256EvidenceReference ''policy-input'' encoded])"

section \<open>CAA\<close>

definition hasCAATag :: "CAARecord list \<Rightarrow> string \<Rightarrow> bool" where
  "hasCAATag records tag = list_ex (\<lambda>record. EqualFold (TrimSpace (caa_Tag record)) tag) records"

definition caaValidationMethodsAllow :: "string \<Rightarrow> string \<Rightarrow> bool" where
  "caaValidationMethodsAllow value validationMethod =
     list_ex (\<lambda>method. EqualFold (TrimSpace method) validationMethod) (Split value (CHR '',''))"

definition caa_param_allows :: "string \<Rightarrow> string \<Rightarrow> string \<Rightarrow> bool" where
  "caa_param_allows accountURI validationMethod rawParam =
     (case Cut (TrimSpace rawParam) (CHR ''='') of (name, paramValue, ok) \<Rightarrow>
        if \<not> ok then True
        else let n = ToLower (TrimSpace name) in
          if n = ''accounturi'' then TrimSpace paramValue = accountURI
          else if n = ''validationmethods'' then caaValidationMethodsAllow paramValue validationMethod
          else True)"

definition caaRecordAllowsIssue :: "string \<Rightarrow> string \<Rightarrow> string \<Rightarrow> string \<Rightarrow> bool" where
  "caaRecordAllowsIssue value issuerDomain accountURI validationMethod =
     (case Split value (CHR '';'') of
        [] \<Rightarrow> False
      | part # params \<Rightarrow>
          let issuer = TrimSpace part in
          if issuer = [] \<or> \<not> EqualFold issuer issuerDomain then False
          else list_all (caa_param_allows accountURI validationMethod) params)"

definition caa_critical_unknown :: "CAARecord \<Rightarrow> bool" where
  "caa_critical_unknown record =
     (let tag = ToLower (TrimSpace (caa_Tag record)) in
      128 \<le> caa_Flag record mod 256 \<and> tag \<notin> {''issue'', ''issuewild'', ''iodef''})"

text \<open>\<open>PublicTLSCAAPolicy.check\<close> on the result of the lookup.\<close>

definition caa_decide :: "PublicTLSCAAPolicy \<Rightarrow> string \<Rightarrow> CAALookupResult \<Rightarrow> err + unit" where
  "caa_decide p dnsName result =
     (if caal_DNSSECStatus result = CAADNSSECBogus then Inl ErrInvalidRequest
      else if caal_DNSSECStatus result = CAADNSSECIndeterminate \<and> \<not> caap_AllowDNSSECIndeterminate p
      then Inl ErrInvalidRequest
      else
        let tag = (if HasPrefix dnsName ''*.'' \<and> hasCAATag (caal_Records result) ''issuewild''
                   then ''issuewild'' else ''issue'') in
        if list_ex caa_critical_unknown (caal_Records result) then Inl ErrInvalidRequest
        else let records = filter (\<lambda>record. ToLower (TrimSpace (caa_Tag record)) = tag) (caal_Records result) in
          if records = [] then Inr ()
          else if list_ex (\<lambda>record. caaRecordAllowsIssue (caa_Value record) (caap_IssuerDomain p)
                    (caap_AccountURI p) (caap_ValidationMethod p)) records
          then Inr () else Inl ErrInvalidRequest)"

definition PublicTLSCAAPolicy_check :: "PublicTLSCAAPolicy \<Rightarrow> string \<Rightarrow> (world, err, unit) eff" where
  "PublicTLSCAAPolicy_check p dnsName =
     bindE (callE (\<lambda>i. caap_Lookup p i dnsName)) (\<lambda>result. fromSum (caa_decide p dnsName result))"

definition validatePublicTLSCAA :: "service \<Rightarrow> string list \<Rightarrow> (world, err, unit) eff" where
  "validatePublicTLSCAA svc dnsNames =
     (if dnsNames = [] then returnE ()
      else case svc_publicTLSCAAPolicy svc of
        None \<Rightarrow> throwE ErrInvalidRequest
      | Some p \<Rightarrow> forE dnsNames (PublicTLSCAAPolicy_check p))"

definition validatePublicTLSLint :: "service \<Rightarrow> Enrollment \<Rightarrow> CertificateProfile \<Rightarrow> CSRInfo \<Rightarrow> (world, err, unit) eff" where
  "validatePublicTLSLint svc enrollment profile csrInfo =
     (if \<not> prof_PublicTLS profile then returnE ()
      else case svc_publicTLSLintHook svc of
        None \<Rightarrow> throwE ErrInvalidRequest
      | Some hook \<Rightarrow> callE (\<lambda>i. hook i \<lparr>lint_Enrollment = enrollment, lint_Profile = profile, lint_CSRInfo = csrInfo\<rparr>))"

section \<open>Errors of the core\<close>

text \<open>\<open>errors.As\<close> for a command error: its code.\<close>

fun as_command :: "err \<Rightarrow> string option" where
  "as_command (CommandError code _ _ _) = Some code"
| "as_command (ErrWrap a b) = (case as_command a of None \<Rightarrow> as_command b | c \<Rightarrow> c)"
| "as_command (ErrDetail a _) = as_command a"
| "as_command _ = None"

definition mapIssueError :: "err \<Rightarrow> err" where
  "mapIssueError e =
     (if as_command e = Some ''issue.csr_parse_failed'' then ErrWrap ErrCSRParseFailed e
      else ErrWrap ErrCertificateIssuanceFailed e)"

definition mapCRLError :: "err \<Rightarrow> err" where "mapCRLError e = ErrWrap ErrCRLGenerationFailed e"
definition mapOCSPDecodeError :: "err \<Rightarrow> err" where "mapOCSPDecodeError e = ErrWrap ErrOCSPDecodeFailed e"
definition mapOCSPResponseError :: "err \<Rightarrow> err" where "mapOCSPResponseError e = ErrWrap ErrOCSPResponseFailed e"
definition mapCSRInspectError :: "err \<Rightarrow> err" where "mapCSRInspectError e = ErrWrap ErrCSRParseFailed e"

end
