(* ===== verification/HttpGuard.thy ===== *)
theory HttpGuard
  imports Policy
begin

text \<open>
  The guard on outgoing HTTP requests, from \<open>service/internal/lifecycle/service.go\<close>: which URLs
  the HTTP-01 verifier and the webhook client may fetch and which addresses they may dial. The
  parts of Go's \<open>net/url\<close> and \<open>net\<close> that the guard rests on are modelled first, as Go 1.25.0
  has them.
\<close>

section \<open>URLs\<close>

record url =
  url_Scheme :: string
  url_User :: bool
  url_Host :: string
  url_Path :: string
  url_Opaque :: string

text \<open>The index of the last occurrence of a byte, and the string before and after it.\<close>

definition cut_last :: "string \<Rightarrow> char \<Rightarrow> (string \<times> string) option" where
  "cut_last s c =
     (if c \<notin> set s then None
      else Some (rev (drop 1 (dropWhile (\<lambda>x. x \<noteq> c) (rev s))), rev (takeWhile (\<lambda>x. x \<noteq> c) (rev s))))"

definition is_letter :: "char \<Rightarrow> bool" where
  "is_letter c \<longleftrightarrow> (let n = (of_char c :: nat) in (65 \<le> n \<and> n \<le> 90) \<or> (97 \<le> n \<and> n \<le> 122))"

definition is_digit :: "char \<Rightarrow> bool" where
  "is_digit c \<longleftrightarrow> (let n = (of_char c :: nat) in 48 \<le> n \<and> n \<le> 57)"

text \<open>
  Percent-decoding. In a host, an escape of an ASCII byte is only allowed for the percent sign,
  and so are the bytes that a host may hold unescaped; in a zone, escapes of those bytes and of
  the space are allowed too.
\<close>

datatype url_part = EncHost | EncZone | EncOther

definition host_byte :: "char \<Rightarrow> bool" where
  "host_byte c \<longleftrightarrow> is_letter c \<or> is_digit c \<or> c \<in> set ''!$&'' \<or> c = CHR 0x27 \<or> c \<in> set ''()*+,;=:[]<>-_.~'' \<or>
     c = CHR 0x22"

definition escape_ok :: "url_part \<Rightarrow> nat \<Rightarrow> nat \<Rightarrow> bool" where
  "escape_ok part h l =
     (case part of
        EncOther \<Rightarrow> True
      | EncHost \<Rightarrow> 8 \<le> h \<or> (h = 2 \<and> l = 5)
      | EncZone \<Rightarrow> (h = 2 \<and> l = 5) \<or> (h = 2 \<and> l = 0) \<or> host_byte (char_of (16 * h + l)))"

fun unescape :: "url_part \<Rightarrow> string \<Rightarrow> string option" where
  "unescape part [] = Some []"
| "unescape part (c # s) =
     (if c = CHR ''%'' then
        (case s of
           a # b # rest \<Rightarrow>
             (case (hex_value a, hex_value b) of
                (Some h, Some l) \<Rightarrow>
                  if escape_ok part h l then map_option (Cons (char_of (16 * h + l))) (unescape part rest)
                  else None
              | _ \<Rightarrow> None)
         | _ \<Rightarrow> None)
      else if part \<noteq> EncOther \<and> (of_char c :: nat) < 128 \<and> \<not> host_byte c then None
      else map_option (Cons c) (unescape part s))"

text \<open>\<open>getScheme\<close>: \<open>None\<close> if the colon comes first, else the scheme and the rest.\<close>

fun scheme_from :: "string \<Rightarrow> string \<Rightarrow> string \<Rightarrow> (string \<times> string) option" where
  "scheme_from raw seen [] = Some ([], raw)"
| "scheme_from raw seen (c # s) =
     (if is_letter c then scheme_from raw (seen @ [c]) s
      else if is_digit c \<or> c \<in> set ''+-.'' then
        (if seen = [] then Some ([], raw) else scheme_from raw (seen @ [c]) s)
      else if c = CHR '':'' then (if seen = [] then None else Some (seen, s))
      else Some ([], raw))"

definition validOptionalPort :: "string \<Rightarrow> bool" where
  "validOptionalPort port = (case port of [] \<Rightarrow> True | c # s \<Rightarrow> c = CHR '':'' \<and> list_all is_digit s)"

text \<open>The position of a substring.\<close>

fun index_of :: "string \<Rightarrow> string \<Rightarrow> nat option" where
  "index_of [] sub = (if sub = [] then Some 0 else None)"
| "index_of (c # s) sub = (if HasPrefix (c # s) sub then Some 0 else map_option Suc (index_of s sub))"

definition parseHost :: "string \<Rightarrow> string option" where
  "parseHost host =
     (if HasPrefix host ''['' then
        (case cut_last host (CHR '']'') of
           None \<Rightarrow> None
         | Some (pre, colonPort) \<Rightarrow>
             if \<not> validOptionalPort colonPort then None
             else case index_of pre ''%25'' of
               Some z \<Rightarrow>
                 (case (unescape EncHost (take z pre), unescape EncZone (drop z pre),
                        unescape EncHost ('']'' @ colonPort)) of
                    (Some a, Some b, Some c) \<Rightarrow> Some (a @ b @ c)
                  | _ \<Rightarrow> None)
             | None \<Rightarrow> unescape EncHost host)
      else case cut_last host (CHR '':'') of
        Some (_, port) \<Rightarrow> if \<not> validOptionalPort ('':'' @ port) then None else unescape EncHost host
      | None \<Rightarrow> unescape EncHost host)"

definition validUserinfo :: "string \<Rightarrow> bool" where
  "validUserinfo s \<longleftrightarrow>
     list_all (\<lambda>c. is_letter c \<or> is_digit c \<or> c \<in> set ''-._:~!$&()*+,;=%@'' \<or> c = CHR 0x27) s"

text \<open>The user information of an authority is only kept as a flag: the guard asks whether there is any.\<close>

definition parseAuthority :: "string \<Rightarrow> (bool \<times> string) option" where
  "parseAuthority authority =
     (case cut_last authority (CHR ''@'') of
        None \<Rightarrow> map_option (\<lambda>h. (False, h)) (parseHost authority)
      | Some (userinfo, rest) \<Rightarrow>
          (case parseHost rest of
             None \<Rightarrow> None
           | Some h \<Rightarrow>
               if \<not> validUserinfo userinfo then None
               else (case Cut userinfo (CHR '':'') of (name, password, _) \<Rightarrow>
                       if unescape EncOther name = None \<or> unescape EncOther password = None then None
                       else Some (True, h))))"

definition has_ctl :: "string \<Rightarrow> bool" where
  "has_ctl s \<longleftrightarrow> list_ex (\<lambda>c. (of_char c :: nat) < 32 \<or> of_char c = (127 :: nat)) s"

text \<open>\<open>parse\<close> after the fragment has been cut off; the query is dropped.\<close>

definition parse_url :: "string \<Rightarrow> url option" where
  "parse_url raw =
     (if has_ctl raw then None
      else if raw = ''*'' then Some \<lparr>url_Scheme = [], url_User = False, url_Host = [], url_Path = ''*'', url_Opaque = []\<rparr>
      else case scheme_from raw [] raw of
        None \<Rightarrow> None
      | Some (scheme0, rest0) \<Rightarrow>
          let scheme = ToLower scheme0; rest = fst (Cut rest0 (CHR ''?'')) in
          if \<not> HasPrefix rest ''/'' \<and> scheme \<noteq> []
          then Some \<lparr>url_Scheme = scheme, url_User = False, url_Host = [], url_Path = [], url_Opaque = rest\<rparr>
          else if \<not> HasPrefix rest ''/'' \<and> CHR '':'' \<in> set (fst (Cut rest (CHR ''/''))) then None
          else if (scheme \<noteq> [] \<or> \<not> HasPrefix rest ''///'') \<and> HasPrefix rest ''//'' then
            (let authority = takeWhile (\<lambda>c. c \<noteq> CHR ''/'') (drop 2 rest);
                 path = dropWhile (\<lambda>c. c \<noteq> CHR ''/'') (drop 2 rest)
             in case (parseAuthority authority, unescape EncOther path) of
                  (Some (user, host), Some p) \<Rightarrow>
                    Some \<lparr>url_Scheme = scheme, url_User = user, url_Host = host, url_Path = p, url_Opaque = []\<rparr>
                | _ \<Rightarrow> None)
          else map_option (\<lambda>p. \<lparr>url_Scheme = scheme, url_User = False, url_Host = [], url_Path = p, url_Opaque = []\<rparr>)
                 (unescape EncOther rest))"

definition url_Parse :: "string \<Rightarrow> url option" where
  "url_Parse raw =
     (case Cut raw (CHR ''#'') of (u, frag, _) \<Rightarrow>
        if unescape EncOther frag = None then None else parse_url u)"

text \<open>\<open>Hostname\<close>: the host without the port and without the brackets of an IPv6 address.\<close>

definition strip_port :: "string \<Rightarrow> string" where
  "strip_port hostport =
     (case cut_last hostport (CHR '':'') of
        Some (pre, port) \<Rightarrow> if validOptionalPort ('':'' @ port) then pre else hostport
      | None \<Rightarrow> hostport)"

definition Hostname :: "url \<Rightarrow> string" where
  "Hostname u =
     (let host = strip_port (url_Host u) in
      if HasPrefix host ''['' \<and> HasSuffix host '']'' then butlast (drop 1 host) else host)"

section \<open>The guard\<close>

definition acmeHTTP01AllowedScheme :: "string \<Rightarrow> bool" where
  "acmeHTTP01AllowedScheme scheme \<longleftrightarrow> scheme = ''http'' \<or> scheme = ''https''"

definition acmeHTTP01BlockedSpecialPrefixes :: "ip_prefix list" where
  "acmeHTTP01BlockedSpecialPrefixes =
     [Prefix (V4 (word_of_nat (100 * 2^24 + 64 * 2^16))) 10, Prefix (V4 (word_of_nat (192 * 2^24))) 24,
      Prefix (V4 (word_of_nat (192 * 2^24 + 2 * 2^8))) 24, Prefix (V4 (word_of_nat (198 * 2^24 + 18 * 2^16))) 15,
      Prefix (V4 (word_of_nat (198 * 2^24 + 51 * 2^16 + 100 * 2^8))) 24,
      Prefix (V4 (word_of_nat (203 * 2^24 + 113 * 2^8))) 24,
      Prefix (V6 (word_of_nat (0x20010db8 * 2^96)) []) 32]"

definition acmeHTTP01BlockedSpecialIP :: "ip_addr \<Rightarrow> bool" where
  "acmeHTTP01BlockedSpecialIP addr \<longleftrightarrow>
     list_ex (\<lambda>prefix. prefix_Contains prefix addr) acmeHTTP01BlockedSpecialPrefixes \<or>
     addr = V4 (word_of_nat (169 * 2^24 + 254 * 2^16 + 169 * 2^8 + 254)) \<or>
     addr = V4 (word_of_nat (100 * 2^24 + 100 * 2^16 + 100 * 2^8 + 200))"

definition acmeHTTP01SafeIP :: "ip_addr \<Rightarrow> bool" where
  "acmeHTTP01SafeIP addr0 =
     (let addr = Unmap addr0 in
      if acmeHTTP01BlockedSpecialIP addr then False
      else \<not> IsLoopback addr \<and> \<not> IsPrivate addr \<and> \<not> IsLinkLocalUnicast addr \<and>
           \<not> IsLinkLocalMulticast addr \<and> \<not> IsMulticast addr \<and> \<not> IsUnspecified addr)"

definition validateACMEHTTP01Host :: "string \<Rightarrow> err + unit" where
  "validateACMEHTTP01Host host0 =
     (let host = TrimSpace (ToLower host0) in
      if host = [] \<or> host = ''localhost'' \<or> HasSuffix host ''.localhost'' then Inl ErrInvalidRequest
      else case ParseAddr host of
        Some addr \<Rightarrow> if \<not> acmeHTTP01SafeIP (Unmap addr) then Inl ErrInvalidRequest else Inr ()
      | None \<Rightarrow> Inr ())"

definition validateACMEHTTP01FetchURL :: "url \<Rightarrow> err + unit" where
  "validateACMEHTTP01FetchURL u =
     (if \<not> acmeHTTP01AllowedScheme (url_Scheme u) \<or> url_Host u = [] \<or> url_User u then Inl ErrInvalidRequest
      else validateACMEHTTP01Host (Hostname u))"

text \<open>The check on every redirect.\<close>

definition acmeHTTP01RedirectLimit :: nat where
  "acmeHTTP01RedirectLimit = 10"

definition http01_CheckRedirect :: "url \<Rightarrow> nat \<Rightarrow> err + unit" where
  "http01_CheckRedirect u via =
     (if acmeHTTP01RedirectLimit \<le> via then Inl ErrInvalidRequest else validateACMEHTTP01FetchURL u)"

text \<open>
  \<open>netip.AddrFromSlice\<close> on the bytes of a resolved address, and the address printed:
  dotted decimal, or groups in hexadecimal with the longest run of zero groups elided.
\<close>

definition bytes_value :: "nat list \<Rightarrow> nat" where
  "bytes_value bs = foldl (\<lambda>a b. 256 * a + b) 0 bs"

definition AddrFromSlice :: "nat list \<Rightarrow> ip_addr option" where
  "AddrFromSlice bs =
     (if length bs = 4 then Some (V4 (word_of_nat (bytes_value bs)))
      else if length bs = 16 then Some (V6 (word_of_nat (bytes_value bs)) [])
      else None)"

definition group_at :: "128 word \<Rightarrow> nat \<Rightarrow> nat" where
  "group_at a i = unat (drop_bit (16 * (7 - i)) a) mod 65536"

fun hex_nat :: "nat \<Rightarrow> string" where
  "hex_nat n = (if n < 16 then [hex_digit n] else hex_nat (n div 16) @ [hex_digit (n mod 16)])"

declare hex_nat.simps [simp del]

definition zero_run :: "128 word \<Rightarrow> nat \<Rightarrow> nat" where
  "zero_run a i = length (takeWhile (\<lambda>j. group_at a j = 0) [i..<8])"

text \<open>The first of the longest runs of at least two zero groups.\<close>

definition best_run :: "128 word \<Rightarrow> (nat \<times> nat) option" where
  "best_run a =
     foldl (\<lambda>best i. let n = zero_run a i; m = (case best of None \<Rightarrow> 1 | Some (_, m) \<Rightarrow> m) in
              if m < n then Some (i, n) else best) None [0..<8]"

definition Addr_String :: "ip_addr \<Rightarrow> string" where
  "Addr_String addr =
     (case addr of
        V4 a \<Rightarrow> Join (map (\<lambda>i. nat_dec (unat (drop_bit (8 * i) a) mod 256)) [3, 2, 1, 0]) ''.''
      | V6 a zone \<Rightarrow>
          (case best_run a of
             None \<Rightarrow> Join (map (\<lambda>i. hex_nat (group_at a i)) [0..<8]) '':''
           | Some (i, n) \<Rightarrow>
               Join (map (\<lambda>j. hex_nat (group_at a j)) [0..<i]) '':'' @ ''::'' @
               Join (map (\<lambda>j. hex_nat (group_at a j)) [i + n..<8]) '':'') @
          (if zone = [] then [] else ''%'' @ zone))"

definition JoinHostPort :: "string \<Rightarrow> string \<Rightarrow> string" where
  "JoinHostPort host port =
     (if CHR '':'' \<in> set host then ''['' @ host @ '']:'' @ port else host @ '':'' @ port)"

text \<open>The addresses a connection may go to: the safe ones among those the name resolves to.\<close>

definition safe_addrs :: "nat list list \<Rightarrow> ip_addr list" where
  "safe_addrs ips = filter acmeHTTP01SafeIP (map Unmap (List.map_filter AddrFromSlice ips))"

definition acmeHTTP01DialTargets ::
  "string \<Rightarrow> string \<Rightarrow> (string \<Rightarrow> err + nat list list) \<Rightarrow> err + string list" where
  "acmeHTTP01DialTargets host port resolve =
     (case validateACMEHTTP01Host host of
        Inl e \<Rightarrow> Inl e
      | Inr _ \<Rightarrow>
          (case resolve host of
             Inl e \<Rightarrow> Inl e
           | Inr ips \<Rightarrow>
               let targets = map (\<lambda>addr. JoinHostPort (Addr_String addr) port) (safe_addrs ips) in
               if targets = [] then Inl ErrInvalidRequest else Inr targets))"

definition SplitHostPort :: "string \<Rightarrow> (string \<times> string) option" where
  "SplitHostPort hostport =
     (case cut_last hostport (CHR '':'') of
        None \<Rightarrow> None
      | Some (pre, port) \<Rightarrow>
          if HasPrefix hostport ''['' then
            (if CHR '']'' \<notin> set hostport then None
             else let inner = drop 1 (takeWhile (\<lambda>c. c \<noteq> CHR '']'') hostport) in
               if pre \<noteq> ''['' @ inner @ '']'' then None
               else if CHR ''['' \<in> set inner \<or> CHR ''['' \<in> set port \<or> CHR '']'' \<in> set port then None
               else Some (inner, port))
          else if CHR '':'' \<in> set pre \<or> CHR ''['' \<in> set hostport \<or> CHR '']'' \<in> set hostport then None
          else Some (pre, port))"

text \<open>
  \<open>DialContext\<close> of the guarded client. \<open>dial\<close> connects to one target; the first connection wins.
\<close>

fun dial_first :: "(string \<Rightarrow> err + 'c) \<Rightarrow> string list \<Rightarrow> err \<Rightarrow> err + 'c" where
  "dial_first dial [] lastErr = Inl lastErr"
| "dial_first dial (target # targets) lastErr =
     (case dial target of Inr conn \<Rightarrow> Inr conn | Inl e \<Rightarrow> dial_first dial targets e)"

definition http01_DialContext ::
  "(string \<Rightarrow> err + nat list list) \<Rightarrow> (string \<Rightarrow> err + 'c) \<Rightarrow> string \<Rightarrow> err + 'c" where
  "http01_DialContext resolve dial address =
     (case SplitHostPort address of
        None \<Rightarrow> Inl ErrInvalidRequest
      | Some (host, port) \<Rightarrow>
          (case acmeHTTP01DialTargets host port resolve of
             Inl e \<Rightarrow> Inl e
           | Inr targets \<Rightarrow> dial_first dial targets ErrInvalidRequest))"

section \<open>Notification endpoints\<close>

text \<open>A string read as runes; an invalid encoding is the replacement character, one byte at a time.\<close>

fun runes :: "string \<Rightarrow> string list" where
  "runes [] = []"
| "runes (c # s) =
     (let n = utf8_len (c # s) in
      if n = 0 then map char_of [239, 191, 189 :: nat] # runes s
      else take n (c # s) # runes (drop (n - 1) s))"

definition isSingleRepeatedRune :: "string \<Rightarrow> bool" where
  "isSingleRepeatedRune value =
     (case runes value of [] \<Rightarrow> False | first # rest \<Rightarrow> list_all (\<lambda>current. current = first) rest)"

definition isWeakWebhookSecret :: "string \<Rightarrow> bool" where
  "isWeakWebhookSecret secret =
     (let trimmed = TrimSpace secret in
      if length trimmed < 32 then True
      else if isSingleRepeatedRune trimmed then True
      else ToLower trimmed \<in> {''change-me'', ''changeme'', ''webhook-secret'', ''secret'', ''password'', ''anopki''})"

record CreateNotificationEndpointRequest =
  cne_Name :: string
  cne_URL :: string
  cne_Secret :: string
  cne_EventTypes :: "string list"

definition validateCreateNotificationEndpointRequest :: "CreateNotificationEndpointRequest \<Rightarrow> bool \<Rightarrow> err + unit" where
  "validateCreateNotificationEndpointRequest req productionPolicy =
     (if isBlank (cne_Name req) \<or> isBlank (cne_URL req) \<or> isBlank (cne_Secret req) then Inl ErrInvalidRequest
      else case url_Parse (cne_URL req) of
        None \<Rightarrow> Inl ErrInvalidRequest
      | Some parsed \<Rightarrow>
          if url_Host parsed = [] \<or> (url_Scheme parsed \<noteq> ''http'' \<and> url_Scheme parsed \<noteq> ''https'')
          then Inl ErrInvalidRequest
          else if productionPolicy \<and> (url_Scheme parsed \<noteq> ''https'' \<or> isWeakWebhookSecret (cne_Secret req))
          then Inl ErrInvalidRequest
          else case validateACMEHTTP01FetchURL parsed of
            Inl e \<Rightarrow> Inl e
          | Inr _ \<Rightarrow> if list_ex isBlank (cne_EventTypes req) then Inl ErrInvalidRequest else Inr ())"

section \<open>The HTTP-01 verifier\<close>

definition acmeHTTP01ChallengeURL :: "url option \<Rightarrow> string \<Rightarrow> string \<Rightarrow> url" where
  "acmeHTTP01ChallengeURL baseURL identifier token =
     (let challengePath = ''/.well-known/acme-challenge/'' @ token in
      case baseURL of
        None \<Rightarrow> \<lparr>url_Scheme = ''http'', url_User = False, url_Host = identifier, url_Path = challengePath, url_Opaque = []\<rparr>
      | Some base \<Rightarrow> base\<lparr>url_Path := rev (dropWhile (\<lambda>c. c = CHR ''/'') (rev (url_Path base))) @ challengePath\<rparr>)"

text \<open>
  The verifier that \<open>NewACMEHTTP01Verifier\<close> builds. \<open>fetch\<close> is the client: it makes the GET request
  for a URL and returns the status code and the body of the response. With an override URL, which
  only a test set-up has, the target is not guarded.
\<close>

definition http01_verify ::
  "(url \<Rightarrow> err + int \<times> string) \<Rightarrow> url option \<Rightarrow> string \<Rightarrow> string \<Rightarrow> string \<Rightarrow> err + unit" where
  "http01_verify fetch baseURL identifier token keyAuthorization =
     (let challengeURL = acmeHTTP01ChallengeURL baseURL identifier token;
          request = (case fetch challengeURL of
              Inl e \<Rightarrow> Inl e
            | Inr (status, body) \<Rightarrow>
                if status \<noteq> 200 then Inl ErrInvalidRequest
                else if TrimSpace (take 4096 body) \<noteq> keyAuthorization then Inl ErrInvalidRequest
                else Inr ())
      in if baseURL = None then
           (case validateACMEHTTP01FetchURL challengeURL of Inl e \<Rightarrow> Inl e | Inr _ \<Rightarrow> request)
         else request)"

end
