(* ===== verification/ApiKeys.thy ===== *)
theory ApiKeys
  imports Policy
begin

text \<open>
  API keys, from \<open>service/internal/lifecycle/service.go\<close>: hashing and fingerprints of tokens,
  authentication, creation, disabling and rotation. The service stores only the hash of a token.
\<close>

section \<open>Tokens\<close>

definition HashAPIKeyToken :: "string \<Rightarrow> string" where
  "HashAPIKeyToken token = ''sha256:'' @ sha256_hex token"

definition HashAPIKeyTokenWithPepper :: "string \<Rightarrow> string \<Rightarrow> string" where
  "HashAPIKeyTokenWithPepper token pepper0 =
     (let pepper = TrimSpace pepper0 in
      if pepper = [] then HashAPIKeyToken token
      else ''hmac-sha256:'' @ hex_encode (hmac_sha256 (string_bytes pepper) (string_bytes token)))"

definition APIKeyTokenFingerprint :: "string \<Rightarrow> string" where
  "APIKeyTokenFingerprint tokenHash =
     (case Cut tokenHash CHR '':'' of (algorithm, hash, ok) \<Rightarrow>
        if \<not> ok \<or> algorithm = [] \<or> hash = [] then []
        else algorithm @ '':'' @ (if 16 < length hash then take 16 hash else hash))"

definition hashAPIKeyToken :: "service \<Rightarrow> string \<Rightarrow> string" where
  "hashAPIKeyToken svc token = HashAPIKeyTokenWithPepper token (svc_apiKeyPepper svc)"

text \<open>\<open>base64.RawURLEncoding\<close>: the URL alphabet, no padding.\<close>

definition b64_digit :: "nat \<Rightarrow> char" where
  "b64_digit n =
     (if n < 26 then char_of (65 + n) else if n < 52 then char_of (71 + n)
      else if n < 62 then char_of (n - 4) else if n = 62 then CHR ''-'' else CHR ''_'')"

fun base64_url :: "nat list \<Rightarrow> string" where
  "base64_url [] = []"
| "base64_url [a] = [b64_digit (a div 4), b64_digit (a mod 4 * 16)]"
| "base64_url [a, b] =
     [b64_digit (a div 4), b64_digit (a mod 4 * 16 + b div 16), b64_digit (b mod 16 * 4)]"
| "base64_url (a # b # c # bs) =
     b64_digit (a div 4) # b64_digit (a mod 4 * 16 + b div 16) # b64_digit (b mod 16 * 4 + c div 64) #
     b64_digit (c mod 64) # base64_url bs"

text \<open>\<open>svc_randRead\<close> fills the 32 bytes.\<close>

definition generateAPIKeyToken :: "service \<Rightarrow> (world, err, string) eff" where
  "generateAPIKeyToken svc = bindE (callE (svc_randRead svc)) (\<lambda>raw. returnE (base64_url raw))"

fun scopes_ok :: "APIKeyScope set \<Rightarrow> APIKeyScope list \<Rightarrow> bool" where
  "scopes_ok seen [] = True"
| "scopes_ok seen (scope # scopes) =
     (scope \<in> {APIKeyScopeRead, APIKeyScopeWrite, APIKeyScopeOperator} \<and> scope \<notin> seen \<and>
      scopes_ok (insert scope seen) scopes)"

definition validateAPIKeyScopes :: "APIKeyScope list \<Rightarrow> err + unit" where
  "validateAPIKeyScopes scopes =
     (if scopes = [] \<or> \<not> scopes_ok {} scopes then Inl ErrInvalidRequest else Inr ())"

section \<open>Operations\<close>

record EnsureAPIKeyRequest =
  eak_Name :: string
  eak_Token :: string
  eak_Actor :: string
  eak_Scopes :: "APIKeyScope list"

record CreateAPIKeyRequest =
  cak_Name :: string
  cak_Actor :: string
  cak_Scopes :: "APIKeyScope list"
  cak_ExpiresAt :: time

record CreateAPIKeyResult =
  akr_Key :: APIKey
  akr_Token :: string

definition getAPIKeyByToken :: "service \<Rightarrow> string \<Rightarrow> (world, err, APIKey) eff" where
  "getAPIKeyByToken svc token =
     (let plain = repoE (repo_GetAPIKeyByTokenHash (HashAPIKeyToken token)) in
      if TrimSpace (svc_apiKeyPepper svc) \<noteq> [] then
        bindE (attemptE (repoE (repo_GetAPIKeyByTokenHash (hashAPIKeyToken svc token)))) (\<lambda>r.
        case r of
          Inr key \<Rightarrow> returnE key
        | Inl e \<Rightarrow> if \<not> errors_Is e ErrAPIKeyNotFound then throwE e else plain)
      else plain)"

definition AuthenticateAPIKey :: "service \<Rightarrow> string \<Rightarrow> (world, err, APIKey) eff" where
  "AuthenticateAPIKey svc token0 =
     (let token = TrimSpace token0 in
      thenE (failIf (token = []) ErrUnauthorized)
      (bindE (mapErrE (\<lambda>e. if errors_Is e ErrAPIKeyNotFound then ErrUnauthorized else e)
                (getAPIKeyByToken svc token)) (\<lambda>key.
       thenE (failIf (key_Status key \<noteq> APIKeyActive \<or> TrimSpace (key_Actor key) = []) ErrUnauthorized)
       (thenE (failIf (key_Scopes key = []) ErrUnauthorized)
       (bindE (clockNow svc) (\<lambda>now.
        thenE (failIf (\<not> IsZero (key_ExpiresAt key) \<and> \<not> After (key_ExpiresAt key) now) ErrUnauthorized)
        (let used = key\<lparr>key_LastUsedAt := now, key_UpdatedAt := now\<rparr> in
         thenE (mapErrE (\<lambda>e. if errors_Is e ErrAPIKeyNotFound \<or> errors_Is e ErrInvalidTransition
                             then ErrUnauthorized else e)
                 (repoE (repo_UpdateAPIKeyIfStatus used APIKeyActive)))
         (returnE used))))))))"

definition EnsureAPIKey ::
  "service \<Rightarrow> request_ctx \<Rightarrow> string \<Rightarrow> EnsureAPIKeyRequest \<Rightarrow> (world, err, APIKey) eff" where
  "EnsureAPIKey svc ctx actor req =
     thenE (failIf (TrimSpace (eak_Name req) = [] \<or> TrimSpace (eak_Token req) = [] \<or>
                    TrimSpace (eak_Actor req) = []) ErrInvalidRequest)
     (let scopes = (if eak_Scopes req = [] then [APIKeyScopeOperator] else eak_Scopes req) in
      thenE (fromSum (validateAPIKeyScopes scopes))
      (bindE (attemptE (getAPIKeyByToken svc (eak_Token req))) (\<lambda>r.
       case r of
         Inr existing \<Rightarrow>
           thenE (failIf (key_Status existing \<noteq> APIKeyActive \<or> TrimSpace (key_Actor existing) = [] \<or>
                          key_Scopes existing = []) ErrInvalidTransition)
           (thenE (fromSum (validateAPIKeyScopes (key_Scopes existing)))
           (thenE (failIf (APIKeyScopeOperator \<notin> set (key_Scopes existing)) ErrInvalidTransition)
           (returnE existing)))
       | Inl e \<Rightarrow>
           thenE (failIf (\<not> errors_Is e ErrAPIKeyNotFound) e)
           (bindE (clockNow svc) (\<lambda>now.
            bindE (newID svc) (\<lambda>ident.
            let key = \<lparr>key_ID = ident, key_Name = TrimSpace (eak_Name req),
                       key_TokenHash = hashAPIKeyToken svc (eak_Token req), key_Status = APIKeyActive,
                       key_Actor = TrimSpace (eak_Actor req), key_Scopes = scopes, key_ExpiresAt = 0,
                       key_LastUsedAt = 0, key_CreatedAt = now, key_UpdatedAt = now\<rparr> in
            thenE (WithinTx
              (thenE (repoE (repo_CreateAPIKey key))
              (createAuditEvent svc ctx actor ''api_key.created'' ''api_key'' (key_ID key) now (auditFields
                 [(''api_key_id'', key_ID key), (''api_key_name'', key_Name key),
                  (''api_key_actor'', key_Actor key)]))))
            (returnE key)))))))"

definition CreateAPIKey ::
  "service \<Rightarrow> request_ctx \<Rightarrow> string \<Rightarrow> CreateAPIKeyRequest \<Rightarrow> (world, err, CreateAPIKeyResult) eff" where
  "CreateAPIKey svc ctx actor req =
     thenE (failIf (TrimSpace (cak_Name req) = [] \<or> TrimSpace (cak_Actor req) = [] \<or> cak_Scopes req = [])
              ErrInvalidRequest)
     (thenE (fromSum (validateAPIKeyScopes (cak_Scopes req)))
     (bindE (clockNow svc) (\<lambda>now.
      thenE (failIf (\<not> IsZero (cak_ExpiresAt req) \<and> \<not> After (cak_ExpiresAt req) now) ErrInvalidRequest)
      (bindE (generateAPIKeyToken svc) (\<lambda>token.
       bindE (newID svc) (\<lambda>ident.
       let key = \<lparr>key_ID = ident, key_Name = TrimSpace (cak_Name req),
                  key_TokenHash = hashAPIKeyToken svc token, key_Status = APIKeyActive,
                  key_Actor = TrimSpace (cak_Actor req), key_Scopes = cak_Scopes req,
                  key_ExpiresAt = cak_ExpiresAt req, key_LastUsedAt = 0, key_CreatedAt = now,
                  key_UpdatedAt = now\<rparr> in
       thenE (WithinTx
         (thenE (repoE (repo_CreateAPIKey key))
         (createAuditEvent svc ctx actor ''api_key.created'' ''api_key'' (key_ID key) now (apiKeyAuditFields key))))
       (returnE \<lparr>akr_Key = key, akr_Token = token\<rparr>)))))))"

definition ListAPIKeys :: "(world, err, APIKey list) eff" where
  "ListAPIKeys = repoE repo_ListAPIKeys"

definition DisableAPIKey :: "service \<Rightarrow> request_ctx \<Rightarrow> string \<Rightarrow> string \<Rightarrow> (world, err, APIKey) eff" where
  "DisableAPIKey svc ctx actor ident =
     thenE (failIf (isBlank ident) ErrInvalidRequest)
     (bindE (clockNow svc) (\<lambda>now.
      WithinTx
        (bindE (repoE (repo_GetAPIKey ident)) (\<lambda>current.
         thenE (failIf (key_Status current \<noteq> APIKeyActive) ErrInvalidTransition)
         (let key = current\<lparr>key_Status := APIKeyDisabled, key_UpdatedAt := now\<rparr> in
          thenE (repoE (repo_UpdateAPIKeyIfStatus key APIKeyActive))
          (thenE (createAuditEvent svc ctx actor ''api_key.disabled'' ''api_key'' (key_ID key) now
                    (addStatusTransition (apiKeyAuditFields key) (str_APIKeyStatus APIKeyActive)
                      (str_APIKeyStatus (key_Status key))))
          (returnE key)))))))"

definition rotated_key :: "service \<Rightarrow> APIKey \<Rightarrow> string \<Rightarrow> string \<Rightarrow> time \<Rightarrow> APIKey" where
  "rotated_key svc oldKey ident token now =
     \<lparr>key_ID = ident, key_Name = key_Name oldKey, key_TokenHash = hashAPIKeyToken svc token,
      key_Status = APIKeyActive, key_Actor = key_Actor oldKey, key_Scopes = key_Scopes oldKey,
      key_ExpiresAt = key_ExpiresAt oldKey, key_LastUsedAt = 0, key_CreatedAt = now, key_UpdatedAt = now\<rparr>"

definition RotateAPIKey ::
  "service \<Rightarrow> request_ctx \<Rightarrow> string \<Rightarrow> string \<Rightarrow> (world, err, CreateAPIKeyResult) eff" where
  "RotateAPIKey svc ctx actor ident =
     thenE (failIf (isBlank ident) ErrInvalidRequest)
     (bindE (generateAPIKeyToken svc) (\<lambda>token.
      bindE (clockNow svc) (\<lambda>now.
      WithinTx
        (bindE (repoE (repo_GetAPIKey ident)) (\<lambda>current.
         thenE (failIf (key_Status current \<noteq> APIKeyActive \<or>
                        (\<not> IsZero (key_ExpiresAt current) \<and> \<not> After (key_ExpiresAt current) now))
                  ErrInvalidTransition)
         (let oldKey = current\<lparr>key_Status := APIKeyDisabled, key_UpdatedAt := now\<rparr> in
          thenE (repoE (repo_UpdateAPIKeyIfStatus oldKey APIKeyActive))
          (bindE (newID svc) (\<lambda>newIdent.
           let newKey = rotated_key svc oldKey newIdent token now in
           thenE (repoE (repo_CreateAPIKey newKey))
           (thenE (createAuditEvent svc ctx actor ''api_key.rotated'' ''api_key'' (key_ID newKey) now
              (mput ''rotated_from_api_key_id'' (JStr (key_ID oldKey))
                (addStatusTransition (apiKeyAuditFields newKey) (str_APIKeyStatus (key_Status current))
                  (str_APIKeyStatus (key_Status newKey)))))
           (returnE \<lparr>akr_Key = newKey, akr_Token = token\<rparr>))))))))))"

end
