(* ===== verification/Certificates.thy ===== *)
theory Certificates
  imports Policy
begin

text \<open>
  The certificate lifecycle after issuance, from \<open>service/internal/lifecycle/service.go\<close>:
  revocation, suspension, resumption and the expiration scan.
\<close>

section \<open>Operations\<close>

definition addIdentityDeploymentTarget :: "string \<Rightarrow> fields \<Rightarrow> (world, err, fields) eff" where
  "addIdentityDeploymentTarget identityID flds =
     bindE (attemptE (repoE (repo_GetIdentity identityID))) (\<lambda>r.
     case r of
       Inl e \<Rightarrow> if errors_Is e ErrIdentityNotFound then returnE flds else throwE e
     | Inr identity \<Rightarrow>
         returnE (if idn_DeploymentTarget identity \<noteq> []
                  then mput ''deployment_target'' (JStr (idn_DeploymentTarget identity)) flds else flds))"

definition canRevokeCertificateStatus :: "CertificateStatus \<Rightarrow> bool \<Rightarrow> bool" where
  "canRevokeCertificateStatus status force =
     (if status = CertificateValid then True else force \<and> status = CertificateSuspended)"

definition certificate_fields :: "Certificate \<Rightarrow> (string \<times> string) list" where
  "certificate_fields certificate =
     [(''identity_id'', cert_IdentityID certificate), (''issuer_id'', cert_IssuerID certificate),
      (''enrollment_id'', cert_EnrollmentID certificate), (''certificate_id'', cert_ID certificate),
      (''serial_number'', cert_SerialNumber certificate), (''profile_id'', cert_CertificateProfileID certificate)]"

definition revokeCertificate ::
  "service \<Rightarrow> request_ctx \<Rightarrow> string \<Rightarrow> string \<Rightarrow> RevocationReason \<Rightarrow> bool \<Rightarrow> (world, err, Certificate) eff" where
  "revokeCertificate svc ctx actor certificateID reason force =
     thenE (failIf (isBlank certificateID \<or> \<not> isValidRevocationReason reason) ErrInvalidRequest)
     (bindE (clockNow svc) (\<lambda>now.
      WithinTx
        (bindE (repoE (repo_GetCertificate certificateID)) (\<lambda>current.
         thenE (failIf (\<not> canRevokeCertificateStatus (cert_Status current) force) ErrInvalidTransition)
         (let certificate = current\<lparr>cert_Status := CertificateRevoked, cert_UpdatedAt := now\<rparr> in
          thenE (repoE (repo_UpdateCertificateIfStatus certificate (cert_Status current)))
          (bindE (newID svc) (\<lambda>revocationID.
           thenE (repoE (repo_CreateRevocation
             \<lparr>rev_ID = revocationID, rev_CertificateID = cert_ID certificate, rev_Reason = reason,
              rev_RevokedBy = actor, rev_RevokedAt = now, rev_CreatedAt = now\<rparr>))
           (let action = (if force then ''certificate.force_revoked'' else ''certificate.revoked'');
                flds = auditFields (certificate_fields certificate @
                         [(''revocation_reason'', str_RevocationReason reason)])
            in bindE (addIdentityDeploymentTarget (cert_IdentityID certificate) flds) (\<lambda>flds1.
               let flds2 = addStatusTransition flds1 (str_CertificateStatus (cert_Status current))
                             (str_CertificateStatus (cert_Status certificate)) in
               thenE (createAuditEvent svc ctx actor action ''certificate'' (cert_ID certificate) now flds2)
               (thenE (createOutboxMessage svc action now flds2)
               (returnE certificate)))))))))))"

definition RevokeCertificate ::
  "service \<Rightarrow> request_ctx \<Rightarrow> string \<Rightarrow> string \<Rightarrow> RevocationReason \<Rightarrow> (world, err, Certificate) eff" where
  "RevokeCertificate svc ctx actor certificateID reason = revokeCertificate svc ctx actor certificateID reason False"

definition ForceRevokeCertificate ::
  "service \<Rightarrow> request_ctx \<Rightarrow> string \<Rightarrow> string \<Rightarrow> RevocationReason \<Rightarrow> (world, err, Certificate) eff" where
  "ForceRevokeCertificate svc ctx actor certificateID reason = revokeCertificate svc ctx actor certificateID reason True"

definition transitionCertificateStatus ::
  "service \<Rightarrow> request_ctx \<Rightarrow> string \<Rightarrow> string \<Rightarrow> CertificateStatus \<Rightarrow> CertificateStatus \<Rightarrow> string \<Rightarrow>
   (world, err, Certificate) eff" where
  "transitionCertificateStatus svc ctx actor certificateID currentStatus nextStatus action =
     bindE (clockNow svc) (\<lambda>now.
     WithinTx
       (bindE (repoE (repo_GetCertificate certificateID)) (\<lambda>current.
        thenE (failIf (cert_Status current \<noteq> currentStatus) ErrInvalidTransition)
        (let certificate = current\<lparr>cert_Status := nextStatus, cert_UpdatedAt := now\<rparr> in
         thenE (repoE (repo_UpdateCertificateIfStatus certificate currentStatus))
         (bindE (addIdentityDeploymentTarget (cert_IdentityID certificate)
                   (auditFields (certificate_fields certificate))) (\<lambda>flds1.
          let flds2 = addStatusTransition flds1 (str_CertificateStatus currentStatus) (str_CertificateStatus nextStatus) in
          thenE (createAuditEvent svc ctx actor action ''certificate'' (cert_ID certificate) now flds2)
          (thenE (createOutboxMessage svc action now flds2)
          (returnE certificate))))))))"

definition SuspendCertificate ::
  "service \<Rightarrow> request_ctx \<Rightarrow> string \<Rightarrow> string \<Rightarrow> (world, err, Certificate) eff" where
  "SuspendCertificate svc ctx actor certificateID =
     thenE (failIf (isBlank certificateID) ErrInvalidRequest)
     (transitionCertificateStatus svc ctx actor certificateID CertificateValid CertificateSuspended ''certificate.suspended'')"

definition ResumeCertificate ::
  "service \<Rightarrow> request_ctx \<Rightarrow> string \<Rightarrow> string \<Rightarrow> (world, err, Certificate) eff" where
  "ResumeCertificate svc ctx actor certificateID =
     thenE (failIf (isBlank certificateID) ErrInvalidRequest)
     (transitionCertificateStatus svc ctx actor certificateID CertificateSuspended CertificateValid ''certificate.resumed'')"

definition certificateIsExpiredCandidate :: "Certificate \<Rightarrow> time \<Rightarrow> bool" where
  "certificateIsExpiredCandidate certificate now \<longleftrightarrow>
     (cert_Status certificate = CertificateValid \<or> cert_Status certificate = CertificateSuspended) \<and>
     \<not> After (cert_NotAfter certificate) now"

definition certificateNeedsRenewalWarning :: "Certificate \<Rightarrow> time \<Rightarrow> time \<Rightarrow> bool" where
  "certificateNeedsRenewalWarning certificate now warningBefore \<longleftrightarrow>
     cert_Status certificate = CertificateValid \<and> After (cert_NotAfter certificate) now \<and>
     \<not> After (cert_NotAfter certificate) warningBefore \<and> IsZero (cert_RenewalNotifiedAt certificate)"

record CertificateExpirationScanResult =
  scan_Expired :: "Certificate list"
  scan_ExpirationWarnings :: "Certificate list"

text \<open>The audit event and the outbox message that the scan writes for a certificate.\<close>

definition scan_notify ::
  "service \<Rightarrow> request_ctx \<Rightarrow> string \<Rightarrow> string \<Rightarrow> Certificate \<Rightarrow> duration \<Rightarrow> time \<Rightarrow> (world, err, unit) eff" where
  "scan_notify svc ctx actor action updated warningWindow now =
     bindE (addIdentityDeploymentTarget (cert_IdentityID updated)
              (certificateExpirationAuditFields updated warningWindow)) (\<lambda>flds.
     thenE (createAuditEvent svc ctx actor action ''certificate'' (cert_ID updated) now flds)
     (createOutboxMessage svc action now flds))"

text \<open>One pass of the loop; an update that lost a race is skipped.\<close>

definition scan_step ::
  "service \<Rightarrow> request_ctx \<Rightarrow> string \<Rightarrow> duration \<Rightarrow> time \<Rightarrow> time \<Rightarrow> CertificateExpirationScanResult \<Rightarrow>
   Certificate \<Rightarrow> (world, err, CertificateExpirationScanResult) eff" where
  "scan_step svc ctx actor warningWindow now warningBefore result certificate =
     (if certificateIsExpiredCandidate certificate now then
        let updated = certificate\<lparr>cert_Status := CertificateExpired, cert_UpdatedAt := now\<rparr> in
        bindE (attemptE (repoE (repo_UpdateCertificateIfStatus updated (cert_Status certificate)))) (\<lambda>r.
        case r of
          Inl e \<Rightarrow> if errors_Is e ErrInvalidTransition then returnE result else throwE e
        | Inr _ \<Rightarrow>
            thenE (scan_notify svc ctx actor ''certificate.expired'' updated warningWindow now)
            (returnE (result\<lparr>scan_Expired := scan_Expired result @ [updated]\<rparr>)))
      else if certificateNeedsRenewalWarning certificate now warningBefore then
        let updated = certificate\<lparr>cert_RenewalNotifiedAt := now, cert_UpdatedAt := now\<rparr> in
        bindE (attemptE (repoE (repo_UpdateCertificateIfStatus updated CertificateValid))) (\<lambda>r.
        case r of
          Inl e \<Rightarrow> if errors_Is e ErrInvalidTransition then returnE result else throwE e
        | Inr _ \<Rightarrow>
            thenE (scan_notify svc ctx actor ''certificate.expiration_warning'' updated warningWindow now)
            (returnE (result\<lparr>scan_ExpirationWarnings := scan_ExpirationWarnings result @ [updated]\<rparr>)))
      else returnE result)"

definition ScanCertificateExpirations ::
  "service \<Rightarrow> request_ctx \<Rightarrow> string \<Rightarrow> duration \<Rightarrow> int \<Rightarrow> (world, err, CertificateExpirationScanResult) eff" where
  "ScanCertificateExpirations svc ctx actor warningWindow limit =
     thenE (failIf (warningWindow < 0 \<or> limit \<le> 0) ErrInvalidRequest)
     (bindE (clockNow svc) (\<lambda>now.
      let warningBefore = AddD now warningWindow in
      WithinTx
        (bindE (repoE (repo_ListCertificatesForExpirationScan now warningBefore limit)) (\<lambda>candidates.
         foldE candidates \<lparr>scan_Expired = [], scan_ExpirationWarnings = []\<rparr>
           (scan_step svc ctx actor warningWindow now warningBefore)))))"

end
