(* ===== verification/Enrollments.thy ===== *)
theory Enrollments
  imports Certificates
begin

text \<open>
  Enrollments, from \<open>service/internal/lifecycle/service.go\<close>: creation, renewal and reissue
  requests, approval and rejection.
\<close>

section \<open>Operations\<close>

definition zero_CertificateProfile :: CertificateProfile where
  "zero_CertificateProfile =
     \<lparr>prof_ID = [], prof_Name = [], prof_Description = [], prof_IssuerID = [], prof_ValidityPeriodSeconds = 0,
      prof_PublicTLS = False, prof_SubjectTemplate = [], prof_AllowedDNSPatterns = [], prof_AllowedIPRanges = [],
      prof_AllowedKeyAlgorithms = [], prof_MinKeySizeBits = 0, prof_AllowedSignatureAlgorithms = [],
      prof_KeyUsage = \<lparr>slp_Critical = False, slp_Values = []\<rparr>,
      prof_ExtendedKeyUsage = \<lparr>slp_Critical = False, slp_Values = []\<rparr>,
      prof_BasicConstraints = \<lparr>bc_Critical = False, bc_CA = False, bc_MaxPathLen = None\<rparr>,
      prof_SubjectKeyIdentifier = False, prof_AuthorityKeyIdentifier = False, prof_CreatedAt = 0,
      prof_UpdatedAt = 0\<rparr>"

definition zero_CSRInfo :: CSRInfo where
  "zero_CSRInfo =
     \<lparr>csr_Subject = [], csr_DNSNames = [], csr_IPAddresses = [], csr_PublicKeyAlgorithm = [],
      csr_PublicKeySizeBits = 0, csr_SignatureAlgorithm = [], csr_ExtensionOIDs = []\<rparr>"

text \<open>The profile of a request, which must belong to the issuer; the zero profile if none is named.\<close>

definition request_profile :: "string \<Rightarrow> string \<Rightarrow> (world, err, CertificateProfile) eff" where
  "request_profile profileID issuerID =
     (if profileID \<noteq> [] then
        bindE (repoE (repo_GetCertificateProfile profileID)) (\<lambda>profile.
        thenE (failIf (prof_IssuerID profile \<noteq> issuerID) ErrInvalidRequest) (returnE profile))
      else returnE zero_CertificateProfile)"

text \<open>The CSR must ask for exactly the requested names, and pass the profile and identity policy.\<close>

definition enrollment_policy ::
  "CreateEnrollmentRequest \<Rightarrow> CertificateProfile \<Rightarrow> Identity \<Rightarrow> CSRInfo \<Rightarrow> time \<Rightarrow> (world, err, string list) eff" where
  "enrollment_policy req profile identity csrInfo now =
     (let refs = policyValidationEvidenceRefs req profile identity in
      thenE (mapErrE (\<lambda>e. attachPolicyValidationEvidence e refs)
               (fromSum (validateEnrollmentProfilePolicy req profile csrInfo now)))
      (thenE (mapErrE (\<lambda>e. attachPolicyValidationEvidence e refs)
               (fromSum (validateEnrollmentIdentityPolicy req identity)))
      (returnE refs)))"

definition new_enrollment :: "string \<Rightarrow> CreateEnrollmentRequest \<Rightarrow> CSRInfo \<Rightarrow> string \<Rightarrow> time \<Rightarrow> Enrollment" where
  "new_enrollment ident req csrInfo sourceCertificateID now =
     \<lparr>enr_ID = ident, enr_IdentityID = cer_IdentityID req, enr_IssuerID = cer_IssuerID req,
      enr_CertificateProfileID = cer_CertificateProfileID req, enr_SourceCertificateID = sourceCertificateID,
      enr_CSRPEM = cer_CSRPEM req, enr_Status = EnrollmentPending,
      enr_RequestedSubject = cer_RequestedSubject req, enr_RequestedDNSNames = cer_RequestedDNSNames req,
      enr_RequestedIPAddresses = cer_RequestedIPAddresses req, enr_CSRDNSNames = csr_DNSNames csrInfo,
      enr_CSRIPAddresses = csr_IPAddresses csrInfo, enr_RequestedNotAfter = cer_RequestedNotAfter req,
      enr_ApprovedBy = [], enr_ApprovedAt = 0, enr_CreatedAt = now, enr_UpdatedAt = now\<rparr>"

definition enrollment_fields :: "Enrollment \<Rightarrow> (string \<times> string) list" where
  "enrollment_fields enrollment =
     [(''identity_id'', enr_IdentityID enrollment), (''issuer_id'', enr_IssuerID enrollment),
      (''enrollment_id'', enr_ID enrollment), (''profile_id'', enr_CertificateProfileID enrollment)]"

definition CreateEnrollment ::
  "service \<Rightarrow> request_ctx \<Rightarrow> string \<Rightarrow> CreateEnrollmentRequest \<Rightarrow> (world, err, Enrollment) eff" where
  "CreateEnrollment svc ctx actor req =
     bindE (clockNow svc) (\<lambda>now.
     thenE (fromSum (validateCreateEnrollmentRequest req now))
     (bindE (repoE (repo_GetIdentity (cer_IdentityID req))) (\<lambda>identity.
      thenE (repoE (repo_GetIssuer (cer_IssuerID req)))
      (bindE (request_profile (cer_CertificateProfileID req) (cer_IssuerID req)) (\<lambda>profile.
       bindE (mapErrE mapCSRInspectError (callE (\<lambda>i. svc_InspectCSR svc i (cer_CSRPEM req)))) (\<lambda>csrInfo.
       thenE (failIf (\<not> sameStringSet (cer_RequestedDNSNames req) (csr_DNSNames csrInfo) \<or>
                      \<not> sameStringSet (cer_RequestedIPAddresses req) (csr_IPAddresses csrInfo)) ErrInvalidRequest)
       (bindE (enrollment_policy req profile identity csrInfo now) (\<lambda>refs.
        bindE (newID svc) (\<lambda>ident.
        let enrollment = new_enrollment ident req csrInfo [] now in
        WithinTx
          (thenE (repoE (repo_GetIdentity (cer_IdentityID req)))
          (thenE (repoE (repo_GetIssuer (cer_IssuerID req)))
          (thenE (repoE (repo_CreateEnrollment enrollment))
          (bindE (addIdentityDeploymentTarget (enr_IdentityID enrollment)
                    (auditFields (enrollment_fields enrollment))) (\<lambda>flds.
           thenE (createAuditEvent svc ctx actor ''enrollment.created'' ''enrollment'' (enr_ID enrollment) now
                    (addPolicyDecisionAuditFields flds ''allow'' ''enrollment_policy_passed'' refs))
           (returnE enrollment)))))))))))))))"

definition replacement_request :: "Certificate \<Rightarrow> string \<Rightarrow> time \<Rightarrow> CreateEnrollmentRequest" where
  "replacement_request certificate csrPEM requestedNotAfter =
     \<lparr>cer_IdentityID = cert_IdentityID certificate, cer_IssuerID = cert_IssuerID certificate,
      cer_CertificateProfileID = cert_CertificateProfileID certificate, cer_CSRPEM = csrPEM,
      cer_RequestedSubject = cert_Subject certificate, cer_RequestedDNSNames = cert_DNSNames certificate,
      cer_RequestedIPAddresses = cert_IPAddresses certificate, cer_RequestedNotAfter = requestedNotAfter\<rparr>"

text \<open>The transaction of a renewal or reissue request.\<close>

definition replacement_tx ::
  "service \<Rightarrow> request_ctx \<Rightarrow> string \<Rightarrow> string \<Rightarrow> Enrollment \<Rightarrow> string list \<Rightarrow> string \<Rightarrow> time \<Rightarrow>
   (world, err, Enrollment) eff" where
  "replacement_tx svc ctx actor certificateID enrollment0 refs action now =
     WithinTx
       (bindE (repoE (repo_GetCertificate certificateID)) (\<lambda>currentCertificate.
        thenE (failIf (cert_Status currentCertificate \<noteq> CertificateValid) ErrInvalidTransition)
        (let enrollment = enrollment0\<lparr>enr_SourceCertificateID := cert_ID currentCertificate\<rparr> in
         thenE (repoE (repo_GetIdentity (enr_IdentityID enrollment)))
         (thenE (repoE (repo_GetIssuer (enr_IssuerID enrollment)))
         (thenE (request_profile (enr_CertificateProfileID enrollment) (enr_IssuerID enrollment))
         (thenE (repoE (repo_CreateEnrollment enrollment))
         (bindE (addIdentityDeploymentTarget (enr_IdentityID enrollment)
           (auditFields
             [(''identity_id'', enr_IdentityID enrollment), (''issuer_id'', enr_IssuerID enrollment),
              (''enrollment_id'', enr_ID enrollment), (''certificate_id'', cert_ID currentCertificate),
              (''serial_number'', cert_SerialNumber currentCertificate),
              (''previous_serial_number'', cert_SerialNumber currentCertificate),
              (''profile_id'', enr_CertificateProfileID enrollment)])) (\<lambda>flds.
          let flds' = addPolicyDecisionAuditFields flds ''allow'' ''enrollment_policy_passed'' refs in
          thenE (createAuditEvent svc ctx actor action ''enrollment'' (enr_ID enrollment) now flds')
          (thenE (createOutboxMessage svc action now flds')
          (returnE enrollment))))))))))"

definition createCertificateReplacementEnrollment ::
  "service \<Rightarrow> request_ctx \<Rightarrow> string \<Rightarrow> string \<Rightarrow> string \<Rightarrow> time \<Rightarrow> string \<Rightarrow> (world, err, Enrollment) eff" where
  "createCertificateReplacementEnrollment svc ctx actor certificateID csrPEM requestedNotAfter action =
     thenE (failIf (isBlank certificateID) ErrInvalidRequest)
     (bindE (repoE (repo_GetCertificate certificateID)) (\<lambda>certificate.
      thenE (failIf (cert_Status certificate \<noteq> CertificateValid) ErrInvalidTransition)
      (let req = replacement_request certificate csrPEM requestedNotAfter in
       bindE (clockNow svc) (\<lambda>now.
       thenE (fromSum (validateCreateEnrollmentRequest req now))
       (bindE (mapErrE mapCSRInspectError (callE (\<lambda>i. svc_InspectCSR svc i (cer_CSRPEM req)))) (\<lambda>csrInfo.
        thenE (failIf (\<not> sameStringSet (cer_RequestedDNSNames req) (csr_DNSNames csrInfo) \<or>
                       \<not> sameStringSet (cer_RequestedIPAddresses req) (csr_IPAddresses csrInfo)) ErrInvalidRequest)
        (bindE (request_profile (cer_CertificateProfileID req) (cer_IssuerID req)) (\<lambda>profile.
         bindE (repoE (repo_GetIdentity (cer_IdentityID req))) (\<lambda>identity.
         bindE (enrollment_policy req profile identity csrInfo now) (\<lambda>refs.
         bindE (newID svc) (\<lambda>ident.
         replacement_tx svc ctx actor certificateID (new_enrollment ident req csrInfo [] now) refs action now)))))))))))"

definition RenewCertificate ::
  "service \<Rightarrow> request_ctx \<Rightarrow> string \<Rightarrow> string \<Rightarrow> string \<Rightarrow> time \<Rightarrow> (world, err, Enrollment) eff" where
  "RenewCertificate svc ctx actor certificateID csrPEM requestedNotAfter =
     createCertificateReplacementEnrollment svc ctx actor certificateID csrPEM requestedNotAfter
       ''certificate.renewal_requested''"

definition ReissueCertificate ::
  "service \<Rightarrow> request_ctx \<Rightarrow> string \<Rightarrow> string \<Rightarrow> string \<Rightarrow> (world, err, Enrollment) eff" where
  "ReissueCertificate svc ctx actor certificateID csrPEM =
     thenE (failIf (isBlank certificateID) ErrInvalidRequest)
     (bindE (repoE (repo_GetCertificate certificateID)) (\<lambda>certificate.
      createCertificateReplacementEnrollment svc ctx actor certificateID csrPEM (cert_NotAfter certificate)
        ''certificate.reissue_requested''))"

definition ApproveEnrollmentWithReason ::
  "service \<Rightarrow> request_ctx \<Rightarrow> string \<Rightarrow> string \<Rightarrow> string \<Rightarrow> (world, err, Enrollment) eff" where
  "ApproveEnrollmentWithReason svc ctx actor ident reason =
     thenE (failIf (isBlank ident) ErrInvalidRequest)
     (bindE (clockNow svc) (\<lambda>now.
      WithinTx
        (bindE (repoE (repo_GetEnrollment ident)) (\<lambda>current.
         thenE (failIf (enr_Status current \<noteq> EnrollmentPending) ErrInvalidTransition)
         (let enrollment = current\<lparr>enr_Status := EnrollmentApproved, enr_ApprovedBy := actor,
                enr_ApprovedAt := now, enr_UpdatedAt := now\<rparr> in
          thenE (repoE (repo_UpdateEnrollmentIfStatus enrollment EnrollmentPending))
          (bindE (addIdentityDeploymentTarget (enr_IdentityID enrollment)
                    (addStatusTransition (auditFields (enrollment_fields enrollment))
                      (str_EnrollmentStatus EnrollmentPending) (str_EnrollmentStatus (enr_Status enrollment)))) (\<lambda>flds.
           thenE (createAuditEvent svc ctx actor ''enrollment.approved'' ''enrollment'' (enr_ID enrollment) now
             (if isBlank reason then flds else mput ''approval_reason'' (JStr (TrimSpace reason)) flds))
           (returnE enrollment))))))))"

definition ApproveEnrollment :: "service \<Rightarrow> request_ctx \<Rightarrow> string \<Rightarrow> string \<Rightarrow> (world, err, Enrollment) eff" where
  "ApproveEnrollment svc ctx actor ident = ApproveEnrollmentWithReason svc ctx actor ident []"

definition RejectEnrollment :: "service \<Rightarrow> request_ctx \<Rightarrow> string \<Rightarrow> string \<Rightarrow> (world, err, Enrollment) eff" where
  "RejectEnrollment svc ctx actor ident =
     thenE (failIf (isBlank ident) ErrInvalidRequest)
     (bindE (clockNow svc) (\<lambda>now.
      WithinTx
        (bindE (repoE (repo_GetEnrollment ident)) (\<lambda>current.
         thenE (failIf (enr_Status current \<noteq> EnrollmentPending) ErrInvalidTransition)
         (let enrollment = current\<lparr>enr_Status := EnrollmentRejected, enr_UpdatedAt := now\<rparr> in
          thenE (repoE (repo_UpdateEnrollmentIfStatus enrollment EnrollmentPending))
          (bindE (addIdentityDeploymentTarget (enr_IdentityID enrollment)
                    (addStatusTransition (auditFields (enrollment_fields enrollment))
                      (str_EnrollmentStatus EnrollmentPending) (str_EnrollmentStatus (enr_Status enrollment)))) (\<lambda>flds.
           thenE (createAuditEvent svc ctx actor ''enrollment.rejected'' ''enrollment'' (enr_ID enrollment) now flds)
           (returnE enrollment))))))))"

end
