(* ===== verification/Issuance.thy ===== *)
theory Issuance
  imports Enrollments
begin

text \<open>
  Certificate issuance, from \<open>service/internal/lifecycle/service.go\<close>: claiming the issuance
  attempt of an approved enrollment, signing through the core, recording the signed certificate,
  finalizing it, and the audit event of the issuance. An attempt is the lease under which one
  node of the service signs; its record survives a crash between signing and finalizing.
\<close>

section \<open>Claim, persist, finalize\<close>

definition defaultIssuanceSigningLease :: duration where
  "defaultIssuanceSigningLease = 5 * Minute"

definition new_attempt :: "string \<Rightarrow> time \<Rightarrow> IssuanceAttempt" where
  "new_attempt enrollmentID now =
     \<lparr>att_EnrollmentID = enrollmentID, att_Status = IssuanceAttemptSigning,
      att_LeaseExpiresAt = AddD now defaultIssuanceSigningLease, att_CertificateID = [], att_CertificatePEM = [],
      att_SerialNumber = [], att_Subject = [], att_NotBefore = 0, att_NotAfter = 0, att_SigningStartedAt = now,
      att_SignedAt = 0, att_FinalizedAt = 0, att_LastError = [], att_SigningEvidenceJSON = [],
      att_CreatedAt = now, att_UpdatedAt = now\<rparr>"

definition renew_claim :: "IssuanceAttempt \<Rightarrow> time \<Rightarrow> IssuanceAttempt" where
  "renew_claim current now =
     current\<lparr>att_Status := IssuanceAttemptSigning, att_LeaseExpiresAt := AddD now defaultIssuanceSigningLease,
       att_SigningStartedAt := now, att_LastError := [], att_UpdatedAt := now\<rparr>"

definition claim_over :: "IssuanceAttempt \<Rightarrow> time \<Rightarrow> (world, err, IssuanceAttempt \<times> bool) eff" where
  "claim_over current now =
     (let take_over = thenE (repoE (repo_UpdateIssuanceAttemptIfCurrent (renew_claim current now) current))
                        (returnE (renew_claim current now, True))
      in case att_Status current of
           IssuanceAttemptSigned \<Rightarrow> returnE (current, False)
         | IssuanceAttemptFinalized \<Rightarrow> returnE (current, False)
         | IssuanceAttemptSigning \<Rightarrow>
             if After (att_LeaseExpiresAt current) now then throwE ErrInvalidTransition else take_over
         | IssuanceAttemptFailed \<Rightarrow> take_over
         | _ \<Rightarrow> throwE ErrInvalidTransition)"

text \<open>The attempt and whether this caller is to sign.\<close>

definition claimIssuanceAttempt :: "string \<Rightarrow> time \<Rightarrow> (world, err, IssuanceAttempt \<times> bool) eff" where
  "claimIssuanceAttempt enrollmentID now =
     WithinTx
       (bindE (attemptE (repoE (repo_GetIssuanceAttempt enrollmentID))) (\<lambda>r.
        case r of
          Inl e \<Rightarrow>
            if errors_Is e ErrIssuanceAttemptNotFound then
              thenE (repoE (repo_CreateIssuanceAttempt (new_attempt enrollmentID now)))
              (returnE (new_attempt enrollmentID now, True))
            else throwE e
        | Inr current \<Rightarrow> claim_over current now))"

definition signed_attempt :: "IssuanceAttempt \<Rightarrow> IssueResult \<Rightarrow> string \<Rightarrow> time \<Rightarrow> IssuanceAttempt" where
  "signed_attempt current result certificateID now =
     current\<lparr>att_Status := IssuanceAttemptSigned, att_LeaseExpiresAt := 0, att_CertificateID := certificateID,
       att_CertificatePEM := ires_CertificatePEM result, att_SerialNumber := ires_SerialNumber result,
       att_Subject := ires_Subject result, att_NotBefore := ires_NotBefore result,
       att_NotAfter := ires_NotAfter result, att_SignedAt := now, att_LastError := [],
       att_SigningEvidenceJSON := json_marshal (SigningEvidence_json (ires_SigningEvidence result)),
       att_UpdatedAt := now\<rparr>"

definition persistSignedIssuanceAttempt ::
  "service \<Rightarrow> IssuanceAttempt \<Rightarrow> IssueResult \<Rightarrow> time \<Rightarrow> (world, err, IssuanceAttempt) eff" where
  "persistSignedIssuanceAttempt svc current result now =
     bindE (newID svc) (\<lambda>certificateID.
     let signed = signed_attempt current result certificateID now in
     thenE (WithinTx (repoE (repo_UpdateIssuanceAttemptIfCurrent signed current)))
     (returnE signed))"

definition issued_certificate :: "Enrollment \<Rightarrow> IssuanceAttempt \<Rightarrow> time \<Rightarrow> Certificate" where
  "issued_certificate enrollment attempt now =
     \<lparr>cert_ID = att_CertificateID attempt, cert_IdentityID = enr_IdentityID enrollment,
      cert_IssuerID = enr_IssuerID enrollment, cert_EnrollmentID = enr_ID enrollment,
      cert_CertificateProfileID = enr_CertificateProfileID enrollment,
      cert_SerialNumber = att_SerialNumber attempt, cert_Subject = att_Subject attempt,
      cert_DNSNames = enr_RequestedDNSNames enrollment, cert_IPAddresses = enr_RequestedIPAddresses enrollment,
      cert_NotBefore = att_NotBefore attempt, cert_NotAfter = att_NotAfter attempt,
      cert_Status = CertificateValid, cert_CertificatePEM = att_CertificatePEM attempt,
      cert_RenewalNotifiedAt = 0, cert_CreatedAt = now, cert_UpdatedAt = now\<rparr>"

text \<open>The transaction of \<open>finalizeSignedIssuanceAttempt\<close>.\<close>

definition finalize_tx :: "string \<Rightarrow> IssuanceAttempt \<Rightarrow> time \<Rightarrow> (world, err, Certificate) eff" where
  "finalize_tx enrollmentID attempt now =
     WithinTx
       (bindE (repoE (repo_GetEnrollment enrollmentID)) (\<lambda>currentEnrollment.
        if enr_Status currentEnrollment = EnrollmentIssued
        then repoE (repo_GetCertificateByEnrollmentID enrollmentID)
        else
          thenE (failIf (enr_Status currentEnrollment \<noteq> EnrollmentApproved) ErrInvalidTransition)
          (bindE (repoE (repo_GetIssuanceAttempt enrollmentID)) (\<lambda>currentAttempt.
           thenE (failIf (att_Status currentAttempt \<noteq> IssuanceAttemptSigned \<or>
                          att_CertificateID currentAttempt \<noteq> att_CertificateID attempt \<or>
                          att_SerialNumber currentAttempt \<noteq> att_SerialNumber attempt) ErrInvalidTransition)
           (thenE (repoE (repo_UpdateEnrollmentIfStatus
                     (currentEnrollment\<lparr>enr_Status := EnrollmentIssued, enr_UpdatedAt := now\<rparr>) EnrollmentApproved))
           (let certificate = issued_certificate currentEnrollment currentAttempt now in
            thenE (repoE (repo_CreateCertificate certificate))
            (thenE (repoE (repo_UpdateIssuanceAttemptIfCurrent
                      (currentAttempt\<lparr>att_Status := IssuanceAttemptFinalized, att_FinalizedAt := now,
                         att_UpdatedAt := now\<rparr>) currentAttempt))
            (returnE certificate))))))))"

definition finalizeSignedIssuanceAttempt ::
  "string \<Rightarrow> IssuanceAttempt \<Rightarrow> time \<Rightarrow> (world, err, Certificate) eff" where
  "finalizeSignedIssuanceAttempt enrollmentID attempt now =
     (if att_Status attempt = IssuanceAttemptFinalized
      then repoE (repo_GetCertificateByEnrollmentID enrollmentID)
      else if att_Status attempt \<noteq> IssuanceAttemptSigned then throwE ErrInvalidTransition
      else
        bindE (attemptE (finalize_tx enrollmentID attempt now)) (\<lambda>r.
        case r of
          Inr certificate \<Rightarrow> returnE certificate
        | Inl e \<Rightarrow>
            if errors_Is e ErrInvalidTransition then
              bindE (attemptE (repoE (repo_GetCertificateByEnrollmentID enrollmentID))) (\<lambda>existing.
              case existing of
                Inr certificate \<Rightarrow> returnE certificate
              | Inl lookupErr \<Rightarrow>
                  if \<not> errors_Is lookupErr ErrCertificateNotFound then throwE lookupErr
                  else
                    thenE (WithinTx (repoE (repo_UpdateIssuanceAttemptIfCurrent
                      (attempt\<lparr>att_Status := IssuanceAttemptFailed, att_LastError := err_Error e,
                         att_UpdatedAt := now\<rparr>) attempt)))
                    (throwE e))
            else throwE e))"

section \<open>The audit event of an issuance\<close>

text \<open>
  \<open>json.Unmarshal\<close> into a \<open>SigningEvidence\<close>: members are matched without regard to case, a null
  leaves the field, a value of another type is an error.
\<close>

definition json_atoi :: "string \<Rightarrow> int option" where
  "json_atoi s =
     (let neg = HasPrefix s ''-''; d = (if neg then drop 1 s else s) in
      if \<not> all_digits d then None
      else let i = (if neg then - int (dec_value d) else int (dec_value d)) in
        if - (2 ^ 63) \<le> i \<and> i < 2 ^ 63 then Some i else None)"

definition evidence_strings ::
  "(string \<times> ((string \<Rightarrow> string) \<Rightarrow> SigningEvidence \<Rightarrow> SigningEvidence)) list" where
  "evidence_strings =
     [(''evidence_source'', sev_EvidenceSource_update), (''operation'', sev_Operation_update),
      (''provider_id'', sev_ProviderID_update), (''provider_class'', sev_ProviderClass_update),
      (''provider_readiness'', sev_ProviderReadiness_update),
      (''provider_exportability'', sev_ProviderExportability_update),
      (''reference_class'', sev_ReferenceClass_update), (''key_algorithm'', sev_KeyAlgorithm_update),
      (''requested_signature_algorithm'', sev_RequestedSignatureAlgorithm_update),
      (''result_code'', sev_ResultCode_update)]"

definition evidence_bools ::
  "(string \<times> ((bool \<Rightarrow> bool) \<Rightarrow> SigningEvidence \<Rightarrow> SigningEvidence)) list" where
  "evidence_bools =
     [(''issuer_binding_verified'', sev_IssuerBindingVerified_update),
      (''fallback_used'', sev_FallbackUsed_update)]"

definition set_evidence :: "SigningEvidence \<times> bool \<Rightarrow> string \<times> json \<Rightarrow> SigningEvidence \<times> bool" where
  "set_evidence acc kv =
     (case acc of (e, ok) \<Rightarrow> case kv of (k, v) \<Rightarrow>
        if v = JNull then acc
        else case find (\<lambda>(n, _). EqualFold n k) evidence_strings of
          Some (_, up) \<Rightarrow> (case v of JStr s \<Rightarrow> (up (\<lambda>_. s) e, ok) | _ \<Rightarrow> (e, False))
        | None \<Rightarrow>
            (case find (\<lambda>(n, _). EqualFold n k) evidence_bools of
               Some (_, up) \<Rightarrow> (case v of JBool b \<Rightarrow> (up (\<lambda>_. b) e, ok) | _ \<Rightarrow> (e, False))
             | None \<Rightarrow>
                 if EqualFold ''schema_version'' k then
                   (case v of
                      JNum n \<Rightarrow> (case json_atoi n of
                                   Some i \<Rightarrow> (e\<lparr>sev_SchemaVersion := i\<rparr>, ok)
                                 | None \<Rightarrow> (e, False))
                    | _ \<Rightarrow> (e, False))
                 else acc))"

definition zero_SigningEvidence :: SigningEvidence where
  "zero_SigningEvidence =
     \<lparr>sev_SchemaVersion = 0, sev_EvidenceSource = [], sev_Operation = [], sev_ProviderID = [],
      sev_ProviderClass = [], sev_ProviderReadiness = [], sev_ProviderExportability = [],
      sev_ReferenceClass = [], sev_KeyAlgorithm = [], sev_RequestedSignatureAlgorithm = [],
      sev_IssuerBindingVerified = False, sev_FallbackUsed = False, sev_ResultCode = []\<rparr>"

definition unmarshal_SigningEvidence :: "string \<Rightarrow> err + SigningEvidence" where
  "unmarshal_SigningEvidence text =
     (let bad = Inl (ErrText ''decode persisted signing evidence'') in
      case json_decode text of
        None \<Rightarrow> bad
      | Some (v, rest) \<Rightarrow>
          if skip_ws rest \<noteq> [] then bad
          else (case v of
                  JNull \<Rightarrow> Inr zero_SigningEvidence
                | JObj kvs \<Rightarrow>
                    (case foldl set_evidence (zero_SigningEvidence, True) kvs of
                       (e, ok) \<Rightarrow> if ok then Inr e else bad)
                | _ \<Rightarrow> bad))"

definition legacyPolicyEvidenceRefs :: "Certificate \<Rightarrow> string list" where
  "legacyPolicyEvidenceRefs certificate =
     [''schema:'' @ policyValidationEvidenceSchema, ''identity:'' @ cert_IdentityID certificate,
      ''issuer:'' @ cert_IssuerID certificate, ''enrollment:'' @ cert_EnrollmentID certificate] @
     (if cert_CertificateProfileID certificate \<noteq> [] then [''profile:'' @ cert_CertificateProfileID certificate] else [])"

definition addCertificatePolicyAuditFields :: "Certificate \<Rightarrow> fields \<Rightarrow> (world, err, fields) eff" where
  "addCertificatePolicyAuditFields certificate flds =
     (let legacy = returnE (addPolicyDecisionAuditFields flds ''unknown'' ''legacy_policy_evidence_unavailable''
                     (legacyPolicyEvidenceRefs certificate)) in
      bindE (attemptE (repoE (repo_GetEnrollment (cert_EnrollmentID certificate)))) (\<lambda>r1.
      case r1 of
        Inl e \<Rightarrow> if errors_Is e ErrEnrollmentNotFound then legacy else throwE e
      | Inr enrollment \<Rightarrow>
          bindE (attemptE (repoE (repo_GetIdentity (cert_IdentityID certificate)))) (\<lambda>r2.
          case r2 of
            Inl e \<Rightarrow> if errors_Is e ErrIdentityNotFound then legacy else throwE e
          | Inr identity \<Rightarrow>
              let allow = (\<lambda>profile. returnE (addPolicyDecisionAuditFields flds ''allow'' ''issuance_policy_passed''
                    (policyValidationEvidenceRefs (enrollmentProfilePolicyRequest enrollment) profile identity))) in
              if cert_CertificateProfileID certificate = [] then allow zero_CertificateProfile
              else
                bindE (attemptE (repoE (repo_GetCertificateProfile (cert_CertificateProfileID certificate)))) (\<lambda>r3.
                case r3 of
                  Inl e \<Rightarrow> if errors_Is e ErrCertificateProfileNotFound then legacy else throwE e
                | Inr profile \<Rightarrow> allow profile))))"

definition addReplacementCertificateLinkage :: "Certificate \<Rightarrow> fields \<Rightarrow> (world, err, fields) eff" where
  "addReplacementCertificateLinkage certificate flds =
     bindE (attemptE (repoE (repo_GetEnrollment (cert_EnrollmentID certificate)))) (\<lambda>r.
     case r of
       Inl e \<Rightarrow> if errors_Is e ErrEnrollmentNotFound then returnE flds else throwE e
     | Inr enrollment \<Rightarrow>
         if enr_SourceCertificateID enrollment = [] then returnE flds
         else
           let flds1 = mput ''source_certificate_id'' (JStr (enr_SourceCertificateID enrollment)) flds in
           bindE (attemptE (repoE (repo_GetCertificate (enr_SourceCertificateID enrollment)))) (\<lambda>r2.
           case r2 of
             Inl e \<Rightarrow> if errors_Is e ErrCertificateNotFound then returnE flds1 else throwE e
           | Inr sourceCertificate \<Rightarrow>
               returnE (mput ''successor_serial_number'' (JStr (cert_SerialNumber certificate))
                         (mput ''previous_serial_number'' (JStr (cert_SerialNumber sourceCertificate)) flds1))))"

definition signing_audit_fields :: "Certificate \<Rightarrow> fields \<Rightarrow> (world, err, fields) eff" where
  "signing_audit_fields certificate flds =
     bindE (attemptE (repoE (repo_GetIssuanceAttempt (cert_EnrollmentID certificate)))) (\<lambda>r.
     let legacy =
           bindE (attemptE (repoE (repo_GetIssuer (cert_IssuerID certificate)))) (\<lambda>r2.
           case r2 of
             Inr issuer \<Rightarrow> returnE (legacyKeyProviderAuditFields (iss_KeyRef issuer) flds)
           | Inl e \<Rightarrow> if errors_Is e ErrIssuerNotFound then returnE flds else throwE e) in
     case r of
       Inr attempt \<Rightarrow>
         if TrimSpace (att_SigningEvidenceJSON attempt) = [] then legacy
         else
           bindE (fromSum (unmarshal_SigningEvidence (att_SigningEvidenceJSON attempt))) (\<lambda>evidence.
           thenE (mapErrE (\<lambda>e. ErrWrap (ErrText ''validate persisted signing evidence'') e)
             (fromSum (ValidateSigningEvidence evidence ''certificate_issue''
                         (sev_RequestedSignatureAlgorithm evidence))))
           (returnE (coreSigningAuditFields evidence flds)))
     | Inl e \<Rightarrow> if errors_Is e ErrIssuanceAttemptNotFound then legacy else throwE e)"

definition issued_event_for :: "Certificate \<Rightarrow> AuditEvent \<Rightarrow> bool" where
  "issued_event_for certificate event \<longleftrightarrow>
     ev_Action event = ''certificate.issued'' \<and> ev_ResourceType event = ''certificate'' \<and>
     ev_ResourceID event = cert_ID certificate"

definition ensureCertificateIssuedAuditEvent ::
  "service \<Rightarrow> request_ctx \<Rightarrow> string \<Rightarrow> Certificate \<Rightarrow> time \<Rightarrow> (world, err, unit) eff" where
  "ensureCertificateIssuedAuditEvent svc ctx actor certificate now =
     bindE (repoE repo_ListAuditEvents) (\<lambda>events.
     if list_ex (issued_event_for certificate) events then returnE ()
     else
       WithinTx
         (bindE (addCertificatePolicyAuditFields certificate (auditFields (certificate_fields certificate))) (\<lambda>f1.
          bindE (addReplacementCertificateLinkage certificate f1) (\<lambda>f2.
          bindE (signing_audit_fields certificate f2) (\<lambda>f3.
          bindE (addIdentityDeploymentTarget (cert_IdentityID certificate) f3) (\<lambda>f4.
          createAuditEvent svc ctx actor ''certificate.issued'' ''certificate'' (cert_ID certificate) now f4))))))"

text \<open>The count of repaired certificates; the loop skips certificates whose event it has seen.\<close>

definition RepairMissingIssuanceAuditEvents :: "service \<Rightarrow> request_ctx \<Rightarrow> string \<Rightarrow> (world, err, int) eff" where
  "RepairMissingIssuanceAuditEvents svc ctx actor =
     bindE (repoE repo_ListCertificates) (\<lambda>certificates.
     bindE (repoE repo_ListAuditEvents) (\<lambda>events.
     bindE (clockNow svc) (\<lambda>now.
     bindE (foldE certificates
       (map ev_ResourceID (filter (\<lambda>event. ev_Action event = ''certificate.issued'' \<and>
          ev_ResourceType event = ''certificate'') events), 0)
       (\<lambda>(issued, repaired) certificate.
          if cert_ID certificate \<in> set issued then returnE (issued, repaired)
          else
            thenE (ensureCertificateIssuedAuditEvent svc ctx actor certificate now)
            (returnE (cert_ID certificate # issued, repaired + 1)))) (\<lambda>(issued, repaired).
     returnE repaired))))"

section \<open>Issuing\<close>

definition issue_request :: "Enrollment \<Rightarrow> Issuer \<Rightarrow> CertificateProfile \<Rightarrow> time \<Rightarrow> IssueRequest" where
  "issue_request enrollment issuer profile now =
     \<lparr>ireq_CSRPEM = enr_CSRPEM enrollment, ireq_IssuerCertificatePEM = iss_CertificatePEM issuer,
      ireq_IssuerKeyRef = iss_KeyRef issuer, ireq_AIAURL = iss_AIAURL issuer,
      ireq_CRLDistributionPoints = iss_CRLDistributionPoints issuer, ireq_Subject = enr_RequestedSubject enrollment,
      ireq_DNSNames = enr_RequestedDNSNames enrollment, ireq_IPAddresses = enr_RequestedIPAddresses enrollment,
      ireq_NotBefore = now, ireq_NotAfter = enr_RequestedNotAfter enrollment,
      ireq_SignatureAlgorithm = profileSignatureAlgorithm profile, ireq_ProfileID = prof_ID profile,
      ireq_BasicConstraintsCritical = bc_Critical (prof_BasicConstraints profile),
      ireq_BasicConstraintsCA = bc_CA (prof_BasicConstraints profile),
      ireq_BasicConstraintsMaxPathLen = bc_MaxPathLen (prof_BasicConstraints profile),
      ireq_KeyUsageCritical = slp_Critical (prof_KeyUsage profile),
      ireq_KeyUsage = slp_Values (prof_KeyUsage profile),
      ireq_ExtendedKeyUsageCritical = slp_Critical (prof_ExtendedKeyUsage profile),
      ireq_ExtendedKeyUsage = slp_Values (prof_ExtendedKeyUsage profile),
      ireq_SubjectKeyIdentifier = prof_SubjectKeyIdentifier profile,
      ireq_AuthorityKeyIdentifier = prof_AuthorityKeyIdentifier profile\<rparr>"

text \<open>The signing step under a claimed attempt.\<close>

definition sign_attempt ::
  "service \<Rightarrow> Enrollment \<Rightarrow> Issuer \<Rightarrow> CertificateProfile \<Rightarrow> IssuanceAttempt \<Rightarrow> time \<Rightarrow> (world, err, IssuanceAttempt) eff" where
  "sign_attempt svc enrollment issuer profile attempt now =
     thenE (callE (\<lambda>i. svc_keyProvider svc i (iss_KeyRef issuer)))
     (bindE (mapErrE mapIssueError (callE (\<lambda>i. svc_Issue svc i (issue_request enrollment issuer profile now)))) (\<lambda>result.
      thenE (mapErrE mapIssueError (fromSum (ValidateSigningEvidence (ires_SigningEvidence result)
               ''certificate_issue'' (profileSignatureAlgorithm profile))))
      (persistSignedIssuanceAttempt svc attempt result now)))"

text \<open>The checks before the claim: identity, profile, CSR and lint.\<close>

definition issue_checks ::
  "service \<Rightarrow> Enrollment \<Rightarrow> Identity \<Rightarrow> CertificateProfile \<Rightarrow> time \<Rightarrow> (world, err, unit) eff" where
  "issue_checks svc enrollment identity profile now =
     bindE (if profileRequiresCSRPolicy profile
            then mapErrE mapCSRInspectError (callE (\<lambda>i. svc_InspectCSR svc i (enr_CSRPEM enrollment)))
            else returnE zero_CSRInfo) (\<lambda>csrInfo.
     thenE (enrollment_policy (enrollmentProfilePolicyRequest enrollment) profile identity csrInfo now)
     (validatePublicTLSLint svc enrollment profile csrInfo))"

definition IssueCertificate ::
  "service \<Rightarrow> request_ctx \<Rightarrow> string \<Rightarrow> string \<Rightarrow> (world, err, Certificate) eff" where
  "IssueCertificate svc ctx actor enrollmentID =
     thenE (failIf (isBlank enrollmentID) ErrInvalidRequest)
     (bindE (repoE (repo_GetEnrollment enrollmentID)) (\<lambda>enrollment.
      if enr_Status enrollment = EnrollmentIssued then
        bindE (attemptE (repoE (repo_GetCertificateByEnrollmentID enrollmentID))) (\<lambda>r.
        case r of
          Inr certificate \<Rightarrow>
            bindE (clockNow svc) (\<lambda>now.
            thenE (ensureCertificateIssuedAuditEvent svc ctx actor certificate now)
            (returnE certificate))
        | Inl e \<Rightarrow> throwE (if errors_Is e ErrCertificateNotFound then ErrInvalidTransition else e))
      else
        thenE (failIf (enr_Status enrollment \<noteq> EnrollmentApproved) ErrInvalidTransition)
        (bindE (repoE (repo_GetIssuer (enr_IssuerID enrollment))) (\<lambda>issuer.
         bindE (repoE (repo_GetIdentity (enr_IdentityID enrollment))) (\<lambda>identity.
         thenE (failIf (svc_productionPolicy svc \<and> identityCompletenessWarnings identity \<noteq> []) ErrInvalidRequest)
         (bindE (if enr_CertificateProfileID enrollment \<noteq> []
                 then repoE (repo_GetCertificateProfile (enr_CertificateProfileID enrollment))
                 else returnE zero_CertificateProfile) (\<lambda>profile.
          bindE (clockNow svc) (\<lambda>now.
          thenE (issue_checks svc enrollment identity profile now)
          (bindE (claimIssuanceAttempt enrollmentID now) (\<lambda>(attempt, shouldSign).
           bindE (if shouldSign then sign_attempt svc enrollment issuer profile attempt now
                  else returnE attempt) (\<lambda>attempt'.
           bindE (finalizeSignedIssuanceAttempt enrollmentID attempt' now) (\<lambda>certificate.
           thenE (ensureCertificateIssuedAuditEvent svc ctx actor certificate now)
           (returnE certificate)))))))))))))"

end
