(* ===== verification/Http.thy ===== *)
theory Http
  imports HttpGuard ApiKeys Issuance
begin

text \<open>
  What the HTTP front end takes from the Go standard library: requests of \<open>net/http\<close>, paths and
  queries of \<open>net/url\<close>, the patterns of \<open>http.ServeMux\<close>, \<open>strconv.Atoi\<close>, \<open>time.Parse\<close> for
  RFC 3339, \<open>base64.RawURLEncoding\<close>, and \<open>encoding/json\<close> into structs.
\<close>

section \<open>Requests\<close>

text \<open>
  An \<open>http.Request\<close> as the server receives it. The header has canonical names; \<open>Get\<close> returns
  the first value. The URL keeps its escaped path, from which \<open>URL.Path\<close> is decoded.
\<close>

record http_request =
  rq_Method :: string
  rq_EscapedPath :: string
  rq_RawQuery :: string
  rq_ForceQuery :: bool
  rq_Header :: "(string \<times> string) list"
  rq_Host :: string
  rq_RemoteAddr :: string
  rq_Body :: string

definition header_Get :: "http_request \<Rightarrow> string \<Rightarrow> string" where
  "header_Get r name = (case map_of (rq_Header r) name of None \<Rightarrow> [] | Some v \<Rightarrow> v)"

definition pathUnescape :: "string \<Rightarrow> string" where
  "pathUnescape s = (case unescape EncOther s of None \<Rightarrow> s | Some t \<Rightarrow> t)"

definition rq_Path :: "http_request \<Rightarrow> string" where
  "rq_Path r = pathUnescape (rq_EscapedPath r)"

definition RequestURI :: "http_request \<Rightarrow> string" where
  "RequestURI r =
     (if rq_EscapedPath r = [] then ''/'' else rq_EscapedPath r) @
     (if rq_ForceQuery r \<or> rq_RawQuery r \<noteq> [] then CHR ''?'' # rq_RawQuery r else [])"

section \<open>Queries\<close>

definition QueryUnescape :: "string \<Rightarrow> string option" where
  "QueryUnescape s = unescape EncOther (map (\<lambda>c. if c = CHR ''+'' then CHR '' '' else c) s)"

text \<open>Parts with a semicolon or with a wrong escape are dropped.\<close>

definition query_part :: "string \<Rightarrow> (string \<times> string) option" where
  "query_part part =
     (if part = [] \<or> CHR '';'' \<in> set part then None
      else case Cut part (CHR ''='') of (key, val, _) \<Rightarrow>
        (case (QueryUnescape key, QueryUnescape val) of
           (Some k, Some v) \<Rightarrow> Some (k, v)
         | _ \<Rightarrow> None))"

definition ParseQuery :: "string \<Rightarrow> (string \<times> string) list" where
  "ParseQuery query = List.map_filter query_part (Split query (CHR ''&''))"

definition query_Get :: "http_request \<Rightarrow> string \<Rightarrow> string" where
  "query_Get r name = (case map_of (ParseQuery (rq_RawQuery r)) name of None \<Rightarrow> [] | Some v \<Rightarrow> v)"

section \<open>Numbers\<close>

definition Atoi :: "string \<Rightarrow> int option" where
  "Atoi s =
     (let neg = HasPrefix s ''-''; d = (if neg \<or> HasPrefix s ''+'' then drop 1 s else s) in
      if \<not> all_digits d then None
      else let i = (if neg then - int (dec_value d) else int (dec_value d)) in
        if - (2 ^ 63) \<le> i \<and> i < 2 ^ 63 then Some i else None)"

section \<open>RFC 3339 times\<close>

text \<open>The day number of a date, day 0 being 0001-01-01, and the length of a month.\<close>

definition civil_days :: "int \<Rightarrow> int \<Rightarrow> int \<Rightarrow> int" where
  "civil_days y m d =
     (let y1 = (if m \<le> 2 then y - 1 else y); era = y1 div 400; yoe = y1 mod 400;
          doy = (153 * ((m + 9) mod 12) + 2) div 5 + d - 1
      in era * 146097 + (yoe * 365 + yoe div 4 - yoe div 100 + doy) - 306)"

definition days_in :: "int \<Rightarrow> int \<Rightarrow> int" where
  "days_in y m =
     (if m = 2 then (if y mod 4 = 0 \<and> (y mod 100 \<noteq> 0 \<or> y mod 400 = 0) then 29 else 28)
      else if m \<in> {4, 6, 9, 11} then 30 else 31)"

text \<open>\<open>getnum\<close> for two digits, and for an hour, which may have one digit.\<close>

definition two_digits :: "string \<Rightarrow> (int \<times> string) option" where
  "two_digits s =
     (if length s < 2 \<or> \<not> all_digits (take 2 s) then None else Some (int (dec_value (take 2 s)), drop 2 s))"

definition hour_digits :: "string \<Rightarrow> (int \<times> string) option" where
  "hour_digits s =
     (if s = [] \<or> \<not> all_digits (take 1 s) then None
      else if length s < 2 \<or> \<not> all_digits (take 2 s) then Some (int (dec_value (take 1 s)), drop 1 s)
      else two_digits s)"

definition expect :: "char \<Rightarrow> string \<Rightarrow> string option" where
  "expect c s = (if HasPrefix s [c] then Some (drop 1 s) else None)"

text \<open>A fraction of a second counts to nine digits; further digits are dropped.\<close>

definition fraction_digits :: "string \<Rightarrow> int \<times> string" where
  "fraction_digits s =
     (case s of
        c # t \<Rightarrow>
          if (c = CHR ''.'' \<or> c = CHR '','') \<and> t \<noteq> [] \<and> all_digits (take 1 t) then
            let ds = takeWhile (\<lambda>x. all_digits [x]) t; f = take 9 ds in
            (int (dec_value f) * 10 ^ (9 - length f), drop (length ds) t)
          else (0, s)
      | [] \<Rightarrow> (0, s))"

text \<open>The zone: \<open>Z\<close>, or a sign, two digits, a colon and two digits; the offset is in seconds.\<close>

definition zone_offset :: "string \<Rightarrow> (int \<times> string) option" where
  "zone_offset s =
     (if HasPrefix s ''Z'' then Some (0, drop 1 s)
      else if length s < 6 \<or> s ! 3 \<noteq> CHR '':'' then None
      else case (two_digits (drop 1 s), two_digits (drop 4 s)) of
        (Some (hr, _), Some (mm, rest)) \<Rightarrow>
          if 24 < hr \<or> 60 < mm then None
          else if hd s = CHR ''+'' then Some ((hr * 60 + mm) * 60, rest)
          else if hd s = CHR ''-'' then Some (- ((hr * 60 + mm) * 60), rest)
          else None
      | _ \<Rightarrow> None)"

definition parse_date :: "string \<Rightarrow> ((int \<times> int \<times> int) \<times> string) option" where
  "parse_date s =
     (if length s < 4 \<or> \<not> all_digits (take 4 s) then None
      else Option.bind (expect CHR ''-'' (drop 4 s)) (\<lambda>s1.
      Option.bind (two_digits s1) (\<lambda>(m, s2). if m < 1 \<or> 12 < m then None
      else Option.bind (expect CHR ''-'' s2) (\<lambda>s3.
      Option.bind (two_digits s3) (\<lambda>(d, s4). Some ((int (dec_value (take 4 s)), m, d), s4))))))"

definition parse_clock :: "string \<Rightarrow> (int \<times> string) option" where
  "parse_clock s =
     Option.bind (hour_digits s) (\<lambda>(h, s1). if 24 \<le> h then None
     else Option.bind (expect CHR '':'' s1) (\<lambda>s2.
     Option.bind (two_digits s2) (\<lambda>(mi, s3). if 60 \<le> mi then None
     else Option.bind (expect CHR '':'' s3) (\<lambda>s4.
     Option.bind (two_digits s4) (\<lambda>(sec, s5). if 60 \<le> sec then None
     else Some ((h * 60 + mi) * 60 + sec, s5))))))"

text \<open>\<open>time.Parse(time.RFC3339, s)\<close>.\<close>

definition ParseRFC3339 :: "string \<Rightarrow> time option" where
  "ParseRFC3339 s =
     Option.bind (parse_date s) (\<lambda>((y, m, d), s1).
     Option.bind (expect CHR ''T'' s1) (\<lambda>s2.
     Option.bind (parse_clock s2) (\<lambda>(secs, s3).
     case fraction_digits s3 of (nsec, s4) \<Rightarrow>
     Option.bind (zone_offset s4) (\<lambda>(off, rest).
     if rest \<noteq> [] \<or> d < 1 \<or> days_in y m < d then None
     else Some ((civil_days y m d * 86400 + secs - off) * 1000000000 + nsec)))))"

text \<open>\<open>Time.UnmarshalJSON\<close>: two hour digits, a period before the fraction, an offset below 24:00.\<close>

definition strict_RFC3339 :: "string \<Rightarrow> bool" where
  "strict_RFC3339 s \<longleftrightarrow>
     \<not> (12 < length s \<and> s ! 12 = CHR '':'') \<and> \<not> (19 < length s \<and> s ! 19 = CHR '','') \<and>
     (last s = CHR ''Z'' \<or>
      (dec_value (take 2 (drop (length s - 5) s)) < 24 \<and> dec_value (drop (length s - 2) s) < 60))"

definition UnmarshalTime :: "string \<Rightarrow> time option" where
  "UnmarshalTime s =
     (case ParseRFC3339 s of None \<Rightarrow> None | Some t \<Rightarrow> if strict_RFC3339 s then Some t else None)"

section \<open>Base64\<close>

definition b64_value :: "char \<Rightarrow> nat option" where
  "b64_value c =
     (let n = (of_char c :: nat) in
      if 65 \<le> n \<and> n \<le> 90 then Some (n - 65) else if 97 \<le> n \<and> n \<le> 122 then Some (n - 71)
      else if 48 \<le> n \<and> n \<le> 57 then Some (n + 4) else if n = 45 then Some 62
      else if n = 95 then Some 63 else None)"

fun b64_groups :: "nat list \<Rightarrow> nat list option" where
  "b64_groups [] = Some []"
| "b64_groups [a] = None"
| "b64_groups [a, b] = Some [a * 4 + b div 16]"
| "b64_groups [a, b, c] = Some [a * 4 + b div 16, b mod 16 * 16 + c div 4]"
| "b64_groups (a # b # c # d # rest) =
     map_option (\<lambda>bs. (a * 4 + b div 16) # (b mod 16 * 16 + c div 4) # (c mod 4 * 64 + d) # bs) (b64_groups rest)"

definition line_break :: "char \<Rightarrow> bool" where
  "line_break c \<longleftrightarrow> of_char c = (10 :: nat) \<or> of_char c = (13 :: nat)"

text \<open>\<open>base64.RawURLEncoding.DecodeString\<close>: line breaks are skipped, there is no padding.\<close>

definition base64_url_decode :: "string \<Rightarrow> nat list option" where
  "base64_url_decode s =
     (let vs = map b64_value (filter (\<lambda>c. \<not> line_break c) s) in
      if None \<in> set vs then None else b64_groups (map the vs))"

text \<open>\<open>base64.URLEncoding\<close>: the last group is filled with padding.\<close>

definition base64_url_padded_decode :: "string \<Rightarrow> nat list option" where
  "base64_url_padded_decode s =
     (let cs = filter (\<lambda>c. \<not> line_break c) s;
          body = takeWhile (\<lambda>c. c \<noteq> CHR ''='') cs; pad = dropWhile (\<lambda>c. c \<noteq> CHR ''='') cs in
      if length cs mod 4 \<noteq> 0 \<or> 2 < length pad \<or> \<not> list_all (\<lambda>c. c = CHR ''='') pad then None
      else base64_url_decode body)"

lemma of_char_b64_digit:
  "n < 64 \<Longrightarrow> (of_char (b64_digit n) :: nat) =
     (if n < 26 then 65 + n else if n < 52 then 71 + n else if n < 62 then n - 4 else if n = 62 then 45 else 95)"
  by (auto simp: b64_digit_def)

lemma b64_value_digit: "n < 64 \<Longrightarrow> b64_value (b64_digit n) = Some n"
  by (auto simp: b64_value_def of_char_b64_digit Let_def)

lemma b64_digit_visible: "n < 64 \<Longrightarrow> \<not> line_break (b64_digit n)"
  by (auto simp: line_break_def of_char_b64_digit)

lemma digit_split:
  fixes x y n :: nat
  assumes "y < n"
  shows "(x * n + y) div n = x" "(x * n + y) mod n = y"
  using assms by simp_all

lemma sextet_split:
  fixes a b c :: nat
  assumes "a < 256" "b < 256" "c < 256"
  shows "a div 4 < 64" "a mod 4 * 16 + b div 16 < 64" "b mod 16 * 4 + c div 64 < 64"
    "(a mod 4 * 16 + b div 16) div 16 = a mod 4" "(a mod 4 * 16 + b div 16) mod 16 = b div 16"
    "(b mod 16 * 4 + c div 64) div 4 = b mod 16" "(b mod 16 * 4 + c div 64) mod 4 = c div 64"
    "b div 16 mod 16 = b div 16"
proof -
  have b: "b div 16 < 16" and c: "c div 64 < 4" using assms by linarith+
  show "(a mod 4 * 16 + b div 16) div 16 = a mod 4" "(a mod 4 * 16 + b div 16) mod 16 = b div 16"
    by (rule digit_split [OF b])+
  show "(b mod 16 * 4 + c div 64) div 4 = b mod 16" "(b mod 16 * 4 + c div 64) mod 4 = c div 64"
    by (rule digit_split [OF c])+
  show "a div 4 < 64" using assms by linarith
  show "b div 16 mod 16 = b div 16" using b by simp
  have "a mod 4 < 4" "b mod 16 < 16" by simp_all
  then show "a mod 4 * 16 + b div 16 < 64" "b mod 16 * 4 + c div 64 < 64" using b c by linarith+
qed

lemma base64_sextets:
  assumes "list_all (\<lambda>b. b < 256) bs"
  shows "\<exists>vs. base64_url bs = map b64_digit vs \<and> list_all (\<lambda>v. v < 64) vs \<and> b64_groups vs = Some bs"
  using assms
proof (induction bs rule: base64_url.induct)
  case 1
  show ?case by (intro exI [of _ "[]"]) simp
next
  case (2 a)
  then show ?case
    using sextet_split [of a 0 0] by (intro exI [of _ "[a div 4, a mod 4 * 16]"]) simp
next
  case (3 a b)
  then show ?case
    using sextet_split [of a b 0] by (intro exI [of _ "[a div 4, a mod 4 * 16 + b div 16, b mod 16 * 4]"]) simp
next
  case (4 a b c bs)
  then obtain vs where "base64_url bs = map b64_digit vs" "list_all (\<lambda>v. v < 64) vs" "b64_groups vs = Some bs"
    by auto
  with 4 show ?case
    using sextet_split [of a b c]
    by (intro exI [of _ "[a div 4, a mod 4 * 16 + b div 16, b mod 16 * 4 + c div 64, c mod 64] @ vs"]) simp
qed

lemma base64_round_trip:
  assumes "list_all (\<lambda>b. b < 256) bs"
  shows "base64_url_decode (base64_url bs) = Some bs"
proof -
  obtain vs where vs: "base64_url bs = map b64_digit vs" "list_all (\<lambda>v. v < 64) vs" "b64_groups vs = Some bs"
    using base64_sextets [OF assms] by blast
  have "filter (\<lambda>c. \<not> line_break c) (map b64_digit vs) = map b64_digit vs"
    using vs(2) by (auto simp: list_all_iff b64_digit_visible)
  moreover have "map b64_value (map b64_digit vs) = map Some vs"
    using vs(2) by (auto simp: list_all_iff b64_value_digit)
  ultimately have "base64_url_decode (base64_url bs) = b64_groups (map the (map Some vs))"
    unfolding base64_url_decode_def vs(1) by (simp only: Let_def) auto
  then show ?thesis using vs(3) by (simp add: comp_def)
qed

section \<open>Structs from JSON\<close>

text \<open>
  A struct is described by its fields: a name and what a value of the member does to the struct,
  \<open>None\<close> being a type error. Names are matched without regard to case, where the Kelvin sign and the
  long s count as k and s. A null leaves a field as it is.
\<close>

type_synonym 'r field = "string \<times> (json \<Rightarrow> 'r \<Rightarrow> 'r option)"

fun fold_name :: "string \<Rightarrow> string" where
  "fold_name [] = []"
| "fold_name (a # s) =
     (if HasPrefix (a # s) [CHR 0xE2, CHR 0x84, CHR 0xAA] then CHR ''k'' # fold_name (drop 2 s)
      else if HasPrefix (a # s) [CHR 0xC5, CHR 0xBF] then CHR ''s'' # fold_name (drop 1 s)
      else char_lower a # fold_name s)"

definition field_named :: "'r field list \<Rightarrow> string \<Rightarrow> (json \<Rightarrow> 'r \<Rightarrow> 'r option) option" where
  "field_named fs key =
     (case map_of fs key of
        Some f \<Rightarrow> Some f
      | None \<Rightarrow> map_option snd (find (\<lambda>(n, _). fold_name n = fold_name key) fs))"

definition set_member :: "bool \<Rightarrow> 'r field list \<Rightarrow> 'r option \<Rightarrow> string \<times> json \<Rightarrow> 'r option" where
  "set_member strict fs acc kv =
     (case acc of None \<Rightarrow> None | Some r \<Rightarrow>
        case field_named fs (fst kv) of
          None \<Rightarrow> if strict then None else Some r
        | Some f \<Rightarrow> f (snd kv) r)"

definition decode_struct :: "bool \<Rightarrow> 'r field list \<Rightarrow> json \<Rightarrow> 'r \<Rightarrow> 'r option" where
  "decode_struct strict fs v r =
     (case v of
        JNull \<Rightarrow> Some r
      | JObj kvs \<Rightarrow> foldl (set_member strict fs) (Some r) kvs
      | _ \<Rightarrow> None)"

definition str_field :: "string \<Rightarrow> ((string \<Rightarrow> string) \<Rightarrow> 'r \<Rightarrow> 'r) \<Rightarrow> 'r field" where
  "str_field name upd = (name, \<lambda>v r. case v of JNull \<Rightarrow> Some r | JStr s \<Rightarrow> Some (upd (\<lambda>_. s) r) | _ \<Rightarrow> None)"

text \<open>A field of an enumeration type is a string of it.\<close>

definition enum_field :: "string \<Rightarrow> (string \<Rightarrow> 'e) \<Rightarrow> (('e \<Rightarrow> 'e) \<Rightarrow> 'r \<Rightarrow> 'r) \<Rightarrow> 'r field" where
  "enum_field name of_str upd =
     (name, \<lambda>v r. case v of JNull \<Rightarrow> Some r | JStr s \<Rightarrow> Some (upd (\<lambda>_. of_str s) r) | _ \<Rightarrow> None)"

definition bool_field :: "string \<Rightarrow> ((bool \<Rightarrow> bool) \<Rightarrow> 'r \<Rightarrow> 'r) \<Rightarrow> 'r field" where
  "bool_field name upd = (name, \<lambda>v r. case v of JNull \<Rightarrow> Some r | JBool b \<Rightarrow> Some (upd (\<lambda>_. b) r) | _ \<Rightarrow> None)"

definition int_field :: "string \<Rightarrow> ((int \<Rightarrow> int) \<Rightarrow> 'r \<Rightarrow> 'r) \<Rightarrow> 'r field" where
  "int_field name upd =
     (name, \<lambda>v r. case v of
        JNull \<Rightarrow> Some r
      | JNum n \<Rightarrow> (case json_atoi n of None \<Rightarrow> None | Some i \<Rightarrow> Some (upd (\<lambda>_. i) r))
      | _ \<Rightarrow> None)"

definition time_field :: "string \<Rightarrow> ((time \<Rightarrow> time) \<Rightarrow> 'r \<Rightarrow> 'r) \<Rightarrow> 'r field" where
  "time_field name upd =
     (name, \<lambda>v r. case v of
        JNull \<Rightarrow> Some r
      | JStr s \<Rightarrow> (case UnmarshalTime s of None \<Rightarrow> None | Some t \<Rightarrow> Some (upd (\<lambda>_. t) r))
      | _ \<Rightarrow> None)"

text \<open>The elements of a slice: a null element keeps the old element or is the zero value.\<close>

fun decode_elems :: "(json \<Rightarrow> 'a \<Rightarrow> 'a option) \<Rightarrow> 'a \<Rightarrow> json list \<Rightarrow> 'a list \<Rightarrow> 'a list option" where
  "decode_elems dec z [] prev = Some []"
| "decode_elems dec z (v # vs) prev =
     (case (dec v (case prev of [] \<Rightarrow> z | x # _ \<Rightarrow> x), decode_elems dec z vs (drop 1 prev)) of
        (Some x, Some xs) \<Rightarrow> Some (x # xs)
      | _ \<Rightarrow> None)"

definition list_field ::
  "string \<Rightarrow> (json \<Rightarrow> 'a \<Rightarrow> 'a option) \<Rightarrow> 'a \<Rightarrow> ('r \<Rightarrow> 'a list) \<Rightarrow> (('a list \<Rightarrow> 'a list) \<Rightarrow> 'r \<Rightarrow> 'r) \<Rightarrow> 'r field" where
  "list_field name dec z get upd =
     (name, \<lambda>v r. case v of
        JNull \<Rightarrow> Some (upd (\<lambda>_. []) r)
      | JArr vs \<Rightarrow> (case decode_elems dec z vs (get r) of None \<Rightarrow> None | Some xs \<Rightarrow> Some (upd (\<lambda>_. xs) r))
      | _ \<Rightarrow> None)"

definition decode_str :: "json \<Rightarrow> string \<Rightarrow> string option" where
  "decode_str v prev = (case v of JNull \<Rightarrow> Some prev | JStr s \<Rightarrow> Some s | _ \<Rightarrow> None)"

abbreviation strs_field :: "string \<Rightarrow> ('r \<Rightarrow> string list) \<Rightarrow> ((string list \<Rightarrow> string list) \<Rightarrow> 'r \<Rightarrow> 'r) \<Rightarrow> 'r field" where
  "strs_field name get upd \<equiv> list_field name decode_str [] get upd"

definition struct_field ::
  "bool \<Rightarrow> string \<Rightarrow> 'a field list \<Rightarrow> ('r \<Rightarrow> 'a) \<Rightarrow> (('a \<Rightarrow> 'a) \<Rightarrow> 'r \<Rightarrow> 'r) \<Rightarrow> 'r field" where
  "struct_field strict name fs get upd =
     (name, \<lambda>v r. case decode_struct strict fs v (get r) of None \<Rightarrow> None | Some x \<Rightarrow> Some (upd (\<lambda>_. x) r))"

text \<open>\<open>json.Unmarshal\<close>: one value and nothing after it.\<close>

definition json_Unmarshal :: "'r field list \<Rightarrow> 'r \<Rightarrow> string \<Rightarrow> 'r option" where
  "json_Unmarshal fs zero text =
     (case json_decode text of
        None \<Rightarrow> None
      | Some (v, rest) \<Rightarrow> if skip_ws rest \<noteq> [] then None else decode_struct False fs v zero)"

section \<open>The router\<close>

datatype seg = Lit string | Wild string

text \<open>A pattern is a method and a path; a segment in braces is a wildcard.\<close>

definition pattern_seg :: "string \<Rightarrow> seg" where
  "pattern_seg s = (if HasPrefix s ''{'' then Wild (butlast (drop 1 s)) else Lit s)"

definition pattern_segs :: "string \<Rightarrow> seg list" where
  "pattern_segs path = map pattern_seg (Split (drop 1 path) (CHR ''/''))"

fun match_segs :: "seg list \<Rightarrow> string list \<Rightarrow> (string \<times> string) list option" where
  "match_segs [] [] = Some []"
| "match_segs (Lit l # ps) (s # ss) = (if pathUnescape s = l then match_segs ps ss else None)"
| "match_segs (Wild n # ps) (s # ss) =
     (if s = [] then None else map_option (Cons (n, pathUnescape s)) (match_segs ps ss))"
| "match_segs _ _ = None"

definition clean_segs :: "string \<Rightarrow> string list" where
  "clean_segs p =
     foldl (\<lambda>st s. if s = [] \<or> s = ''.'' then st else if s = ''..'' then butlast st else st @ [s]) []
       (Split p (CHR ''/''))"

definition cleanPath :: "string \<Rightarrow> string" where
  "cleanPath p0 =
     (let p = (if p0 = [] then ''/'' else if hd p0 \<noteq> CHR ''/'' then CHR ''/'' # p0 else p0);
          np = CHR ''/'' # Join (clean_segs p) ''/'' in
      if last p = CHR ''/'' \<and> np \<noteq> ''/'' then np @ ''/'' else np)"

text \<open>
  A route table is a list of methods, patterns and targets. No two patterns of one method match the
  same path in the table here, so the first match is the one of the routing tree. A \<open>HEAD\<close>
  request falls back to the \<open>GET\<close> patterns.
\<close>

type_synonym 'h routes = "(string \<times> string \<times> 'h) list"

definition route_match :: "string \<Rightarrow> string list \<Rightarrow> string \<times> string \<times> 'h \<Rightarrow> (string \<times> 'h \<times> (string \<times> string) list) option" where
  "route_match method segs route =
     (case route of (m, p, h) \<Rightarrow>
        if m = method then map_option (\<lambda>b. (p, h, b)) (match_segs (pattern_segs p) segs) else None)"

definition find_route :: "'h routes \<Rightarrow> string \<Rightarrow> string list \<Rightarrow> (string \<times> 'h \<times> (string \<times> string) list) option" where
  "find_route rs method segs =
     (case List.map_filter (route_match method segs) rs of [] \<Rightarrow> None | x # _ \<Rightarrow> Some x)"

definition match_route :: "'h routes \<Rightarrow> string \<Rightarrow> string list \<Rightarrow> (string \<times> 'h \<times> (string \<times> string) list) option" where
  "match_route rs method segs =
     (case find_route rs method segs of
        Some x \<Rightarrow> Some x
      | None \<Rightarrow> if method = ''HEAD'' then find_route rs ''GET'' segs else None)"

datatype 'h mux_result =
    Redirect string string
  | Dispatch string 'h "(string \<times> string) list"
  | MethodNotAllowed
  | NotFound

definition mux_Handler :: "'h routes \<Rightarrow> http_request \<Rightarrow> 'h mux_result" where
  "mux_Handler rs r =
     (let p = (if rq_Method r = ''CONNECT'' then rq_EscapedPath r else cleanPath (rq_EscapedPath r));
          segs = Split (drop 1 p) (CHR ''/'') in
      if p \<noteq> rq_EscapedPath r
      then Redirect (case match_route rs (rq_Method r) segs of Some (pat, _) \<Rightarrow> pat | None \<Rightarrow> []) p
      else case match_route rs (rq_Method r) segs of
        Some (pat, h, b) \<Rightarrow> Dispatch pat h b
      | None \<Rightarrow>
          if list_ex (\<lambda>(m, pat, _). match_segs (pattern_segs pat) segs \<noteq> None) rs then MethodNotAllowed
          else NotFound)"

end
