(* ===== verification/Outbox.thy ===== *)
theory Outbox
  imports Policy
begin

text \<open>
  The outbox: listing, retry and replay of messages (\<open>service.go\<close>), the dispatcher that claims due
  messages, runs their handler and records the outcome (\<open>outbox_dispatcher.go\<close>), the handler
  registry (\<open>outbox_handler.go\<close>) and the webhook handler (\<open>webhook_handler.go\<close>), all of
  \<open>service/internal/lifecycle/\<close>.
\<close>

section \<open>Listing, retry and replay\<close>

definition validateListOptions :: "string \<Rightarrow> int \<Rightarrow> int \<Rightarrow> err + unit" where
  "validateListOptions sortOrder limit offset =
     (if sortOrder \<noteq> [] \<and> sortOrder \<noteq> ''asc'' \<and> sortOrder \<noteq> ''desc'' then Inl ErrInvalidRequest
      else if limit < 0 \<or> offset < 0 then Inl ErrInvalidRequest
      else Inr ())"

text \<open>\<open>start + limit < end\<close> is an \<open>int\<close> addition, 64 bits wide.\<close>

definition sortAndPage :: "('a \<Rightarrow> 'a \<Rightarrow> bool) \<Rightarrow> 'a list \<Rightarrow> string \<Rightarrow> int \<Rightarrow> int \<Rightarrow> 'a list" where
  "sortAndPage lt items sortOrder limit offset =
     (let sorted = sort_slice (if sortOrder = ''desc'' then (\<lambda>a b. lt b a) else lt) items;
          n = int (length sorted)
      in if n \<le> offset then []
         else let stop = (if 0 < limit \<and> wrap64 (offset + limit) < n then wrap64 (offset + limit) else n)
              in take (nat (stop - offset)) (drop (nat offset) sorted))"

definition no_status :: OutboxMessageStatus where
  "no_status = OutboxMessageStatusOther []"

definition ListOutboxMessages :: "OutboxMessageStatus \<Rightarrow> (world, err, OutboxMessage list) eff" where
  "ListOutboxMessages status =
     thenE (failIf (status \<noteq> no_status \<and> \<not> isValidOutboxMessageStatus status) ErrInvalidRequest)
     (repoE (repo_ListOutboxMessages status))"

record OutboxMessageListOptions =
  oml_Status :: OutboxMessageStatus
  oml_Type :: string
  oml_CreatedFrom :: time
  oml_CreatedTo :: time
  oml_Sort :: string
  oml_Limit :: int
  oml_Offset :: int

text \<open>The in-memory store has no query of its own, so the service filters the listing.\<close>

definition ListOutboxMessagesQuery :: "OutboxMessageListOptions \<Rightarrow> (world, err, OutboxMessage list) eff" where
  "ListOutboxMessagesQuery opts =
     thenE (fromSum (validateListOptions (oml_Sort opts) (oml_Limit opts) (oml_Offset opts)))
     (thenE (failIf (oml_Status opts \<noteq> no_status \<and> \<not> isValidOutboxMessageStatus (oml_Status opts)) ErrInvalidRequest)
     (thenE (failIf (\<not> IsZero (oml_CreatedFrom opts) \<and> \<not> IsZero (oml_CreatedTo opts) \<and>
                     Before (oml_CreatedTo opts) (oml_CreatedFrom opts)) ErrInvalidRequest)
     (bindE (repoE (repo_ListOutboxMessages (oml_Status opts))) (\<lambda>messages.
      returnE (sortAndPage (less_time_id msg_CreatedAt msg_ID)
        (filter (\<lambda>message.
           \<not> (oml_Type opts \<noteq> [] \<and> msg_Type message \<noteq> oml_Type opts) \<and>
           \<not> (\<not> IsZero (oml_CreatedFrom opts) \<and> Before (msg_CreatedAt message) (oml_CreatedFrom opts)) \<and>
           \<not> (\<not> IsZero (oml_CreatedTo opts) \<and> After (msg_CreatedAt message) (oml_CreatedTo opts))) messages)
        (oml_Sort opts) (oml_Limit opts) (oml_Offset opts))))))"

definition outboxMessageForReplay :: "OutboxMessage \<Rightarrow> time \<Rightarrow> OutboxMessage" where
  "outboxMessageForReplay message now =
     message\<lparr>msg_Status := OutboxPending, msg_AvailableAt := now, msg_ProcessingDeadlineAt := 0,
       msg_AttemptCount := 0,
       msg_MaxAttempts := (if msg_MaxAttempts message \<le> 0 then defaultOutboxMaxAttempts else msg_MaxAttempts message),
       msg_LastError := [], msg_UpdatedAt := now\<rparr>"

definition RetryOutboxMessage :: "service \<Rightarrow> request_ctx \<Rightarrow> string \<Rightarrow> string \<Rightarrow> (world, err, OutboxMessage) eff" where
  "RetryOutboxMessage svc ctx actor ident =
     thenE (failIf (isBlank ident) ErrInvalidRequest)
     (bindE (clockNow svc) (\<lambda>now.
      bindE (repoE (repo_GetOutboxMessage ident)) (\<lambda>current.
      thenE (failIf (msg_Status current \<noteq> OutboxDeadLetter \<and> msg_Status current \<noteq> OutboxFailed) ErrInvalidTransition)
      (let message = outboxMessageForReplay current now in
       thenE (WithinTx
         (thenE (repoE (repo_UpdateOutboxMessageStatusIfStatus message (msg_Status current)))
         (createAuditEvent svc ctx actor ''outbox.retry_requested'' ''outbox_message'' (msg_ID message) now
            (auditFields [(''outbox_message_id'', msg_ID message), (''outbox_message_type'', msg_Type message)]))))
       (returnE message)))))"

record ReplayDeadLetterOutboxRequest =
  rdl_EventType :: string
  rdl_CreatedFrom :: time
  rdl_CreatedTo :: time
  rdl_Limit :: int

text \<open>The loop stops at the limit; every selected message is put back to pending.\<close>

definition replay_step ::
  "ReplayDeadLetterOutboxRequest \<Rightarrow> time \<Rightarrow> OutboxMessage list \<Rightarrow> OutboxMessage \<Rightarrow> (world, err, OutboxMessage list) eff" where
  "replay_step req now replayed message =
     (if rdl_Limit req \<le> int (length replayed) then returnE replayed
      else if msg_Type message \<noteq> rdl_EventType req \<or> Before (msg_CreatedAt message) (rdl_CreatedFrom req) \<or>
              After (msg_CreatedAt message) (rdl_CreatedTo req)
      then returnE replayed
      else
        let updated = outboxMessageForReplay message now in
        thenE (repoE (repo_UpdateOutboxMessageStatusIfStatus updated OutboxDeadLetter))
        (returnE (replayed @ [updated])))"

definition ReplayDeadLetterOutboxMessages ::
  "service \<Rightarrow> request_ctx \<Rightarrow> string \<Rightarrow> ReplayDeadLetterOutboxRequest \<Rightarrow> (world, err, OutboxMessage list) eff" where
  "ReplayDeadLetterOutboxMessages svc ctx actor req =
     thenE (failIf (isBlank (rdl_EventType req) \<or> IsZero (rdl_CreatedFrom req) \<or> IsZero (rdl_CreatedTo req) \<or>
                    Before (rdl_CreatedTo req) (rdl_CreatedFrom req) \<or> rdl_Limit req \<le> 0) ErrInvalidRequest)
     (bindE (clockNow svc) (\<lambda>now.
      WithinTx
        (bindE (repoE (repo_ListOutboxMessages OutboxDeadLetter)) (\<lambda>messages.
         bindE (foldE messages [] (replay_step req now)) (\<lambda>replayed.
         bindE (newID svc) (\<lambda>ident.
         thenE (createAuditEvent svc ctx actor ''outbox.bulk_replay_requested'' ''outbox_messages'' ident now
           (auditFields
             [(''outbox_message_type'', rdl_EventType req),
              (''created_from'', FormatRFC3339Nano (rdl_CreatedFrom req)),
              (''created_to'', FormatRFC3339Nano (rdl_CreatedTo req)), (''limit'', itoa (rdl_Limit req)),
              (''replayed_count'', itoa (int (length replayed)))]))
         (returnE replayed)))))))"

section \<open>Retry delays\<close>

definition outboxRetryDelays :: "duration list" where
  "outboxRetryDelays = [Minute, 5 * Minute, 15 * Minute, Hour]"

definition effectiveOutboxMaxAttempts :: "OutboxMessage \<Rightarrow> int" where
  "effectiveOutboxMaxAttempts message =
     (if 0 < msg_MaxAttempts message then msg_MaxAttempts message else defaultOutboxMaxAttempts)"

definition outboxRetryDelayForAttempt :: "int \<Rightarrow> duration" where
  "outboxRetryDelayForAttempt attemptCount =
     (if attemptCount \<le> 1 then outboxRetryDelays ! 0
      else let index = attemptCount - 1;
               index' = (if int (length outboxRetryDelays) \<le> index then int (length outboxRetryDelays) - 1 else index)
           in outboxRetryDelays ! nat index')"

text \<open>\<open>hash/fnv\<close>: 32-bit FNV-1a.\<close>

definition fnv32a :: "nat list \<Rightarrow> 32 word" where
  "fnv32a bs = foldl (\<lambda>h b. (h XOR word_of_nat b) * 16777619) 2166136261 bs"

definition nonNegativeUint64 :: "int \<Rightarrow> nat" where
  "nonNegativeUint64 value = (if value \<le> 0 then 0 else nat value)"

definition little_endian64 :: "nat \<Rightarrow> nat list" where
  "little_endian64 n = map (\<lambda>i. n div 256 ^ i mod 256) [0..<8]"

definition outboxRetryDelayForMessage :: "OutboxMessage \<Rightarrow> duration" where
  "outboxRetryDelayForMessage message =
     (let base = outboxRetryDelayForAttempt (msg_AttemptCount message); jitterMax = quot64 base 10 in
      if jitterMax \<le> 0 then base
      else base + uint (fnv32a (string_bytes (msg_ID message) @
             little_endian64 (nonNegativeUint64 (msg_AttemptCount message)))) mod (jitterMax + 1))"

section \<open>The dispatcher\<close>

record OutboxDispatcher =
  dsp_handler :: "OutboxMessage \<Rightarrow> (world, err, unit) eff"
  dsp_clock :: "nat \<Rightarrow> time"
  dsp_idgen :: "nat \<Rightarrow> string"

definition defaultOutboxProcessingLease :: duration where
  "defaultOutboxProcessingLease = 10 * Minute"

definition lost_race :: "err \<Rightarrow> bool" where
  "lost_race e \<longleftrightarrow> errors_Is e ErrInvalidTransition \<or> errors_Is e ErrOutboxMessageNotFound"

definition recovered_message :: "OutboxMessage \<Rightarrow> time \<Rightarrow> OutboxMessage" where
  "recovered_message message now =
     message\<lparr>msg_Status := OutboxPending, msg_ProcessingDeadlineAt := 0, msg_UpdatedAt := now\<rparr>"

definition claimed_message :: "OutboxMessage \<Rightarrow> time \<Rightarrow> OutboxMessage" where
  "claimed_message message now =
     message\<lparr>msg_Status := OutboxProcessing, msg_ProcessingDeadlineAt := AddD now defaultOutboxProcessingLease,
       msg_UpdatedAt := now\<rparr>"

text \<open>\<open>None\<close> is the answer that another dispatcher was faster.\<close>

definition take_message :: "OutboxMessage \<Rightarrow> time \<Rightarrow> (world, err, OutboxMessage option) eff" where
  "take_message message now =
     bindE (attemptE (repoE (repo_UpdateOutboxMessageIfCurrent (claimed_message message now) message))) (\<lambda>r.
     case r of
       Inl e \<Rightarrow> if lost_race e then returnE None else throwE e
     | Inr _ \<Rightarrow> returnE (Some (claimed_message message now)))"

definition dispatcher_claim :: "OutboxDispatcher \<Rightarrow> OutboxMessage \<Rightarrow> (world, err, OutboxMessage option) eff" where
  "dispatcher_claim d message =
     (if msg_Status message \<noteq> OutboxPending \<and> msg_Status message \<noteq> OutboxProcessing then returnE None
      else
        bindE (drawE (dsp_clock d)) (\<lambda>now.
        if msg_Status message = OutboxProcessing then
          bindE (attemptE (repoE (repo_UpdateOutboxMessageIfCurrent (recovered_message message now) message))) (\<lambda>r.
          case r of
            Inl e \<Rightarrow> if lost_race e then returnE None else throwE e
          | Inr _ \<Rightarrow> take_message (recovered_message message now) now)
        else take_message message now))"

definition dispatcher_finish ::
  "OutboxMessage \<Rightarrow> OutboxMessageStatus \<Rightarrow> JobAttempt \<Rightarrow> (world, err, unit) eff" where
  "dispatcher_finish message status attempt =
     WithinTx
       (thenE (repoE (repo_UpdateOutboxMessageIfCurrent
                 (message\<lparr>msg_Status := status, msg_ProcessingDeadlineAt := 0, msg_UpdatedAt := job_FinishedAt attempt\<rparr>)
                 message))
       (repoE (repo_CreateJobAttempt attempt)))"

text \<open>What a handled message becomes: its new record and its next status.\<close>

definition handled_message :: "OutboxMessage \<Rightarrow> err + unit \<Rightarrow> time \<Rightarrow> OutboxMessage \<times> OutboxMessageStatus" where
  "handled_message claimed result finishedAt =
     (case result of
        Inr _ \<Rightarrow> (claimed\<lparr>msg_LastError := []\<rparr>, OutboxCompleted)
      | Inl handlerErr \<Rightarrow>
          let failed = claimed\<lparr>msg_AttemptCount := msg_AttemptCount claimed + 1,
                msg_MaxAttempts := effectiveOutboxMaxAttempts claimed, msg_LastError := err_Error handlerErr\<rparr> in
          if msg_MaxAttempts failed \<le> msg_AttemptCount failed then (failed, OutboxDeadLetter)
          else (failed\<lparr>msg_AvailableAt := AddD finishedAt (outboxRetryDelayForMessage failed)\<rparr>, OutboxPending))"

definition dispatch_one :: "OutboxDispatcher \<Rightarrow> OutboxMessage \<Rightarrow> (world, err, bool) eff" where
  "dispatch_one d message =
     bindE (dispatcher_claim d message) (\<lambda>c.
     case c of
       None \<Rightarrow> returnE False
     | Some claimed \<Rightarrow>
         bindE (drawE (dsp_clock d)) (\<lambda>startedAt.
         bindE (attemptE (dsp_handler d claimed)) (\<lambda>result.
         bindE (drawE (dsp_clock d)) (\<lambda>finishedAt.
         case handled_message claimed result finishedAt of (handled, nextStatus) \<Rightarrow>
         bindE (drawE (dsp_idgen d)) (\<lambda>ident.
         thenE (dispatcher_finish handled nextStatus
           \<lparr>job_ID = ident, job_OutboxMessageID = msg_ID handled,
            job_Status = (case result of Inl _ \<Rightarrow> JobAttemptFailed | Inr _ \<Rightarrow> JobAttemptSucceeded),
            job_Error = (case result of Inl e \<Rightarrow> err_Error e | Inr _ \<Rightarrow> []),
            job_StartedAt = startedAt, job_FinishedAt = finishedAt, job_CreatedAt = finishedAt\<rparr>)
         (returnE True))))))"

text \<open>The number of processed messages is returned with an error too.\<close>

definition RunOnce :: "OutboxDispatcher \<Rightarrow> int \<Rightarrow> (world, int \<times> err, int) eff" where
  "RunOnce d limit =
     bindE (mapErrE (Pair 0) (bindE (drawE (dsp_clock d)) (\<lambda>now. repoE (repo_ListDueOutboxMessages now limit)))) (\<lambda>messages.
     foldE messages 0 (\<lambda>processed message.
       bindE (mapErrE (Pair processed) (dispatch_one d message)) (\<lambda>done.
       returnE (if done then processed + 1 else processed))))"

section \<open>Handlers\<close>

type_synonym OutboxHandler = "OutboxMessage \<Rightarrow> (world, err, unit) eff"

definition OutboxHandlerRegistry_Handle :: "OutboxHandler gomap \<Rightarrow> OutboxHandler" where
  "OutboxHandlerRegistry_Handle handlers message =
     (case mget handlers (msg_Type message) of
        None \<Rightarrow> throwE (ErrDetail ErrOutboxHandlerNotFound (msg_Type message))
      | Some handler \<Rightarrow> handler message)"

definition NoopOutboxHandler :: OutboxHandler where
  "NoopOutboxHandler message = returnE ()"

definition lifecycle_types :: "string list" where
  "lifecycle_types =
     [''certificate.suspended'', ''certificate.resumed'', ''certificate.renewal_requested'',
      ''certificate.reissue_requested'', ''certificate.expiration_warning'', ''certificate.expired'',
      ''certificate.revoked'', ''certificate.force_revoked'']"

definition NewLifecycleOutboxHandler :: OutboxHandler where
  "NewLifecycleOutboxHandler =
     OutboxHandlerRegistry_Handle (map (\<lambda>messageType. (messageType, NoopOutboxHandler)) lifecycle_types)"

definition NewLifecycleOutboxHandlerWithWebhook :: "OutboxHandler option \<Rightarrow> OutboxHandler" where
  "NewLifecycleOutboxHandlerWithWebhook webhook =
     (case webhook of
        None \<Rightarrow> NewLifecycleOutboxHandler
      | Some w \<Rightarrow> OutboxHandlerRegistry_Handle (map (\<lambda>messageType. (messageType, w)) lifecycle_types))"

section \<open>Webhooks\<close>

record webhook_request =
  wrq_URL :: string
  wrq_Headers :: "(string \<times> string) list"
  wrq_Body :: string

text \<open>
  \<open>wh_Do\<close> builds and sends a POST request and returns status code and status line. \<open>wh_number\<close> is
  the number literal that \<open>encoding/json\<close> prints for a decoded \<open>float64\<close>, \<open>None\<close> when the number is
  out of range.
\<close>

record WebhookOutboxHandler =
  wh_Do :: "nat \<Rightarrow> webhook_request \<Rightarrow> err + int \<times> string"
  wh_timeNow :: "nat \<Rightarrow> time"
  wh_number :: "string \<Rightarrow> string option"

definition webhookEndpointMatches :: "NotificationEndpoint \<Rightarrow> string \<Rightarrow> bool" where
  "webhookEndpointMatches endpoint eventType =
     (if ep_Type endpoint \<noteq> NotificationEndpointWebhook \<or> ep_Status endpoint \<noteq> NotificationEndpointActive then False
      else if ep_EventTypes endpoint = [] then True
      else eventType \<in> set (ep_EventTypes endpoint))"

definition signWebhookPayload :: "string \<Rightarrow> string \<Rightarrow> string \<Rightarrow> string" where
  "signWebhookPayload secret timestamp data =
     ''sha256='' @ hex_encode (hmac_sha256 (string_bytes secret) (string_bytes (timestamp @ ''.'' @ data)))"

definition postWebhook ::
  "WebhookOutboxHandler \<Rightarrow> NotificationEndpoint \<Rightarrow> OutboxMessage \<Rightarrow> string \<Rightarrow> (world, err, unit) eff" where
  "postWebhook h endpoint message data =
     bindE (drawE (wh_timeNow h)) (\<lambda>now.
     let timestamp = FormatRFC3339 now;
         headers = [(''Content-Type'', ''application/json''), (''X-AnoPKI-Event'', msg_Type message),
           (''X-AnoPKI-Delivery'', msg_ID message), (''X-AnoPKI-Timestamp'', timestamp)] @
           (if ep_Secret endpoint \<noteq> []
            then [(''X-AnoPKI-Signature'', signWebhookPayload (ep_Secret endpoint) timestamp data)] else []) in
     bindE (callE (\<lambda>i. wh_Do h i \<lparr>wrq_URL = ep_URL endpoint, wrq_Headers = headers, wrq_Body = data\<rparr>)) (\<lambda>(code, status).
     failIf (code < 200 \<or> 300 \<le> code) (ErrText (''webhook delivery failed: '' @ status))))"

definition recordWebhookDelivery ::
  "WebhookOutboxHandler \<Rightarrow> OutboxMessage \<Rightarrow> NotificationEndpoint \<Rightarrow> WebhookDelivery option \<Rightarrow> JobAttemptStatus \<Rightarrow>
   string \<Rightarrow> (world, err, unit) eff" where
  "recordWebhookDelivery h message endpoint current status lastError =
     bindE (drawE (wh_timeNow h)) (\<lambda>now.
     let createdAt = (case current of None \<Rightarrow> 0 | Some c \<Rightarrow> whd_CreatedAt c);
         attempts = (case current of None \<Rightarrow> 0 | Some c \<Rightarrow> whd_AttemptCount c) in
     repoE (repo_UpsertWebhookDelivery
       \<lparr>whd_OutboxMessageID = msg_ID message, whd_EndpointID = ep_ID endpoint, whd_Status = status,
        whd_AttemptCount = attempts + 1, whd_LastError = lastError, whd_LastAttemptedAt = now,
        whd_CreatedAt = (if IsZero createdAt then now else createdAt), whd_UpdatedAt = now\<rparr>))"

text \<open>The delivery to one endpoint; \<open>None\<close> stands for the zero record of a delivery not found.\<close>

definition deliver_webhook ::
  "WebhookOutboxHandler \<Rightarrow> OutboxMessage \<Rightarrow> string \<Rightarrow> NotificationEndpoint \<Rightarrow> (world, err, unit) eff" where
  "deliver_webhook h message data endpoint =
     (if \<not> webhookEndpointMatches endpoint (msg_Type message) then returnE ()
      else
        bindE (attemptE (repoE (repo_GetWebhookDelivery (msg_ID message) (ep_ID endpoint)))) (\<lambda>r.
        bindE (case r of
                 Inr delivery \<Rightarrow> returnE (Some delivery)
               | Inl e \<Rightarrow> if \<not> errors_Is e ErrWebhookDeliveryNotFound then throwE e else returnE None) (\<lambda>delivery.
        if (case delivery of None \<Rightarrow> False | Some d \<Rightarrow> whd_Status d = JobAttemptSucceeded) then returnE ()
        else
          bindE (attemptE (postWebhook h endpoint message data)) (\<lambda>p.
          case p of
            Inl e \<Rightarrow> thenE (recordWebhookDelivery h message endpoint delivery JobAttemptFailed (err_Error e)) (throwE e)
          | Inr _ \<Rightarrow> recordWebhookDelivery h message endpoint delivery JobAttemptSucceeded []))))"

fun json_floats :: "(string \<Rightarrow> string option) \<Rightarrow> json \<Rightarrow> json option" where
  "json_floats f (JNum n) = map_option JNum (f n)"
| "json_floats f (JArr vs) = map_option JArr (those (map (json_floats f) vs))"
| "json_floats f (JObj kvs) = map_option JObj (those (map (\<lambda>(k, v). map_option (Pair k) (json_floats f v)) kvs))"
| "json_floats f v = Some v"

text \<open>\<open>json.Unmarshal\<close> into a \<open>map[string]any\<close>: an object, or null for the nil map.\<close>

definition decode_payload :: "(string \<Rightarrow> string option) \<Rightarrow> string \<Rightarrow> err + json" where
  "decode_payload number text =
     (let bad = Inl (ErrText ''decode outbox payload'') in
      case json_decode text of
        None \<Rightarrow> bad
      | Some (v, rest) \<Rightarrow>
          if skip_ws rest \<noteq> [] then bad
          else case v of
            JNull \<Rightarrow> Inr JNull
          | JObj _ \<Rightarrow> (case json_floats number v of None \<Rightarrow> bad | Some v' \<Rightarrow> Inr (json_canon v'))
          | _ \<Rightarrow> bad)"

definition webhook_body :: "OutboxMessage \<Rightarrow> json \<Rightarrow> string" where
  "webhook_body message payload =
     json_marshal (JObj
       [(''schema_version'', JInt 1), (''outbox_message_id'', JStr (msg_ID message)),
        (''event_type'', JStr (msg_Type message)), (''payload'', payload),
        (''created_at'', JStr (FormatRFC3339Nano (msg_CreatedAt message)))])"

definition WebhookOutboxHandler_Handle :: "WebhookOutboxHandler \<Rightarrow> OutboxHandler" where
  "WebhookOutboxHandler_Handle h message =
     bindE (repoE repo_ListNotificationEndpoints) (\<lambda>endpoints.
     bindE (fromSum (decode_payload (wh_number h) (msg_PayloadJSON message))) (\<lambda>payload.
     forE endpoints (deliver_webhook h message (webhook_body message payload))))"

end
