(* ===== verification/Listings.thy ===== *)
theory Listings
  imports Outbox
begin

text \<open>
  Listings and reports, and the operations on the audit log as a whole, from
  \<open>service/internal/lifecycle/service.go\<close> and \<open>store/memory.go\<close>. The in-memory store implements none of
  the optional query interfaces, so the service filters, sorts and pages the plain listings itself.
\<close>

section \<open>Identities and enrollments\<close>

text \<open>\<open>want != "" && have != want\<close>\<close>

definition differs :: "string \<Rightarrow> string \<Rightarrow> bool" where
  "differs want have \<longleftrightarrow> want \<noteq> [] \<and> have \<noteq> want"

record IdentityListOptions =
  ilo_Owner :: string
  ilo_Team :: string
  ilo_Service :: string
  ilo_Environment :: string
  ilo_Sort :: string
  ilo_Limit :: int
  ilo_Offset :: int

definition ListIdentitiesQuery :: "IdentityListOptions \<Rightarrow> (world, err, Identity list) eff" where
  "ListIdentitiesQuery opts =
     thenE (fromSum (validateListOptions (ilo_Sort opts) (ilo_Limit opts) (ilo_Offset opts)))
     (bindE (repoE repo_ListIdentities) (\<lambda>identities.
      returnE (sortAndPage (less_time_id idn_CreatedAt idn_ID)
        (filter (\<lambda>identity.
           \<not> differs (ilo_Owner opts) (idn_Owner identity) \<and> \<not> differs (ilo_Team opts) (idn_Team identity) \<and>
           \<not> differs (ilo_Service opts) (idn_Service identity) \<and>
           \<not> differs (ilo_Environment opts) (idn_Environment identity)) identities)
        (ilo_Sort opts) (ilo_Limit opts) (ilo_Offset opts))))"

record EnrollmentListOptions =
  elo_IdentityID :: string
  elo_IssuerID :: string
  elo_ProfileID :: string
  elo_Status :: EnrollmentStatus
  elo_Sort :: string
  elo_Limit :: int
  elo_Offset :: int

fun isValidEnrollmentStatus :: "EnrollmentStatus \<Rightarrow> bool" where
  "isValidEnrollmentStatus (EnrollmentStatusOther _) = False"
| "isValidEnrollmentStatus _ = True"

definition ListEnrollmentsQuery :: "EnrollmentListOptions \<Rightarrow> (world, err, Enrollment list) eff" where
  "ListEnrollmentsQuery opts =
     thenE (fromSum (validateListOptions (elo_Sort opts) (elo_Limit opts) (elo_Offset opts)))
     (thenE (failIf (elo_Status opts \<noteq> EnrollmentStatusOther [] \<and> \<not> isValidEnrollmentStatus (elo_Status opts))
              ErrInvalidRequest)
     (bindE (repoE repo_ListEnrollments) (\<lambda>enrollments.
      returnE (sortAndPage (less_time_id enr_CreatedAt enr_ID)
        (filter (\<lambda>enrollment.
           \<not> differs (elo_IdentityID opts) (enr_IdentityID enrollment) \<and>
           \<not> differs (elo_IssuerID opts) (enr_IssuerID enrollment) \<and>
           \<not> differs (elo_ProfileID opts) (enr_CertificateProfileID enrollment) \<and>
           \<not> (elo_Status opts \<noteq> EnrollmentStatusOther [] \<and> enr_Status enrollment \<noteq> elo_Status opts)) enrollments)
        (elo_Sort opts) (elo_Limit opts) (elo_Offset opts)))))"

section \<open>Certificates\<close>

record CertificateListOptions =
  clo_Owner :: string
  clo_Team :: string
  clo_Service :: string
  clo_Environment :: string
  clo_IssuerID :: string
  clo_ProfileID :: string
  clo_SAN :: string
  clo_RevocationState :: string
  clo_RenewalState :: string
  clo_ExpiresWithinDays :: int
  clo_Sort :: string
  clo_Limit :: int
  clo_Offset :: int

text \<open>\<open>isValidCertificateStatus(domain.CertificateStatus(s))\<close>\<close>

definition isValidCertificateStatus :: "string \<Rightarrow> bool" where
  "isValidCertificateStatus status \<longleftrightarrow>
     status \<in> str_CertificateStatus ` {CertificateValid, CertificateSuspended, CertificateRevoked, CertificateExpired}"

definition isAllowedExpiryWindowDays :: "int \<Rightarrow> bool" where
  "isAllowedExpiryWindowDays days \<longleftrightarrow> days \<in> {30, 14, 7, 3, 1}"

text \<open>\<open>time.Duration(days) * 24 * time.Hour\<close>\<close>

definition days_duration :: "int \<Rightarrow> duration" where
  "days_duration days = wrap64 (wrap64 (days * 24) * Hour)"

definition certificateHasSAN :: "Certificate \<Rightarrow> string \<Rightarrow> bool" where
  "certificateHasSAN certificate san \<longleftrightarrow> san \<in> set (cert_DNSNames certificate) \<or> san \<in> set (cert_IPAddresses certificate)"

definition identityMatchesCertificateFilters :: "Identity \<Rightarrow> CertificateListOptions \<Rightarrow> bool" where
  "identityMatchesCertificateFilters identity opts \<longleftrightarrow>
     \<not> differs (clo_Owner opts) (idn_Owner identity) \<and> \<not> differs (clo_Team opts) (idn_Team identity) \<and>
     \<not> differs (clo_Service opts) (idn_Service identity) \<and> \<not> differs (clo_Environment opts) (idn_Environment identity)"

text \<open>\<open>None\<close> is the nil map: no filter on identities was asked for.\<close>

definition identityFilterLookup :: "CertificateListOptions \<Rightarrow> (world, err, Identity gomap option) eff" where
  "identityFilterLookup opts =
     (if clo_Owner opts = [] \<and> clo_Team opts = [] \<and> clo_Service opts = [] \<and> clo_Environment opts = [] then returnE None
      else
        bindE (repoE repo_ListIdentities) (\<lambda>identities.
        returnE (Some (foldl (\<lambda>m identity. mput (idn_ID identity) identity m) [] identities))))"

definition certificate_selected ::
  "CertificateListOptions \<Rightarrow> Identity gomap option \<Rightarrow> time \<Rightarrow> time \<Rightarrow> Certificate \<Rightarrow> bool" where
  "certificate_selected opts identityByID now cutoff certificate \<longleftrightarrow>
     \<not> differs (clo_IssuerID opts) (cert_IssuerID certificate) \<and>
     \<not> differs (clo_ProfileID opts) (cert_CertificateProfileID certificate) \<and>
     \<not> (clo_SAN opts \<noteq> [] \<and> \<not> certificateHasSAN certificate (clo_SAN opts)) \<and>
     \<not> differs (clo_RevocationState opts) (str_CertificateStatus (cert_Status certificate)) \<and>
     \<not> (clo_RenewalState opts = ''notified'' \<and> IsZero (cert_RenewalNotifiedAt certificate)) \<and>
     \<not> (clo_RenewalState opts = ''unnotified'' \<and> \<not> IsZero (cert_RenewalNotifiedAt certificate)) \<and>
     \<not> (clo_ExpiresWithinDays opts \<noteq> 0 \<and>
        (cert_Status certificate \<noteq> CertificateValid \<or> Before (cert_NotAfter certificate) now \<or>
         After (cert_NotAfter certificate) cutoff)) \<and>
     (case identityByID of
        None \<Rightarrow> True
      | Some byID \<Rightarrow>
          (case mget byID (cert_IdentityID certificate) of
             None \<Rightarrow> False
           | Some identity \<Rightarrow> identityMatchesCertificateFilters identity opts))"

definition ListCertificatesQuery :: "service \<Rightarrow> CertificateListOptions \<Rightarrow> (world, err, Certificate list) eff" where
  "ListCertificatesQuery svc opts =
     thenE (fromSum (validateListOptions (clo_Sort opts) (clo_Limit opts) (clo_Offset opts)))
     (thenE (failIf (clo_RevocationState opts \<noteq> [] \<and> \<not> isValidCertificateStatus (clo_RevocationState opts))
              ErrInvalidRequest)
     (thenE (failIf (clo_RenewalState opts \<noteq> [] \<and> clo_RenewalState opts \<noteq> ''notified'' \<and>
                     clo_RenewalState opts \<noteq> ''unnotified'') ErrInvalidRequest)
     (thenE (failIf (clo_ExpiresWithinDays opts \<noteq> 0 \<and> \<not> isAllowedExpiryWindowDays (clo_ExpiresWithinDays opts))
              ErrInvalidRequest)
     (bindE (repoE repo_ListCertificates) (\<lambda>certificates.
      bindE (identityFilterLookup opts) (\<lambda>identityByID.
      bindE (clockNow svc) (\<lambda>now.
      let cutoff = AddD now (days_duration (clo_ExpiresWithinDays opts)) in
      returnE (sortAndPage (less_time_id cert_CreatedAt cert_ID)
        (filter (certificate_selected opts identityByID now cutoff) certificates)
        (clo_Sort opts) (clo_Limit opts) (clo_Offset opts)))))))))"

definition ListCertificatesExpiringWithin :: "service \<Rightarrow> int \<Rightarrow> int \<Rightarrow> int \<Rightarrow> (world, err, Certificate list) eff" where
  "ListCertificatesExpiringWithin svc days limit offset =
     thenE (failIf (\<not> isAllowedExpiryWindowDays days) ErrInvalidRequest)
     (thenE (failIf (limit < 0 \<or> offset < 0) ErrInvalidRequest)
     (bindE (clockNow svc) (\<lambda>now.
      repoE (repo_ListCertificatesExpiringWithin now (AddD now (days_duration days)) limit offset))))"

record ExpirySLO_report =
  slo_WindowDays :: int
  slo_UnhandledCount :: int
  slo_UnhandledIDs :: "string list"
  slo_OK :: bool

definition ExpirySLO :: "service \<Rightarrow> (world, err, ExpirySLO_report) eff" where
  "ExpirySLO svc =
     bindE (repoE repo_ListCertificates) (\<lambda>certificates.
     bindE (clockNow svc) (\<lambda>now.
     let cutoff = AddD now (days_duration 14);
         ids = map cert_ID (filter (\<lambda>certificate.
           (cert_Status certificate = CertificateValid \<or> cert_Status certificate = CertificateSuspended) \<and>
           After (cert_NotAfter certificate) now \<and> \<not> After (cert_NotAfter certificate) cutoff \<and>
           IsZero (cert_RenewalNotifiedAt certificate)) certificates) in
     returnE \<lparr>slo_WindowDays = 14, slo_UnhandledCount = int (length ids), slo_UnhandledIDs = ids,
              slo_OK = (int (length ids) = 0)\<rparr>))"

section \<open>The inventory\<close>

record CertificateInventoryFilter =
  cif_Owner :: string
  cif_Team :: string
  cif_Service :: string
  cif_Environment :: string
  cif_IssuerID :: string
  cif_ProfileID :: string
  cif_RevocationState :: string
  cif_Sort :: string
  cif_Limit :: int
  cif_Offset :: int

text \<open>A certificate with its identity and issuer; \<open>None\<close> is the zero record of one not found.\<close>

record CertificateInventoryRecord =
  cir_Certificate :: Certificate
  cir_Identity :: "Identity option"
  cir_Issuer :: "Issuer option"

definition certificateInventoryRecordMatches :: "Certificate \<Rightarrow> Identity option \<Rightarrow> CertificateInventoryFilter \<Rightarrow> bool" where
  "certificateInventoryRecordMatches certificate identity filt \<longleftrightarrow>
     \<not> differs (cif_Owner filt) (case identity of None \<Rightarrow> [] | Some i \<Rightarrow> idn_Owner i) \<and>
     \<not> differs (cif_Team filt) (case identity of None \<Rightarrow> [] | Some i \<Rightarrow> idn_Team i) \<and>
     \<not> differs (cif_Service filt) (case identity of None \<Rightarrow> [] | Some i \<Rightarrow> idn_Service i) \<and>
     \<not> differs (cif_Environment filt) (case identity of None \<Rightarrow> [] | Some i \<Rightarrow> idn_Environment i) \<and>
     \<not> differs (cif_IssuerID filt) (cert_IssuerID certificate) \<and>
     \<not> differs (cif_ProfileID filt) (cert_CertificateProfileID certificate) \<and>
     \<not> differs (cif_RevocationState filt) (str_CertificateStatus (cert_Status certificate))"

definition listCertificateInventory ::
  "Certificate gomap \<Rightarrow> Identity gomap \<Rightarrow> Issuer gomap \<Rightarrow> CertificateInventoryFilter \<Rightarrow> CertificateInventoryRecord list" where
  "listCertificateInventory certificates identities issuers filt =
     (let result = map (\<lambda>certificate.
            \<lparr>cir_Certificate = certificate, cir_Identity = mget identities (cert_IdentityID certificate),
             cir_Issuer = mget issuers (cert_IssuerID certificate)\<rparr>)
            (filter (\<lambda>certificate. certificateInventoryRecordMatches certificate
               (mget identities (cert_IdentityID certificate)) filt) (mvals certificates));
          sorted = sort_slice (\<lambda>a b.
            if cif_Sort filt = ''desc'' then cert_ID (cir_Certificate b) < cert_ID (cir_Certificate a)
            else cert_ID (cir_Certificate a) < cert_ID (cir_Certificate b)) result;
          page = drop (nat (cif_Offset filt)) sorted
      in if int (length sorted) \<le> cif_Offset filt then []
         else if 0 < cif_Limit filt \<and> cif_Limit filt < int (length page) then take (nat (cif_Limit filt)) page
         else page)"

definition repo_ListCertificateInventory ::
  "CertificateInventoryFilter \<Rightarrow> (memory_store, err, CertificateInventoryRecord list) eff" where
  [repo_defs]: "repo_ListCertificateInventory filt =
     getE (\<lambda>s. listCertificateInventory (t_certificates s) (t_identities s) (t_issuers s) filt)"

record CertificateInventoryEntry =
  cie_CertificateID :: string
  cie_Owner :: string
  cie_Team :: string
  cie_Service :: string
  cie_Environment :: string
  cie_DeploymentTarget :: string
  cie_IssuerID :: string
  cie_ProfileID :: string
  cie_IssuerKeyRef :: string
  cie_RevocationState :: string
  cie_LastSeenAt :: time
  cie_CompletenessWarnings :: "string list"

definition zero_Identity :: Identity where
  "zero_Identity =
     \<lparr>idn_ID = [], idn_Type = IdentityTypeOther [], idn_Name = [], idn_ExternalID = [], idn_Owner = [],
      idn_Team = [], idn_Service = [], idn_Environment = [], idn_DeploymentTarget = [], idn_LastSeenAt = 0,
      idn_MetadataJSON = [], idn_AllowedDNSNames = [], idn_AllowedIPAddresses = [],
      idn_Status = IdentityStatusOther [], idn_CreatedAt = 0, idn_UpdatedAt = 0\<rparr>"

definition inventory_entry :: "CertificateInventoryRecord \<Rightarrow> CertificateInventoryEntry" where
  "inventory_entry r =
     (let certificate = cir_Certificate r;
          identity = (case cir_Identity r of None \<Rightarrow> zero_Identity | Some i \<Rightarrow> i) in
      \<lparr>cie_CertificateID = cert_ID certificate, cie_Owner = idn_Owner identity, cie_Team = idn_Team identity,
       cie_Service = idn_Service identity, cie_Environment = idn_Environment identity,
       cie_DeploymentTarget = idn_DeploymentTarget identity, cie_IssuerID = cert_IssuerID certificate,
       cie_ProfileID = cert_CertificateProfileID certificate,
       cie_IssuerKeyRef = (case cir_Issuer r of None \<Rightarrow> [] | Some i \<Rightarrow> iss_KeyRef i),
       cie_RevocationState = str_CertificateStatus (cert_Status certificate),
       cie_LastSeenAt = idn_LastSeenAt identity,
       cie_CompletenessWarnings = identityCompletenessWarnings identity\<rparr>)"

definition ListCertificateInventory :: "CertificateInventoryFilter \<Rightarrow> (world, err, CertificateInventoryEntry list) eff" where
  "ListCertificateInventory opts =
     thenE (fromSum (validateListOptions (cif_Sort opts) (cif_Limit opts) (cif_Offset opts)))
     (thenE (failIf (cif_RevocationState opts \<noteq> [] \<and> \<not> isValidCertificateStatus (cif_RevocationState opts))
              ErrInvalidRequest)
     (bindE (repoE (repo_ListCertificateInventory opts)) (\<lambda>records.
      returnE (map inventory_entry records))))"

section \<open>The audit log\<close>

record AuditEventQuery =
  aeq_Actor :: string
  aeq_Action :: string
  aeq_ResourceType :: string
  aeq_ResourceID :: string
  aeq_CreatedFrom :: time
  aeq_CreatedTo :: time
  aeq_Sort :: string
  aeq_Limit :: int
  aeq_Offset :: int

definition listAuditEventsQuery :: "AuditEvent list \<Rightarrow> AuditEventQuery \<Rightarrow> AuditEvent list" where
  "listAuditEventsQuery events query =
     (let result = filter (\<lambda>event.
            \<not> differs (aeq_Actor query) (ev_Actor event) \<and> \<not> differs (aeq_Action query) (ev_Action event) \<and>
            \<not> differs (aeq_ResourceType query) (ev_ResourceType event) \<and>
            \<not> differs (aeq_ResourceID query) (ev_ResourceID event) \<and>
            \<not> (\<not> IsZero (aeq_CreatedFrom query) \<and> Before (ev_CreatedAt event) (aeq_CreatedFrom query)) \<and>
            \<not> (\<not> IsZero (aeq_CreatedTo query) \<and> After (ev_CreatedAt event) (aeq_CreatedTo query))) events;
          lt = less_time_id ev_CreatedAt ev_ID;
          sorted = sort_slice (if aeq_Sort query = ''desc'' then (\<lambda>a b. lt b a) else lt) result;
          page = (if 0 < aeq_Offset query
                  then (if int (length sorted) \<le> aeq_Offset query then [] else drop (nat (aeq_Offset query)) sorted)
                  else sorted)
      in if 0 < aeq_Limit query \<and> aeq_Limit query < int (length page) then take (nat (aeq_Limit query)) page else page)"

definition repo_ListAuditEventsQuery :: "AuditEventQuery \<Rightarrow> (memory_store, err, AuditEvent list) eff" where
  [repo_defs]: "repo_ListAuditEventsQuery query = getE (\<lambda>s. listAuditEventsQuery (fst (t_audit s)) query)"

definition ListAuditEventsQuery :: "AuditEventQuery \<Rightarrow> (world, err, AuditEvent list) eff" where
  "ListAuditEventsQuery query =
     thenE (failIf (aeq_Sort query \<noteq> [] \<and> aeq_Sort query \<noteq> ''asc'' \<and> aeq_Sort query \<noteq> ''desc'') ErrInvalidRequest)
     (thenE (failIf (aeq_Limit query < 0 \<or> aeq_Offset query < 0 \<or> (0 < aeq_Offset query \<and> aeq_Limit query = 0))
              ErrInvalidRequest)
     (thenE (failIf (\<not> IsZero (aeq_CreatedFrom query) \<and> \<not> IsZero (aeq_CreatedTo query) \<and>
                     Before (aeq_CreatedTo query) (aeq_CreatedFrom query)) ErrInvalidRequest)
     (repoE (repo_ListAuditEventsQuery query))))"

definition GetAuditIntegrity :: "(world, err, AuditIntegrity) eff" where
  "GetAuditIntegrity = repoE repo_VerifyAuditChain"

definition PruneAuditEventsBefore :: "service \<Rightarrow> request_ctx \<Rightarrow> string \<Rightarrow> time \<Rightarrow> (world, err, int) eff" where
  "PruneAuditEventsBefore svc ctx actor0 cutoff =
     thenE (if IsZero cutoff then throwE ErrInvalidRequest
            else bindE (clockNow svc) (\<lambda>now0. failIf (\<not> Before cutoff now0) ErrInvalidRequest))
     (let actor = (if isBlank actor0 then ''anonymous'' else actor0) in
      bindE (clockNow svc) (\<lambda>now.
      WithinTx
        (bindE (repoE (repo_DeleteAuditEventsBefore cutoff)) (\<lambda>deleted.
         bindE (newID svc) (\<lambda>ident.
         thenE (createAuditEvent svc ctx actor ''audit.retention_pruned'' ''audit'' ident now
                  [(''retention_cutoff'', JStr (FormatRFC3339 cutoff)), (''deleted_count'', JInt deleted)])
         (returnE deleted))))))"

record APIFailureAuditRequest =
  afr_Method :: string
  afr_Path :: string
  afr_StatusCode :: int
  afr_Err :: err

definition RecordAPIFailure ::
  "service \<Rightarrow> request_ctx \<Rightarrow> string \<Rightarrow> APIFailureAuditRequest \<Rightarrow> (world, err, unit) eff" where
  "RecordAPIFailure svc ctx actor0 req =
     (let actor = (if isBlank actor0 then ''anonymous'' else actor0) in
      bindE (clockNow svc) (\<lambda>now.
      let base = [(''http_method'', JStr (afr_Method req)), (''http_path'', JStr (afr_Path req)),
                  (''http_status'', JInt (afr_StatusCode req))];
          reason = policyDecisionReason (afr_Err req);
          flds = (if reason = [] then base
                  else let f1 = mput ''policy_decision_reason'' (JStr reason) (mput ''policy_decision'' (JStr ''reject'') base);
                           refs = policyDecisionEvidenceRefs (afr_Err req)
                       in if refs = [] then f1 else mput ''policy_validation_evidence_refs'' (JStrs refs) f1) in
      WithinTx
        (bindE (newID svc) (\<lambda>ident.
         createAuditEventWithResult svc ctx actor ''api.request_failed'' ''api'' ident now flds ''error''
           (auditErrorCode (afr_Err req))))))"

end
