(* ===== verification/HttpAccess.thy ===== *)
theory HttpAccess
  imports Http Listings
begin

text \<open>
  The front end of \<open>service/internal/httpapi/server.go\<close> before and after the handlers: the server
  and its state, public endpoints, API-key scopes, client addresses, the ACME rate limit, the nonce
  store of \<open>acme.go\<close>, metrics of \<open>metrics.go\<close> and \<open>observability/metrics.go\<close>, and what an error
  becomes for the client.
\<close>

section \<open>The server\<close>

definition AuthModeDev :: string where "AuthModeDev = ''dev''"
definition AuthModeAPIKey :: string where "AuthModeAPIKey = ''api_key''"

record AuthConfig =
  auth_Mode :: string
  auth_TrustedProxies :: "ip_prefix list"
  auth_AuthorizationTimeout :: duration

record AuthorizationInput =
  azi_ActorID :: string
  azi_AuthenticationMethod :: string
  azi_RequiredScope :: string
  azi_HTTPMethod :: string
  azi_RoutePattern :: string
  azi_RequestID :: string
  azi_Traceparent :: string
  azi_ClientIP :: string
  azi_UserAgent :: string

datatype AuthorizationOutcome =
    AuthorizationOutcomeAllow
  | AuthorizationOutcomeDeny
  | AuthorizationOutcomeApprovalRequired
  | AuthorizationOutcomeOther string

record AuthorizationResult =
  azr_Outcome :: AuthorizationOutcome
  azr_DecisionID :: string
  azr_ReasonCode :: string
  azr_PolicyRevision :: string

text \<open>The errors of a context and of an authorizer, as far as the server tells them apart.\<close>

datatype authorizer_error = DeadlineExceeded | Canceled | AuthorizerError

record ACMEConfig =
  acme_DefaultIdentityID :: string
  acme_DefaultIssuerID :: string
  acme_DefaultCertificateProfileID :: string
  acme_DefaultValidityPeriod :: duration
  acme_RateLimit :: int
  acme_RateLimitWindow :: duration

text \<open>
  The cryptography of the Go library that the ACME handlers call: signature checks, whether two
  coordinates are a point of P-256, and the subject, DNS names and addresses of a DER request.
\<close>

record acme_crypto =
  cry_ecdsaVerify :: "nat list \<Rightarrow> nat list \<Rightarrow> nat list \<Rightarrow> nat \<Rightarrow> nat \<Rightarrow> bool"
  cry_rsaVerify :: "nat \<Rightarrow> int \<Rightarrow> nat list \<Rightarrow> nat list \<Rightarrow> bool"
  cry_ed25519Verify :: "nat list \<Rightarrow> nat list \<Rightarrow> nat list \<Rightarrow> bool"
  cry_P256Point :: "nat list \<Rightarrow> nat list \<Rightarrow> bool"
  cry_ParseCertificateRequest :: "nat list \<Rightarrow> (string \<times> string list \<times> string list) option"

text \<open>
  The collaborators of a server are the service, an optional authorizer and the randomness; each
  draw sees the number of draws before it.
\<close>

record server =
  srv_service :: service
  srv_auth :: AuthConfig
  srv_acme :: ACMEConfig
  srv_authorizer ::
    "(AuthorizationInput \<Rightarrow> nat \<Rightarrow> AuthorizationResult \<times> authorizer_error option \<times> authorizer_error option) option"
  srv_rand :: "nat \<Rightarrow> nat \<Rightarrow> err + nat list"
  srv_crypto :: acme_crypto

record acmeStoredNonce =
  non_IssuedAt :: time
  non_ExpiresAt :: time

record acmeRateBucket =
  rate_Count :: int
  rate_ResetAt :: time

text \<open>What changes while a server runs: the world of the service, the nonces, the rate buckets, the metrics.\<close>

record web =
  web_world :: world
  web_nonces :: "acmeStoredNonce gomap"
  web_rates :: "acmeRateBucket gomap"
  web_requests :: "int gomap"
  web_events :: "int gomap"

text \<open>\<open>NewWithAuthorizer\<close>: the settings it completes.\<close>

definition defaultAuthorizationTimeout :: duration where "defaultAuthorizationTimeout = 2 * Second"
definition defaultACMERateLimit :: int where "defaultACMERateLimit = 120"
definition defaultACMERateWindow :: duration where "defaultACMERateWindow = Minute"

definition NewWithAuthorizer ::
  "service \<Rightarrow> AuthConfig \<Rightarrow> ACMEConfig \<Rightarrow>
   (AuthorizationInput \<Rightarrow> nat \<Rightarrow> AuthorizationResult \<times> authorizer_error option \<times> authorizer_error option) option \<Rightarrow>
   (nat \<Rightarrow> nat \<Rightarrow> err + nat list) \<Rightarrow> acme_crypto \<Rightarrow> server" where
  "NewWithAuthorizer svc auth acme authorizer rand crypto =
     \<lparr>srv_service = svc,
      srv_auth = auth\<lparr>
        auth_Mode := (if auth_Mode auth = [] then AuthModeDev else auth_Mode auth),
        auth_AuthorizationTimeout :=
          (if auth_AuthorizationTimeout auth \<le> 0 \<or> defaultAuthorizationTimeout < auth_AuthorizationTimeout auth
           then defaultAuthorizationTimeout else auth_AuthorizationTimeout auth)\<rparr>,
      srv_acme = acme\<lparr>
        acme_RateLimit := (if acme_RateLimit acme \<le> 0 then defaultACMERateLimit else acme_RateLimit acme),
        acme_RateLimitWindow :=
          (if acme_RateLimitWindow acme \<le> 0 then defaultACMERateWindow else acme_RateLimitWindow acme)\<rparr>,
      srv_authorizer = authorizer, srv_rand = rand, srv_crypto = crypto\<rparr>"

text \<open>The errors of a handler: \<open>errACMEBadNonce\<close>, or an error of the service.\<close>

datatype herr = errACMEBadNonce | Svc err

fun herr_Is :: "herr \<Rightarrow> err \<Rightarrow> bool" where
  "herr_Is errACMEBadNonce t = False"
| "herr_Is (Svc e) t = errors_Is e t"

definition worldE :: "(world, err, 'a) eff \<Rightarrow> (web, herr, 'a) eff" where
  "worldE m = (\<lambda>h. case m (web_world h) of (r, w) \<Rightarrow> (map_sum Svc id r, h\<lparr>web_world := w\<rparr>))"

abbreviation timeNow :: "server \<Rightarrow> (web, herr, time) eff" where
  "timeNow srv \<equiv> worldE (drawE (svc_timeNow (srv_service srv)))"

abbreviation randRead :: "server \<Rightarrow> nat \<Rightarrow> (web, herr, nat list) eff" where
  "randRead srv n \<equiv> worldE (callE (srv_rand srv n))"

section \<open>Metrics\<close>

text \<open>\<open>expvar.Map.Add\<close> of one.\<close>

definition bump :: "string \<Rightarrow> int gomap \<Rightarrow> int gomap" where
  "bump key m = mput key (wrap64 ((case mget m key of None \<Rightarrow> 0 | Some n \<Rightarrow> n) + 1)) m"

definition RecordHTTPRequest :: "string \<Rightarrow> int \<Rightarrow> (web, herr, unit) eff" where
  "RecordHTTPRequest boundary status =
     updE (\<lambda>h. Inr (h\<lparr>web_requests := bump ((if boundary = [] then ''unknown'' else boundary) @ '':'' @ itoa status)
                        (web_requests h)\<rparr>))"

definition RecordEvent :: "string \<Rightarrow> (web, herr, unit) eff" where
  "RecordEvent key = updE (\<lambda>h. Inr (h\<lparr>web_events := bump key (web_events h)\<rparr>))"

definition requestMetricBoundary :: "string \<Rightarrow> string" where
  "requestMetricBoundary path =
     (if path = ''/debug/vars'' then ''observability''
      else if HasPrefix path ''/identities'' then ''identity''
      else if HasPrefix path ''/issuers/'' \<and> Contains path ''/ocsp-responders'' then ''ocsp_responder''
      else if HasPrefix path ''/issuers/'' \<and> HasSuffix path ''/crl'' then ''crl''
      else if HasPrefix path ''/issuers'' then ''issuer''
      else if HasPrefix path ''/certificate-profiles'' then ''profile''
      else if HasPrefix path ''/enrollments'' then ''enrollment''
      else if path = ''/certificates'' then ''issuance''
      else if Contains path ''/revoke'' then ''revocation''
      else if Contains path ''/renew'' then ''renewal''
      else if Contains path ''/reissue'' then ''reissue''
      else if Contains path ''/suspend'' \<or> Contains path ''/resume'' then ''suspension''
      else if HasPrefix path ''/certificates/expiration-scan'' then ''expiration_scan''
      else if HasPrefix path ''/certificates'' then ''certificate''
      else if HasPrefix path ''/crls'' then ''crl''
      else if path = ''/ocsp'' then ''ocsp''
      else if HasPrefix path ''/acme'' then ''acme''
      else if HasPrefix path ''/notification-endpoints'' then ''webhook''
      else if HasPrefix path ''/outbox'' then ''outbox''
      else if HasPrefix path ''/api-keys'' then ''auth''
      else if HasPrefix path ''/audit-events'' then ''audit''
      else if HasPrefix path ''/operator'' then ''operator''
      else ''http'')"

section \<open>Public endpoints and scopes\<close>

definition isPublicACMEProtocolEndpoint :: "string \<Rightarrow> string \<Rightarrow> bool" where
  "isPublicACMEProtocolEndpoint method path \<longleftrightarrow>
     method = ''GET'' \<and> path = ''/acme/directory'' \<or>
     (method = ''HEAD'' \<or> method = ''GET'') \<and> path = ''/acme/new-nonce'' \<or>
     method = ''POST'' \<and> path \<in> {''/acme/new-account'', ''/acme/new-order'', ''/acme/key-change'', ''/acme/revoke-cert''} \<or>
     method = ''POST'' \<and> HasPrefix path ''/acme/account/'' \<or>
     method = ''GET'' \<and> (HasPrefix path ''/acme/order/'' \<or> HasPrefix path ''/acme/authz/'') \<or>
     method = ''POST'' \<and> (HasPrefix path ''/acme/order/'' \<or> HasPrefix path ''/acme/authz/'' \<or>
       HasPrefix path ''/acme/challenge/'' \<or> HasPrefix path ''/acme/cert/'') \<or>
     method = ''GET'' \<and> HasPrefix path ''/acme/cert/''"

text \<open>\<open>strings.Trim(s, "/")\<close>.\<close>

definition trim_slashes :: "string \<Rightarrow> string" where
  "trim_slashes s =
     rev (dropWhile (\<lambda>c. c = CHR ''/'') (rev (dropWhile (\<lambda>c. c = CHR ''/'') s)))"

definition isPublicEndpoint :: "string \<Rightarrow> string \<Rightarrow> bool" where
  "isPublicEndpoint method path \<longleftrightarrow>
     method = ''POST'' \<and> path = ''/ocsp'' \<or>
     isPublicACMEProtocolEndpoint method path \<or>
     method = ''GET'' \<and> HasPrefix path ''/crls/'' \<and> TrimPrefix path ''/crls/'' \<noteq> [] \<or>
     method = ''GET'' \<and> HasPrefix path ''/issuers/'' \<and> HasSuffix path ''/crl'' \<and>
       (case Split (trim_slashes path) (CHR ''/'') of
          [a, b, c] \<Rightarrow> a = ''issuers'' \<and> b \<noteq> [] \<and> c = ''crl''
        | _ \<Rightarrow> False)"

datatype requiredScope = requiredScopeRead | requiredScopeWrite | requiredScopeOperator

fun str_requiredScope :: "requiredScope \<Rightarrow> string" where
  "str_requiredScope requiredScopeRead = ''read''"
| "str_requiredScope requiredScopeWrite = ''write''"
| "str_requiredScope requiredScopeOperator = ''operator''"

definition requiredScopeForRequest :: "string \<Rightarrow> string \<Rightarrow> requiredScope" where
  "requiredScopeForRequest method path =
     (if path = ''/debug/vars'' \<or> HasPrefix path ''/api-keys'' \<or> HasPrefix path ''/outbox/'' \<or>
         HasPrefix path ''/audit-events'' \<or> HasPrefix path ''/operator/''
      then requiredScopeOperator
      else if method = ''POST'' \<and> path = ''/certificates/expiration-scan'' then requiredScopeOperator
      else if method = ''GET'' then requiredScopeRead
      else requiredScopeWrite)"

definition apiKeyAllowsScope :: "APIKey \<Rightarrow> requiredScope \<Rightarrow> bool" where
  "apiKeyAllowsScope key required =
     list_ex (\<lambda>scope.
       scope = APIKeyScopeOperator \<or> (required = requiredScopeRead \<and> scope = APIKeyScopeWrite) \<or>
       str_APIKeyScope scope = str_requiredScope required) (key_Scopes key)"

definition bearerToken :: "string \<Rightarrow> string option" where
  "bearerToken header =
     (if \<not> HasPrefix header ''Bearer '' then None
      else let token = TrimSpace (TrimPrefix header ''Bearer '') in if token = [] then None else Some token)"

section \<open>Client addresses\<close>

definition remoteAddrTrusted :: "string \<Rightarrow> ip_prefix list \<Rightarrow> bool" where
  "remoteAddrTrusted host trustedProxies =
     (case ParseAddr (TrimSpace host) of
        None \<Rightarrow> False
      | Some addr \<Rightarrow> list_ex (\<lambda>prefix. prefix_Contains prefix (Unmap addr)) trustedProxies)"

definition forwardedClientIP :: "string \<Rightarrow> string" where
  "forwardedClientIP forwardedFor =
     (let clientIP = TrimSpace (hd (Split forwardedFor (CHR '',''))) in
      if clientIP = [] then []
      else case ParseAddr clientIP of None \<Rightarrow> [] | Some addr \<Rightarrow> Addr_String (Unmap addr))"

definition requestClientIP :: "http_request \<Rightarrow> ip_prefix list \<Rightarrow> string" where
  "requestClientIP r trustedProxies =
     (case SplitHostPort (rq_RemoteAddr r) of
        None \<Rightarrow> rq_RemoteAddr r
      | Some (host, _) \<Rightarrow>
          let clientIP = forwardedClientIP (header_Get r ''X-Forwarded-For'') in
          if trustedProxies \<noteq> [] \<and> remoteAddrTrusted host trustedProxies \<and> clientIP \<noteq> [] then clientIP else host)"

section \<open>The rate limit\<close>

definition isRateLimitedACMEProtocolEndpoint :: "string \<Rightarrow> string \<Rightarrow> bool" where
  "isRateLimitedACMEProtocolEndpoint method path \<longleftrightarrow>
     method = ''POST'' \<and>
     (path = ''/acme/new-account'' \<or> path = ''/acme/new-order'' \<or> path = ''/acme/key-change'' \<or>
      HasPrefix path ''/acme/challenge/'' \<or> (HasPrefix path ''/acme/order/'' \<and> HasSuffix path ''/finalize''))"

definition acmeRateLimitClass :: "string \<Rightarrow> string" where
  "acmeRateLimitClass path =
     (if path = ''/acme/new-account'' then ''account''
      else if path = ''/acme/new-order'' then ''order''
      else if path = ''/acme/key-change'' then ''account''
      else if HasPrefix path ''/acme/challenge/'' then ''challenge''
      else if HasPrefix path ''/acme/order/'' \<and> HasSuffix path ''/finalize'' then ''finalize''
      else path)"

text \<open>The bucket a request at \<open>now\<close> counts in; a missing bucket is the zero bucket.\<close>

definition current_bucket :: "acmeRateBucket gomap \<Rightarrow> string \<Rightarrow> time \<Rightarrow> duration \<Rightarrow> acmeRateBucket" where
  "current_bucket rates key now window =
     (case mget rates key of
        None \<Rightarrow> \<lparr>rate_Count = 0, rate_ResetAt = AddD now window\<rparr>
      | Some bucket \<Rightarrow>
          if IsZero (rate_ResetAt bucket) \<or> \<not> After (rate_ResetAt bucket) now
          then \<lparr>rate_Count = 0, rate_ResetAt = AddD now window\<rparr> else bucket)"

definition take_slot :: "int \<Rightarrow> duration \<Rightarrow> string \<Rightarrow> time \<Rightarrow> acmeRateBucket gomap \<Rightarrow> bool \<times> acmeRateBucket gomap" where
  "take_slot limit window key now rates =
     (let bucket = current_bucket rates key now window in
      if limit \<le> rate_Count bucket then (False, mput key bucket rates)
      else (True, mput key (bucket\<lparr>rate_Count := rate_Count bucket + 1\<rparr>) rates))"

definition checkACMERateLimit :: "server \<Rightarrow> http_request \<Rightarrow> (web, herr, unit) eff" where
  "checkACMERateLimit srv r =
     (if \<not> isRateLimitedACMEProtocolEndpoint (rq_Method r) (rq_Path r) then returnE ()
      else bindE (timeNow srv) (\<lambda>now.
        let key = requestClientIP r (auth_TrustedProxies (srv_auth srv)) @ '' '' @ acmeRateLimitClass (rq_Path r) in
        bindE (getE web_rates) (\<lambda>rates.
        case take_slot (acme_RateLimit (srv_acme srv)) (acme_RateLimitWindow (srv_acme srv)) key now rates of
          (ok, rates') \<Rightarrow>
            thenE (updE (\<lambda>h. Inr (h\<lparr>web_rates := rates'\<rparr>)))
            (if ok then returnE ()
             else thenE (RecordEvent (''rate_limit:acme_'' @ acmeRateLimitClass (rq_Path r)))
               (throwE (Svc ErrRateLimited))))))"

section \<open>Nonces\<close>

definition defaultACMENonceTTL :: duration where "defaultACMENonceTTL = 10 * Minute"
definition defaultACMENonceCacheSize :: nat where "defaultACMENonceCacheSize = 1024"

definition removeExpiredLocked :: "time \<Rightarrow> acmeStoredNonce gomap \<Rightarrow> acmeStoredNonce gomap" where
  "removeExpiredLocked now nonces = filter (\<lambda>(_, stored). After (non_ExpiresAt stored) now) nonces"

text \<open>The nonce that the scan of \<open>evictOldestLocked\<close> ends with.\<close>

definition oldest_nonce :: "acmeStoredNonce gomap \<Rightarrow> string \<times> time" where
  "oldest_nonce nonces =
     foldl (\<lambda>(oldest, at) (nonce, stored).
       if oldest = [] \<or> Before (non_IssuedAt stored) at then (nonce, non_IssuedAt stored) else (oldest, at)) ([], 0) nonces"

lemma oldest_nonce_in:
  assumes "nonces \<noteq> []"
  shows "fst (oldest_nonce nonces) \<in> fst ` set nonces"
proof -
  let ?f = "\<lambda>(oldest, at) (nonce, stored).
       if oldest = [] \<or> Before (non_IssuedAt stored) at then (nonce, non_IssuedAt stored) else (oldest, at)"
  have scan: "fst (foldl ?f a ns) \<in> insert (fst a) (fst ` set ns)" for a ns
    by (induction ns arbitrary: a) (fastforce split: prod.splits if_splits)+
  obtain n st ns where "nonces = (n, st) # ns" using assms by (cases nonces) auto
  with scan [of "(n, non_IssuedAt st)" ns] show ?thesis by (simp add: oldest_nonce_def)
qed

function evictOldestLocked :: "nat \<Rightarrow> acmeStoredNonce gomap \<Rightarrow> acmeStoredNonce gomap" where
  "evictOldestLocked maxSize nonces =
     (if length nonces \<le> maxSize then nonces
      else evictOldestLocked maxSize (mdel (fst (oldest_nonce nonces)) nonces))"
  by pat_completeness auto
termination
proof (relation "measure (\<lambda>(_, nonces). length nonces)")
  fix maxSize and nonces :: "acmeStoredNonce gomap" assume "\<not> length nonces \<le> maxSize"
  then have "nonces \<noteq> []" by auto
  from oldest_nonce_in [OF this] have "length (mdel (fst (oldest_nonce nonces)) nonces) < length nonces"
    unfolding mdel_def by (auto intro!: length_filter_less simp: AList.delete_eq)
  then show "((maxSize, mdel (fst (oldest_nonce nonces)) nonces), maxSize, nonces)
      \<in> measure (\<lambda>(_, nonces). length nonces)" by simp
qed simp

declare evictOldestLocked.simps [simp del]

definition nonce_Issue :: "string \<Rightarrow> time \<Rightarrow> time \<Rightarrow> acmeStoredNonce gomap \<Rightarrow> acmeStoredNonce gomap" where
  "nonce_Issue nonce issuedAt expiresAt nonces =
     mput nonce \<lparr>non_IssuedAt = issuedAt, non_ExpiresAt = expiresAt\<rparr>
       (evictOldestLocked (defaultACMENonceCacheSize - 1) (removeExpiredLocked issuedAt nonces))"

definition nonce_Consume :: "string \<Rightarrow> time \<Rightarrow> acmeStoredNonce gomap \<Rightarrow> bool \<times> acmeStoredNonce gomap" where
  "nonce_Consume nonce now nonces0 =
     (let nonces = removeExpiredLocked now nonces0 in
      case mget nonces nonce of None \<Rightarrow> (False, nonces) | Some _ \<Rightarrow> (True, mdel nonce nonces))"

definition issueACMENonce :: "server \<Rightarrow> (web, herr, string) eff" where
  "issueACMENonce srv =
     bindE (randRead srv 32) (\<lambda>raw.
     bindE (timeNow srv) (\<lambda>now.
     let nonce = base64_url raw in
     thenE (updE (\<lambda>h. Inr (h\<lparr>web_nonces := nonce_Issue nonce now (AddD now defaultACMENonceTTL) (web_nonces h)\<rparr>)))
     (returnE nonce)))"

definition consumeACMENonce :: "server \<Rightarrow> string \<Rightarrow> (web, herr, bool) eff" where
  "consumeACMENonce srv nonce =
     bindE (timeNow srv) (\<lambda>now.
     bindE (getE (\<lambda>h. nonce_Consume nonce now (web_nonces h))) (\<lambda>(ok, nonces).
     thenE (updE (\<lambda>h. Inr (h\<lparr>web_nonces := nonces\<rparr>))) (returnE ok)))"

section \<open>Errors for the client\<close>

definition not_found_errors :: "err list" where
  "not_found_errors =
     [ErrIdentityNotFound, ErrIssuerNotFound, ErrOCSPResponderNotFound, ErrNotificationEndpointNotFound,
      ErrCertificateProfileNotFound, ErrEnrollmentNotFound, ErrCertificateNotFound, ErrCRLPublicationNotFound,
      ErrOutboxMessageNotFound, ErrAPIKeyNotFound, ErrACMEAccountNotFound, ErrACMEOrderNotFound,
      ErrACMEAuthorizationNotFound, ErrACMEChallengeNotFound]"

definition status_table :: "(err \<times> int) list" where
  "status_table =
     [(ErrInvalidRequest, 400), (ErrUnsupportedMediaType, 415), (ErrUnauthorized, 401), (ErrForbidden, 403),
      (ErrRateLimited, 429), (ErrACMEAccountDeactivated, 401), (ErrInvalidTransition, 409)] @
     map (\<lambda>e. (e, 404)) not_found_errors @
     [(ErrCSRParseFailed, 422), (ErrCertificateIssuanceFailed, 502), (ErrCRLGenerationFailed, 502),
      (ErrOCSPDecodeFailed, 400), (ErrOCSPResponderValidationFailed, 422), (ErrOCSPResponseFailed, 502),
      (ErrAuditIntegrity, 500), (ErrStorageFailure, 500)]"

definition statusForError :: "herr \<Rightarrow> int" where
  "statusForError e =
     (case e of
        errACMEBadNonce \<Rightarrow> 400
      | Svc _ \<Rightarrow> (case find (\<lambda>(t, _). herr_Is e t) status_table of None \<Rightarrow> 500 | Some (_, status) \<Rightarrow> status))"

definition public_errors :: "err list" where
  "public_errors =
     [ErrInvalidRequest, ErrUnsupportedMediaType, ErrUnauthorized, ErrForbidden, ErrRateLimited, ErrInvalidTransition,
      ErrIdentityNotFound, ErrIssuerNotFound, ErrOCSPResponderNotFound, ErrNotificationEndpointNotFound,
      ErrCertificateProfileNotFound, ErrEnrollmentNotFound, ErrCertificateNotFound, ErrCRLPublicationNotFound,
      ErrOutboxMessageNotFound, ErrAPIKeyNotFound, ErrACMEAccountNotFound, ErrACMEAccountDeactivated,
      ErrACMEOrderNotFound, ErrACMEAuthorizationNotFound, ErrACMEChallengeNotFound, ErrCSRParseFailed,
      ErrCertificateIssuanceFailed, ErrCRLGenerationFailed, ErrOCSPDecodeFailed, ErrOCSPResponderValidationFailed,
      ErrOCSPResponseFailed, ErrAuditIntegrity, ErrStorageFailure]"

definition publicErrorMessage :: "herr \<Rightarrow> string" where
  "publicErrorMessage e =
     (case e of
        errACMEBadNonce \<Rightarrow> err_Error ErrInvalidRequest
      | Svc _ \<Rightarrow> (case find (herr_Is e) public_errors of None \<Rightarrow> ''internal server error'' | Some t \<Rightarrow> err_Error t))"

definition acmeProblemType :: "herr \<Rightarrow> string" where
  "acmeProblemType e =
     (if e = errACMEBadNonce then ''urn:ietf:params:acme:error:badNonce''
      else if herr_Is e ErrRateLimited then ''urn:ietf:params:acme:error:rateLimited''
      else if herr_Is e ErrACMEAccountDeactivated then ''urn:ietf:params:acme:error:unauthorized''
      else if herr_Is e ErrUnauthorized \<or> herr_Is e ErrForbidden then ''urn:ietf:params:acme:error:unauthorized''
      else ''urn:ietf:params:acme:error:malformed'')"

section \<open>The request's context\<close>

text \<open>A request with the values that the server put into its context.\<close>

record hreq =
  hr_request :: http_request
  hr_ctx :: request_ctx
  hr_actor :: "string option"

definition requestActor :: "hreq \<Rightarrow> string" where
  "requestActor q =
     (case hr_actor q of
        Some actor \<Rightarrow> if actor \<noteq> [] then actor
          else let a = header_Get (hr_request q) ''X-Actor'' in if a = [] then ''anonymous'' else a
      | None \<Rightarrow> let a = header_Get (hr_request q) ''X-Actor'' in if a = [] then ''anonymous'' else a)"

definition defaultJSONBodyLimit :: nat where "defaultJSONBodyLimit = 1048576"
definition defaultOCSPBodyLimit :: nat where "defaultOCSPBodyLimit = 16384"

definition requestBodyLimit :: "http_request \<Rightarrow> nat" where
  "requestBodyLimit r =
     (if rq_Method r = ''POST'' \<and> rq_Path r = ''/ocsp'' then defaultOCSPBodyLimit else defaultJSONBodyLimit)"

text \<open>\<open>Time.UnixNano\<close>.\<close>

definition UnixNano :: "time \<Rightarrow> int" where
  "UnixNano t = wrap64 (t - 62135596800 * Second)"

definition requestIDForRequest :: "server \<Rightarrow> http_request \<Rightarrow> (web, herr, string) eff" where
  "requestIDForRequest srv r =
     (let requestID = TrimSpace (header_Get r ''X-Request-Id'') in
      if requestID \<noteq> [] then returnE requestID
      else bindE (attemptE (randRead srv 16)) (\<lambda>raw.
        case raw of
          Inl _ \<Rightarrow> bindE (timeNow srv) (\<lambda>now. returnE (''req-'' @ itoa (UnixNano now)))
        | Inr bs \<Rightarrow> returnE (''req-'' @ base64_url bs)))"

definition authorizationAuditMetadata ::
  "AuthorizationResult \<Rightarrow> authorizer_error option \<Rightarrow> authorizer_error option \<Rightarrow> AuthorizationAuditMetadata" where
  "authorizationAuditMetadata result err contextErr =
     (let md = \<lambda>outcome status.
        \<lparr>aam_Outcome = outcome, aam_DecisionID = azr_DecisionID result, aam_ReasonCode = azr_ReasonCode result,
         aam_PolicyRevision = azr_PolicyRevision result, aam_EvaluatorStatus = status\<rparr> in
      if contextErr = Some DeadlineExceeded \<or> err = Some DeadlineExceeded then md ''error'' ''timeout''
      else if contextErr = Some Canceled \<or> err = Some Canceled then md ''error'' ''canceled''
      else if err \<noteq> None then md ''error'' ''error''
      else case azr_Outcome result of
        AuthorizationOutcomeAllow \<Rightarrow> md ''allow'' ''ok''
      | AuthorizationOutcomeDeny \<Rightarrow> md ''deny'' ''ok''
      | AuthorizationOutcomeApprovalRequired \<Rightarrow> md ''approval_required'' ''ok''
      | AuthorizationOutcomeOther _ \<Rightarrow> md ''invalid'' ''invalid_result'')"

definition key_audit_metadata :: "APIKey \<Rightarrow> APIKeyAuditMetadata" where
  "key_audit_metadata key =
     \<lparr>akm_ID = key_ID key, akm_Name = key_Name key, akm_Actor = key_Actor key,
      akm_Fingerprint = APIKeyTokenFingerprint (key_TokenHash key), akm_Scopes = key_Scopes key\<rparr>"

text \<open>
  \<open>authenticateRequest\<close>. The context it returns beside an error is not used by \<open>ServeHTTP\<close>.
\<close>

definition authenticateRequest :: "server \<Rightarrow> hreq \<Rightarrow> (web, herr, hreq) eff" where
  "authenticateRequest srv q =
     (let r = hr_request q; mode = auth_Mode (srv_auth srv) in
      if mode = AuthModeDev \<or> mode = [] then returnE (q\<lparr>hr_actor := Some (requestActor q)\<rparr>)
      else if mode = AuthModeAPIKey then
        if isPublicEndpoint (rq_Method r) (rq_Path r) then returnE (q\<lparr>hr_actor := Some ''public''\<rparr>)
        else case bearerToken (header_Get r ''Authorization'') of
          None \<Rightarrow> throwE (Svc ErrUnauthorized)
        | Some token \<Rightarrow>
            bindE (worldE (AuthenticateAPIKey (srv_service srv) token)) (\<lambda>key.
            if \<not> apiKeyAllowsScope key (requiredScopeForRequest (rq_Method r) (rq_Path r))
            then throwE (Svc ErrForbidden)
            else returnE (q\<lparr>hr_actor := Some (key_Actor key),
                            hr_ctx := (hr_ctx q)\<lparr>ctx_apiKey := Some (key_audit_metadata key)\<rparr>\<rparr>))
      else throwE (Svc ErrUnauthorized))"

end
