(* ===== verification/Registry.thy ===== *)
theory Registry
  imports HttpGuard
begin

text \<open>
  The registries of the service, from \<open>service/internal/lifecycle/service.go\<close>: identities, issuers
  and their chains, OCSP responders, notification endpoints and certificate profiles.
\<close>

section \<open>Identities and issuers\<close>

definition CreateIdentity ::
  "service \<Rightarrow> request_ctx \<Rightarrow> string \<Rightarrow> CreateIdentityRequest \<Rightarrow> (world, err, Identity) eff" where
  "CreateIdentity svc ctx actor req =
     thenE (fromSum (validateCreateIdentityRequest req (svc_productionPolicy svc)))
     (bindE (clockNow svc) (\<lambda>now.
      bindE (newID svc) (\<lambda>ident.
      let identity =
            \<lparr>idn_ID = ident, idn_Type = cid_Type req, idn_Name = cid_Name req, idn_ExternalID = cid_ExternalID req,
             idn_Owner = cid_Owner req, idn_Team = cid_Team req, idn_Service = cid_Service req,
             idn_Environment = cid_Environment req, idn_DeploymentTarget = cid_DeploymentTarget req,
             idn_LastSeenAt = cid_LastSeenAt req, idn_MetadataJSON = cid_MetadataJSON req,
             idn_AllowedDNSNames = cid_AllowedDNSNames req, idn_AllowedIPAddresses = cid_AllowedIPAddresses req,
             idn_Status = IdentityActive, idn_CreatedAt = now, idn_UpdatedAt = now\<rparr> in
      thenE (WithinTx
        (thenE (repoE (repo_CreateIdentity identity))
        (createAuditEvent svc ctx actor ''identity.created'' ''identity'' (idn_ID identity) now (auditFields
          [(''identity_id'', idn_ID identity), (''owner'', idn_Owner identity), (''team'', idn_Team identity),
           (''service'', idn_Service identity), (''environment'', idn_Environment identity),
           (''deployment_target'', idn_DeploymentTarget identity),
           (''allowed_dns_names'', itoa (int (length (idn_AllowedDNSNames identity)))),
           (''allowed_ip_addresses'', itoa (int (length (idn_AllowedIPAddresses identity))))]))))
      (returnE identity))))"

definition new_issuer :: "string \<Rightarrow> CreateIssuerRequest \<Rightarrow> time \<Rightarrow> Issuer" where
  "new_issuer ident req now =
     \<lparr>iss_ID = ident, iss_Name = cis_Name req, iss_Kind = cis_Kind req, iss_Status = IssuerActive,
      iss_ParentIssuerID = cis_ParentIssuerID req, iss_CertificatePEM = cis_CertificatePEM req,
      iss_KeyRef = cis_KeyRef req, iss_AIAURL = cis_AIAURL req,
      iss_CRLDistributionPoints = cis_CRLDistributionPoints req,
      iss_TrustAnchor = (cis_TrustAnchor req \<or> cis_Kind req = IssuerRootCA),
      iss_CreatedAt = now, iss_UpdatedAt = now\<rparr>"

definition CreateIssuer ::
  "service \<Rightarrow> request_ctx \<Rightarrow> string \<Rightarrow> CreateIssuerRequest \<Rightarrow> (world, err, Issuer) eff" where
  "CreateIssuer svc ctx actor req =
     thenE (fromSum (validateCreateIssuerRequest req (svc_productionPolicy svc)))
     (bindE (clockNow svc) (\<lambda>now.
      bindE (newID svc) (\<lambda>ident.
      let issuer = new_issuer ident req now in
      thenE (WithinTx
        (thenE (if cis_ParentIssuerID req \<noteq> []
                then thenE (repoE (repo_GetIssuer (cis_ParentIssuerID req))) (returnE ()) else returnE ())
        (thenE (repoE (repo_CreateIssuer issuer))
        (createAuditEvent svc ctx actor ''issuer.created'' ''issuer'' (iss_ID issuer) now
          (legacyKeyProviderAuditFields (cis_KeyRef req) (auditFields
            [(''issuer_id'', iss_ID issuer), (''parent_issuer_id'', iss_ParentIssuerID issuer)]))))))
      (returnE issuer))))"

text \<open>
  The loop of \<open>GetIssuerChain\<close>: the issuers found so far and the identifiers seen. It runs at most
  once per issuer of the table, which is the fuel.
\<close>

fun issuer_chain :: "Issuer gomap \<Rightarrow> nat \<Rightarrow> string list \<Rightarrow> string \<Rightarrow> err + Issuer list" where
  "issuer_chain tbl n seen currentID =
     (if currentID = [] then Inr []
      else if currentID \<in> set seen then Inl ErrInvalidRequest
      else case mget tbl currentID of
        None \<Rightarrow> Inl ErrIssuerNotFound
      | Some issuer \<Rightarrow>
          (case n of
             0 \<Rightarrow> Inl ErrInvalidRequest
           | Suc m \<Rightarrow>
               (case issuer_chain tbl m (currentID # seen) (iss_ParentIssuerID issuer) of
                  Inl e \<Rightarrow> Inl e
                | Inr chain \<Rightarrow> Inr (issuer # chain))))"

declare issuer_chain.simps [simp del]

definition GetIssuerChain :: "string \<Rightarrow> (world, err, Issuer list) eff" where
  "GetIssuerChain ident =
     thenE (failIf (isBlank ident) ErrInvalidRequest)
     (repoE (readE (\<lambda>s. issuer_chain (t_issuers s) (length (t_issuers s)) [] ident)))"

definition ListTrustAnchors :: "(world, err, Issuer list) eff" where
  "ListTrustAnchors =
     bindE (repoE repo_ListIssuers) (\<lambda>issuers.
     returnE (filter (\<lambda>issuer. iss_Status issuer = IssuerActive \<and> iss_TrustAnchor issuer) issuers))"

section \<open>OCSP responders\<close>

record CreateOCSPResponderRequest =
  cor_IssuerID :: string
  cor_Name :: string
  cor_CertificatePEM :: string
  cor_KeyRef :: string

text \<open>\<open>RotateOCSPResponderRequest\<close> has the same fields.\<close>

type_synonym RotateOCSPResponderRequest = CreateOCSPResponderRequest

definition new_responder :: "string \<Rightarrow> CreateOCSPResponderRequest \<Rightarrow> time \<Rightarrow> OCSPResponder" where
  "new_responder ident req now =
     \<lparr>rsp_ID = ident, rsp_IssuerID = cor_IssuerID req, rsp_Name = cor_Name req, rsp_Status = OCSPResponderActive,
      rsp_CertificatePEM = cor_CertificatePEM req, rsp_KeyRef = cor_KeyRef req, rsp_CreatedAt = now,
      rsp_UpdatedAt = now\<rparr>"

definition responder_fields :: "OCSPResponder \<Rightarrow> fields" where
  "responder_fields responder =
     auditFields [(''issuer_id'', rsp_IssuerID responder), (''ocsp_responder_id'', rsp_ID responder)]"

text \<open>The core checks that the issuer has delegated OCSP signing to the certificate.\<close>

definition validate_responder :: "service \<Rightarrow> Issuer \<Rightarrow> CreateOCSPResponderRequest \<Rightarrow> (world, err, unit) eff" where
  "validate_responder svc issuer req =
     bindE (mapErrE mapOCSPResponseError
       (callE (\<lambda>i. svc_ValidateOCSPResponder svc i (iss_CertificatePEM issuer) (cor_CertificatePEM req)))) (\<lambda>validation.
     failIf (\<not> vres_Valid validation) ErrOCSPResponderValidationFailed)"

definition responder_request_blank :: "CreateOCSPResponderRequest \<Rightarrow> bool" where
  "responder_request_blank req \<longleftrightarrow>
     isBlank (cor_IssuerID req) \<or> isBlank (cor_Name req) \<or> isBlank (cor_CertificatePEM req) \<or> isBlank (cor_KeyRef req)"

definition CreateOCSPResponder ::
  "service \<Rightarrow> request_ctx \<Rightarrow> string \<Rightarrow> CreateOCSPResponderRequest \<Rightarrow> (world, err, OCSPResponder) eff" where
  "CreateOCSPResponder svc ctx actor req =
     thenE (failIf (responder_request_blank req) ErrInvalidRequest)
     (thenE (failIf (svc_productionPolicy svc \<and> keyref_Class (cor_KeyRef req) = ''file'') ErrInvalidRequest)
     (thenE (fromSum (validateSupportedSigningKeyRef (cor_KeyRef req)))
     (bindE (clockNow svc) (\<lambda>now.
      bindE (repoE (repo_GetIssuer (cor_IssuerID req))) (\<lambda>issuer.
      bindE (attemptE (repoE (repo_GetActiveOCSPResponderByIssuer (cor_IssuerID req)))) (\<lambda>active.
      thenE (case active of
               Inr _ \<Rightarrow> throwE ErrInvalidTransition
             | Inl e \<Rightarrow> failIf (\<not> errors_Is e ErrOCSPResponderNotFound) e)
      (thenE (validate_responder svc issuer req)
      (bindE (newID svc) (\<lambda>ident.
       let responder = new_responder ident req now in
       thenE (WithinTx
         (thenE (repoE (repo_CreateOCSPResponder responder))
         (createAuditEvent svc ctx actor ''ocsp_responder.created'' ''ocsp_responder'' (rsp_ID responder) now
            (legacyKeyProviderAuditFields (cor_KeyRef req) (responder_fields responder)))))
       (returnE responder))))))))))"

definition ListOCSPRespondersByIssuer :: "string \<Rightarrow> (world, err, OCSPResponder list) eff" where
  "ListOCSPRespondersByIssuer issuerID =
     thenE (failIf (isBlank issuerID) ErrInvalidRequest)
     (thenE (repoE (repo_GetIssuer issuerID))
     (repoE (repo_ListOCSPRespondersByIssuer issuerID)))"

definition DisableOCSPResponder ::
  "service \<Rightarrow> request_ctx \<Rightarrow> string \<Rightarrow> string \<Rightarrow> string \<Rightarrow> (world, err, OCSPResponder) eff" where
  "DisableOCSPResponder svc ctx actor issuerID responderID =
     thenE (failIf (isBlank issuerID \<or> isBlank responderID) ErrInvalidRequest)
     (bindE (clockNow svc) (\<lambda>now.
      WithinTx
        (thenE (repoE (repo_GetIssuer issuerID))
        (bindE (repoE (repo_GetOCSPResponder responderID)) (\<lambda>current.
         thenE (failIf (rsp_IssuerID current \<noteq> issuerID) ErrOCSPResponderNotFound)
         (thenE (failIf (rsp_Status current \<noteq> OCSPResponderActive) ErrInvalidTransition)
         (let responder = current\<lparr>rsp_Status := OCSPResponderDisabled, rsp_UpdatedAt := now\<rparr> in
          thenE (repoE (repo_UpdateOCSPResponderIfStatus responder OCSPResponderActive))
          (thenE (createAuditEvent svc ctx actor ''ocsp_responder.disabled'' ''ocsp_responder'' (rsp_ID responder) now
                    (responder_fields responder))
          (returnE responder)))))))))"

definition rotate_responder_tx ::
  "service \<Rightarrow> request_ctx \<Rightarrow> string \<Rightarrow> CreateOCSPResponderRequest \<Rightarrow> OCSPResponder \<Rightarrow> time \<Rightarrow> (world, err, unit) eff" where
  "rotate_responder_tx svc ctx actor req responder now =
     WithinTx
       (thenE (repoE (repo_GetIssuer (cor_IssuerID req)))
       (bindE (mapErrE (\<lambda>e. if errors_Is e ErrOCSPResponderNotFound then ErrInvalidTransition else e)
                 (repoE (repo_GetActiveOCSPResponderByIssuer (cor_IssuerID req)))) (\<lambda>active.
        let current = active\<lparr>rsp_Status := OCSPResponderDisabled, rsp_UpdatedAt := now\<rparr> in
        thenE (repoE (repo_UpdateOCSPResponderIfStatus current OCSPResponderActive))
        (thenE (createAuditEvent svc ctx actor ''ocsp_responder.disabled'' ''ocsp_responder'' (rsp_ID current) now
                  (responder_fields current))
        (thenE (repoE (repo_CreateOCSPResponder responder))
        (createAuditEvent svc ctx actor ''ocsp_responder.created'' ''ocsp_responder'' (rsp_ID responder) now
           (responder_fields responder)))))))"

definition RotateOCSPResponder ::
  "service \<Rightarrow> request_ctx \<Rightarrow> string \<Rightarrow> RotateOCSPResponderRequest \<Rightarrow> (world, err, OCSPResponder) eff" where
  "RotateOCSPResponder svc ctx actor req =
     thenE (failIf (responder_request_blank req) ErrInvalidRequest)
     (bindE (clockNow svc) (\<lambda>now.
      bindE (repoE (repo_GetIssuer (cor_IssuerID req))) (\<lambda>issuer.
      thenE (mapErrE (\<lambda>e. if errors_Is e ErrOCSPResponderNotFound then ErrInvalidTransition else e)
               (repoE (repo_GetActiveOCSPResponderByIssuer (cor_IssuerID req))))
      (thenE (validate_responder svc issuer req)
      (bindE (newID svc) (\<lambda>ident.
       let responder = new_responder ident req now in
       thenE (rotate_responder_tx svc ctx actor req responder now)
       (returnE responder)))))))"

section \<open>Notification endpoints\<close>

definition endpoint_fields :: "NotificationEndpoint \<Rightarrow> fields" where
  "endpoint_fields endpoint =
     auditFields [(''notification_endpoint_id'', ep_ID endpoint),
                  (''notification_endpoint_type'', str_NotificationEndpointType (ep_Type endpoint))]"

definition CreateNotificationEndpoint ::
  "service \<Rightarrow> request_ctx \<Rightarrow> string \<Rightarrow> CreateNotificationEndpointRequest \<Rightarrow> (world, err, NotificationEndpoint) eff" where
  "CreateNotificationEndpoint svc ctx actor req =
     thenE (fromSum (validateCreateNotificationEndpointRequest req (svc_productionPolicy svc)))
     (bindE (clockNow svc) (\<lambda>now.
      bindE (newID svc) (\<lambda>ident.
      let endpoint =
            \<lparr>ep_ID = ident, ep_Name = cne_Name req, ep_Type = NotificationEndpointWebhook,
             ep_Status = NotificationEndpointActive, ep_URL = cne_URL req, ep_Secret = cne_Secret req,
             ep_EventTypes = cne_EventTypes req, ep_CreatedAt = now, ep_UpdatedAt = now\<rparr> in
      thenE (WithinTx
        (thenE (repoE (repo_CreateNotificationEndpoint endpoint))
        (createAuditEvent svc ctx actor ''notification_endpoint.created'' ''notification_endpoint''
           (ep_ID endpoint) now (endpoint_fields endpoint))))
      (returnE endpoint))))"

definition DisableNotificationEndpoint ::
  "service \<Rightarrow> request_ctx \<Rightarrow> string \<Rightarrow> string \<Rightarrow> (world, err, NotificationEndpoint) eff" where
  "DisableNotificationEndpoint svc ctx actor ident =
     thenE (failIf (isBlank ident) ErrInvalidRequest)
     (bindE (clockNow svc) (\<lambda>now.
      bindE (repoE (repo_GetNotificationEndpoint ident)) (\<lambda>current.
      thenE (failIf (ep_Status current \<noteq> NotificationEndpointActive) ErrInvalidTransition)
      (let endpoint = current\<lparr>ep_Status := NotificationEndpointDisabled, ep_UpdatedAt := now\<rparr> in
       thenE (WithinTx
         (thenE (repoE (repo_UpdateNotificationEndpointIfStatus endpoint NotificationEndpointActive))
         (createAuditEvent svc ctx actor ''notification_endpoint.disabled'' ''notification_endpoint''
            (ep_ID endpoint) now (endpoint_fields endpoint))))
       (returnE endpoint)))))"

section \<open>Certificate profiles\<close>

definition CreateCertificateProfile ::
  "service \<Rightarrow> request_ctx \<Rightarrow> string \<Rightarrow> CreateCertificateProfileRequest \<Rightarrow> (world, err, CertificateProfile) eff" where
  "CreateCertificateProfile svc ctx actor req =
     bindE (clockNow svc) (\<lambda>now.
     thenE (fromSum (validateCreateCertificateProfileRequest req now (svc_publicTLSMaxValidityOverride svc)))
     (bindE (newID svc) (\<lambda>ident.
      let profile =
            \<lparr>prof_ID = ident, prof_Name = ccp_Name req, prof_Description = ccp_Description req,
             prof_IssuerID = ccp_IssuerID req, prof_ValidityPeriodSeconds = ccp_ValidityPeriodSeconds req,
             prof_PublicTLS = ccp_PublicTLS req, prof_SubjectTemplate = ccp_SubjectTemplate req,
             prof_AllowedDNSPatterns = ccp_AllowedDNSPatterns req, prof_AllowedIPRanges = ccp_AllowedIPRanges req,
             prof_AllowedKeyAlgorithms = normalizeStringList (ccp_AllowedKeyAlgorithms req),
             prof_MinKeySizeBits = ccp_MinKeySizeBits req,
             prof_AllowedSignatureAlgorithms = normalizeStringList (ccp_AllowedSignatureAlgorithms req),
             prof_KeyUsage = ccp_KeyUsage req, prof_ExtendedKeyUsage = ccp_ExtendedKeyUsage req,
             prof_BasicConstraints = ccp_BasicConstraints req,
             prof_SubjectKeyIdentifier = ccp_SubjectKeyIdentifier req,
             prof_AuthorityKeyIdentifier = ccp_AuthorityKeyIdentifier req,
             prof_CreatedAt = now, prof_UpdatedAt = now\<rparr> in
      thenE (WithinTx
        (thenE (repoE (repo_GetIssuer (ccp_IssuerID req)))
        (thenE (repoE (repo_CreateCertificateProfile profile))
        (createAuditEvent svc ctx actor ''certificate_profile.created'' ''certificate_profile'' (prof_ID profile) now
          (auditFields [(''issuer_id'', prof_IssuerID profile), (''profile_id'', prof_ID profile)])))))
      (returnE profile))))"

definition validateIntermediateIssuerTransition :: "Issuer \<Rightarrow> Issuer \<Rightarrow> (world, err, string) eff" where
  "validateIntermediateIssuerTransition currentIssuer nextIssuer =
     thenE (failIf (iss_ID currentIssuer = iss_ID nextIssuer \<or> iss_Status currentIssuer \<noteq> IssuerActive \<or>
                    iss_Status nextIssuer \<noteq> IssuerActive \<or> iss_Kind currentIssuer \<noteq> IssuerIntermediateCA \<or>
                    iss_Kind nextIssuer \<noteq> IssuerIntermediateCA \<or> isBlank (iss_ParentIssuerID currentIssuer) \<or>
                    iss_ParentIssuerID currentIssuer \<noteq> iss_ParentIssuerID nextIssuer) ErrInvalidRequest)
     (bindE (repoE (repo_GetIssuer (iss_ParentIssuerID currentIssuer))) (\<lambda>parent.
      thenE (failIf (iss_Status parent \<noteq> IssuerActive \<or> iss_Kind parent \<noteq> IssuerRootCA \<or> \<not> iss_TrustAnchor parent)
               ErrInvalidRequest)
      (returnE (iss_ID parent))))"

fun str_CertificateProfileIssuerTransition :: "CertificateProfileIssuerTransition \<Rightarrow> string" where
  "str_CertificateProfileIssuerTransition CertificateProfileIssuerRollover = ''rollover''"
| "str_CertificateProfileIssuerTransition CertificateProfileIssuerRollback = ''rollback''"
| "str_CertificateProfileIssuerTransition (CertificateProfileIssuerTransitionOther s) = s"

definition transition_action :: "TransitionCertificateProfileIssuerRequest \<Rightarrow> string" where
  "transition_action req =
     (if tcp_Transition req = CertificateProfileIssuerRollback then ''certificate_profile.issuer_rolled_back''
      else ''certificate_profile.issuer_rolled_over'')"

definition TransitionCertificateProfileIssuer ::
  "service \<Rightarrow> request_ctx \<Rightarrow> string \<Rightarrow> TransitionCertificateProfileIssuerRequest \<Rightarrow>
   (world, err, CertificateProfile) eff" where
  "TransitionCertificateProfileIssuer svc ctx actor req =
     thenE (fromSum (validateCertificateProfileIssuerTransitionRequest req))
     (bindE (clockNow svc) (\<lambda>now.
      WithinTx
        (bindE (repoE (repo_GetCertificateProfile (tcp_ProfileID req))) (\<lambda>current.
         thenE (failIf (prof_IssuerID current \<noteq> tcp_CurrentIssuerID req) ErrInvalidTransition)
         (bindE (repoE (repo_GetIssuer (tcp_CurrentIssuerID req))) (\<lambda>currentIssuer.
          bindE (repoE (repo_GetIssuer (tcp_NextIssuerID req))) (\<lambda>nextIssuer.
          bindE (validateIntermediateIssuerTransition currentIssuer nextIssuer) (\<lambda>parentID.
          let profile = current\<lparr>prof_IssuerID := iss_ID nextIssuer, prof_UpdatedAt := now\<rparr> in
          thenE (repoE (repo_UpdateCertificateProfileIssuerIfCurrent profile (iss_ID currentIssuer)
                   (prof_UpdatedAt current)))
          (let flds = auditFields
                 [(''profile_id'', prof_ID profile), (''previous_issuer_id'', iss_ID currentIssuer),
                  (''next_issuer_id'', iss_ID nextIssuer), (''parent_issuer_id'', parentID),
                  (''transition'', str_CertificateProfileIssuerTransition (tcp_Transition req)), (''reason'', TrimSpace (tcp_Reason req))] in
           thenE (createAuditEvent svc ctx actor (transition_action req) ''certificate_profile'' (prof_ID profile) now flds)
           (thenE (createOutboxMessage svc (transition_action req) now flds)
           (returnE profile)))))))))))"

end
