(* ===== verification/Acme.thy ===== *)
theory Acme
  imports Issuance
begin

text \<open>
  ACME accounts, orders, authorizations and challenges, from
  \<open>service/internal/lifecycle/service.go\<close>. An order has one authorization per name, each with one
  HTTP-01 challenge; the order is ready when every authorization is valid, and its finalization
  creates, approves and issues an enrollment.
\<close>

section \<open>Accounts\<close>

record CreateACMEAccountResult =
  car_Account :: ACMEAccount
  car_Created :: bool

record UpdateACMEAccountRequest =
  uac_Contacts :: "string list"
  uac_UpdateContacts :: bool
  uac_Deactivate :: bool

record UpdateACMEAccountKeyRequest =
  uak_KeyThumbprint :: string
  uak_KeyJWKJSON :: string

record FinalizeACMEOrderRequest =
  fao_CSRPEM :: string
  fao_RequestedSubject :: string

definition createACMEAccount ::
  "service \<Rightarrow> request_ctx \<Rightarrow> string \<Rightarrow> CreateACMEAccountRequest \<Rightarrow> (world, err, ACMEAccount) eff" where
  "createACMEAccount svc ctx actor req =
     bindE (clockNow svc) (\<lambda>now.
     bindE (newID svc) (\<lambda>ident.
     let account =
           \<lparr>acct_ID = ident, acct_Contacts = cac_Contacts req, acct_Status = ACMEAccountValid,
            acct_TermsOfServiceAgreed = cac_TermsOfServiceAgreed req,
            acct_KeyThumbprint = TrimSpace (cac_KeyThumbprint req), acct_KeyJWKJSON = TrimSpace (cac_KeyJWKJSON req),
            acct_CreatedAt = now, acct_UpdatedAt = now\<rparr> in
     thenE (WithinTx
       (thenE (repoE (repo_CreateACMEAccount account))
       (createAuditEvent svc ctx actor ''acme.account.created'' ''acme_account'' (acct_ID account) now
          (auditFields [(''acme_account_id'', acct_ID account)]))))
     (returnE account)))"

definition CreateACMEAccount ::
  "service \<Rightarrow> request_ctx \<Rightarrow> string \<Rightarrow> CreateACMEAccountRequest \<Rightarrow> (world, err, ACMEAccount) eff" where
  "CreateACMEAccount svc ctx actor req =
     thenE (fromSum (validateCreateACMEAccountRequest req)) (createACMEAccount svc ctx actor req)"

definition CreateOrGetACMEAccount ::
  "service \<Rightarrow> request_ctx \<Rightarrow> string \<Rightarrow> CreateACMEAccountRequest \<Rightarrow> (world, err, CreateACMEAccountResult) eff" where
  "CreateOrGetACMEAccount svc ctx actor req =
     thenE (fromSum (validateCreateACMEAccountRequest req))
     (let keyThumbprint = TrimSpace (cac_KeyThumbprint req);
          create = bindE (createACMEAccount svc ctx actor req) (\<lambda>account.
            returnE \<lparr>car_Account = account, car_Created = True\<rparr>) in
      if keyThumbprint \<noteq> [] then
        bindE (repoE repo_ListACMEAccounts) (\<lambda>accounts.
        case find (\<lambda>account. acct_KeyThumbprint account = keyThumbprint) accounts of
          Some account \<Rightarrow> returnE \<lparr>car_Account = account, car_Created = False\<rparr>
        | None \<Rightarrow> create)
      else create)"

text \<open>\<open>if account.Status == Deactivated \{ ... \} if account.Status != Valid \{ ... \}\<close>\<close>

definition require_account :: "ACMEAccount \<Rightarrow> err \<Rightarrow> (world, err, unit) eff" where
  "require_account account invalid =
     thenE (failIf (acct_Status account = ACMEAccountDeactivated) ErrACMEAccountDeactivated)
     (failIf (acct_Status account \<noteq> ACMEAccountValid) invalid)"

definition UpdateACMEAccount ::
  "service \<Rightarrow> request_ctx \<Rightarrow> string \<Rightarrow> string \<Rightarrow> UpdateACMEAccountRequest \<Rightarrow> (world, err, ACMEAccount) eff" where
  "UpdateACMEAccount svc ctx actor accountID req =
     thenE (failIf (isBlank accountID \<or> (\<not> uac_UpdateContacts req \<and> \<not> uac_Deactivate req)) ErrInvalidRequest)
     (bindE (clockNow svc) (\<lambda>now.
      WithinTx
        (bindE (repoE (repo_GetACMEAccount accountID)) (\<lambda>current.
         thenE (require_account current ErrInvalidTransition)
         (let a1 = (if uac_UpdateContacts req then current\<lparr>acct_Contacts := uac_Contacts req\<rparr> else current);
              a2 = (if uac_Deactivate req then a1\<lparr>acct_Status := ACMEAccountDeactivated\<rparr> else a1);
              account = a2\<lparr>acct_UpdatedAt := now\<rparr> in
          thenE (repoE (repo_UpdateACMEAccountIfStatus account ACMEAccountValid))
          (thenE (createAuditEvent svc ctx actor
                    (if uac_Deactivate req then ''acme.account.deactivated'' else ''acme.account.updated'')
                    ''acme_account'' (acct_ID account) now (auditFields [(''acme_account_id'', acct_ID account)]))
          (returnE account)))))))"

definition UpdateACMEAccountKey ::
  "service \<Rightarrow> request_ctx \<Rightarrow> string \<Rightarrow> string \<Rightarrow> UpdateACMEAccountKeyRequest \<Rightarrow> (world, err, ACMEAccount) eff" where
  "UpdateACMEAccountKey svc ctx actor accountID req =
     thenE (failIf (isBlank accountID \<or> isBlank (uak_KeyThumbprint req) \<or> isBlank (uak_KeyJWKJSON req)) ErrInvalidRequest)
     (bindE (clockNow svc) (\<lambda>now.
      WithinTx
        (bindE (repoE (repo_GetACMEAccount accountID)) (\<lambda>current.
         thenE (require_account current ErrInvalidTransition)
         (let account = current\<lparr>acct_KeyThumbprint := TrimSpace (uak_KeyThumbprint req),
                acct_KeyJWKJSON := TrimSpace (uak_KeyJWKJSON req), acct_UpdatedAt := now\<rparr> in
          thenE (repoE (repo_UpdateACMEAccountIfStatus account ACMEAccountValid))
          (thenE (createAuditEvent svc ctx actor ''acme.account.key_updated'' ''acme_account'' (acct_ID account) now
                    (auditFields [(''acme_account_id'', acct_ID account)]))
          (returnE account)))))))"

section \<open>Orders\<close>

definition defaultACMEAuthorizationLifetime :: duration where
  "defaultACMEAuthorizationLifetime = 24 * Hour"

definition createACMEAuthorization ::
  "service \<Rightarrow> string \<Rightarrow> string \<Rightarrow> string \<Rightarrow> ACMEChallengeType \<Rightarrow> time \<Rightarrow> (world, err, unit) eff" where
  "createACMEAuthorization svc orderID identifierType identifierValue challengeType now =
     bindE (newID svc) (\<lambda>ident.
     let authorization =
           \<lparr>authz_ID = ident, authz_OrderID = orderID, authz_IdentifierType = identifierType,
            authz_IdentifierValue = identifierValue, authz_Status = ACMEAuthorizationPending,
            authz_ExpiresAt = AddD now defaultACMEAuthorizationLifetime, authz_ValidationReuseExpiresAt = 0,
            authz_CreatedAt = now, authz_UpdatedAt = now\<rparr> in
     thenE (repoE (repo_CreateACMEAuthorization authorization))
     (bindE (newID svc) (\<lambda>challengeID.
      bindE (newID svc) (\<lambda>token.
      repoE (repo_CreateACMEChallenge
        \<lparr>chal_ID = challengeID, chal_AuthorizationID = authz_ID authorization, chal_Type = challengeType,
         chal_Token = token, chal_Status = ACMEChallengePending, chal_ValidatedAt = 0,
         chal_CreatedAt = now, chal_UpdatedAt = now\<rparr>)))))"

definition createACMEAuthorizations :: "service \<Rightarrow> ACMEOrder \<Rightarrow> time \<Rightarrow> (world, err, unit) eff" where
  "createACMEAuthorizations svc order now =
     thenE (forE (ord_RequestedDNSNames order) (\<lambda>dnsName.
              createACMEAuthorization svc (ord_ID order) ''dns'' dnsName ACMEChallengeHTTP01 now))
     (forE (ord_RequestedIPAddresses order) (\<lambda>ipAddress.
        createACMEAuthorization svc (ord_ID order) ''ip'' ipAddress ACMEChallengeHTTP01 now))"

definition order_policy_request :: "CreateACMEOrderRequest \<Rightarrow> CreateEnrollmentRequest" where
  "order_policy_request req =
     \<lparr>cer_IdentityID = cao_IdentityID req, cer_IssuerID = cao_IssuerID req,
      cer_CertificateProfileID = cao_CertificateProfileID req, cer_CSRPEM = [], cer_RequestedSubject = [],
      cer_RequestedDNSNames = cao_RequestedDNSNames req, cer_RequestedIPAddresses = cao_RequestedIPAddresses req,
      cer_RequestedNotAfter = cao_RequestedNotAfter req\<rparr>"

definition new_order :: "string \<Rightarrow> CreateACMEOrderRequest \<Rightarrow> time \<Rightarrow> ACMEOrder" where
  "new_order ident req now =
     \<lparr>ord_ID = ident, ord_AccountID = cao_AccountID req, ord_IdentityID = cao_IdentityID req,
      ord_IssuerID = cao_IssuerID req, ord_CertificateProfileID = cao_CertificateProfileID req,
      ord_Status = ACMEOrderPending, ord_CSRPEM = [], ord_RequestedSubject = [],
      ord_RequestedDNSNames = cao_RequestedDNSNames req, ord_RequestedIPAddresses = cao_RequestedIPAddresses req,
      ord_RequestedNotAfter = cao_RequestedNotAfter req, ord_EnrollmentID = [], ord_CertificateID = [],
      ord_ExpiresAt = AddD now defaultACMEAuthorizationLifetime, ord_CreatedAt = now, ord_UpdatedAt = now\<rparr>"

definition create_order_tx ::
  "service \<Rightarrow> request_ctx \<Rightarrow> string \<Rightarrow> CreateACMEOrderRequest \<Rightarrow> ACMEOrder \<Rightarrow> time \<Rightarrow> (world, err, unit) eff" where
  "create_order_tx svc ctx actor req order now =
     WithinTx
       (bindE (repoE (repo_GetACMEAccount (cao_AccountID req))) (\<lambda>account.
        thenE (require_account account ErrInvalidRequest)
        (bindE (repoE (repo_GetIdentity (cao_IdentityID req))) (\<lambda>identity.
         thenE (fromSum (validateEnrollmentIdentityPolicy (order_policy_request req) identity))
         (thenE (repoE (repo_GetIssuer (cao_IssuerID req)))
         (thenE (if cao_CertificateProfileID req \<noteq> []
                 then thenE (repoE (repo_GetCertificateProfile (cao_CertificateProfileID req))) (returnE ())
                 else returnE ())
         (thenE (repoE (repo_CreateACMEOrder order))
         (thenE (createACMEAuthorizations svc order now)
         (createAuditEvent svc ctx actor ''acme.order.created'' ''acme_order'' (ord_ID order) now (auditFields
            [(''acme_account_id'', ord_AccountID order), (''acme_order_id'', ord_ID order),
             (''identity_id'', ord_IdentityID order), (''issuer_id'', ord_IssuerID order),
             (''profile_id'', ord_CertificateProfileID order)]))))))))))"

definition CreateACMEOrder ::
  "service \<Rightarrow> request_ctx \<Rightarrow> string \<Rightarrow> CreateACMEOrderRequest \<Rightarrow> (world, err, ACMEOrder) eff" where
  "CreateACMEOrder svc ctx actor req =
     bindE (clockNow svc) (\<lambda>now.
     thenE (fromSum (validateCreateACMEOrderRequest req now))
     (thenE (if cao_CertificateProfileID req \<noteq> [] then
               bindE (repoE (repo_GetCertificateProfile (cao_CertificateProfileID req))) (\<lambda>profile.
               if prof_PublicTLS profile then validatePublicTLSCAA svc (cao_RequestedDNSNames req) else returnE ())
             else returnE ())
     (bindE (newID svc) (\<lambda>ident.
      let order = new_order ident req now in
      thenE (create_order_tx svc ctx actor req order now) (returnE order)))))"

section \<open>Challenges\<close>

definition acmeExpired :: "time \<Rightarrow> time \<Rightarrow> bool" where
  "acmeExpired expiresAt now \<longleftrightarrow> \<not> IsZero expiresAt \<and> \<not> After expiresAt now"

definition promoteACMEOrderIfReady :: "ACMEOrder \<Rightarrow> time \<Rightarrow> (world, err, unit) eff" where
  "promoteACMEOrderIfReady order now =
     (if ord_Status order \<noteq> ACMEOrderPending then returnE ()
      else
        bindE (repoE (repo_ListACMEAuthorizationsByOrder (ord_ID order))) (\<lambda>authorizations.
        if list_ex (\<lambda>authorization. authz_Status authorization \<noteq> ACMEAuthorizationValid) authorizations then returnE ()
        else repoE (repo_UpdateACMEOrderIfStatus (order\<lparr>ord_Status := ACMEOrderReady, ord_UpdatedAt := now\<rparr>)
               ACMEOrderPending)))"

definition promoteACMEAuthorizationIfReady :: "ACMEAuthorization \<Rightarrow> time \<Rightarrow> (world, err, unit) eff" where
  "promoteACMEAuthorizationIfReady authorization now =
     bindE (repoE (repo_ListACMEChallengesByAuthorization (authz_ID authorization))) (\<lambda>challenges.
     if list_ex (\<lambda>challenge. chal_Status challenge \<noteq> ACMEChallengeValid) challenges then returnE ()
     else
       thenE (repoE (repo_UpdateACMEAuthorizationIfStatus
                (authorization\<lparr>authz_Status := ACMEAuthorizationValid,
                   authz_ValidationReuseExpiresAt := AddD now (publicTLSValidationReuseCeiling now),
                   authz_UpdatedAt := now\<rparr>) ACMEAuthorizationPending))
       (bindE (repoE (repo_GetACMEOrder (authz_OrderID authorization))) (\<lambda>order.
        promoteACMEOrderIfReady order now)))"

definition open_challenge :: "ACMEChallenge \<Rightarrow> bool" where
  "open_challenge challenge \<longleftrightarrow>
     chal_Status challenge = ACMEChallengePending \<or> chal_Status challenge = ACMEChallengeProcessing"

definition CompleteACMEChallenge ::
  "service \<Rightarrow> request_ctx \<Rightarrow> string \<Rightarrow> string \<Rightarrow> (world, err, ACMEChallenge) eff" where
  "CompleteACMEChallenge svc ctx actor challengeID =
     thenE (failIf (isBlank challengeID) ErrInvalidRequest)
     (bindE (clockNow svc) (\<lambda>now.
      WithinTx
        (bindE (repoE (repo_GetACMEChallenge challengeID)) (\<lambda>current.
         thenE (failIf (\<not> open_challenge current) ErrInvalidTransition)
         (bindE (repoE (repo_GetACMEAuthorization (chal_AuthorizationID current))) (\<lambda>authorization.
          thenE (failIf (authz_Status authorization \<noteq> ACMEAuthorizationPending) ErrInvalidTransition)
          (let challenge = current\<lparr>chal_Status := ACMEChallengeValid, chal_ValidatedAt := now, chal_UpdatedAt := now\<rparr> in
           thenE (repoE (repo_UpdateACMEChallengeIfStatus challenge (chal_Status current)))
           (thenE (promoteACMEAuthorizationIfReady authorization now)
           (bindE (repoE (repo_GetACMEAuthorization (authz_ID authorization))) (\<lambda>promoted.
            thenE (createAuditEvent svc ctx actor ''acme.challenge.completed'' ''acme_challenge'' (chal_ID challenge)
                     now (acmeChallengeAuditFields challenge promoted))
            (returnE challenge)))))))))))"

record acmeHTTP01ValidationContext =
  avc_Challenge :: ACMEChallenge
  avc_IdentifierValue :: string
  avc_KeyAuthorization :: string

definition get_acmeHTTP01ValidationContext ::
  "service \<Rightarrow> string \<Rightarrow> (world, err, acmeHTTP01ValidationContext) eff" where
  "get_acmeHTTP01ValidationContext svc challengeID =
     thenE (failIf (isBlank challengeID) ErrInvalidRequest)
     (bindE (repoE (repo_GetACMEChallenge challengeID)) (\<lambda>challenge.
      thenE (failIf (chal_Type challenge \<noteq> ACMEChallengeHTTP01 \<or> \<not> open_challenge challenge) ErrInvalidTransition)
      (bindE (repoE (repo_GetACMEAuthorization (chal_AuthorizationID challenge))) (\<lambda>authorization.
       thenE (failIf (authz_Status authorization \<noteq> ACMEAuthorizationPending) ErrInvalidTransition)
       (bindE (repoE (repo_GetACMEOrder (authz_OrderID authorization))) (\<lambda>order.
        thenE (failIf (ord_Status order \<noteq> ACMEOrderPending) ErrInvalidTransition)
        (bindE (clockNow svc) (\<lambda>now.
         thenE (failIf (acmeExpired (ord_ExpiresAt order) now \<or> acmeExpired (authz_ExpiresAt authorization) now)
                  ErrInvalidTransition)
         (bindE (repoE (repo_GetACMEAccount (ord_AccountID order))) (\<lambda>account.
          thenE (failIf (acct_Status account = ACMEAccountDeactivated) ErrACMEAccountDeactivated)
          (thenE (failIf (acct_Status account \<noteq> ACMEAccountValid \<or> acct_KeyThumbprint account = []) ErrInvalidRequest)
          (returnE \<lparr>avc_Challenge = challenge, avc_IdentifierValue = authz_IdentifierValue authorization,
                    avc_KeyAuthorization = chal_Token challenge @ ''.'' @ acct_KeyThumbprint account\<rparr>))))))))))))"

definition markACMEChallengeProcessing ::
  "service \<Rightarrow> request_ctx \<Rightarrow> string \<Rightarrow> string \<Rightarrow> (world, err, ACMEChallenge) eff" where
  "markACMEChallengeProcessing svc ctx actor challengeID =
     bindE (clockNow svc) (\<lambda>now.
     WithinTx
       (bindE (repoE (repo_GetACMEChallenge challengeID)) (\<lambda>current.
        thenE (failIf (\<not> open_challenge current) ErrInvalidTransition)
        (bindE (repoE (repo_GetACMEAuthorization (chal_AuthorizationID current))) (\<lambda>authorization.
         thenE (failIf (authz_Status authorization \<noteq> ACMEAuthorizationPending) ErrInvalidTransition)
         (let challenge = current\<lparr>chal_Status := ACMEChallengeProcessing, chal_UpdatedAt := now\<rparr> in
          thenE (repoE (repo_UpdateACMEChallengeIfStatus challenge (chal_Status current)))
          (thenE (createAuditEvent svc ctx actor ''acme.challenge.processing'' ''acme_challenge'' (chal_ID challenge)
                    now (acmeChallengeAuditFields challenge authorization))
          (returnE challenge))))))))"

definition ValidateACMEHTTP01Challenge ::
  "service \<Rightarrow> request_ctx \<Rightarrow> string \<Rightarrow> string \<Rightarrow> (world, err, ACMEChallenge) eff" where
  "ValidateACMEHTTP01Challenge svc ctx actor challengeID =
     bindE (get_acmeHTTP01ValidationContext svc challengeID) (\<lambda>validation.
     bindE (attemptE (callE (\<lambda>i. svc_acmeHTTP01Verifier svc i (avc_IdentifierValue validation)
              (chal_Token (avc_Challenge validation)) (avc_KeyAuthorization validation)))) (\<lambda>r.
     case r of
       Inl _ \<Rightarrow> markACMEChallengeProcessing svc ctx actor (chal_ID (avc_Challenge validation))
     | Inr _ \<Rightarrow> CompleteACMEChallenge svc ctx actor challengeID))"

definition PollACMEAuthorization ::
  "service \<Rightarrow> request_ctx \<Rightarrow> string \<Rightarrow> string \<Rightarrow> (world, err, ACMEAuthorization) eff" where
  "PollACMEAuthorization svc ctx actor authorizationID =
     thenE (failIf (isBlank authorizationID) ErrInvalidRequest)
     (bindE (repoE (repo_GetACMEAuthorization authorizationID)) (\<lambda>authorization.
      if authz_Status authorization \<noteq> ACMEAuthorizationPending then returnE authorization
      else
        bindE (repoE (repo_ListACMEChallengesByAuthorization authorizationID)) (\<lambda>challenges.
        thenE (forE challenges (\<lambda>challenge.
          if chal_Type challenge = ACMEChallengeHTTP01 \<and> chal_Status challenge = ACMEChallengeProcessing
          then thenE (ValidateACMEHTTP01Challenge svc ctx actor (chal_ID challenge)) (returnE ())
          else returnE ()))
        (repoE (repo_GetACMEAuthorization authorizationID)))))"

section \<open>Finalization\<close>

definition invalidateACMEOrder :: "service \<Rightarrow> request_ctx \<Rightarrow> string \<Rightarrow> ACMEOrder \<Rightarrow> (world, err, unit) eff" where
  "invalidateACMEOrder svc ctx actor order0 =
     bindE (clockNow svc) (\<lambda>now.
     let order = order0\<lparr>ord_Status := ACMEOrderInvalid, ord_UpdatedAt := now\<rparr> in
     WithinTx
       (thenE (repoE (repo_UpdateACMEOrderIfStatus order ACMEOrderReady))
       (createAuditEvent svc ctx actor ''acme.order.invalid'' ''acme_order'' (ord_ID order) now
          (auditFields [(''acme_account_id'', ord_AccountID order), (''acme_order_id'', ord_ID order)]))))"

definition validateACMEPublicTLSValidationEvidence :: "ACMEOrder \<Rightarrow> time \<Rightarrow> (world, err, unit) eff" where
  "validateACMEPublicTLSValidationEvidence order now =
     (if ord_CertificateProfileID order = [] then returnE ()
      else
        bindE (repoE (repo_GetCertificateProfile (ord_CertificateProfileID order))) (\<lambda>profile.
        if \<not> prof_PublicTLS profile then returnE ()
        else
          bindE (repoE (repo_ListACMEAuthorizationsByOrder (ord_ID order))) (\<lambda>authorizations.
          failIf (list_ex (\<lambda>authorization. authz_Status authorization \<noteq> ACMEAuthorizationValid \<or>
                    acmeExpired (authz_ValidationReuseExpiresAt authorization) now \<or>
                    IsZero (authz_ValidationReuseExpiresAt authorization)) authorizations) ErrInvalidTransition)))"

definition finalize_request :: "ACMEOrder \<Rightarrow> FinalizeACMEOrderRequest \<Rightarrow> CreateEnrollmentRequest" where
  "finalize_request order req =
     \<lparr>cer_IdentityID = ord_IdentityID order, cer_IssuerID = ord_IssuerID order,
      cer_CertificateProfileID = ord_CertificateProfileID order, cer_CSRPEM = fao_CSRPEM req,
      cer_RequestedSubject = fao_RequestedSubject req, cer_RequestedDNSNames = ord_RequestedDNSNames order,
      cer_RequestedIPAddresses = ord_RequestedIPAddresses order,
      cer_RequestedNotAfter = ord_RequestedNotAfter order\<rparr>"

text \<open>From the enrollment on: create, approve and issue, then mark the order valid.\<close>

definition finalize_issue ::
  "service \<Rightarrow> request_ctx \<Rightarrow> string \<Rightarrow> ACMEOrder \<Rightarrow> FinalizeACMEOrderRequest \<Rightarrow> (world, err, ACMEOrder) eff" where
  "finalize_issue svc ctx actor order req =
     bindE (CreateEnrollment svc ctx actor (finalize_request order req)) (\<lambda>enrollment.
     thenE (ApproveEnrollment svc ctx actor (enr_ID enrollment))
     (bindE (IssueCertificate svc ctx actor (enr_ID enrollment)) (\<lambda>certificate.
      bindE (clockNow svc) (\<lambda>now.
      let final = order\<lparr>ord_CSRPEM := fao_CSRPEM req, ord_RequestedSubject := fao_RequestedSubject req,
            ord_EnrollmentID := enr_ID enrollment, ord_CertificateID := cert_ID certificate,
            ord_Status := ACMEOrderValid, ord_UpdatedAt := now\<rparr> in
      thenE (WithinTx (repoE (repo_UpdateACMEOrderIfStatus final ACMEOrderReady)))
      (thenE (WithinTx (createAuditEvent svc ctx actor ''acme.order.finalized'' ''acme_order'' (ord_ID final) now
         (auditFields [(''acme_account_id'', ord_AccountID final), (''acme_order_id'', ord_ID final),
                       (''enrollment_id'', enr_ID enrollment), (''certificate_id'', cert_ID certificate)])))
      (returnE final))))))"

definition FinalizeACMEOrder ::
  "service \<Rightarrow> request_ctx \<Rightarrow> string \<Rightarrow> string \<Rightarrow> FinalizeACMEOrderRequest \<Rightarrow> (world, err, ACMEOrder) eff" where
  "FinalizeACMEOrder svc ctx actor orderID req =
     thenE (failIf (isBlank orderID \<or> isBlank (fao_CSRPEM req) \<or> isBlank (fao_RequestedSubject req)) ErrInvalidRequest)
     (bindE (repoE (repo_GetACMEOrder orderID)) (\<lambda>order.
      if ord_Status order = ACMEOrderValid then returnE order
      else
        thenE (failIf (ord_Status order \<noteq> ACMEOrderReady) ErrInvalidTransition)
        (bindE (clockNow svc) (\<lambda>now1.
         if acmeExpired (ord_ExpiresAt order) now1
         then thenE (invalidateACMEOrder svc ctx actor order) (throwE ErrInvalidTransition)
         else
           bindE (clockNow svc) (\<lambda>now2.
           thenE (validateACMEPublicTLSValidationEvidence order now2)
           (finalize_issue svc ctx actor order req))))))"

section \<open>Reading\<close>

definition GetACMEOrder :: "string \<Rightarrow> (world, err, ACMEOrder) eff" where
  "GetACMEOrder ident = thenE (failIf (isBlank ident) ErrInvalidRequest) (repoE (repo_GetACMEOrder ident))"

definition GetACMEAccount :: "string \<Rightarrow> (world, err, ACMEAccount) eff" where
  "GetACMEAccount ident = thenE (failIf (isBlank ident) ErrInvalidRequest) (repoE (repo_GetACMEAccount ident))"

definition GetACMEAuthorization :: "string \<Rightarrow> (world, err, ACMEAuthorization) eff" where
  "GetACMEAuthorization ident = thenE (failIf (isBlank ident) ErrInvalidRequest) (repoE (repo_GetACMEAuthorization ident))"

definition GetACMEChallenge :: "string \<Rightarrow> (world, err, ACMEChallenge) eff" where
  "GetACMEChallenge ident = thenE (failIf (isBlank ident) ErrInvalidRequest) (repoE (repo_GetACMEChallenge ident))"

definition ListACMEOrdersByAccount :: "string \<Rightarrow> (world, err, ACMEOrder list) eff" where
  "ListACMEOrdersByAccount accountID =
     thenE (failIf (isBlank accountID) ErrInvalidRequest) (repoE (repo_ListACMEOrdersByAccount accountID))"

definition ListACMEAuthorizations :: "string \<Rightarrow> (world, err, ACMEAuthorization list) eff" where
  "ListACMEAuthorizations orderID =
     thenE (failIf (isBlank orderID) ErrInvalidRequest)
     (thenE (repoE (repo_GetACMEOrder orderID)) (repoE (repo_ListACMEAuthorizationsByOrder orderID)))"

definition ListACMEChallenges :: "string \<Rightarrow> (world, err, ACMEChallenge list) eff" where
  "ListACMEChallenges authorizationID =
     thenE (failIf (isBlank authorizationID) ErrInvalidRequest)
     (thenE (repoE (repo_GetACMEAuthorization authorizationID))
     (repoE (repo_ListACMEChallengesByAuthorization authorizationID)))"

end
