(* ===== verification/Crl.thy ===== *)
theory Crl
  imports Policy
begin

text \<open>
  Publication of certificate revocation lists, from \<open>service/internal/lifecycle/service.go\<close>. A claim
  on the pair of issuer and distribution point reserves the next CRL number for one writer; the
  transaction that stores the publication also deletes the claim.
\<close>

section \<open>Numbers\<close>

text \<open>\<open>maxNumber + 1\<close> on \<open>int64\<close>.\<close>

definition nextCRLNumber :: "CRLPublication list \<Rightarrow> string \<Rightarrow> int" where
  "nextCRLNumber publications distributionPoint =
     wrap64 (foldl (\<lambda>maxNumber publication.
        if crl_DistributionPoint publication = distributionPoint \<and> maxNumber < crl_CRLNumber publication
        then crl_CRLNumber publication else maxNumber) 0 publications + 1)"

definition latest_step :: "string \<Rightarrow> CRLPublication option \<Rightarrow> CRLPublication \<Rightarrow> CRLPublication option" where
  "latest_step distributionPoint found publication =
     (if crl_DistributionPoint publication \<noteq> distributionPoint then found
      else case found of
        None \<Rightarrow> Some publication
      | Some latest \<Rightarrow>
          if crl_CRLNumber latest < crl_CRLNumber publication \<or>
             (crl_CRLNumber publication = crl_CRLNumber latest \<and>
              After (crl_CreatedAt publication) (crl_CreatedAt latest))
          then Some publication else found)"

definition latestCRLPublication :: "CRLPublication list \<Rightarrow> string \<Rightarrow> err + CRLPublication" where
  "latestCRLPublication publications distributionPoint =
     (case foldl (latest_step distributionPoint) None publications of
        None \<Rightarrow> Inl ErrCRLPublicationNotFound
      | Some latest \<Rightarrow> Inr latest)"

section \<open>The claim\<close>

definition defaultCRLGenerationLease :: duration where
  "defaultCRLGenerationLease = 5 * Minute"

definition new_claim :: "string \<Rightarrow> string \<Rightarrow> int \<Rightarrow> time \<Rightarrow> CRLGenerationClaim" where
  "new_claim issuerID distributionPoint nextNumber now =
     \<lparr>claim_IssuerID = issuerID, claim_DistributionPoint = distributionPoint, claim_CRLNumber = nextNumber,
      claim_LeaseExpiresAt = AddD now defaultCRLGenerationLease, claim_CreatedAt = now, claim_UpdatedAt = now\<rparr>"

definition taken_claim :: "CRLGenerationClaim \<Rightarrow> int \<Rightarrow> time \<Rightarrow> CRLGenerationClaim" where
  "taken_claim current nextNumber now =
     current\<lparr>claim_CRLNumber := nextNumber, claim_LeaseExpiresAt := AddD now defaultCRLGenerationLease,
       claim_UpdatedAt := now\<rparr>"

definition claimCRLGeneration :: "string \<Rightarrow> string \<Rightarrow> time \<Rightarrow> (world, err, CRLGenerationClaim) eff" where
  "claimCRLGeneration issuerID distributionPoint now =
     WithinTx
       (bindE (repoE (repo_ListCRLPublicationsByIssuer issuerID)) (\<lambda>publications.
        let nextNumber = nextCRLNumber publications distributionPoint in
        bindE (attemptE (repoE (repo_GetCRLGenerationClaim issuerID distributionPoint))) (\<lambda>r.
        case r of
          Inl e \<Rightarrow>
            if errors_Is e ErrCRLGenerationClaimNotFound then
              thenE (repoE (repo_CreateCRLGenerationClaim (new_claim issuerID distributionPoint nextNumber now)))
              (returnE (new_claim issuerID distributionPoint nextNumber now))
            else throwE e
        | Inr current \<Rightarrow>
            thenE (failIf (After (claim_LeaseExpiresAt current) now) ErrInvalidTransition)
            (thenE (repoE (repo_UpdateCRLGenerationClaimIfCurrent (taken_claim current nextNumber now) current))
            (returnE (taken_claim current nextNumber now))))))"

text \<open>The deferred release of a claim whose publication did not complete; its error is dropped.\<close>

definition release_claim :: "CRLGenerationClaim \<Rightarrow> (world, err, unit) eff" where
  "release_claim claim =
     WithinTx
       (bindE (attemptE (repoE (repo_DeleteCRLGenerationClaimIfCurrent claim))) (\<lambda>r.
        case r of
          Inr _ \<Rightarrow> returnE ()
        | Inl e \<Rightarrow> if errors_Is e ErrCRLGenerationClaimNotFound \<or> errors_Is e ErrInvalidTransition
                  then returnE () else throwE e))"

section \<open>Publication\<close>

definition revoked_certificate :: "RevokedCertificateEntry \<Rightarrow> RevokedCertificate" where
  "revoked_certificate entry =
     \<lparr>rvk_SerialNumber = rce_SerialNumber entry, rvk_RevokedAt = rce_RevokedAt entry,
      rvk_Reason = str_RevocationReason (rce_Reason entry)\<rparr>"

definition new_publication ::
  "string \<Rightarrow> PublishCRLRequest \<Rightarrow> CRLGenerationClaim \<Rightarrow> string \<Rightarrow> time \<Rightarrow> CRLPublication" where
  "new_publication ident req claim crlPEM now =
     \<lparr>crl_ID = ident, crl_IssuerID = pcr_IssuerID req, crl_DistributionPoint = pcr_DistributionPoint req,
      crl_CRLNumber = claim_CRLNumber claim, crl_ThisUpdate = now, crl_NextUpdate = pcr_NextUpdate req,
      crl_Status = CRLPublicationPublished, crl_CRLPEM = crlPEM, crl_CreatedAt = now, crl_UpdatedAt = now\<rparr>"

text \<open>The transaction that stores the publication.\<close>

definition publish_tx ::
  "service \<Rightarrow> request_ctx \<Rightarrow> string \<Rightarrow> CRLPublication \<Rightarrow> SigningEvidence \<Rightarrow> CRLGenerationClaim \<Rightarrow> time \<Rightarrow>
   (world, err, unit) eff" where
  "publish_tx svc ctx actor publication evidence claim now =
     WithinTx
       (thenE (repoE (repo_GetIssuer (crl_IssuerID publication)))
       (thenE (repoE (repo_CreateCRLPublication publication))
       (thenE (createAuditEvent svc ctx actor ''crl.published'' ''crl_publication'' (crl_ID publication) now
          (coreSigningAuditFields evidence
             [(''issuer_id'', JStr (crl_IssuerID publication)), (''crl_publication_id'', JStr (crl_ID publication)),
              (''distribution_point'', JStr (crl_DistributionPoint publication)),
              (''crl_number'', JInt (crl_CRLNumber publication)), (''claim_mode'', JStr ''leased_single_writer'')]))
       (repoE (repo_DeleteCRLGenerationClaimIfCurrent claim)))))"

text \<open>What happens under the claim: sign, check the evidence, store.\<close>

definition publish_claimed ::
  "service \<Rightarrow> request_ctx \<Rightarrow> string \<Rightarrow> PublishCRLRequest \<Rightarrow> Issuer \<Rightarrow> CRLGenerationClaim \<Rightarrow> time \<Rightarrow>
   (world, err, CRLPublication) eff" where
  "publish_claimed svc ctx actor req issuer claim now =
     bindE (repoE (repo_ListRevocationsByIssuer (pcr_IssuerID req))) (\<lambda>revokedEntries.
     thenE (callE (\<lambda>i. svc_keyProvider svc i (iss_KeyRef issuer)))
     (bindE (mapErrE mapCRLError (callE (\<lambda>i. svc_GenerateCRL svc i
        \<lparr>greq_IssuerCertificatePEM = iss_CertificatePEM issuer, greq_IssuerKeyRef = iss_KeyRef issuer,
         greq_CRLNumber = claim_CRLNumber claim, greq_ThisUpdate = now, greq_NextUpdate = pcr_NextUpdate req,
         greq_RevokedCertificates = map revoked_certificate revokedEntries\<rparr>))) (\<lambda>result.
      thenE (mapErrE mapCRLError (fromSum (ValidateSigningEvidence (gres_SigningEvidence result)
               ''crl_generate_sign'' ''sha256'')))
      (bindE (newID svc) (\<lambda>ident.
       let publication = new_publication ident req claim (gres_CRLPEM result) now in
       thenE (publish_tx svc ctx actor publication (gres_SigningEvidence result) claim now)
       (returnE publication))))))"

definition PublishCRL ::
  "service \<Rightarrow> request_ctx \<Rightarrow> string \<Rightarrow> PublishCRLRequest \<Rightarrow> (world, err, CRLPublication) eff" where
  "PublishCRL svc ctx actor req =
     bindE (clockNow svc) (\<lambda>now.
     thenE (fromSum (validatePublishCRLRequest req now))
     (bindE (repoE (repo_GetIssuer (pcr_IssuerID req))) (\<lambda>issuer.
      bindE (claimCRLGeneration (pcr_IssuerID req) (pcr_DistributionPoint req) now) (\<lambda>claim.
      bindE (attemptE (publish_claimed svc ctx actor req issuer claim now)) (\<lambda>r.
      case r of
        Inr publication \<Rightarrow> returnE publication
      | Inl e \<Rightarrow> thenE (attemptE (release_claim claim)) (throwE e))))))"

section \<open>Reading\<close>

definition GetCRLPublication :: "string \<Rightarrow> (world, err, CRLPublication) eff" where
  "GetCRLPublication ident = thenE (failIf (isBlank ident) ErrInvalidRequest) (repoE (repo_GetCRLPublication ident))"

definition GetLatestCRLPublication :: "string \<Rightarrow> (world, err, CRLPublication) eff" where
  "GetLatestCRLPublication issuerID =
     thenE (failIf (isBlank issuerID) ErrInvalidRequest) (repoE (repo_GetLatestCRLPublicationByIssuer issuerID))"

definition GetLatestCRLPublicationForDistributionPoint :: "string \<Rightarrow> string \<Rightarrow> (world, err, CRLPublication) eff" where
  "GetLatestCRLPublicationForDistributionPoint issuerID distributionPoint =
     thenE (failIf (isBlank issuerID \<or> isBlank distributionPoint) ErrInvalidRequest)
     (bindE (repoE (repo_ListCRLPublicationsByIssuer issuerID)) (\<lambda>publications.
      fromSum (latestCRLPublication publications distributionPoint)))"

end
