(* ===== verification/Ocsp.thy ===== *)
theory Ocsp
  imports Policy
begin

text \<open>
  OCSP responses, from \<open>service/internal/lifecycle/service.go\<close>: the status of each requested
  certificate, the choice of the signer, and the response with its audit event. The core decodes
  requests, hashes issuers and signs responses.
\<close>

section \<open>Statuses\<close>

definition normalizeOCSPHashAlgorithm :: "string \<Rightarrow> string" where
  "normalizeOCSPHashAlgorithm hashAlgorithm =
     (let normalized = ToLower (remove_char (remove_char hashAlgorithm (CHR ''-'')) (CHR ''_'')) in
      if normalized = [] then ''sha1'' else normalized)"

definition ocspIssuerHashKey :: "string \<Rightarrow> string \<Rightarrow> string \<Rightarrow> string" where
  "ocspIssuerHashKey hashAlgorithm nameHash keyHash =
     normalizeOCSPHashAlgorithm hashAlgorithm @ [CHR 0x00] @ nameHash @ [CHR 0x00] @ keyHash"

definition ocspIssuerSerialKey :: "string \<Rightarrow> string \<Rightarrow> string" where
  "ocspIssuerSerialKey issuerID serialNumber = issuerID @ [CHR 0x00] @ serialNumber"

definition ocspStatusForID :: "OCSPCertificateID \<Rightarrow> string \<Rightarrow> OCSPCertificateStatus" where
  "ocspStatusForID ident status =
     \<lparr>ocs_SerialNumber = oid_SerialNumber ident, ocs_Status = status, ocs_RevokedAt = 0, ocs_RevocationReason = [],
      ocs_HashAlgorithm = normalizeOCSPHashAlgorithm (oid_HashAlgorithm ident),
      ocs_IssuerNameHash = oid_IssuerNameHash ident, ocs_IssuerKeyHash = oid_IssuerKeyHash ident\<rparr>"

definition unknownOCSPStatus :: "OCSPCertificateID \<Rightarrow> OCSPCertificateStatus" where
  "unknownOCSPStatus ident = ocspStatusForID ident ''unknown''"

definition revokedOCSPStatus ::
  "OCSPCertificateID \<Rightarrow> Certificate \<Rightarrow> RevokedCertificateEntry list \<Rightarrow> OCSPCertificateStatus" where
  "revokedOCSPStatus ident certificate revocations =
     (let status = ocspStatusForID ident ''revoked'' in
      case find (\<lambda>revocation. rce_SerialNumber revocation = cert_SerialNumber certificate) revocations of
        None \<Rightarrow> status
      | Some revocation \<Rightarrow>
          status\<lparr>ocs_RevokedAt := rce_RevokedAt revocation,
            ocs_RevocationReason := str_RevocationReason (rce_Reason revocation)\<rparr>)"

text \<open>The distinct algorithms of a request, in the order of their first use.\<close>

fun distinct_algorithms :: "string list \<Rightarrow> OCSPCertificateID list \<Rightarrow> string list" where
  "distinct_algorithms seen [] = []"
| "distinct_algorithms seen (ident # ids) =
     (let algorithm = normalizeOCSPHashAlgorithm (oid_HashAlgorithm ident) in
      if algorithm \<in> set seen then distinct_algorithms seen ids
      else algorithm # distinct_algorithms (algorithm # seen) ids)"

definition ocspHashAlgorithms :: "OCSPCertificateID list \<Rightarrow> string list" where
  "ocspHashAlgorithms ids =
     (let algorithms = distinct_algorithms [] ids in if algorithms = [] then [''sha1''] else algorithms)"

definition ocspIssuersByHash :: "service \<Rightarrow> OCSPCertificateID list \<Rightarrow> (world, err, Issuer gomap) eff" where
  "ocspIssuersByHash svc ids =
     bindE (repoE repo_ListIssuers) (\<lambda>issuers.
     foldE issuers [] (\<lambda>byHash issuer.
       if iss_Status issuer \<noteq> IssuerActive then returnE byHash
       else
         foldE (ocspHashAlgorithms ids) byHash (\<lambda>byHash hashAlgorithm.
           bindE (mapErrE mapOCSPDecodeError
             (callE (\<lambda>i. svc_InspectOCSPIssuer svc i (iss_CertificatePEM issuer) hashAlgorithm))) (\<lambda>info.
           returnE (mput (ocspIssuerHashKey hashAlgorithm (oiss_IssuerNameHash info) (oiss_IssuerKeyHash info))
             issuer byHash)))))"

text \<open>The first certificate of the list for each key.\<close>

definition certificates_by_key :: "Certificate list \<Rightarrow> Certificate gomap" where
  "certificates_by_key certificates =
     foldl (\<lambda>m certificate.
       let key = ocspIssuerSerialKey (cert_IssuerID certificate) (cert_SerialNumber certificate) in
       if mget m key = None then mput key certificate m else m) [] certificates"

text \<open>
  The status of one request entry, given the issuers by hash and the certificates by issuer and
  serial number. The revocations of an issuer are read once and cached by the code; the store does
  not change in between, so they are read here at every use.
\<close>

definition status_step ::
  "Issuer gomap \<Rightarrow> Certificate gomap \<Rightarrow> OCSPCertificateStatus list \<times> string \<Rightarrow> OCSPCertificateID \<Rightarrow>
   (world, err, OCSPCertificateStatus list \<times> string) eff" where
  "status_step issuersByHash byIssuerSerial acc ident =
     (case acc of (statuses, issuerID) \<Rightarrow>
        case mget issuersByHash (ocspIssuerHashKey (oid_HashAlgorithm ident) (oid_IssuerNameHash ident)
               (oid_IssuerKeyHash ident)) of
          None \<Rightarrow> returnE (statuses @ [unknownOCSPStatus ident], issuerID)
        | Some issuer \<Rightarrow>
            let issuerID' = (if issuerID = [] then iss_ID issuer else issuerID) in
            thenE (failIf (issuerID' \<noteq> iss_ID issuer) ErrInvalidRequest)
            (case mget byIssuerSerial (ocspIssuerSerialKey (iss_ID issuer) (oid_SerialNumber ident)) of
               None \<Rightarrow> returnE (statuses @ [unknownOCSPStatus ident], issuerID')
             | Some certificate \<Rightarrow>
                 if cert_Status certificate = CertificateValid
                 then returnE (statuses @ [ocspStatusForID ident ''good''], issuerID')
                 else if cert_Status certificate = CertificateRevoked then
                   bindE (repoE (repo_ListRevocationsByIssuer (cert_IssuerID certificate))) (\<lambda>revocations.
                   returnE (statuses @ [revokedOCSPStatus ident certificate revocations], issuerID'))
                 else returnE (statuses @ [unknownOCSPStatus ident], issuerID')))"

definition ocspCertificateStatuses ::
  "service \<Rightarrow> OCSPCertificateID list \<Rightarrow> (world, err, OCSPCertificateStatus list \<times> string) eff" where
  "ocspCertificateStatuses svc ids =
     bindE (ocspIssuersByHash svc ids) (\<lambda>issuersByHash.
     bindE (repoE repo_ListCertificates) (\<lambda>certificates.
     foldE ids ([], []) (status_step issuersByHash (certificates_by_key certificates))))"

section \<open>The response\<close>

record ocspSigner =
  osg_CertificatePEM :: string
  osg_KeyRef :: string
  osg_ResponderMode :: string
  osg_ResponderID :: string

definition ocspSignerForIssuer :: "Issuer \<Rightarrow> (world, err, ocspSigner) eff" where
  "ocspSignerForIssuer issuer =
     bindE (attemptE (repoE (repo_GetActiveOCSPResponderByIssuer (iss_ID issuer)))) (\<lambda>r.
     case r of
       Inr responder \<Rightarrow>
         returnE \<lparr>osg_CertificatePEM = rsp_CertificatePEM responder, osg_KeyRef = rsp_KeyRef responder,
                  osg_ResponderMode = ''delegated'', osg_ResponderID = rsp_ID responder\<rparr>
     | Inl e \<Rightarrow>
         if errors_Is e ErrOCSPResponderNotFound then
           returnE \<lparr>osg_CertificatePEM = iss_CertificatePEM issuer, osg_KeyRef = iss_KeyRef issuer,
                    osg_ResponderMode = ''issuer_direct'', osg_ResponderID = []\<rparr>
         else throwE e)"

definition firstOCSPSerial :: "OCSPCertificateID list \<Rightarrow> string" where
  "firstOCSPSerial ids = (case ids of [] \<Rightarrow> [] | ident # _ \<Rightarrow> oid_SerialNumber ident)"

definition firstOCSPStatus :: "OCSPCertificateStatus list \<Rightarrow> string" where
  "firstOCSPStatus statuses = (case statuses of [] \<Rightarrow> [] | status # _ \<Rightarrow> ocs_Status status)"

definition ocsp_entry :: "OCSPCertificateID \<Rightarrow> fields" where
  "ocsp_entry ident =
     [(''serial_number'', JStr (oid_SerialNumber ident)), (''issuer_name_hash'', JStr (oid_IssuerNameHash ident)),
      (''issuer_key_hash'', JStr (oid_IssuerKeyHash ident)),
      (''hash_algorithm'', JStr (normalizeOCSPHashAlgorithm (oid_HashAlgorithm ident)))]"

definition ocsp_status_entry :: "OCSPCertificateStatus \<Rightarrow> fields \<Rightarrow> fields" where
  "ocsp_status_entry status entry =
     (let e1 = mput ''status'' (JStr (ocs_Status status)) entry;
          e2 = (if ocs_RevocationReason status \<noteq> [] then mput ''reason'' (JStr (ocs_RevocationReason status)) e1 else e1)
      in if IsZero (ocs_RevokedAt status) then e2
         else mput ''revoked_at'' (JStr (FormatRFC3339 (ocs_RevokedAt status))) e2)"

fun ocspAuditCertificates :: "OCSPCertificateID list \<Rightarrow> OCSPCertificateStatus list \<Rightarrow> json list" where
  "ocspAuditCertificates [] statuses = []"
| "ocspAuditCertificates (ident # ids) [] = json_map (ocsp_entry ident) # ocspAuditCertificates ids []"
| "ocspAuditCertificates (ident # ids) (status # statuses) =
     json_map (ocsp_status_entry status (ocsp_entry ident)) # ocspAuditCertificates ids statuses"

definition ocsp_fields ::
  "string \<Rightarrow> OCSPRequestInfo \<Rightarrow> OCSPCertificateStatus list \<Rightarrow> ocspSigner \<Rightarrow> SigningEvidence \<Rightarrow> fields" where
  "ocsp_fields issuerID info statuses signer evidence =
     (let flds = coreSigningAuditFields evidence
            [(''request_type'', JStr ''ocsp''), (''issuer_id'', JStr issuerID),
             (''requested_cert_count'', JInt (int (length (oinfo_Certificates info)))),
             (''response_status'', JStr ''successful''), (''nonce_present'', JBool (oinfo_HasNonce info)),
             (''first_serial_number'', JStr (firstOCSPSerial (oinfo_Certificates info))),
             (''first_certificate_status'', JStr (firstOCSPStatus statuses)),
             (''certificates'', JArr (ocspAuditCertificates (oinfo_Certificates info) statuses)),
             (''responder_mode'', JStr (osg_ResponderMode signer))]
      in if osg_ResponderID signer \<noteq> [] then mput ''responder_id'' (JStr (osg_ResponderID signer)) flds else flds)"

definition RespondOCSP :: "service \<Rightarrow> request_ctx \<Rightarrow> string \<Rightarrow> string \<Rightarrow> (world, err, string) eff" where
  "RespondOCSP svc ctx actor requestDER =
     thenE (failIf (requestDER = []) ErrInvalidRequest)
     (bindE (clockNow svc) (\<lambda>now.
      bindE (mapErrE mapOCSPDecodeError (callE (\<lambda>i. svc_InspectOCSP svc i requestDER))) (\<lambda>info.
      thenE (failIf (oinfo_Certificates info = []) ErrInvalidRequest)
      (bindE (ocspCertificateStatuses svc (oinfo_Certificates info)) (\<lambda>(statuses, issuerID).
       thenE (failIf (issuerID = []) ErrInvalidRequest)
       (bindE (repoE (repo_GetIssuer issuerID)) (\<lambda>issuer.
        bindE (ocspSignerForIssuer issuer) (\<lambda>signer.
        thenE (callE (\<lambda>i. svc_keyProvider svc i (osg_KeyRef signer)))
        (bindE (mapErrE mapOCSPResponseError (callE (\<lambda>i. svc_GenerateOCSPResponse svc i
           \<lparr>oreq_RequestDER = requestDER, oreq_IssuerCertificatePEM = osg_CertificatePEM signer,
            oreq_IssuerKeyRef = osg_KeyRef signer, oreq_ThisUpdate = now, oreq_NextUpdate = AddD now Hour,
            oreq_Certificates = statuses\<rparr>))) (\<lambda>result.
         thenE (mapErrE mapOCSPResponseError (fromSum (ValidateSigningEvidence (ores_SigningEvidence result)
                  ''ocsp_response_sign'' ''sha256'')))
         (bindE (WithinTx (bindE (newID svc) (\<lambda>ident.
            createAuditEvent svc ctx actor ''ocsp.requested'' ''ocsp'' ident now
              (ocsp_fields issuerID info statuses signer (ores_SigningEvidence result))))) (\<lambda>_.
          returnE (ores_ResponseDER result)))))))))))))"

end
