(* ===== verification/HttpJson.thy ===== *)
theory HttpJson
  imports HttpAccess Registry Acme Crl Ocsp Outbox
begin

text \<open>
  The JSON of the API, from the structs of \<open>service/internal/httpapi/server.go\<close> and \<open>acme.go\<close>.
  A request struct is its table of fields, which decode straight into the request of the service
  that the handler copies it to. A response struct is a record; a response body is kept as the
  value that \<open>writeJSON\<close> is given, and its text is not built.
\<close>

section \<open>Enumerations from their strings\<close>

definition IdentityType_of :: "string \<Rightarrow> IdentityType" where
  "IdentityType_of s =
     (if s = ''user'' then IdentityUser
      else if s = ''machine'' then IdentityMachine
      else if s = ''service'' then IdentityService
      else if s = ''iot_device'' then IdentityIoTDevice
      else if s = ''workload'' then IdentityWorkload
      else IdentityTypeOther s)"

definition IssuerKind_of :: "string \<Rightarrow> IssuerKind" where
  "IssuerKind_of s =
     (if s = ''root_ca'' then IssuerRootCA
      else if s = ''intermediate_ca'' then IssuerIntermediateCA
      else IssuerKindOther s)"

definition RevocationReason_of :: "string \<Rightarrow> RevocationReason" where
  "RevocationReason_of s =
     (if s = ''key_compromise'' then RevocationKeyCompromise
      else if s = ''ca_compromise'' then RevocationCACompromise
      else if s = ''affiliation_changed'' then RevocationAffiliationChanged
      else if s = ''superseded'' then RevocationSuperseded
      else if s = ''cessation_of_operation'' then RevocationCessationOfOperation
      else if s = ''privilege_withdrawn'' then RevocationPrivilegeWithdrawn
      else if s = ''unspecified'' then RevocationUnspecified
      else RevocationReasonOther s)"

definition APIKeyScope_of :: "string \<Rightarrow> APIKeyScope" where
  "APIKeyScope_of s =
     (if s = ''read'' then APIKeyScopeRead
      else if s = ''write'' then APIKeyScopeWrite
      else if s = ''operator'' then APIKeyScopeOperator
      else APIKeyScopeOther s)"

definition EnrollmentStatus_of :: "string \<Rightarrow> EnrollmentStatus" where
  "EnrollmentStatus_of s =
     (if s = ''pending'' then EnrollmentPending
      else if s = ''approved'' then EnrollmentApproved
      else if s = ''rejected'' then EnrollmentRejected
      else if s = ''issued'' then EnrollmentIssued
      else if s = ''canceled'' then EnrollmentCanceled
      else EnrollmentStatusOther s)"

definition OutboxMessageStatus_of :: "string \<Rightarrow> OutboxMessageStatus" where
  "OutboxMessageStatus_of s =
     (if s = ''pending'' then OutboxPending
      else if s = ''processing'' then OutboxProcessing
      else if s = ''completed'' then OutboxCompleted
      else if s = ''failed'' then OutboxFailed
      else if s = ''dead_letter'' then OutboxDeadLetter
      else OutboxMessageStatusOther s)"

section \<open>Requests\<close>

text \<open>The policies of extensions, from \<open>domain/types.go\<close>.\<close>

definition StringListExtensionPolicy_fields :: "StringListExtensionPolicy field list" where
  "StringListExtensionPolicy_fields =
     [bool_field ''critical'' slp_Critical_update, strs_field ''values'' slp_Values slp_Values_update]"

definition BasicConstraintsPolicy_fields :: "BasicConstraintsPolicy field list" where
  "BasicConstraintsPolicy_fields =
     [bool_field ''critical'' bc_Critical_update, bool_field ''ca'' bc_CA_update,
      (''max_path_len'', \<lambda>v r. case v of
          JNull \<Rightarrow> Some (r\<lparr>bc_MaxPathLen := None\<rparr>)
        | JNum n \<Rightarrow> (case json_atoi n of None \<Rightarrow> None | Some i \<Rightarrow> Some (r\<lparr>bc_MaxPathLen := Some i\<rparr>))
        | _ \<Rightarrow> None)]"

definition decode_scope :: "json \<Rightarrow> APIKeyScope \<Rightarrow> APIKeyScope option" where
  "decode_scope v prev = (case v of JNull \<Rightarrow> Some prev | JStr s \<Rightarrow> Some (APIKeyScope_of s) | _ \<Rightarrow> None)"

definition createIdentityRequest_fields :: "CreateIdentityRequest field list" where
  "createIdentityRequest_fields =
     [enum_field ''type'' IdentityType_of cid_Type_update,
      str_field ''name'' cid_Name_update,
      str_field ''external_id'' cid_ExternalID_update,
      str_field ''owner'' cid_Owner_update,
      str_field ''team'' cid_Team_update,
      str_field ''service'' cid_Service_update,
      str_field ''environment'' cid_Environment_update,
      str_field ''deployment_target'' cid_DeploymentTarget_update,
      time_field ''last_seen_at'' cid_LastSeenAt_update,
      str_field ''metadata_json'' cid_MetadataJSON_update,
      strs_field ''allowed_dns_names'' cid_AllowedDNSNames cid_AllowedDNSNames_update,
      strs_field ''allowed_ip_addresses'' cid_AllowedIPAddresses cid_AllowedIPAddresses_update]"

definition zero_createIdentityRequest :: CreateIdentityRequest where
  "zero_createIdentityRequest =
     \<lparr>cid_Type = IdentityTypeOther [], cid_Name = [], cid_ExternalID = [], cid_Owner = [], cid_Team = [], cid_Service = [], cid_Environment = [], cid_DeploymentTarget = [], cid_LastSeenAt = 0, cid_MetadataJSON = [], cid_AllowedDNSNames = [], cid_AllowedIPAddresses = []\<rparr>"

definition createIssuerRequest_fields :: "CreateIssuerRequest field list" where
  "createIssuerRequest_fields =
     [str_field ''name'' cis_Name_update,
      enum_field ''kind'' IssuerKind_of cis_Kind_update,
      str_field ''parent_issuer_id'' cis_ParentIssuerID_update,
      str_field ''certificate_pem'' cis_CertificatePEM_update,
      str_field ''key_ref'' cis_KeyRef_update,
      str_field ''aia_url'' cis_AIAURL_update,
      strs_field ''crl_distribution_points'' cis_CRLDistributionPoints cis_CRLDistributionPoints_update,
      bool_field ''trust_anchor'' cis_TrustAnchor_update]"

definition zero_createIssuerRequest :: CreateIssuerRequest where
  "zero_createIssuerRequest =
     \<lparr>cis_Name = [], cis_Kind = IssuerKindOther [], cis_ParentIssuerID = [], cis_CertificatePEM = [], cis_KeyRef = [], cis_AIAURL = [], cis_CRLDistributionPoints = [], cis_TrustAnchor = False\<rparr>"

definition createOCSPResponderRequest_fields :: "CreateOCSPResponderRequest field list" where
  "createOCSPResponderRequest_fields =
     [str_field ''name'' cor_Name_update,
      str_field ''certificate_pem'' cor_CertificatePEM_update,
      str_field ''key_ref'' cor_KeyRef_update]"

definition zero_createOCSPResponderRequest :: CreateOCSPResponderRequest where
  "zero_createOCSPResponderRequest =
     \<lparr>cor_IssuerID = [], cor_Name = [], cor_CertificatePEM = [], cor_KeyRef = []\<rparr>"

definition createNotificationEndpointRequest_fields :: "CreateNotificationEndpointRequest field list" where
  "createNotificationEndpointRequest_fields =
     [str_field ''name'' cne_Name_update,
      str_field ''url'' cne_URL_update,
      str_field ''secret'' cne_Secret_update,
      strs_field ''event_types'' cne_EventTypes cne_EventTypes_update]"

definition zero_createNotificationEndpointRequest :: CreateNotificationEndpointRequest where
  "zero_createNotificationEndpointRequest =
     \<lparr>cne_Name = [], cne_URL = [], cne_Secret = [], cne_EventTypes = []\<rparr>"

definition replayDeadLetterOutboxRequest_fields :: "ReplayDeadLetterOutboxRequest field list" where
  "replayDeadLetterOutboxRequest_fields =
     [str_field ''event_type'' rdl_EventType_update,
      time_field ''created_from'' rdl_CreatedFrom_update,
      time_field ''created_to'' rdl_CreatedTo_update,
      int_field ''limit'' rdl_Limit_update]"

definition zero_replayDeadLetterOutboxRequest :: ReplayDeadLetterOutboxRequest where
  "zero_replayDeadLetterOutboxRequest =
     \<lparr>rdl_EventType = [], rdl_CreatedFrom = 0, rdl_CreatedTo = 0, rdl_Limit = 0\<rparr>"

definition createCertificateProfileRequest_fields :: "CreateCertificateProfileRequest field list" where
  "createCertificateProfileRequest_fields =
     [str_field ''name'' ccp_Name_update,
      str_field ''description'' ccp_Description_update,
      str_field ''issuer_id'' ccp_IssuerID_update,
      int_field ''validity_period_seconds'' ccp_ValidityPeriodSeconds_update,
      bool_field ''public_tls'' ccp_PublicTLS_update,
      str_field ''subject_template'' ccp_SubjectTemplate_update,
      strs_field ''allowed_dns_patterns'' ccp_AllowedDNSPatterns ccp_AllowedDNSPatterns_update,
      strs_field ''allowed_ip_ranges'' ccp_AllowedIPRanges ccp_AllowedIPRanges_update,
      strs_field ''allowed_key_algorithms'' ccp_AllowedKeyAlgorithms ccp_AllowedKeyAlgorithms_update,
      int_field ''min_key_size_bits'' ccp_MinKeySizeBits_update,
      strs_field ''allowed_signature_algorithms'' ccp_AllowedSignatureAlgorithms ccp_AllowedSignatureAlgorithms_update,
      struct_field True ''key_usage'' StringListExtensionPolicy_fields ccp_KeyUsage ccp_KeyUsage_update,
      struct_field True ''extended_key_usage'' StringListExtensionPolicy_fields ccp_ExtendedKeyUsage ccp_ExtendedKeyUsage_update,
      struct_field True ''basic_constraints'' BasicConstraintsPolicy_fields ccp_BasicConstraints ccp_BasicConstraints_update,
      bool_field ''subject_key_identifier'' ccp_SubjectKeyIdentifier_update,
      bool_field ''authority_key_identifier'' ccp_AuthorityKeyIdentifier_update]"

definition zero_createCertificateProfileRequest :: CreateCertificateProfileRequest where
  "zero_createCertificateProfileRequest =
     \<lparr>ccp_Name = [], ccp_Description = [], ccp_IssuerID = [], ccp_ValidityPeriodSeconds = 0, ccp_PublicTLS = False, ccp_SubjectTemplate = [], ccp_AllowedDNSPatterns = [], ccp_AllowedIPRanges = [], ccp_AllowedKeyAlgorithms = [], ccp_MinKeySizeBits = 0, ccp_AllowedSignatureAlgorithms = [], ccp_KeyUsage = \<lparr>slp_Critical = False, slp_Values = []\<rparr>, ccp_ExtendedKeyUsage = \<lparr>slp_Critical = False, slp_Values = []\<rparr>, ccp_BasicConstraints = \<lparr>bc_Critical = False, bc_CA = False, bc_MaxPathLen = None\<rparr>, ccp_SubjectKeyIdentifier = False, ccp_AuthorityKeyIdentifier = False\<rparr>"

definition createEnrollmentRequest_fields :: "CreateEnrollmentRequest field list" where
  "createEnrollmentRequest_fields =
     [str_field ''identity_id'' cer_IdentityID_update,
      str_field ''issuer_id'' cer_IssuerID_update,
      str_field ''profile_id'' cer_CertificateProfileID_update,
      str_field ''csr_pem'' cer_CSRPEM_update,
      str_field ''requested_subject'' cer_RequestedSubject_update,
      strs_field ''requested_dns_names'' cer_RequestedDNSNames cer_RequestedDNSNames_update,
      strs_field ''requested_ip_addresses'' cer_RequestedIPAddresses cer_RequestedIPAddresses_update,
      time_field ''requested_not_after'' cer_RequestedNotAfter_update]"

definition zero_createEnrollmentRequest :: CreateEnrollmentRequest where
  "zero_createEnrollmentRequest =
     \<lparr>cer_IdentityID = [], cer_IssuerID = [], cer_CertificateProfileID = [], cer_CSRPEM = [], cer_RequestedSubject = [], cer_RequestedDNSNames = [], cer_RequestedIPAddresses = [], cer_RequestedNotAfter = 0\<rparr>"

definition createAPIKeyRequest_fields :: "CreateAPIKeyRequest field list" where
  "createAPIKeyRequest_fields =
     [str_field ''name'' cak_Name_update,
      str_field ''actor'' cak_Actor_update,
      list_field ''scopes'' decode_scope (APIKeyScopeOther []) cak_Scopes cak_Scopes_update,
      time_field ''expires_at'' cak_ExpiresAt_update]"

definition zero_createAPIKeyRequest :: CreateAPIKeyRequest where
  "zero_createAPIKeyRequest =
     \<lparr>cak_Name = [], cak_Actor = [], cak_Scopes = [], cak_ExpiresAt = 0\<rparr>"

definition publishCRLRequest_fields :: "PublishCRLRequest field list" where
  "publishCRLRequest_fields =
     [str_field ''issuer_id'' pcr_IssuerID_update,
      str_field ''distribution_point'' pcr_DistributionPoint_update,
      time_field ''next_update'' pcr_NextUpdate_update]"

definition zero_publishCRLRequest :: PublishCRLRequest where
  "zero_publishCRLRequest =
     \<lparr>pcr_IssuerID = [], pcr_DistributionPoint = [], pcr_NextUpdate = 0\<rparr>"

definition createACMEAccountRequest_fields :: "CreateACMEAccountRequest field list" where
  "createACMEAccountRequest_fields =
     [strs_field ''contacts'' cac_Contacts cac_Contacts_update,
      bool_field ''terms_of_service_agreed'' cac_TermsOfServiceAgreed_update]"

definition zero_createACMEAccountRequest :: CreateACMEAccountRequest where
  "zero_createACMEAccountRequest =
     \<lparr>cac_Contacts = [], cac_TermsOfServiceAgreed = False, cac_KeyThumbprint = [], cac_KeyJWKJSON = []\<rparr>"

definition createACMEOrderRequest_fields :: "CreateACMEOrderRequest field list" where
  "createACMEOrderRequest_fields =
     [str_field ''account_id'' cao_AccountID_update,
      str_field ''identity_id'' cao_IdentityID_update,
      str_field ''issuer_id'' cao_IssuerID_update,
      str_field ''profile_id'' cao_CertificateProfileID_update,
      strs_field ''requested_dns_names'' cao_RequestedDNSNames cao_RequestedDNSNames_update,
      strs_field ''requested_ip_addresses'' cao_RequestedIPAddresses cao_RequestedIPAddresses_update,
      time_field ''requested_not_after'' cao_RequestedNotAfter_update]"

definition zero_createACMEOrderRequest :: CreateACMEOrderRequest where
  "zero_createACMEOrderRequest =
     \<lparr>cao_AccountID = [], cao_IdentityID = [], cao_IssuerID = [], cao_CertificateProfileID = [], cao_RequestedDNSNames = [], cao_RequestedIPAddresses = [], cao_RequestedNotAfter = 0\<rparr>"

record pruneAuditEventsRequest =
  par_Before :: time

definition pruneAuditEventsRequest_fields :: "pruneAuditEventsRequest field list" where
  "pruneAuditEventsRequest_fields =
     [time_field ''before'' par_Before_update]"

definition zero_pruneAuditEventsRequest :: pruneAuditEventsRequest where
  "zero_pruneAuditEventsRequest =
     \<lparr>par_Before = 0\<rparr>"

record approveEnrollmentRequest =
  aer_Reason :: string

definition approveEnrollmentRequest_fields :: "approveEnrollmentRequest field list" where
  "approveEnrollmentRequest_fields =
     [str_field ''reason'' aer_Reason_update]"

definition zero_approveEnrollmentRequest :: approveEnrollmentRequest where
  "zero_approveEnrollmentRequest =
     \<lparr>aer_Reason = []\<rparr>"

record issueCertificateRequest =
  icr_EnrollmentID :: string

definition issueCertificateRequest_fields :: "issueCertificateRequest field list" where
  "issueCertificateRequest_fields =
     [str_field ''enrollment_id'' icr_EnrollmentID_update]"

definition zero_issueCertificateRequest :: issueCertificateRequest where
  "zero_issueCertificateRequest =
     \<lparr>icr_EnrollmentID = []\<rparr>"

record revokeCertificateRequest =
  rcr_Reason :: RevocationReason
  rcr_Force :: bool

definition revokeCertificateRequest_fields :: "revokeCertificateRequest field list" where
  "revokeCertificateRequest_fields =
     [enum_field ''reason'' RevocationReason_of rcr_Reason_update,
      bool_field ''force'' rcr_Force_update]"

definition zero_revokeCertificateRequest :: revokeCertificateRequest where
  "zero_revokeCertificateRequest =
     \<lparr>rcr_Reason = RevocationReasonOther [], rcr_Force = False\<rparr>"

record renewCertificateRequest =
  nwr_CSRPEM :: string
  nwr_RequestedNotAfter :: time

definition renewCertificateRequest_fields :: "renewCertificateRequest field list" where
  "renewCertificateRequest_fields =
     [str_field ''csr_pem'' nwr_CSRPEM_update,
      time_field ''requested_not_after'' nwr_RequestedNotAfter_update]"

definition zero_renewCertificateRequest :: renewCertificateRequest where
  "zero_renewCertificateRequest =
     \<lparr>nwr_CSRPEM = [], nwr_RequestedNotAfter = 0\<rparr>"

record reissueCertificateRequest =
  rir_CSRPEM :: string

definition reissueCertificateRequest_fields :: "reissueCertificateRequest field list" where
  "reissueCertificateRequest_fields =
     [str_field ''csr_pem'' rir_CSRPEM_update]"

definition zero_reissueCertificateRequest :: reissueCertificateRequest where
  "zero_reissueCertificateRequest =
     \<lparr>rir_CSRPEM = []\<rparr>"

record scanCertificateExpirationsRequest =
  sce_WarningWindowSeconds :: int
  sce_Limit :: int

definition scanCertificateExpirationsRequest_fields :: "scanCertificateExpirationsRequest field list" where
  "scanCertificateExpirationsRequest_fields =
     [int_field ''warning_window_seconds'' sce_WarningWindowSeconds_update,
      int_field ''limit'' sce_Limit_update]"

definition zero_scanCertificateExpirationsRequest :: scanCertificateExpirationsRequest where
  "zero_scanCertificateExpirationsRequest =
     \<lparr>sce_WarningWindowSeconds = 0, sce_Limit = 0\<rparr>"

record finalizeACMEOrderRequest =
  fin_CSRPEM :: string
  fin_CSR :: string
  fin_RequestedSubject :: string

definition finalizeACMEOrderRequest_fields :: "finalizeACMEOrderRequest field list" where
  "finalizeACMEOrderRequest_fields =
     [str_field ''csr_pem'' fin_CSRPEM_update,
      str_field ''csr'' fin_CSR_update,
      str_field ''requested_subject'' fin_RequestedSubject_update]"

definition zero_finalizeACMEOrderRequest :: finalizeACMEOrderRequest where
  "zero_finalizeACMEOrderRequest =
     \<lparr>fin_CSRPEM = [], fin_CSR = [], fin_RequestedSubject = []\<rparr>"

record acmeRevokeCertificateRequest =
  arc_CertificateID :: string
  arc_Reason :: RevocationReason

definition acmeRevokeCertificateRequest_fields :: "acmeRevokeCertificateRequest field list" where
  "acmeRevokeCertificateRequest_fields =
     [str_field ''certificate_id'' arc_CertificateID_update,
      enum_field ''reason'' RevocationReason_of arc_Reason_update]"

definition zero_acmeRevokeCertificateRequest :: acmeRevokeCertificateRequest where
  "zero_acmeRevokeCertificateRequest =
     \<lparr>arc_CertificateID = [], arc_Reason = RevocationReasonOther []\<rparr>"

record acmeJWSRequest =
  jwq_Protected :: string
  jwq_Payload :: string
  jwq_Signature :: string

definition acmeJWSRequest_fields :: "acmeJWSRequest field list" where
  "acmeJWSRequest_fields =
     [str_field ''protected'' jwq_Protected_update,
      str_field ''payload'' jwq_Payload_update,
      str_field ''signature'' jwq_Signature_update]"

definition zero_acmeJWSRequest :: acmeJWSRequest where
  "zero_acmeJWSRequest =
     \<lparr>jwq_Protected = [], jwq_Payload = [], jwq_Signature = []\<rparr>"

record acmeJWK =
  jwk_KTY :: string
  jwk_CRV :: string
  jwk_X :: string
  jwk_Y :: string
  jwk_N :: string
  jwk_E :: string

definition acmeJWK_fields :: "acmeJWK field list" where
  "acmeJWK_fields =
     [str_field ''kty'' jwk_KTY_update,
      str_field ''crv'' jwk_CRV_update,
      str_field ''x'' jwk_X_update,
      str_field ''y'' jwk_Y_update,
      str_field ''n'' jwk_N_update,
      str_field ''e'' jwk_E_update]"

definition zero_acmeJWK :: acmeJWK where
  "zero_acmeJWK =
     \<lparr>jwk_KTY = [], jwk_CRV = [], jwk_X = [], jwk_Y = [], jwk_N = [], jwk_E = []\<rparr>"

record acmeNewAccountRequest =
  nac_Contact :: "string list"
  nac_TermsOfServiceAgreed :: bool

definition acmeNewAccountRequest_fields :: "acmeNewAccountRequest field list" where
  "acmeNewAccountRequest_fields =
     [strs_field ''contact'' nac_Contact nac_Contact_update,
      bool_field ''termsOfServiceAgreed'' nac_TermsOfServiceAgreed_update]"

definition zero_acmeNewAccountRequest :: acmeNewAccountRequest where
  "zero_acmeNewAccountRequest =
     \<lparr>nac_Contact = [], nac_TermsOfServiceAgreed = False\<rparr>"

record acmeIdentifierRequest =
  aid_Type :: string
  aid_Value :: string

definition acmeIdentifierRequest_fields :: "acmeIdentifierRequest field list" where
  "acmeIdentifierRequest_fields =
     [str_field ''type'' aid_Type_update,
      str_field ''value'' aid_Value_update]"

definition zero_acmeIdentifierRequest :: acmeIdentifierRequest where
  "zero_acmeIdentifierRequest =
     \<lparr>aid_Type = [], aid_Value = []\<rparr>"

section \<open>Bodies\<close>

text \<open>
  \<open>decodeJSON\<close>: one JSON value of the struct, known members only, and nothing but white space after
  it. A body longer than the limit of \<open>MaxBytesReader\<close> fails in one of the two reads.
\<close>

definition decode_body :: "'r field list \<Rightarrow> 'r \<Rightarrow> string \<Rightarrow> err + 'r" where
  "decode_body fs zero text =
     (case json_decode text of
        None \<Rightarrow> Inl ErrInvalidRequest
      | Some (v, rest) \<Rightarrow>
          (case decode_struct True fs v zero of
             None \<Rightarrow> Inl ErrInvalidRequest
           | Some r \<Rightarrow> if skip_ws rest \<noteq> [] then Inl ErrInvalidRequest else Inr r))"

definition decodeJSON :: "http_request \<Rightarrow> 'r field list \<Rightarrow> 'r \<Rightarrow> (web, herr, 'r) eff" where
  "decodeJSON r fs zero =
     (if requestBodyLimit r < length (rq_Body r) then throwE (Svc ErrInvalidRequest)
      else fromSum (map_sum Svc id (decode_body fs zero (rq_Body r))))"

definition decodeOptionalJSON :: "http_request \<Rightarrow> 'r field list \<Rightarrow> 'r \<Rightarrow> (web, herr, 'r) eff" where
  "decodeOptionalJSON r fs zero =
     (if requestBodyLimit r < length (rq_Body r) then throwE (Svc ErrInvalidRequest)
      else if skip_ws (rq_Body r) = [] then returnE zero
      else fromSum (map_sum Svc id (decode_body fs zero (rq_Body r))))"

section \<open>Responses\<close>

record identityResponse =
  idr_ID :: string
  idr_Type :: IdentityType
  idr_Name :: string
  idr_ExternalID :: string
  idr_Owner :: string
  idr_Team :: string
  idr_Service :: string
  idr_Environment :: string
  idr_DeploymentTarget :: string
  idr_LastSeenAt :: time
  idr_MetadataJSON :: string
  idr_AllowedDNSNames :: "string list"
  idr_AllowedIPAddresses :: "string list"
  idr_Status :: IdentityStatus
  idr_CreatedAt :: time
  idr_UpdatedAt :: time

definition toIdentityResponse :: "Identity \<Rightarrow> identityResponse" where
  "toIdentityResponse x =
     \<lparr>idr_ID = idn_ID x, idr_Type = idn_Type x, idr_Name = idn_Name x, idr_ExternalID = idn_ExternalID x,
      idr_Owner = idn_Owner x, idr_Team = idn_Team x, idr_Service = idn_Service x,
      idr_Environment = idn_Environment x, idr_DeploymentTarget = idn_DeploymentTarget x,
      idr_LastSeenAt = idn_LastSeenAt x, idr_MetadataJSON = idn_MetadataJSON x,
      idr_AllowedDNSNames = idn_AllowedDNSNames x, idr_AllowedIPAddresses = idn_AllowedIPAddresses x,
      idr_Status = idn_Status x, idr_CreatedAt = idn_CreatedAt x, idr_UpdatedAt = idn_UpdatedAt x\<rparr>"

record issuerResponse =
  isr_ID :: string
  isr_Name :: string
  isr_Kind :: IssuerKind
  isr_Status :: IssuerStatus
  isr_ParentIssuerID :: string
  isr_CertificatePEM :: string
  isr_KeyRef :: string
  isr_AIAURL :: string
  isr_CRLDistributionPoints :: "string list"
  isr_TrustAnchor :: bool
  isr_CreatedAt :: time
  isr_UpdatedAt :: time

definition toIssuerResponse :: "Issuer \<Rightarrow> issuerResponse" where
  "toIssuerResponse x =
     \<lparr>isr_ID = iss_ID x, isr_Name = iss_Name x, isr_Kind = iss_Kind x, isr_Status = iss_Status x,
      isr_ParentIssuerID = iss_ParentIssuerID x, isr_CertificatePEM = iss_CertificatePEM x,
      isr_KeyRef = iss_KeyRef x, isr_AIAURL = iss_AIAURL x,
      isr_CRLDistributionPoints = iss_CRLDistributionPoints x, isr_TrustAnchor = iss_TrustAnchor x,
      isr_CreatedAt = iss_CreatedAt x, isr_UpdatedAt = iss_UpdatedAt x\<rparr>"

record ocspResponderResponse =
  orr_ID :: string
  orr_IssuerID :: string
  orr_Name :: string
  orr_Status :: OCSPResponderStatus
  orr_CertificatePEM :: string
  orr_KeyRef :: string
  orr_CreatedAt :: time
  orr_UpdatedAt :: time

definition toOCSPResponderResponse :: "OCSPResponder \<Rightarrow> ocspResponderResponse" where
  "toOCSPResponderResponse x =
     \<lparr>orr_ID = rsp_ID x, orr_IssuerID = rsp_IssuerID x, orr_Name = rsp_Name x, orr_Status = rsp_Status x,
      orr_CertificatePEM = rsp_CertificatePEM x, orr_KeyRef = rsp_KeyRef x, orr_CreatedAt = rsp_CreatedAt x,
      orr_UpdatedAt = rsp_UpdatedAt x\<rparr>"

record notificationEndpointResponse =
  ner_ID :: string
  ner_Name :: string
  ner_Type :: NotificationEndpointType
  ner_Status :: NotificationEndpointStatus
  ner_URL :: string
  ner_EventTypes :: "string list"
  ner_CreatedAt :: time
  ner_UpdatedAt :: time

definition toNotificationEndpointResponse :: "NotificationEndpoint \<Rightarrow> notificationEndpointResponse" where
  "toNotificationEndpointResponse x =
     \<lparr>ner_ID = ep_ID x, ner_Name = ep_Name x, ner_Type = ep_Type x, ner_Status = ep_Status x, ner_URL = ep_URL x,
      ner_EventTypes = ep_EventTypes x, ner_CreatedAt = ep_CreatedAt x, ner_UpdatedAt = ep_UpdatedAt x\<rparr>"

record outboxMessageResponse =
  omr_ID :: string
  omr_Type :: string
  omr_PayloadJSON :: string
  omr_Status :: OutboxMessageStatus
  omr_AvailableAt :: time
  omr_AttemptCount :: int
  omr_MaxAttempts :: int
  omr_LastError :: string
  omr_CreatedAt :: time
  omr_UpdatedAt :: time

definition toOutboxMessageResponse :: "OutboxMessage \<Rightarrow> outboxMessageResponse" where
  "toOutboxMessageResponse x =
     \<lparr>omr_ID = msg_ID x, omr_Type = msg_Type x, omr_PayloadJSON = msg_PayloadJSON x, omr_Status = msg_Status x,
      omr_AvailableAt = msg_AvailableAt x, omr_AttemptCount = msg_AttemptCount x,
      omr_MaxAttempts = msg_MaxAttempts x, omr_LastError = msg_LastError x, omr_CreatedAt = msg_CreatedAt x,
      omr_UpdatedAt = msg_UpdatedAt x\<rparr>"

record certificateInventoryEntryResponse =
  cer2_CertificateID :: string
  cer2_Owner :: string
  cer2_Team :: string
  cer2_Service :: string
  cer2_Environment :: string
  cer2_DeploymentTarget :: string
  cer2_IssuerID :: string
  cer2_ProfileID :: string
  cer2_IssuerKeyRef :: string
  cer2_RevocationState :: string
  cer2_LastSeenAt :: time
  cer2_CompletenessWarnings :: "string list"

definition toCertificateInventoryResponse :: "CertificateInventoryEntry \<Rightarrow> certificateInventoryEntryResponse" where
  "toCertificateInventoryResponse x =
     \<lparr>cer2_CertificateID = cie_CertificateID x, cer2_Owner = cie_Owner x, cer2_Team = cie_Team x,
      cer2_Service = cie_Service x, cer2_Environment = cie_Environment x,
      cer2_DeploymentTarget = cie_DeploymentTarget x, cer2_IssuerID = cie_IssuerID x,
      cer2_ProfileID = cie_ProfileID x, cer2_IssuerKeyRef = cie_IssuerKeyRef x,
      cer2_RevocationState = cie_RevocationState x, cer2_LastSeenAt = cie_LastSeenAt x,
      cer2_CompletenessWarnings = cie_CompletenessWarnings x\<rparr>"

record expirySLOResponse =
  esr_WindowDays :: int
  esr_UnhandledCount :: int
  esr_UnhandledIDs :: "string list"
  esr_OK :: bool

definition toExpirySLOResponse :: "ExpirySLO_report \<Rightarrow> expirySLOResponse" where
  "toExpirySLOResponse x =
     \<lparr>esr_WindowDays = slo_WindowDays x, esr_UnhandledCount = slo_UnhandledCount x,
      esr_UnhandledIDs = slo_UnhandledIDs x, esr_OK = slo_OK x\<rparr>"

record certificateProfileResponse =
  cpr_ID :: string
  cpr_Name :: string
  cpr_Description :: string
  cpr_IssuerID :: string
  cpr_ValidityPeriodSeconds :: int
  cpr_PublicTLS :: bool
  cpr_SubjectTemplate :: string
  cpr_AllowedDNSPatterns :: "string list"
  cpr_AllowedIPRanges :: "string list"
  cpr_AllowedKeyAlgorithms :: "string list"
  cpr_MinKeySizeBits :: int
  cpr_AllowedSignatureAlgorithms :: "string list"
  cpr_KeyUsage :: StringListExtensionPolicy
  cpr_ExtendedKeyUsage :: StringListExtensionPolicy
  cpr_BasicConstraints :: BasicConstraintsPolicy
  cpr_SubjectKeyIdentifier :: bool
  cpr_AuthorityKeyIdentifier :: bool
  cpr_CreatedAt :: time
  cpr_UpdatedAt :: time

definition toCertificateProfileResponse :: "CertificateProfile \<Rightarrow> certificateProfileResponse" where
  "toCertificateProfileResponse x =
     \<lparr>cpr_ID = prof_ID x, cpr_Name = prof_Name x, cpr_Description = prof_Description x,
      cpr_IssuerID = prof_IssuerID x, cpr_ValidityPeriodSeconds = prof_ValidityPeriodSeconds x,
      cpr_PublicTLS = prof_PublicTLS x, cpr_SubjectTemplate = prof_SubjectTemplate x,
      cpr_AllowedDNSPatterns = prof_AllowedDNSPatterns x, cpr_AllowedIPRanges = prof_AllowedIPRanges x,
      cpr_AllowedKeyAlgorithms = prof_AllowedKeyAlgorithms x, cpr_MinKeySizeBits = prof_MinKeySizeBits x,
      cpr_AllowedSignatureAlgorithms = prof_AllowedSignatureAlgorithms x, cpr_KeyUsage = prof_KeyUsage x,
      cpr_ExtendedKeyUsage = prof_ExtendedKeyUsage x, cpr_BasicConstraints = prof_BasicConstraints x,
      cpr_SubjectKeyIdentifier = prof_SubjectKeyIdentifier x,
      cpr_AuthorityKeyIdentifier = prof_AuthorityKeyIdentifier x, cpr_CreatedAt = prof_CreatedAt x,
      cpr_UpdatedAt = prof_UpdatedAt x\<rparr>"

record enrollmentResponse =
  enrr_ID :: string
  enrr_IdentityID :: string
  enrr_IssuerID :: string
  enrr_CertificateProfileID :: string
  enrr_SourceCertificateID :: string
  enrr_CSRPEM :: string
  enrr_Status :: EnrollmentStatus
  enrr_RequestedSubject :: string
  enrr_RequestedDNSNames :: "string list"
  enrr_RequestedIPAddresses :: "string list"
  enrr_CSRDNSNames :: "string list"
  enrr_CSRIPAddresses :: "string list"
  enrr_RequestedNotAfter :: time
  enrr_ApprovedBy :: string
  enrr_ApprovedAt :: time
  enrr_CreatedAt :: time
  enrr_UpdatedAt :: time

definition toEnrollmentResponse :: "Enrollment \<Rightarrow> enrollmentResponse" where
  "toEnrollmentResponse x =
     \<lparr>enrr_ID = enr_ID x, enrr_IdentityID = enr_IdentityID x, enrr_IssuerID = enr_IssuerID x,
      enrr_CertificateProfileID = enr_CertificateProfileID x, enrr_SourceCertificateID = enr_SourceCertificateID x,
      enrr_CSRPEM = enr_CSRPEM x, enrr_Status = enr_Status x, enrr_RequestedSubject = enr_RequestedSubject x,
      enrr_RequestedDNSNames = enr_RequestedDNSNames x, enrr_RequestedIPAddresses = enr_RequestedIPAddresses x,
      enrr_CSRDNSNames = enr_CSRDNSNames x, enrr_CSRIPAddresses = enr_CSRIPAddresses x,
      enrr_RequestedNotAfter = enr_RequestedNotAfter x, enrr_ApprovedBy = enr_ApprovedBy x,
      enrr_ApprovedAt = enr_ApprovedAt x, enrr_CreatedAt = enr_CreatedAt x, enrr_UpdatedAt = enr_UpdatedAt x\<rparr>"

record certificateResponse =
  ctr_ID :: string
  ctr_IdentityID :: string
  ctr_IssuerID :: string
  ctr_EnrollmentID :: string
  ctr_CertificateProfileID :: string
  ctr_SerialNumber :: string
  ctr_Subject :: string
  ctr_DNSNames :: "string list"
  ctr_IPAddresses :: "string list"
  ctr_NotBefore :: time
  ctr_NotAfter :: time
  ctr_Status :: CertificateStatus
  ctr_CertificatePEM :: string
  ctr_RenewalNotifiedAt :: time
  ctr_CreatedAt :: time
  ctr_UpdatedAt :: time

definition toCertificateResponse :: "Certificate \<Rightarrow> certificateResponse" where
  "toCertificateResponse x =
     \<lparr>ctr_ID = cert_ID x, ctr_IdentityID = cert_IdentityID x, ctr_IssuerID = cert_IssuerID x,
      ctr_EnrollmentID = cert_EnrollmentID x, ctr_CertificateProfileID = cert_CertificateProfileID x,
      ctr_SerialNumber = cert_SerialNumber x, ctr_Subject = cert_Subject x, ctr_DNSNames = cert_DNSNames x,
      ctr_IPAddresses = cert_IPAddresses x, ctr_NotBefore = cert_NotBefore x, ctr_NotAfter = cert_NotAfter x,
      ctr_Status = cert_Status x, ctr_CertificatePEM = cert_CertificatePEM x,
      ctr_RenewalNotifiedAt = cert_RenewalNotifiedAt x, ctr_CreatedAt = cert_CreatedAt x,
      ctr_UpdatedAt = cert_UpdatedAt x\<rparr>"

record crlPublicationResponse =
  crr_ID :: string
  crr_IssuerID :: string
  crr_DistributionPoint :: string
  crr_CRLNumber :: int
  crr_ThisUpdate :: time
  crr_NextUpdate :: time
  crr_Status :: CRLPublicationStatus
  crr_CRLPEM :: string
  crr_CreatedAt :: time
  crr_UpdatedAt :: time

definition toCRLPublicationResponse :: "CRLPublication \<Rightarrow> crlPublicationResponse" where
  "toCRLPublicationResponse x =
     \<lparr>crr_ID = crl_ID x, crr_IssuerID = crl_IssuerID x, crr_DistributionPoint = crl_DistributionPoint x,
      crr_CRLNumber = crl_CRLNumber x, crr_ThisUpdate = crl_ThisUpdate x, crr_NextUpdate = crl_NextUpdate x,
      crr_Status = crl_Status x, crr_CRLPEM = crl_CRLPEM x, crr_CreatedAt = crl_CreatedAt x,
      crr_UpdatedAt = crl_UpdatedAt x\<rparr>"

record auditEventResponse =
  aur_ID :: string
  aur_Sequence :: int
  aur_Actor :: string
  aur_Action :: string
  aur_ResourceType :: string
  aur_ResourceID :: string
  aur_MetadataJSON :: string
  aur_HashAlgorithm :: string
  aur_PreviousEventHash :: string
  aur_EventHash :: string
  aur_CreatedAt :: time

definition toAuditEventResponse :: "AuditEvent \<Rightarrow> auditEventResponse" where
  "toAuditEventResponse x =
     \<lparr>aur_ID = ev_ID x, aur_Sequence = ev_Sequence x, aur_Actor = ev_Actor x, aur_Action = ev_Action x,
      aur_ResourceType = ev_ResourceType x, aur_ResourceID = ev_ResourceID x, aur_MetadataJSON = ev_MetadataJSON x,
      aur_HashAlgorithm = ev_HashAlgorithm x, aur_PreviousEventHash = ev_PreviousEventHash x,
      aur_EventHash = ev_EventHash x, aur_CreatedAt = ev_CreatedAt x\<rparr>"

record auditIntegrityResponse =
  air_Valid :: bool
  air_HashAlgorithm :: string
  air_EventCount :: int
  air_FirstSequence :: int
  air_LastSequence :: int
  air_LastEventHash :: string
  air_CheckpointSequence :: int
  air_CheckpointEventHash :: string
  air_FailureReason :: string

definition toAuditIntegrityResponse :: "AuditIntegrity \<Rightarrow> auditIntegrityResponse" where
  "toAuditIntegrityResponse x =
     \<lparr>air_Valid = rep_Valid x, air_HashAlgorithm = rep_HashAlgorithm x, air_EventCount = rep_EventCount x,
      air_FirstSequence = rep_FirstSequence x, air_LastSequence = rep_LastSequence x,
      air_LastEventHash = rep_LastEventHash x, air_CheckpointSequence = rep_CheckpointSequence x,
      air_CheckpointEventHash = rep_CheckpointEventHash x, air_FailureReason = rep_FailureReason x\<rparr>"

record acmeAccountResponse =
  aar_ID :: string
  aar_Contacts :: "string list"
  aar_Status :: ACMEAccountStatus
  aar_TermsOfServiceAgreed :: bool
  aar_CreatedAt :: time
  aar_UpdatedAt :: time

definition toACMEAccountResponse :: "ACMEAccount \<Rightarrow> acmeAccountResponse" where
  "toACMEAccountResponse x =
     \<lparr>aar_ID = acct_ID x, aar_Contacts = acct_Contacts x, aar_Status = acct_Status x,
      aar_TermsOfServiceAgreed = acct_TermsOfServiceAgreed x, aar_CreatedAt = acct_CreatedAt x,
      aar_UpdatedAt = acct_UpdatedAt x\<rparr>"

record acmeOrderResponse =
  aor_ID :: string
  aor_AccountID :: string
  aor_IdentityID :: string
  aor_IssuerID :: string
  aor_CertificateProfileID :: string
  aor_Status :: ACMEOrderStatus
  aor_CSRPEM :: string
  aor_RequestedSubject :: string
  aor_RequestedDNSNames :: "string list"
  aor_RequestedIPAddresses :: "string list"
  aor_RequestedNotAfter :: time
  aor_EnrollmentID :: string
  aor_CertificateID :: string
  aor_ExpiresAt :: time
  aor_CreatedAt :: time
  aor_UpdatedAt :: time

definition toACMEOrderResponse :: "ACMEOrder \<Rightarrow> acmeOrderResponse" where
  "toACMEOrderResponse x =
     \<lparr>aor_ID = ord_ID x, aor_AccountID = ord_AccountID x, aor_IdentityID = ord_IdentityID x,
      aor_IssuerID = ord_IssuerID x, aor_CertificateProfileID = ord_CertificateProfileID x,
      aor_Status = ord_Status x, aor_CSRPEM = ord_CSRPEM x, aor_RequestedSubject = ord_RequestedSubject x,
      aor_RequestedDNSNames = ord_RequestedDNSNames x, aor_RequestedIPAddresses = ord_RequestedIPAddresses x,
      aor_RequestedNotAfter = ord_RequestedNotAfter x, aor_EnrollmentID = ord_EnrollmentID x,
      aor_CertificateID = ord_CertificateID x, aor_ExpiresAt = ord_ExpiresAt x, aor_CreatedAt = ord_CreatedAt x,
      aor_UpdatedAt = ord_UpdatedAt x\<rparr>"

record acmeAuthorizationResponse =
  azr2_ID :: string
  azr2_OrderID :: string
  azr2_IdentifierType :: string
  azr2_IdentifierValue :: string
  azr2_Status :: ACMEAuthorizationStatus
  azr2_ExpiresAt :: time
  azr2_ValidationReuseExpiresAt :: time
  azr2_CreatedAt :: time
  azr2_UpdatedAt :: time

definition toACMEAuthorizationResponse :: "ACMEAuthorization \<Rightarrow> acmeAuthorizationResponse" where
  "toACMEAuthorizationResponse x =
     \<lparr>azr2_ID = authz_ID x, azr2_OrderID = authz_OrderID x, azr2_IdentifierType = authz_IdentifierType x,
      azr2_IdentifierValue = authz_IdentifierValue x, azr2_Status = authz_Status x,
      azr2_ExpiresAt = authz_ExpiresAt x, azr2_ValidationReuseExpiresAt = authz_ValidationReuseExpiresAt x,
      azr2_CreatedAt = authz_CreatedAt x, azr2_UpdatedAt = authz_UpdatedAt x\<rparr>"

record acmeChallengeResponse =
  achr_ID :: string
  achr_AuthorizationID :: string
  achr_Type :: ACMEChallengeType
  achr_Token :: string
  achr_Status :: ACMEChallengeStatus
  achr_ValidatedAt :: time
  achr_CreatedAt :: time
  achr_UpdatedAt :: time

definition toACMEChallengeResponse :: "ACMEChallenge \<Rightarrow> acmeChallengeResponse" where
  "toACMEChallengeResponse x =
     \<lparr>achr_ID = chal_ID x, achr_AuthorizationID = chal_AuthorizationID x, achr_Type = chal_Type x,
      achr_Token = chal_Token x, achr_Status = chal_Status x, achr_ValidatedAt = chal_ValidatedAt x,
      achr_CreatedAt = chal_CreatedAt x, achr_UpdatedAt = chal_UpdatedAt x\<rparr>"

record apiKeyResponse =
  akp_ID :: string
  akp_Name :: string
  akp_Actor :: string
  akp_Status :: APIKeyStatus
  akp_Scopes :: "APIKeyScope list"
  akp_ExpiresAt :: time
  akp_LastUsedAt :: time
  akp_TokenFingerprint :: string
  akp_Token :: string
  akp_TokenHash :: string
  akp_CreatedAt :: time
  akp_UpdatedAt :: time

text \<open>The struct has a field for the hash of the token, which is never filled.\<close>

definition toAPIKeyResponse :: "APIKey \<Rightarrow> apiKeyResponse" where
  "toAPIKeyResponse key =
     \<lparr>akp_ID = key_ID key, akp_Name = key_Name key, akp_Actor = key_Actor key, akp_Status = key_Status key,
      akp_Scopes = key_Scopes key, akp_ExpiresAt = key_ExpiresAt key, akp_LastUsedAt = key_LastUsedAt key,
      akp_TokenFingerprint = APIKeyTokenFingerprint (key_TokenHash key), akp_Token = [], akp_TokenHash = [],
      akp_CreatedAt = key_CreatedAt key, akp_UpdatedAt = key_UpdatedAt key\<rparr>"

definition toAPIKeyResponseWithToken :: "APIKey \<Rightarrow> string \<Rightarrow> apiKeyResponse" where
  "toAPIKeyResponseWithToken key token = (toAPIKeyResponse key)\<lparr>akp_Token := token\<rparr>"

record replayDeadLetterOutboxResponse =
  rdr_ReplayedCount :: int
  rdr_MessageIDs :: "string list"

definition toReplayDeadLetterOutboxResponse :: "OutboxMessage list \<Rightarrow> replayDeadLetterOutboxResponse" where
  "toReplayDeadLetterOutboxResponse messages =
     \<lparr>rdr_ReplayedCount = int (length messages), rdr_MessageIDs = map msg_ID messages\<rparr>"

record certificateExpirationScanResponse =
  csr_Expired :: "certificateResponse list"
  csr_ExpirationWarnings :: "certificateResponse list"

definition toCertificateExpirationScanResponse ::
  "CertificateExpirationScanResult \<Rightarrow> certificateExpirationScanResponse" where
  "toCertificateExpirationScanResponse result =
     \<lparr>csr_Expired = map toCertificateResponse (scan_Expired result),
      csr_ExpirationWarnings = map toCertificateResponse (scan_ExpirationWarnings result)\<rparr>"

record acmeProtocolAccountResponse =
  pac_ID :: string
  pac_Status :: string
  pac_Contact :: "string list"
  pac_Location :: string

record acmeProtocolIdentifierResponse =
  pid_Type :: string
  pid_Value :: string

record acmeProtocolOrderResponse =
  pod_ID :: string
  pod_Status :: string
  pod_URL :: string
  pod_Identifiers :: "acmeProtocolIdentifierResponse list"
  pod_Authorizations :: "string list"
  pod_Finalize :: string
  pod_Certificate :: string
  pod_Expires :: time

record acmeProtocolChallengeResponse =
  pch_ID :: string
  pch_Type :: string
  pch_URL :: string
  pch_Token :: string
  pch_Status :: string

record acmeProtocolAuthorizationResponse =
  paz_ID :: string
  paz_Status :: string
  paz_Identifier :: acmeProtocolIdentifierResponse
  paz_Challenges :: "acmeProtocolChallengeResponse list"
  paz_Expires :: time

record acmeProblem =
  apr_Type :: string
  apr_Title :: string
  apr_Status :: int
  apr_Detail :: string

section \<open>What a handler answers\<close>

datatype payload =
    P_error string
  | P_problem acmeProblem
  | P_identity identityResponse
  | P_identities "identityResponse list"
  | P_issuer issuerResponse
  | P_issuers "issuerResponse list"
  | P_responder ocspResponderResponse
  | P_responders "ocspResponderResponse list"
  | P_endpoint notificationEndpointResponse
  | P_endpoints "notificationEndpointResponse list"
  | P_message outboxMessageResponse
  | P_messages "outboxMessageResponse list"
  | P_replayed replayDeadLetterOutboxResponse
  | P_inventory "certificateInventoryEntryResponse list"
  | P_slo expirySLOResponse
  | P_apiKey apiKeyResponse
  | P_apiKeys "apiKeyResponse list"
  | P_profile certificateProfileResponse
  | P_profiles "certificateProfileResponse list"
  | P_enrollment enrollmentResponse
  | P_enrollments "enrollmentResponse list"
  | P_certificate certificateResponse
  | P_certificates "certificateResponse list"
  | P_scan certificateExpirationScanResponse
  | P_crl crlPublicationResponse
  | P_auditEvents "auditEventResponse list"
  | P_integrity auditIntegrityResponse
  | P_repaired int
  | P_pruned int
  | P_acmeAccount acmeAccountResponse
  | P_acmeAccounts "acmeAccountResponse list"
  | P_acmeOrder acmeOrderResponse
  | P_acmeAuthorizations "acmeAuthorizationResponse list"
  | P_acmeChallenge acmeChallengeResponse
  | P_acmeChallenges "acmeChallengeResponse list"
  | P_directory "(string \<times> string) list"
  | P_account acmeProtocolAccountResponse
  | P_order acmeProtocolOrderResponse
  | P_authorization acmeProtocolAuthorizationResponse
  | P_challenge acmeProtocolChallengeResponse
  | P_empty

datatype body =
    NoBody
  | JSON payload
  | Text string
  | Vars "int gomap" "int gomap"

record response =
  rs_Status :: int
  rs_Header :: "(string \<times> string) list"
  rs_Body :: body

definition writeJSON :: "(string \<times> string) list \<Rightarrow> int \<Rightarrow> payload \<Rightarrow> response" where
  "writeJSON header status v =
     \<lparr>rs_Status = status, rs_Header = header @ [(''Content-Type'', ''application/json'')], rs_Body = JSON v\<rparr>"

end
