(* ===== verification/HttpHandlers.thy ===== *)
theory HttpHandlers
  imports HttpJson Certificates Enrollments
begin

text \<open>
  The handlers of \<open>service/internal/httpapi/server.go\<close>. A handler decodes the request, calls the
  service with the context and the actor of the request, and answers; an error is raised and
  becomes the answer in \<open>writeError\<close>, as every handler of the source calls it and returns.
\<close>

type_synonym handler = "server \<Rightarrow> hreq \<Rightarrow> (string \<times> string) list \<Rightarrow> (web, herr, response) eff"

definition PathValue :: "(string \<times> string) list \<Rightarrow> string \<Rightarrow> string" where
  "PathValue b name = (case map_of b name of None \<Rightarrow> [] | Some v \<Rightarrow> v)"

definition serviceCall ::
  "server \<Rightarrow> hreq \<Rightarrow> (service \<Rightarrow> request_ctx \<Rightarrow> string \<Rightarrow> (world, err, 'a) eff) \<Rightarrow> (web, herr, 'a) eff" where
  "serviceCall srv q f = worldE (f (srv_service srv) (hr_ctx q) (requestActor q))"

definition answer :: "int \<Rightarrow> ('a \<Rightarrow> payload) \<Rightarrow> (web, herr, 'a) eff \<Rightarrow> (web, herr, response) eff" where
  "answer status f m = bindE m (\<lambda>x. returnE (writeJSON [] status (f x)))"

section \<open>Query options\<close>

definition paginationFromQuery :: "http_request \<Rightarrow> err + (int \<times> int)" where
  "paginationFromQuery r =
     (let rawLimit = query_Get r ''limit''; rawOffset = query_Get r ''offset'' in
      case (if rawLimit = [] then Some 0
            else case Atoi rawLimit of None \<Rightarrow> None | Some n \<Rightarrow> if n < 1 then None else Some n) of
        None \<Rightarrow> Inl ErrInvalidRequest
      | Some limit \<Rightarrow>
          if rawOffset = [] then Inr (limit, 0)
          else if limit = 0 then Inl ErrInvalidRequest
          else (case Atoi rawOffset of
                  None \<Rightarrow> Inl ErrInvalidRequest
                | Some n \<Rightarrow> if n < 0 then Inl ErrInvalidRequest else Inr (limit, n)))"

definition paginationAndSortFromQuery :: "http_request \<Rightarrow> err + (string \<times> int \<times> int)" where
  "paginationAndSortFromQuery r =
     (let srt = query_Get r ''sort'' in
      if srt \<noteq> [] \<and> srt \<noteq> ''asc'' \<and> srt \<noteq> ''desc'' then Inl ErrInvalidRequest
      else case paginationFromQuery r of
        Inl e \<Rightarrow> Inl e
      | Inr (limit, offset) \<Rightarrow> Inr (srt, limit, offset))"

definition identityListOptionsFromQuery :: "http_request \<Rightarrow> err + IdentityListOptions" where
  "identityListOptionsFromQuery r =
     (case paginationAndSortFromQuery r of
        Inl e \<Rightarrow> Inl e
      | Inr (srt, limit, offset) \<Rightarrow>
          Inr \<lparr>ilo_Owner = query_Get r ''owner'', ilo_Team = query_Get r ''team'',
               ilo_Service = query_Get r ''service'', ilo_Environment = query_Get r ''environment'',
               ilo_Sort = srt, ilo_Limit = limit, ilo_Offset = offset\<rparr>)"

definition enrollmentListOptionsFromQuery :: "http_request \<Rightarrow> err + EnrollmentListOptions" where
  "enrollmentListOptionsFromQuery r =
     (case paginationAndSortFromQuery r of
        Inl e \<Rightarrow> Inl e
      | Inr (srt, limit, offset) \<Rightarrow>
          Inr \<lparr>elo_IdentityID = query_Get r ''identity_id'', elo_IssuerID = query_Get r ''issuer_id'',
               elo_ProfileID = query_Get r ''profile_id'', elo_Status = EnrollmentStatus_of (query_Get r ''status''),
               elo_Sort = srt, elo_Limit = limit, elo_Offset = offset\<rparr>)"

text \<open>The day windows are those of \<open>isAllowedExpiryWindowDays\<close>, which the service has too.\<close>

definition certificateListOptionsFromQuery :: "http_request \<Rightarrow> err + CertificateListOptions" where
  "certificateListOptionsFromQuery r =
     (case paginationAndSortFromQuery r of
        Inl e \<Rightarrow> Inl e
      | Inr (srt, limit, offset) \<Rightarrow>
          let opts = \<lparr>clo_Owner = query_Get r ''owner'', clo_Team = query_Get r ''team'',
                clo_Service = query_Get r ''service'', clo_Environment = query_Get r ''environment'',
                clo_IssuerID = query_Get r ''issuer_id'', clo_ProfileID = query_Get r ''profile_id'',
                clo_SAN = query_Get r ''san'', clo_RevocationState = query_Get r ''revocation_state'',
                clo_RenewalState = query_Get r ''renewal_state'', clo_ExpiresWithinDays = 0,
                clo_Sort = srt, clo_Limit = limit, clo_Offset = offset\<rparr>;
              raw = query_Get r ''expires_within_days'' in
          if raw = [] then Inr opts
          else case Atoi raw of
            None \<Rightarrow> Inl ErrInvalidRequest
          | Some days \<Rightarrow>
              if days < 1 \<or> \<not> isAllowedExpiryWindowDays days then Inl ErrInvalidRequest
              else Inr (opts\<lparr>clo_ExpiresWithinDays := days\<rparr>))"

definition time_from_query :: "http_request \<Rightarrow> string \<Rightarrow> err + time" where
  "time_from_query r name =
     (let raw = query_Get r name in
      if raw = [] then Inr 0
      else case ParseRFC3339 raw of None \<Rightarrow> Inl ErrInvalidRequest | Some t \<Rightarrow> Inr t)"

definition outboxMessageListOptionsFromQuery :: "http_request \<Rightarrow> err + OutboxMessageListOptions" where
  "outboxMessageListOptionsFromQuery r =
     (case (paginationAndSortFromQuery r, time_from_query r ''from'', time_from_query r ''to'') of
        (Inr (srt, limit, offset), Inr from, Inr to) \<Rightarrow>
          Inr \<lparr>oml_Status = OutboxMessageStatus_of (query_Get r ''status''), oml_Type = query_Get r ''type'',
               oml_CreatedFrom = from, oml_CreatedTo = to, oml_Sort = srt, oml_Limit = limit, oml_Offset = offset\<rparr>
      | _ \<Rightarrow> Inl ErrInvalidRequest)"

definition certificateInventoryOptionsFromQuery :: "http_request \<Rightarrow> err + CertificateInventoryFilter" where
  "certificateInventoryOptionsFromQuery r =
     (case paginationAndSortFromQuery r of
        Inl e \<Rightarrow> Inl e
      | Inr (srt, limit, offset) \<Rightarrow>
          Inr \<lparr>cif_Owner = query_Get r ''owner'', cif_Team = query_Get r ''team'',
               cif_Service = query_Get r ''service'', cif_Environment = query_Get r ''environment'',
               cif_IssuerID = query_Get r ''issuer_id'', cif_ProfileID = query_Get r ''profile_id'',
               cif_RevocationState = query_Get r ''revocation_state'',
               cif_Sort = srt, cif_Limit = limit, cif_Offset = offset\<rparr>)"

definition auditEventQueryFromRequest :: "http_request \<Rightarrow> err + AuditEventQuery" where
  "auditEventQueryFromRequest r =
     (case (paginationAndSortFromQuery r, time_from_query r ''from'', time_from_query r ''to'') of
        (Inr (srt, limit, offset), Inr from, Inr to) \<Rightarrow>
          Inr \<lparr>aeq_Actor = query_Get r ''actor'', aeq_Action = query_Get r ''action'',
               aeq_ResourceType = query_Get r ''resource_type'', aeq_ResourceID = query_Get r ''resource_id'',
               aeq_CreatedFrom = from, aeq_CreatedTo = to, aeq_Sort = srt, aeq_Limit = limit, aeq_Offset = offset\<rparr>
      | _ \<Rightarrow> Inl ErrInvalidRequest)"

abbreviation options :: "err + 'a \<Rightarrow> (web, herr, 'a) eff" where
  "options r \<equiv> fromSum (map_sum Svc id r)"

section \<open>Identities, issuers, responders, endpoints\<close>

definition createIdentity_handler :: handler where
  "createIdentity_handler srv q b =
     bindE (decodeJSON (hr_request q) createIdentityRequest_fields zero_createIdentityRequest) (\<lambda>req.
     answer 201 (\<lambda>x. P_identity (toIdentityResponse x)) (serviceCall srv q (\<lambda>svc ctx actor. CreateIdentity svc ctx actor req)))"

definition listIdentities_handler :: handler where
  "listIdentities_handler srv q b =
     bindE (options (identityListOptionsFromQuery (hr_request q))) (\<lambda>opts.
     answer 200 (\<lambda>xs. P_identities (map toIdentityResponse xs)) (worldE (ListIdentitiesQuery opts)))"

definition getIdentity_handler :: handler where
  "getIdentity_handler srv q b =
     answer 200 (\<lambda>x. P_identity (toIdentityResponse x)) (worldE (repoE (repo_GetIdentity (PathValue b ''id''))))"

definition createIssuer_handler :: handler where
  "createIssuer_handler srv q b =
     bindE (decodeJSON (hr_request q) createIssuerRequest_fields zero_createIssuerRequest) (\<lambda>req.
     answer 201 (\<lambda>x. P_issuer (toIssuerResponse x)) (serviceCall srv q (\<lambda>svc ctx actor. CreateIssuer svc ctx actor req)))"

definition getIssuerChain_handler :: handler where
  "getIssuerChain_handler srv q b =
     answer 200 (\<lambda>xs. P_issuers (map toIssuerResponse xs)) (worldE (GetIssuerChain (PathValue b ''id'')))"

definition createOCSPResponder_handler :: handler where
  "createOCSPResponder_handler srv q b =
     bindE (decodeJSON (hr_request q) createOCSPResponderRequest_fields zero_createOCSPResponderRequest) (\<lambda>req.
     answer 201 (\<lambda>x. P_responder (toOCSPResponderResponse x)) (serviceCall srv q (\<lambda>svc ctx actor.
       CreateOCSPResponder svc ctx actor (req\<lparr>cor_IssuerID := PathValue b ''id''\<rparr>))))"

definition listOCSPResponders_handler :: handler where
  "listOCSPResponders_handler srv q b =
     answer 200 (\<lambda>xs. P_responders (map toOCSPResponderResponse xs)) (worldE (ListOCSPRespondersByIssuer (PathValue b ''id'')))"

definition disableOCSPResponder_handler :: handler where
  "disableOCSPResponder_handler srv q b =
     answer 200 (\<lambda>x. P_responder (toOCSPResponderResponse x)) (serviceCall srv q (\<lambda>svc ctx actor.
       DisableOCSPResponder svc ctx actor (PathValue b ''id'') (PathValue b ''responderID'')))"

definition rotateOCSPResponder_handler :: handler where
  "rotateOCSPResponder_handler srv q b =
     bindE (decodeJSON (hr_request q) createOCSPResponderRequest_fields zero_createOCSPResponderRequest) (\<lambda>req.
     answer 201 (\<lambda>x. P_responder (toOCSPResponderResponse x)) (serviceCall srv q (\<lambda>svc ctx actor.
       RotateOCSPResponder svc ctx actor (req\<lparr>cor_IssuerID := PathValue b ''id''\<rparr>))))"

definition createNotificationEndpoint_handler :: handler where
  "createNotificationEndpoint_handler srv q b =
     bindE (decodeJSON (hr_request q) createNotificationEndpointRequest_fields zero_createNotificationEndpointRequest) (\<lambda>req.
     answer 201 (\<lambda>x. P_endpoint (toNotificationEndpointResponse x)) (serviceCall srv q (\<lambda>svc ctx actor.
       CreateNotificationEndpoint svc ctx actor req)))"

definition listNotificationEndpoints_handler :: handler where
  "listNotificationEndpoints_handler srv q b =
     answer 200 (\<lambda>xs. P_endpoints (map toNotificationEndpointResponse xs)) (worldE (repoE repo_ListNotificationEndpoints))"

definition disableNotificationEndpoint_handler :: handler where
  "disableNotificationEndpoint_handler srv q b =
     answer 200 (\<lambda>x. P_endpoint (toNotificationEndpointResponse x)) (serviceCall srv q (\<lambda>svc ctx actor.
       DisableNotificationEndpoint svc ctx actor (PathValue b ''id'')))"

section \<open>Outbox and API keys\<close>

definition listOutboxMessages_handler :: handler where
  "listOutboxMessages_handler srv q b =
     bindE (options (outboxMessageListOptionsFromQuery (hr_request q))) (\<lambda>opts.
     answer 200 (\<lambda>xs. P_messages (map toOutboxMessageResponse xs)) (worldE (ListOutboxMessagesQuery opts)))"

definition retryOutboxMessage_handler :: handler where
  "retryOutboxMessage_handler srv q b =
     answer 200 (\<lambda>x. P_message (toOutboxMessageResponse x)) (serviceCall srv q (\<lambda>svc ctx actor.
       RetryOutboxMessage svc ctx actor (PathValue b ''id'')))"

definition replayDeadLetterOutboxMessages_handler :: handler where
  "replayDeadLetterOutboxMessages_handler srv q b =
     bindE (decodeJSON (hr_request q) replayDeadLetterOutboxRequest_fields zero_replayDeadLetterOutboxRequest) (\<lambda>req.
     answer 200 (\<lambda>xs. P_replayed (toReplayDeadLetterOutboxResponse xs)) (serviceCall srv q (\<lambda>svc ctx actor.
       ReplayDeadLetterOutboxMessages svc ctx actor req)))"

definition createAPIKey_handler :: handler where
  "createAPIKey_handler srv q b =
     bindE (decodeJSON (hr_request q) createAPIKeyRequest_fields zero_createAPIKeyRequest) (\<lambda>req.
     answer 201 (\<lambda>x. P_apiKey (toAPIKeyResponseWithToken (akr_Key x) (akr_Token x))) (serviceCall srv q (\<lambda>svc ctx actor.
       CreateAPIKey svc ctx actor req)))"

definition listAPIKeys_handler :: handler where
  "listAPIKeys_handler srv q b = answer 200 (\<lambda>xs. P_apiKeys (map toAPIKeyResponse xs)) (worldE ListAPIKeys)"

definition disableAPIKey_handler :: handler where
  "disableAPIKey_handler srv q b =
     answer 200 (\<lambda>x. P_apiKey (toAPIKeyResponse x)) (serviceCall srv q (\<lambda>svc ctx actor.
       DisableAPIKey svc ctx actor (PathValue b ''id'')))"

definition rotateAPIKey_handler :: handler where
  "rotateAPIKey_handler srv q b =
     answer 201 (\<lambda>x. P_apiKey (toAPIKeyResponseWithToken (akr_Key x) (akr_Token x))) (serviceCall srv q (\<lambda>svc ctx actor.
       RotateAPIKey svc ctx actor (PathValue b ''id'')))"

section \<open>Profiles and enrollments\<close>

definition createCertificateProfile_handler :: handler where
  "createCertificateProfile_handler srv q b =
     bindE (decodeJSON (hr_request q) createCertificateProfileRequest_fields zero_createCertificateProfileRequest) (\<lambda>req.
     answer 201 (\<lambda>x. P_profile (toCertificateProfileResponse x)) (serviceCall srv q (\<lambda>svc ctx actor.
       CreateCertificateProfile svc ctx actor req)))"

definition listCertificateProfiles_handler :: handler where
  "listCertificateProfiles_handler srv q b =
     answer 200 (\<lambda>xs. P_profiles (map toCertificateProfileResponse xs)) (worldE (repoE repo_ListCertificateProfiles))"

definition getCertificateProfile_handler :: handler where
  "getCertificateProfile_handler srv q b =
     answer 200 (\<lambda>x. P_profile (toCertificateProfileResponse x)) (worldE (repoE (repo_GetCertificateProfile (PathValue b ''id''))))"

definition createEnrollment_handler :: handler where
  "createEnrollment_handler srv q b =
     bindE (decodeJSON (hr_request q) createEnrollmentRequest_fields zero_createEnrollmentRequest) (\<lambda>req.
     answer 201 (\<lambda>x. P_enrollment (toEnrollmentResponse x)) (serviceCall srv q (\<lambda>svc ctx actor.
       CreateEnrollment svc ctx actor req)))"

definition listEnrollments_handler :: handler where
  "listEnrollments_handler srv q b =
     bindE (options (enrollmentListOptionsFromQuery (hr_request q))) (\<lambda>opts.
     answer 200 (\<lambda>xs. P_enrollments (map toEnrollmentResponse xs)) (worldE (ListEnrollmentsQuery opts)))"

definition getEnrollment_handler :: handler where
  "getEnrollment_handler srv q b =
     answer 200 (\<lambda>x. P_enrollment (toEnrollmentResponse x)) (worldE (repoE (repo_GetEnrollment (PathValue b ''id''))))"

definition approveEnrollment_handler :: handler where
  "approveEnrollment_handler srv q b =
     bindE (decodeOptionalJSON (hr_request q) approveEnrollmentRequest_fields zero_approveEnrollmentRequest) (\<lambda>req.
     answer 200 (\<lambda>x. P_enrollment (toEnrollmentResponse x)) (serviceCall srv q (\<lambda>svc ctx actor.
       ApproveEnrollmentWithReason svc ctx actor (PathValue b ''id'') (aer_Reason req))))"

definition rejectEnrollment_handler :: handler where
  "rejectEnrollment_handler srv q b =
     answer 200 (\<lambda>x. P_enrollment (toEnrollmentResponse x)) (serviceCall srv q (\<lambda>svc ctx actor.
       RejectEnrollment svc ctx actor (PathValue b ''id'')))"

section \<open>Certificates\<close>

definition issueCertificate_handler :: handler where
  "issueCertificate_handler srv q b =
     bindE (decodeJSON (hr_request q) issueCertificateRequest_fields zero_issueCertificateRequest) (\<lambda>req.
     answer 201 (\<lambda>x. P_certificate (toCertificateResponse x)) (serviceCall srv q (\<lambda>svc ctx actor.
       IssueCertificate svc ctx actor (icr_EnrollmentID req))))"

definition listCertificates_handler :: handler where
  "listCertificates_handler srv q b =
     bindE (options (certificateListOptionsFromQuery (hr_request q))) (\<lambda>opts.
     answer 200 (\<lambda>xs. P_certificates (map toCertificateResponse xs)) (worldE (ListCertificatesQuery (srv_service srv) opts)))"

definition listCertificateInventory_handler :: handler where
  "listCertificateInventory_handler srv q b =
     bindE (options (certificateInventoryOptionsFromQuery (hr_request q))) (\<lambda>opts.
     answer 200 (\<lambda>xs. P_inventory (map toCertificateInventoryResponse xs)) (worldE (ListCertificateInventory opts)))"

definition getExpirySLO_handler :: handler where
  "getExpirySLO_handler srv q b =
     answer 200 (\<lambda>x. P_slo (toExpirySLOResponse x)) (worldE (ExpirySLO (srv_service srv)))"

definition scanCertificateExpirations_handler :: handler where
  "scanCertificateExpirations_handler srv q b =
     bindE (decodeJSON (hr_request q) scanCertificateExpirationsRequest_fields zero_scanCertificateExpirationsRequest) (\<lambda>req.
     answer 200 (\<lambda>x. P_scan (toCertificateExpirationScanResponse x)) (serviceCall srv q (\<lambda>svc ctx actor.
       ScanCertificateExpirations svc ctx actor (wrap64 (sce_WarningWindowSeconds req * Second)) (sce_Limit req))))"

definition getCertificate_handler :: handler where
  "getCertificate_handler srv q b =
     answer 200 (\<lambda>x. P_certificate (toCertificateResponse x)) (worldE (repoE (repo_GetCertificate (PathValue b ''id''))))"

definition revokeCertificate_handler :: handler where
  "revokeCertificate_handler srv q b =
     bindE (decodeJSON (hr_request q) revokeCertificateRequest_fields zero_revokeCertificateRequest) (\<lambda>req.
     answer 200 (\<lambda>x. P_certificate (toCertificateResponse x)) (serviceCall srv q (\<lambda>svc ctx actor.
       if rcr_Force req then ForceRevokeCertificate svc ctx actor (PathValue b ''id'') (rcr_Reason req)
       else RevokeCertificate svc ctx actor (PathValue b ''id'') (rcr_Reason req))))"

definition suspendCertificate_handler :: handler where
  "suspendCertificate_handler srv q b =
     answer 200 (\<lambda>x. P_certificate (toCertificateResponse x)) (serviceCall srv q (\<lambda>svc ctx actor.
       SuspendCertificate svc ctx actor (PathValue b ''id'')))"

definition resumeCertificate_handler :: handler where
  "resumeCertificate_handler srv q b =
     answer 200 (\<lambda>x. P_certificate (toCertificateResponse x)) (serviceCall srv q (\<lambda>svc ctx actor.
       ResumeCertificate svc ctx actor (PathValue b ''id'')))"

definition renewCertificate_handler :: handler where
  "renewCertificate_handler srv q b =
     bindE (decodeJSON (hr_request q) renewCertificateRequest_fields zero_renewCertificateRequest) (\<lambda>req.
     answer 201 (\<lambda>x. P_enrollment (toEnrollmentResponse x)) (serviceCall srv q (\<lambda>svc ctx actor.
       RenewCertificate svc ctx actor (PathValue b ''id'') (nwr_CSRPEM req) (nwr_RequestedNotAfter req))))"

definition reissueCertificate_handler :: handler where
  "reissueCertificate_handler srv q b =
     bindE (decodeJSON (hr_request q) reissueCertificateRequest_fields zero_reissueCertificateRequest) (\<lambda>req.
     answer 201 (\<lambda>x. P_enrollment (toEnrollmentResponse x)) (serviceCall srv q (\<lambda>svc ctx actor.
       ReissueCertificate svc ctx actor (PathValue b ''id'') (rir_CSRPEM req))))"

section \<open>Revocation information\<close>

definition publishCRL_handler :: handler where
  "publishCRL_handler srv q b =
     bindE (decodeJSON (hr_request q) publishCRLRequest_fields zero_publishCRLRequest) (\<lambda>req.
     answer 201 (\<lambda>x. P_crl (toCRLPublicationResponse x)) (serviceCall srv q (\<lambda>svc ctx actor. PublishCRL svc ctx actor req)))"

definition getCRLPublication_handler :: handler where
  "getCRLPublication_handler srv q b =
     answer 200 (\<lambda>x. P_crl (toCRLPublicationResponse x)) (worldE (GetCRLPublication (PathValue b ''id'')))"

definition getLatestIssuerCRL_handler :: handler where
  "getLatestIssuerCRL_handler srv q b =
     (let distributionPoint = query_Get (hr_request q) ''distribution_point'' in
      bindE (worldE (if distributionPoint = [] then GetLatestCRLPublication (PathValue b ''id'')
                     else GetLatestCRLPublicationForDistributionPoint (PathValue b ''id'') distributionPoint)) (\<lambda>publication.
      returnE \<lparr>rs_Status = 200, rs_Header = [(''Content-Type'', ''application/x-pem-file'')],
               rs_Body = Text (crl_CRLPEM publication)\<rparr>))"

definition respondOCSP_handler :: handler where
  "respondOCSP_handler srv q b =
     thenE (failIf (header_Get (hr_request q) ''Content-Type'' \<noteq> ''application/ocsp-request'') (Svc ErrUnsupportedMediaType))
     (thenE (failIf (requestBodyLimit (hr_request q) < length (rq_Body (hr_request q))) (Svc ErrInvalidRequest))
     (bindE (serviceCall srv q (\<lambda>svc ctx actor. RespondOCSP svc ctx actor (rq_Body (hr_request q)))) (\<lambda>der.
      returnE \<lparr>rs_Status = 200, rs_Header = [(''Content-Type'', ''application/ocsp-response'')], rs_Body = Text der\<rparr>)))"

section \<open>Audit events and trust anchors\<close>

definition listAuditEvents_handler :: handler where
  "listAuditEvents_handler srv q b =
     bindE (options (auditEventQueryFromRequest (hr_request q))) (\<lambda>query.
     answer 200 (\<lambda>xs. P_auditEvents (map toAuditEventResponse xs)) (worldE (ListAuditEventsQuery query)))"

definition getAuditIntegrity_handler :: handler where
  "getAuditIntegrity_handler srv q b =
     answer 200 (\<lambda>x. P_integrity (toAuditIntegrityResponse x)) (worldE GetAuditIntegrity)"

definition pruneAuditEvents_handler :: handler where
  "pruneAuditEvents_handler srv q b =
     bindE (decodeJSON (hr_request q) pruneAuditEventsRequest_fields zero_pruneAuditEventsRequest) (\<lambda>req.
     answer 200 P_pruned (serviceCall srv q (\<lambda>svc ctx actor. PruneAuditEventsBefore svc ctx actor (par_Before req))))"

definition repairIssuanceAuditEvents_handler :: handler where
  "repairIssuanceAuditEvents_handler srv q b = answer 200 P_repaired (serviceCall srv q RepairMissingIssuanceAuditEvents)"

definition listTrustAnchors_handler :: handler where
  "listTrustAnchors_handler srv q b = answer 200 (\<lambda>xs. P_issuers (map toIssuerResponse xs)) (worldE ListTrustAnchors)"

text \<open>\<open>expvar.Handler\<close>.\<close>

definition debugVars_handler :: handler where
  "debugVars_handler srv q b =
     bindE (getE (\<lambda>h. (web_requests h, web_events h))) (\<lambda>(requests, events).
     returnE \<lparr>rs_Status = 200, rs_Header = [(''Content-Type'', ''application/json; charset=utf-8'')],
              rs_Body = Vars requests events\<rparr>)"

end
