(* ===== verification/CaaDns.thy ===== *)
theory CaaDns
  imports Policy
begin

text \<open>
  The DNS side of the CAA check, \<open>service/internal/lifecycle/caa.go\<close>: building a CAA query, parsing
  the response, and climbing from a name to its parents. Messages are lists of bytes. Every index
  and slice expression of the parser is a checked read; a result \<open>None\<close> stands for the run-time
  panic that Go raises when a read is out of range.
\<close>

section \<open>Reading a message\<close>

definition dnsTypeCAA :: nat where
  "dnsTypeCAA = 257"

definition byte_at :: "nat list \<Rightarrow> nat \<Rightarrow> nat option" where
  "byte_at message offset = (if offset < length message then Some (message ! offset) else None)"

text \<open>\<open>binary.BigEndian.Uint16(message[offset : offset+2])\<close>\<close>

definition u16_at :: "nat list \<Rightarrow> nat \<Rightarrow> nat option" where
  "u16_at message offset =
     (if offset + 2 \<le> length message then Some (256 * message ! offset + message ! (offset + 1)) else None)"

definition slice :: "nat list \<Rightarrow> nat \<Rightarrow> nat \<Rightarrow> nat list option" where
  "slice message lo hi = (if lo \<le> hi \<and> hi \<le> length message then Some (take (hi - lo) (drop lo message)) else None)"

definition bytes_string :: "nat list \<Rightarrow> string" where
  "bytes_string bs = map char_of bs"

function skipDNSName :: "nat list \<Rightarrow> nat \<Rightarrow> (err + nat) option" where
  "skipDNSName message offset =
     (if length message \<le> offset then Some (Inl ErrInvalidRequest)
      else case byte_at message offset of
        None \<Rightarrow> None
      | Some n \<Rightarrow>
          if n = 0 then Some (Inr (offset + 1))
          else if n div 64 mod 4 = 3 then
            (if length message \<le> offset + 1 then Some (Inl ErrInvalidRequest) else Some (Inr (offset + 2)))
          else if length message < offset + 1 + n then Some (Inl ErrInvalidRequest)
          else skipDNSName message (offset + 1 + n))"
  by pat_completeness auto
termination
  by (relation "measure (\<lambda>(message, offset). length message - offset)") auto

declare skipDNSName.simps [simp del]

section \<open>Parsing a response\<close>

fun skip_questions :: "nat list \<Rightarrow> nat \<Rightarrow> nat \<Rightarrow> (err + nat) option" where
  "skip_questions message 0 offset = Some (Inr offset)"
| "skip_questions message (Suc n) offset =
     (case skipDNSName message offset of
        None \<Rightarrow> None
      | Some (Inl e) \<Rightarrow> Some (Inl e)
      | Some (Inr offset') \<Rightarrow>
          if length message < offset' + 4 then Some (Inl ErrInvalidRequest)
          else skip_questions message n (offset' + 4))"

text \<open>The CAA record in the data of a resource record, if the tag fits.\<close>

definition caa_record :: "nat list \<Rightarrow> CAARecord list option" where
  "caa_record data =
     (case byte_at data 1 of
        None \<Rightarrow> None
      | Some tagLen \<Rightarrow>
          if 2 + tagLen \<le> length data then
            (case (byte_at data 0, slice data 2 (2 + tagLen), slice data (2 + tagLen) (length data)) of
               (Some flag, Some tag, Some value) \<Rightarrow>
                 Some [\<lparr>caa_Flag = int flag, caa_Tag = bytes_string tag, caa_Value = bytes_string value\<rparr>]
             | _ \<Rightarrow> None)
          else Some [])"

fun read_answers :: "nat list \<Rightarrow> nat \<Rightarrow> nat \<Rightarrow> (err + CAARecord list) option" where
  "read_answers message 0 offset = Some (Inr [])"
| "read_answers message (Suc n) offset0 =
     (case skipDNSName message offset0 of
        None \<Rightarrow> None
      | Some (Inl e) \<Rightarrow> Some (Inl e)
      | Some (Inr offset) \<Rightarrow>
          if length message < offset + 10 then Some (Inl ErrInvalidRequest)
          else case (u16_at message offset, u16_at message (offset + 2), u16_at message (offset + 8)) of
            (Some rrType, Some rrClass, Some rdLen) \<Rightarrow>
              if length message < offset + 10 + rdLen then Some (Inl ErrInvalidRequest)
              else
                let found = (if rrType = dnsTypeCAA \<and> rrClass = 1 \<and> 2 \<le> rdLen
                             then (case slice message (offset + 10) (offset + 10 + rdLen) of
                                     None \<Rightarrow> None | Some data \<Rightarrow> caa_record data)
                             else Some [])
                in (case found of
                      None \<Rightarrow> None
                    | Some rs \<Rightarrow>
                        (case read_answers message n (offset + 10 + rdLen) of
                           None \<Rightarrow> None
                         | Some (Inl e) \<Rightarrow> Some (Inl e)
                         | Some (Inr rest) \<Rightarrow> Some (Inr (rs @ rest))))
          | _ \<Rightarrow> None)"

text \<open>The result and whether the search for a CAA record set ends here.\<close>

definition parseCAAResponse :: "nat list \<Rightarrow> nat \<Rightarrow> (err + CAALookupResult \<times> bool) option" where
  "parseCAAResponse message ident =
     (if length message < 12 then Some (Inl ErrInvalidRequest)
      else case (u16_at message 0, u16_at message 2, u16_at message 4, u16_at message 6) of
        (Some m0, Some flags, Some qd, Some an) \<Rightarrow>
          if m0 \<noteq> ident then Some (Inl ErrInvalidRequest)
          else
            let status = (if flags div 32 mod 2 = 1 then CAADNSSECSecure else CAADNSSECIndeterminate);
                rcode = flags mod 16 in
            if rcode = 2 then Some (Inr (\<lparr>caal_Records = [], caal_DNSSECStatus = CAADNSSECBogus\<rparr>, True))
            else if rcode = 3 then Some (Inr (\<lparr>caal_Records = [], caal_DNSSECStatus = status\<rparr>, False))
            else if rcode \<noteq> 0 then Some (Inl (ErrText (''dns response rcode '' @ nat_dec rcode)))
            else
              (case skip_questions message qd 12 of
                 None \<Rightarrow> None
               | Some (Inl e) \<Rightarrow> Some (Inl e)
               | Some (Inr offset) \<Rightarrow>
                   (case read_answers message an offset of
                      None \<Rightarrow> None
                    | Some (Inl e) \<Rightarrow> Some (Inl e)
                    | Some (Inr records) \<Rightarrow>
                        Some (Inr (\<lparr>caal_Records = records, caal_DNSSECStatus = status\<rparr>, records \<noteq> []))))
      | _ \<Rightarrow> None)"

section \<open>Queries\<close>

definition be16 :: "nat \<Rightarrow> nat list" where
  "be16 n = [n div 256 mod 256, n mod 256]"

fun encode_labels :: "string list \<Rightarrow> nat list option" where
  "encode_labels [] = Some []"
| "encode_labels (label # labels) =
     (if length label = 0 \<or> 63 < length label then None
      else map_option (\<lambda>rest. length label # string_bytes label @ rest) (encode_labels labels))"

text \<open>\<open>ident\<close> is the random identifier of the query.\<close>

definition buildCAAQuery :: "string \<Rightarrow> nat \<Rightarrow> err + nat list" where
  "buildCAAQuery name ident =
     (case encode_labels (Split (TrimSuffix name ''.'') (CHR ''.'')) of
        None \<Rightarrow> Inl ErrInvalidRequest
      | Some labels \<Rightarrow>
          Inr (be16 ident @ be16 256 @ be16 1 @ replicate 6 0 @ labels @ [0] @ be16 dnsTypeCAA @ be16 1))"

text \<open>
  The climb to the parent names. \<open>ask\<close> is \<open>lookupCAAName\<close>, one exchange with the resolver.
\<close>

function climb_caa :: "(string \<Rightarrow> err + CAALookupResult \<times> bool) \<Rightarrow> string \<Rightarrow> err + CAALookupResult" where
  "climb_caa ask name =
     (if name = [] then Inr \<lparr>caal_Records = [], caal_DNSSECStatus = CAADNSSECIndeterminate\<rparr>
      else case ask name of
        Inl e \<Rightarrow> Inl e
      | Inr (result, found) \<Rightarrow>
          if found then Inr result
          else if CHR ''.'' \<notin> set name then Inr result
          else climb_caa ask (drop 1 (dropWhile (\<lambda>c. c \<noteq> CHR ''.'') name)))"
  by pat_completeness auto
termination
proof (relation "measure (\<lambda>(ask, name). length name)")
  fix ask :: "string \<Rightarrow> err + CAALookupResult \<times> bool" and name :: string
  assume "name \<noteq> []"
  moreover have "length (drop 1 (dropWhile (\<lambda>c. c \<noteq> CHR ''.'') name)) \<le> length name - 1"
    using length_dropWhile_le [of "\<lambda>c. c \<noteq> CHR ''.''" name] by simp
  ultimately show "((ask, drop 1 (dropWhile (\<lambda>c. c \<noteq> CHR ''.'') name)), (ask, name)) \<in> measure (\<lambda>(ask, name). length name)"
    by (cases name) auto
qed simp

declare climb_caa.simps [simp del]

definition LookupCAA :: "(string \<Rightarrow> err + CAALookupResult \<times> bool) \<Rightarrow> string \<Rightarrow> err + CAALookupResult" where
  "LookupCAA ask dnsName = climb_caa ask (TrimSuffix (TrimSpace dnsName) ''.'')"

end
