(* ===== verification/AcmeHttp.thy ===== *)
theory AcmeHttp
  imports HttpHandlers CaaDns
begin

text \<open>
  The ACME front end, from \<open>service/internal/httpapi/acme.go\<close>: the operator handlers, the JWS that
  a protocol request is wrapped in, the keys it may be signed with, and the protocol handlers.
  Signature checks, curve points and certificate requests in DER are those of \<open>acme_crypto\<close>.
\<close>

section \<open>Operator handlers\<close>

definition createACMEAccount_handler :: handler where
  "createACMEAccount_handler srv q b =
     bindE (decodeJSON (hr_request q) createACMEAccountRequest_fields zero_createACMEAccountRequest) (\<lambda>req.
     answer 201 (\<lambda>x. P_acmeAccount (toACMEAccountResponse x)) (serviceCall srv q (\<lambda>svc ctx actor.
       CreateACMEAccount svc ctx actor req)))"

definition listACMEAccounts_handler :: handler where
  "listACMEAccounts_handler srv q b =
     answer 200 (\<lambda>xs. P_acmeAccounts (map toACMEAccountResponse xs)) (worldE (repoE repo_ListACMEAccounts))"

definition createACMEOrder_handler :: handler where
  "createACMEOrder_handler srv q b =
     bindE (decodeJSON (hr_request q) createACMEOrderRequest_fields zero_createACMEOrderRequest) (\<lambda>req.
     answer 201 (\<lambda>x. P_acmeOrder (toACMEOrderResponse x)) (serviceCall srv q (\<lambda>svc ctx actor.
       CreateACMEOrder svc ctx actor req)))"

definition getACMEOrder_handler :: handler where
  "getACMEOrder_handler srv q b =
     answer 200 (\<lambda>x. P_acmeOrder (toACMEOrderResponse x)) (worldE (GetACMEOrder (PathValue b ''id'')))"

definition listACMEAuthorizations_handler :: handler where
  "listACMEAuthorizations_handler srv q b =
     answer 200 (\<lambda>xs. P_acmeAuthorizations (map toACMEAuthorizationResponse xs)) (worldE (ListACMEAuthorizations (PathValue b ''id'')))"

definition listACMEChallenges_handler :: handler where
  "listACMEChallenges_handler srv q b =
     answer 200 (\<lambda>xs. P_acmeChallenges (map toACMEChallengeResponse xs)) (worldE (ListACMEChallenges (PathValue b ''id'')))"

definition completeACMEChallenge_handler :: handler where
  "completeACMEChallenge_handler srv q b =
     answer 200 (\<lambda>x. P_acmeChallenge (toACMEChallengeResponse x)) (serviceCall srv q (\<lambda>svc ctx actor.
       CompleteACMEChallenge svc ctx actor (PathValue b ''id'')))"

definition finalizeACMEOrder_handler :: handler where
  "finalizeACMEOrder_handler srv q b =
     bindE (decodeJSON (hr_request q) finalizeACMEOrderRequest_fields zero_finalizeACMEOrderRequest) (\<lambda>req.
     answer 200 (\<lambda>x. P_acmeOrder (toACMEOrderResponse x)) (serviceCall srv q (\<lambda>svc ctx actor.
       FinalizeACMEOrder svc ctx actor (PathValue b ''id'')
         \<lparr>fao_CSRPEM = fin_CSRPEM req, fao_RequestedSubject = fin_RequestedSubject req\<rparr>)))"

section \<open>Status strings\<close>

fun str_ACMEAccountStatus :: "ACMEAccountStatus \<Rightarrow> string" where
  "str_ACMEAccountStatus ACMEAccountValid = ''valid''"
| "str_ACMEAccountStatus ACMEAccountDeactivated = ''deactivated''"
| "str_ACMEAccountStatus (ACMEAccountStatusOther s) = s"

fun str_ACMEOrderStatus :: "ACMEOrderStatus \<Rightarrow> string" where
  "str_ACMEOrderStatus ACMEOrderPending = ''pending''"
| "str_ACMEOrderStatus ACMEOrderReady = ''ready''"
| "str_ACMEOrderStatus ACMEOrderValid = ''valid''"
| "str_ACMEOrderStatus ACMEOrderInvalid = ''invalid''"
| "str_ACMEOrderStatus (ACMEOrderStatusOther s) = s"

fun str_ACMEAuthorizationStatus :: "ACMEAuthorizationStatus \<Rightarrow> string" where
  "str_ACMEAuthorizationStatus ACMEAuthorizationPending = ''pending''"
| "str_ACMEAuthorizationStatus ACMEAuthorizationValid = ''valid''"
| "str_ACMEAuthorizationStatus ACMEAuthorizationInvalid = ''invalid''"
| "str_ACMEAuthorizationStatus (ACMEAuthorizationStatusOther s) = s"

fun str_ACMEChallengeStatus :: "ACMEChallengeStatus \<Rightarrow> string" where
  "str_ACMEChallengeStatus ACMEChallengePending = ''pending''"
| "str_ACMEChallengeStatus ACMEChallengeProcessing = ''processing''"
| "str_ACMEChallengeStatus ACMEChallengeValid = ''valid''"
| "str_ACMEChallengeStatus ACMEChallengeInvalid = ''invalid''"
| "str_ACMEChallengeStatus (ACMEChallengeStatusOther s) = s"

section \<open>URLs\<close>

definition requestBaseURL :: "http_request \<Rightarrow> string" where
  "requestBaseURL r =
     (let scheme = header_Get r ''X-Forwarded-Proto'' in
      (if scheme = [] then ''http'' else scheme) @ ''://'' @ rq_Host r)"

definition requestAbsoluteURL :: "http_request \<Rightarrow> string" where
  "requestAbsoluteURL r = requestBaseURL r @ RequestURI r"

definition acmeDirectoryLink :: "http_request \<Rightarrow> string" where
  "acmeDirectoryLink r = ''<'' @ requestBaseURL r @ ''/acme/directory>;rel='' @ [CHR 0x22] @ ''index'' @ [CHR 0x22]"

definition acmeAuthorizationLink :: "http_request \<Rightarrow> string \<Rightarrow> string" where
  "acmeAuthorizationLink r authorizationID =
     ''<'' @ requestBaseURL r @ ''/acme/authz/'' @ authorizationID @ ''>;rel='' @ [CHR 0x22] @ ''up'' @ [CHR 0x22]"

section \<open>Keys\<close>

definition isValidACMEECJWK :: "acmeJWK \<Rightarrow> bool" where
  "isValidACMEECJWK k \<longleftrightarrow>
     jwk_KTY k = ''EC'' \<and> jwk_CRV k = ''P-256'' \<and> jwk_X k \<noteq> [] \<and> jwk_Y k \<noteq> [] \<and> jwk_N k = [] \<and> jwk_E k = []"

definition isValidACMERSAJWK :: "acmeJWK \<Rightarrow> bool" where
  "isValidACMERSAJWK k \<longleftrightarrow>
     jwk_KTY k = ''RSA'' \<and> jwk_N k \<noteq> [] \<and> jwk_E k \<noteq> [] \<and> jwk_CRV k = [] \<and> jwk_X k = [] \<and> jwk_Y k = []"

definition isValidACMEOKPJWK :: "acmeJWK \<Rightarrow> bool" where
  "isValidACMEOKPJWK k \<longleftrightarrow>
     jwk_KTY k = ''OKP'' \<and> jwk_CRV k = ''Ed25519'' \<and> jwk_X k \<noteq> [] \<and> jwk_Y k = [] \<and> jwk_N k = [] \<and> jwk_E k = []"

definition acmeECJWKPublicKey :: "acme_crypto \<Rightarrow> acmeJWK \<Rightarrow> (nat list \<times> nat list) option" where
  "acmeECJWKPublicKey cry k =
     (if \<not> isValidACMEECJWK k then None
      else case (base64_url_decode (jwk_X k), base64_url_decode (jwk_Y k)) of
        (Some x, Some y) \<Rightarrow>
          if length x \<noteq> 32 \<or> length y \<noteq> 32 \<or> \<not> cry_P256Point cry x y then None else Some (x, y)
      | _ \<Rightarrow> None)"

definition acmeRSAJWKPublicKey :: "acmeJWK \<Rightarrow> (nat \<times> int) option" where
  "acmeRSAJWKPublicKey k =
     (if \<not> isValidACMERSAJWK k then None
      else case (base64_url_decode (jwk_N k), base64_url_decode (jwk_E k)) of
        (Some nBytes, Some eBytes) \<Rightarrow>
          let n = bytes_value nBytes; e = bytes_value eBytes in
          if n = 0 \<or> 2 ^ 63 \<le> e \<or> e \<le> 1 then None else Some (n, int e)
      | _ \<Rightarrow> None)"

definition acmeOKPJWKPublicKey :: "acmeJWK \<Rightarrow> nat list option" where
  "acmeOKPJWKPublicKey k =
     (if \<not> isValidACMEOKPJWK k then None
      else case base64_url_decode (jwk_X k) of
        None \<Rightarrow> None
      | Some x \<Rightarrow> if length x \<noteq> 32 then None else Some x)"

text \<open>\<open>{"a":"x","b":"y"}\<close> without escapes.\<close>

definition plain_object :: "(string \<times> string) list \<Rightarrow> string" where
  "plain_object kvs =
     ''{'' @ Join (map (\<lambda>(k, v). [CHR 0x22] @ k @ [CHR 0x22] @ '':'' @ [CHR 0x22] @ v @ [CHR 0x22]) kvs) '','' @ ''}''"

definition canonicalACMEJWKJSON :: "acme_crypto \<Rightarrow> acmeJWK \<Rightarrow> string option" where
  "canonicalACMEJWKJSON cry k =
     (if jwk_KTY k = ''EC'' then
        (if acmeECJWKPublicKey cry k = None then None
         else Some (plain_object [(''crv'', jwk_CRV k), (''kty'', jwk_KTY k), (''x'', jwk_X k), (''y'', jwk_Y k)]))
      else if jwk_KTY k = ''RSA'' then
        (if acmeRSAJWKPublicKey k = None then None
         else Some (plain_object [(''e'', jwk_E k), (''kty'', jwk_KTY k), (''n'', jwk_N k)]))
      else if jwk_KTY k = ''OKP'' then
        (if acmeOKPJWKPublicKey k = None then None
         else Some (plain_object [(''crv'', jwk_CRV k), (''kty'', jwk_KTY k), (''x'', jwk_X k)]))
      else None)"

definition acmeJWKThumbprint :: "acme_crypto \<Rightarrow> acmeJWK \<Rightarrow> string option" where
  "acmeJWKThumbprint cry k =
     map_option (\<lambda>canonical. base64_url (Sum256 (string_bytes canonical))) (canonicalACMEJWKJSON cry k)"

definition isSupportedACMEJWSAlg :: "string \<Rightarrow> bool" where
  "isSupportedACMEJWSAlg alg \<longleftrightarrow> alg = ''ES256'' \<or> alg = ''RS256'' \<or> alg = ''EdDSA''"

definition verifyACMEJWS :: "acme_crypto \<Rightarrow> string \<Rightarrow> acmeJWK \<Rightarrow> string \<Rightarrow> string \<Rightarrow> bool" where
  "verifyACMEJWS cry alg k signingInput signatureB64 =
     (case base64_url_decode signatureB64 of
        None \<Rightarrow> False
      | Some signature \<Rightarrow>
          let sum = Sum256 (string_bytes signingInput) in
          if alg = ''ES256'' then
            (case acmeECJWKPublicKey cry k of
               None \<Rightarrow> False
             | Some (x, y) \<Rightarrow>
                 length signature = 64 \<and>
                 cry_ecdsaVerify cry x y sum (bytes_value (take 32 signature)) (bytes_value (drop 32 signature)))
          else if alg = ''RS256'' then
            (case acmeRSAJWKPublicKey k of None \<Rightarrow> False | Some (n, e) \<Rightarrow> cry_rsaVerify cry n e sum signature)
          else if alg = ''EdDSA'' then
            (case acmeOKPJWKPublicKey k of
               None \<Rightarrow> False
             | Some x \<Rightarrow> cry_ed25519Verify cry x (string_bytes signingInput) signature)
          else False)"

section \<open>JSON of the protocol\<close>

text \<open>
  A member of type \<open>any\<close>: numbers become \<open>float64\<close>, and one that does not fit is an error. The bound
  is the least magnitude that rounds to an infinity.
\<close>

definition float64_fits :: "string \<Rightarrow> bool" where
  "float64_fits lit =
     (let s = TrimPrefix lit ''-''; mant = takeWhile (\<lambda>c. c \<noteq> CHR ''e'' \<and> c \<noteq> CHR ''E'') s;
          ex = drop (Suc (length mant)) s; (ip, fp, _) = Cut mant (CHR ''.'');
          neg = HasPrefix ex ''-''; ds = dropWhile (\<lambda>c. c = CHR ''-'' \<or> c = CHR ''+'') ex;
          e10 = (if neg then - int (dec_value ds) else int (dec_value ds)) - int (length fp);
          m = int (dec_value (ip @ fp)); bound = 2 ^ 1024 - 2 ^ 970 in
      if 0 \<le> e10 then m * 10 ^ nat e10 < bound else m < bound * 10 ^ nat (- e10))"

fun any_ok :: "json \<Rightarrow> bool" where
  "any_ok (JNum n) = float64_fits n"
| "any_ok (JArr vs) = list_all any_ok vs"
| "any_ok (JObj kvs) = list_all (\<lambda>(k, v). any_ok v) kvs"
| "any_ok _ = True"

record acmeProtectedHeader =
  aph_Alg :: string
  aph_Nonce :: string
  aph_URL :: string
  aph_KID :: string
  aph_JWK :: "json option"

definition acmeProtectedHeader_fields :: "acmeProtectedHeader field list" where
  "acmeProtectedHeader_fields =
     [str_field ''alg'' aph_Alg_update, str_field ''nonce'' aph_Nonce_update, str_field ''url'' aph_URL_update,
      str_field ''kid'' aph_KID_update,
      (''jwk'', \<lambda>v r. if v = JNull then Some (r\<lparr>aph_JWK := None\<rparr>)
                      else if any_ok v then Some (r\<lparr>aph_JWK := Some (json_canon v)\<rparr>) else None)]"

definition zero_acmeProtectedHeader :: acmeProtectedHeader where
  "zero_acmeProtectedHeader = \<lparr>aph_Alg = [], aph_Nonce = [], aph_URL = [], aph_KID = [], aph_JWK = None\<rparr>"

definition acmeJWKFromProtected :: "json option \<Rightarrow> acmeJWK option" where
  "acmeJWKFromProtected v =
     (case v of
        None \<Rightarrow> None
      | Some j \<Rightarrow>
          (case decode_struct False acmeJWK_fields j zero_acmeJWK of
             None \<Rightarrow> None
           | Some k \<Rightarrow> if isValidACMEECJWK k \<or> isValidACMERSAJWK k \<or> isValidACMEOKPJWK k then Some k else None))"

record acmeUpdateAccountRequest =
  uar_Contact :: "string list option"
  uar_Status :: string

definition acmeUpdateAccountRequest_fields :: "acmeUpdateAccountRequest field list" where
  "acmeUpdateAccountRequest_fields =
     [(''contact'', \<lambda>v r. case v of
          JNull \<Rightarrow> Some (r\<lparr>uar_Contact := None\<rparr>)
        | JArr vs \<Rightarrow>
            (case decode_elems decode_str [] vs (case uar_Contact r of None \<Rightarrow> [] | Some xs \<Rightarrow> xs) of
               None \<Rightarrow> None
             | Some xs \<Rightarrow> Some (r\<lparr>uar_Contact := Some xs\<rparr>))
        | _ \<Rightarrow> None),
      str_field ''status'' uar_Status_update]"

record acmeKeyChangeRequest =
  akc_Account :: string
  akc_OldKey :: acmeJWK

definition acmeKeyChangeRequest_fields :: "acmeKeyChangeRequest field list" where
  "acmeKeyChangeRequest_fields =
     [str_field ''account'' akc_Account_update, struct_field False ''oldKey'' acmeJWK_fields akc_OldKey akc_OldKey_update]"

record acmeNewOrderRequest =
  anr_AccountID :: string
  anr_IdentityID :: string
  anr_IssuerID :: string
  anr_CertificateProfileID :: string
  anr_Identifiers :: "acmeIdentifierRequest list"
  anr_NotAfter :: time

definition acmeNewOrderRequest_fields :: "acmeNewOrderRequest field list" where
  "acmeNewOrderRequest_fields =
     [str_field ''account_id'' anr_AccountID_update, str_field ''identity_id'' anr_IdentityID_update,
      str_field ''issuer_id'' anr_IssuerID_update, str_field ''profile_id'' anr_CertificateProfileID_update,
      list_field ''identifiers'' (decode_struct False acmeIdentifierRequest_fields) zero_acmeIdentifierRequest
        anr_Identifiers anr_Identifiers_update,
      time_field ''notAfter'' anr_NotAfter_update]"

definition zero_acmeNewOrderRequest :: acmeNewOrderRequest where
  "zero_acmeNewOrderRequest =
     \<lparr>anr_AccountID = [], anr_IdentityID = [], anr_IssuerID = [], anr_CertificateProfileID = [],
      anr_Identifiers = [], anr_NotAfter = 0\<rparr>"

section \<open>The JWS\<close>

record acmeJWSResult =
  jws_Payload :: string
  jws_AccountID :: string
  jws_KeyThumbprint :: string
  jws_KeyJWKJSON :: string

text \<open>A value that has to be there, else the request is invalid.\<close>

definition need :: "'a option \<Rightarrow> (web, herr, 'a) eff" where
  "need v = (case v of None \<Rightarrow> throwE (Svc ErrInvalidRequest) | Some x \<Rightarrow> returnE x)"

definition needs :: "bool \<Rightarrow> (web, herr, unit) eff" where
  "needs b = failIf (\<not> b) (Svc ErrInvalidRequest)"

definition acmeAccountIDFromKID :: "string \<Rightarrow> string option" where
  "acmeAccountIDFromKID kid =
     (case url_Parse kid of
        None \<Rightarrow> None
      | Some u \<Rightarrow>
          (case Split (trim_slashes (url_Path u)) (CHR ''/'') of
             [a, b, c] \<Rightarrow> if a = ''acme'' \<and> b = ''account'' \<and> c \<noteq> [] then Some c else None
           | _ \<Rightarrow> None))"

text \<open>The key that signs: of the account that \<open>kid\<close> names, or the one in the header.\<close>

definition acmeJWS_key :: "server \<Rightarrow> http_request \<Rightarrow> acmeProtectedHeader \<Rightarrow> string \<Rightarrow> (web, herr, acmeJWK \<times> acmeJWSResult) eff" where
  "acmeJWS_key srv r protected payload =
     (if aph_KID protected \<noteq> [] then
        thenE (needs (HasPrefix (aph_KID protected) (requestBaseURL r @ ''/acme/account/'')))
        (bindE (need (acmeAccountIDFromKID (aph_KID protected))) (\<lambda>accountID.
         bindE (worldE (GetACMEAccount accountID)) (\<lambda>account.
         thenE (needs (acct_KeyJWKJSON account \<noteq> [] \<and> acct_KeyThumbprint account \<noteq> []))
         (bindE (need (json_Unmarshal acmeJWK_fields zero_acmeJWK (acct_KeyJWKJSON account))) (\<lambda>k.
          returnE (k, \<lparr>jws_Payload = payload, jws_AccountID = acct_ID account,
            jws_KeyThumbprint = acct_KeyThumbprint account, jws_KeyJWKJSON = acct_KeyJWKJSON account\<rparr>))))))
      else
        bindE (need (acmeJWKFromProtected (aph_JWK protected))) (\<lambda>k.
        bindE (need (canonicalACMEJWKJSON (srv_crypto srv) k)) (\<lambda>keyJSON.
        bindE (need (acmeJWKThumbprint (srv_crypto srv) k)) (\<lambda>thumbprint.
        returnE (k, \<lparr>jws_Payload = payload, jws_AccountID = [], jws_KeyThumbprint = thumbprint, jws_KeyJWKJSON = keyJSON\<rparr>)))))"

definition decodeACMEJWS :: "server \<Rightarrow> hreq \<Rightarrow> (web, herr, acmeJWSResult) eff" where
  "decodeACMEJWS srv q =
     (let r = hr_request q; contentType = header_Get r ''Content-Type'' in
      thenE (failIf (contentType \<noteq> [] \<and> \<not> HasPrefix contentType ''application/jose+json'') (Svc ErrUnsupportedMediaType))
      (bindE (decodeJSON r acmeJWSRequest_fields zero_acmeJWSRequest) (\<lambda>req.
       thenE (needs (jwq_Protected req \<noteq> [] \<and> jwq_Signature req \<noteq> []))
       (bindE (need (base64_url_decode (jwq_Protected req))) (\<lambda>protectedBytes.
        bindE (need (json_Unmarshal acmeProtectedHeader_fields zero_acmeProtectedHeader (bytes_string protectedBytes))) (\<lambda>protected.
        thenE (needs (isSupportedACMEJWSAlg (aph_Alg protected) \<and> aph_Nonce protected \<noteq> [] \<and> aph_URL protected \<noteq> [] \<and>
                      aph_URL protected = requestAbsoluteURL r))
        (thenE (needs ((aph_KID protected = []) \<noteq> (aph_JWK protected = None)))
        (bindE (consumeACMENonce srv (aph_Nonce protected)) (\<lambda>fresh.
         thenE (failIf (\<not> fresh) errACMEBadNonce)
         (bindE (need (base64_url_decode (jwq_Payload req))) (\<lambda>payload.
          bindE (acmeJWS_key srv r protected (bytes_string payload)) (\<lambda>(k, result).
          thenE (needs (verifyACMEJWS (srv_crypto srv) (aph_Alg protected) k
                          (jwq_Protected req @ ''.'' @ jwq_Payload req) (jwq_Signature req)))
          (returnE result)))))))))))))"

record acmeKeyChangeJWSResult =
  kcr_Account :: string
  kcr_OldKey :: acmeJWK
  kcr_NewKeyThumbprint :: string
  kcr_NewKeyJWKJSON :: string

definition decodeACMEKeyChangeJWS :: "server \<Rightarrow> http_request \<Rightarrow> string \<Rightarrow> (web, herr, acmeKeyChangeJWSResult) eff" where
  "decodeACMEKeyChangeJWS srv r payload =
     bindE (need (json_Unmarshal acmeJWSRequest_fields zero_acmeJWSRequest payload)) (\<lambda>req.
     thenE (needs (jwq_Protected req \<noteq> [] \<and> jwq_Payload req \<noteq> [] \<and> jwq_Signature req \<noteq> []))
     (bindE (need (base64_url_decode (jwq_Protected req))) (\<lambda>protectedBytes.
      bindE (need (json_Unmarshal acmeProtectedHeader_fields zero_acmeProtectedHeader (bytes_string protectedBytes))) (\<lambda>protected.
      thenE (needs (isSupportedACMEJWSAlg (aph_Alg protected) \<and>
                    aph_URL protected = requestBaseURL r @ ''/acme/key-change'' \<and>
                    aph_KID protected = [] \<and> aph_JWK protected \<noteq> None))
      (bindE (need (acmeJWKFromProtected (aph_JWK protected))) (\<lambda>k.
       thenE (needs (verifyACMEJWS (srv_crypto srv) (aph_Alg protected) k
                       (jwq_Protected req @ ''.'' @ jwq_Payload req) (jwq_Signature req)))
       (bindE (need (base64_url_decode (jwq_Payload req))) (\<lambda>innerPayload.
        bindE (need (json_Unmarshal acmeKeyChangeRequest_fields
                       \<lparr>akc_Account = [], akc_OldKey = zero_acmeJWK\<rparr> (bytes_string innerPayload))) (\<lambda>change.
        thenE (needs (akc_Account change \<noteq> []))
        (bindE (need (canonicalACMEJWKJSON (srv_crypto srv) k)) (\<lambda>keyJSON.
         bindE (need (acmeJWKThumbprint (srv_crypto srv) k)) (\<lambda>thumbprint.
         returnE \<lparr>kcr_Account = akc_Account change, kcr_OldKey = akc_OldKey change,
           kcr_NewKeyThumbprint = thumbprint, kcr_NewKeyJWKJSON = keyJSON\<rparr>))))))))))))"

section \<open>Ownership\<close>

definition requireACMEOrderAccount :: "string \<Rightarrow> string \<Rightarrow> (web, herr, unit) eff" where
  "requireACMEOrderAccount orderID accountID =
     thenE (needs (accountID \<noteq> []))
     (bindE (worldE (GetACMEAccount accountID)) (\<lambda>account.
      thenE (failIf (acct_Status account = ACMEAccountDeactivated) (Svc ErrACMEAccountDeactivated))
      (thenE (needs (acct_Status account = ACMEAccountValid))
      (bindE (worldE (GetACMEOrder orderID)) (\<lambda>order.
       needs (ord_AccountID order = accountID))))))"

definition requireACMEAuthorizationAccount :: "string \<Rightarrow> string \<Rightarrow> (web, herr, unit) eff" where
  "requireACMEAuthorizationAccount authorizationID accountID =
     thenE (needs (accountID \<noteq> []))
     (bindE (worldE (GetACMEAuthorization authorizationID)) (\<lambda>authorization.
      requireACMEOrderAccount (authz_OrderID authorization) accountID))"

definition requireACMEChallengeAccount :: "string \<Rightarrow> string \<Rightarrow> (web, herr, unit) eff" where
  "requireACMEChallengeAccount challengeID accountID =
     thenE (needs (accountID \<noteq> []))
     (bindE (worldE (GetACMEChallenge challengeID)) (\<lambda>challenge.
      bindE (worldE (GetACMEAuthorization (chal_AuthorizationID challenge))) (\<lambda>authorization.
      requireACMEOrderAccount (authz_OrderID authorization) accountID)))"

definition requireACMECertificateAccount :: "string \<Rightarrow> string \<Rightarrow> (web, herr, unit) eff" where
  "requireACMECertificateAccount certificateID accountID =
     thenE (needs (certificateID \<noteq> [] \<and> accountID \<noteq> []))
     (bindE (worldE (ListACMEOrdersByAccount accountID)) (\<lambda>orders.
      failIf (\<not> list_ex (\<lambda>order. ord_CertificateID order = certificateID) orders) (Svc ErrForbidden)))"

section \<open>Responses\<close>

definition toACMEProtocolAccount :: "http_request \<Rightarrow> ACMEAccount \<Rightarrow> acmeProtocolAccountResponse" where
  "toACMEProtocolAccount r account =
     \<lparr>pac_ID = acct_ID account, pac_Status = str_ACMEAccountStatus (acct_Status account),
      pac_Contact = acct_Contacts account, pac_Location = requestBaseURL r @ ''/acme/account/'' @ acct_ID account\<rparr>"

definition acmeProtocolOrderIdentifiers :: "ACMEOrder \<Rightarrow> acmeProtocolIdentifierResponse list" where
  "acmeProtocolOrderIdentifiers order =
     map (\<lambda>name. \<lparr>pid_Type = ''dns'', pid_Value = name\<rparr>) (ord_RequestedDNSNames order) @
     map (\<lambda>address. \<lparr>pid_Type = ''ip'', pid_Value = address\<rparr>) (ord_RequestedIPAddresses order)"

definition toACMEProtocolOrder :: "http_request \<Rightarrow> ACMEOrder \<Rightarrow> (web, herr, acmeProtocolOrderResponse) eff" where
  "toACMEProtocolOrder r order =
     bindE (worldE (ListACMEAuthorizations (ord_ID order))) (\<lambda>authorizations.
     let baseURL = requestBaseURL r in
     returnE \<lparr>pod_ID = ord_ID order, pod_Status = str_ACMEOrderStatus (ord_Status order),
       pod_URL = baseURL @ ''/acme/order/'' @ ord_ID order, pod_Identifiers = acmeProtocolOrderIdentifiers order,
       pod_Authorizations = map (\<lambda>a. baseURL @ ''/acme/authz/'' @ authz_ID a) authorizations,
       pod_Finalize = baseURL @ ''/acme/order/'' @ ord_ID order @ ''/finalize'',
       pod_Certificate = (if ord_CertificateID order = [] then [] else baseURL @ ''/acme/cert/'' @ ord_CertificateID order),
       pod_Expires = ord_ExpiresAt order\<rparr>)"

definition toACMEProtocolChallenge :: "http_request \<Rightarrow> ACMEChallenge \<Rightarrow> acmeProtocolChallengeResponse" where
  "toACMEProtocolChallenge r challenge =
     \<lparr>pch_ID = chal_ID challenge, pch_Type = str_ACMEChallengeType (chal_Type challenge),
      pch_URL = requestBaseURL r @ ''/acme/challenge/'' @ chal_ID challenge,
      pch_Token = chal_Token challenge, pch_Status = str_ACMEChallengeStatus (chal_Status challenge)\<rparr>"

definition toACMEProtocolAuthorization ::
  "http_request \<Rightarrow> ACMEAuthorization \<Rightarrow> (web, herr, acmeProtocolAuthorizationResponse) eff" where
  "toACMEProtocolAuthorization r authorization =
     bindE (worldE (ListACMEChallenges (authz_ID authorization))) (\<lambda>challenges.
     returnE \<lparr>paz_ID = authz_ID authorization, paz_Status = str_ACMEAuthorizationStatus (authz_Status authorization),
       paz_Identifier = \<lparr>pid_Type = authz_IdentifierType authorization, pid_Value = authz_IdentifierValue authorization\<rparr>,
       paz_Challenges = map (toACMEProtocolChallenge r) challenges, paz_Expires = authz_ExpiresAt authorization\<rparr>)"

definition acmeAuthorizationHasProcessingChallenge :: "acmeProtocolAuthorizationResponse \<Rightarrow> bool" where
  "acmeAuthorizationHasProcessingChallenge authorization =
     list_ex (\<lambda>challenge. pch_Status challenge = str_ACMEChallengeStatus ACMEChallengeProcessing) (paz_Challenges authorization)"

definition replay_nonce :: "server \<Rightarrow> (web, herr, (string \<times> string) list) eff" where
  "replay_nonce srv =
     bindE (attemptE (issueACMENonce srv)) (\<lambda>r.
     returnE (case r of Inl _ \<Rightarrow> [] | Inr nonce \<Rightarrow> [(''Replay-Nonce'', nonce)]))"

definition writeACMEJSON :: "server \<Rightarrow> hreq \<Rightarrow> (string \<times> string) list \<Rightarrow> int \<Rightarrow> payload \<Rightarrow> (web, herr, response) eff" where
  "writeACMEJSON srv q header status v =
     bindE (replay_nonce srv) (\<lambda>nonce.
     returnE (writeJSON (header @ nonce @ [(''Link'', acmeDirectoryLink (hr_request q))]) status v))"

definition acmeRetryAfterSeconds :: string where "acmeRetryAfterSeconds = ''5''"

definition retry_after :: "bool \<Rightarrow> (string \<times> string) list" where
  "retry_after b = (if b then [(''Retry-After'', acmeRetryAfterSeconds)] else [])"

section \<open>Protocol handlers\<close>

definition acmeDirectory :: handler where
  "acmeDirectory srv q b =
     (let baseURL = requestBaseURL (hr_request q) in
      returnE (writeJSON [] 200 (P_directory
        [(''newNonce'', baseURL @ ''/acme/new-nonce''), (''newAccount'', baseURL @ ''/acme/new-account''),
         (''newOrder'', baseURL @ ''/acme/new-order''), (''keyChange'', baseURL @ ''/acme/key-change''),
         (''revokeCert'', baseURL @ ''/acme/revoke-cert''), (''meta.externalAccountRequired'', ''false'')])))"

definition acmeNewNonce :: handler where
  "acmeNewNonce srv q b =
     bindE (issueACMENonce srv) (\<lambda>nonce.
     returnE \<lparr>rs_Status = 200,
       rs_Header = [(''Replay-Nonce'', nonce), (''Link'', acmeDirectoryLink (hr_request q)), (''Cache-Control'', ''no-store'')],
       rs_Body = NoBody\<rparr>)"

definition acmeNewAccount :: handler where
  "acmeNewAccount srv q b =
     bindE (decodeACMEJWS srv q) (\<lambda>jws.
     bindE (need (json_Unmarshal acmeNewAccountRequest_fields zero_acmeNewAccountRequest (jws_Payload jws))) (\<lambda>req.
     bindE (serviceCall srv q (\<lambda>svc ctx actor. CreateOrGetACMEAccount svc ctx actor
         \<lparr>cac_Contacts = nac_Contact req, cac_TermsOfServiceAgreed = nac_TermsOfServiceAgreed req,
          cac_KeyThumbprint = jws_KeyThumbprint jws, cac_KeyJWKJSON = jws_KeyJWKJSON jws\<rparr>)) (\<lambda>result.
     let response = toACMEProtocolAccount (hr_request q) (car_Account result) in
     writeACMEJSON srv q [(''Location'', pac_Location response)] (if car_Created result then 201 else 200) (P_account response))))"

definition acmeUpdateAccount :: handler where
  "acmeUpdateAccount srv q b =
     bindE (decodeACMEJWS srv q) (\<lambda>jws.
     let accountID = PathValue b ''id'' in
     thenE (needs (jws_AccountID jws \<noteq> [] \<and> jws_AccountID jws = accountID))
     (bindE (need (json_Unmarshal acmeUpdateAccountRequest_fields \<lparr>uar_Contact = None, uar_Status = []\<rparr> (jws_Payload jws))) (\<lambda>req.
      thenE (needs (uar_Status req = [] \<or> uar_Status req = str_ACMEAccountStatus ACMEAccountDeactivated))
      (bindE (serviceCall srv q (\<lambda>svc ctx actor. UpdateACMEAccount svc ctx actor accountID
          \<lparr>uac_Contacts = (case uar_Contact req of None \<Rightarrow> [] | Some xs \<Rightarrow> xs),
           uac_UpdateContacts = (uar_Contact req \<noteq> None), uac_Deactivate = (uar_Status req \<noteq> [])\<rparr>)) (\<lambda>account.
       writeACMEJSON srv q [] 200 (P_account (toACMEProtocolAccount (hr_request q) account)))))))"

definition acmeKeyChange :: handler where
  "acmeKeyChange srv q b =
     bindE (decodeACMEJWS srv q) (\<lambda>jws.
     thenE (needs (jws_AccountID jws \<noteq> []))
     (bindE (worldE (GetACMEAccount (jws_AccountID jws))) (\<lambda>account.
      thenE (needs (acct_KeyJWKJSON account \<noteq> []))
      (bindE (decodeACMEKeyChangeJWS srv (hr_request q) (jws_Payload jws)) (\<lambda>inner.
       thenE (needs (kcr_Account inner = requestBaseURL (hr_request q) @ ''/acme/account/'' @ acct_ID account))
       (thenE (needs (canonicalACMEJWKJSON (srv_crypto srv) (kcr_OldKey inner) = Some (acct_KeyJWKJSON account)))
       (bindE (serviceCall srv q (\<lambda>svc ctx actor. UpdateACMEAccountKey svc ctx actor (acct_ID account)
           \<lparr>uak_KeyThumbprint = kcr_NewKeyThumbprint inner, uak_KeyJWKJSON = kcr_NewKeyJWKJSON inner\<rparr>)) (\<lambda>updated.
        writeACMEJSON srv q [] 200 (P_account (toACMEProtocolAccount (hr_request q) updated))))))))))"

fun acmeOrderIdentifiers :: "acmeIdentifierRequest list \<Rightarrow> (string list \<times> string list) option" where
  "acmeOrderIdentifiers [] = Some ([], [])"
| "acmeOrderIdentifiers (i # is) =
     (if TrimSpace (aid_Value i) = [] then None
      else if aid_Type i = ''dns'' then map_option (\<lambda>(d, p). (aid_Value i # d, p)) (acmeOrderIdentifiers is)
      else if aid_Type i = ''ip'' then map_option (\<lambda>(d, p). (d, aid_Value i # p)) (acmeOrderIdentifiers is)
      else None)"

text \<open>The defaults of the configuration for what an order request leaves out.\<close>

definition new_order_defaults :: "server \<Rightarrow> acmeJWSResult \<Rightarrow> acmeNewOrderRequest \<Rightarrow> (web, herr, acmeNewOrderRequest) eff" where
  "new_order_defaults srv jws req =
     (let c = srv_acme srv; dflt = (\<lambda>s d. if s = [] then d else s);
          req1 = req\<lparr>anr_AccountID := dflt (anr_AccountID req) (jws_AccountID jws),
                     anr_IdentityID := dflt (anr_IdentityID req) (acme_DefaultIdentityID c),
                     anr_IssuerID := dflt (anr_IssuerID req) (acme_DefaultIssuerID c),
                     anr_CertificateProfileID := dflt (anr_CertificateProfileID req) (acme_DefaultCertificateProfileID c)\<rparr> in
      if IsZero (anr_NotAfter req) \<and> 0 < acme_DefaultValidityPeriod c
      then bindE (timeNow srv) (\<lambda>now. returnE (req1\<lparr>anr_NotAfter := AddD now (acme_DefaultValidityPeriod c)\<rparr>))
      else returnE req1)"

definition acmeNewOrder :: handler where
  "acmeNewOrder srv q b =
     bindE (decodeACMEJWS srv q) (\<lambda>jws.
     bindE (need (json_Unmarshal acmeNewOrderRequest_fields zero_acmeNewOrderRequest (jws_Payload jws))) (\<lambda>req0.
     thenE (needs (jws_AccountID jws \<noteq> []))
     (bindE (new_order_defaults srv jws req0) (\<lambda>req.
      thenE (needs (anr_AccountID req = jws_AccountID jws))
      (bindE (need (acmeOrderIdentifiers (anr_Identifiers req))) (\<lambda>(dnsNames, ipAddresses).
       bindE (serviceCall srv q (\<lambda>svc ctx actor. CreateACMEOrder svc ctx actor
           \<lparr>cao_AccountID = anr_AccountID req, cao_IdentityID = anr_IdentityID req, cao_IssuerID = anr_IssuerID req,
            cao_CertificateProfileID = anr_CertificateProfileID req, cao_RequestedDNSNames = dnsNames,
            cao_RequestedIPAddresses = ipAddresses, cao_RequestedNotAfter = anr_NotAfter req\<rparr>)) (\<lambda>order.
       bindE (toACMEProtocolOrder (hr_request q) order) (\<lambda>response.
       writeACMEJSON srv q [(''Location'', pod_URL response)] 201 (P_order response)))))))))"

definition acmeGetOrder :: handler where
  "acmeGetOrder srv q b =
     bindE (worldE (GetACMEOrder (PathValue b ''id''))) (\<lambda>order.
     bindE (toACMEProtocolOrder (hr_request q) order) (\<lambda>response.
     returnE (writeJSON [] 200 (P_order response))))"

definition acmePostAsGetOrder :: handler where
  "acmePostAsGetOrder srv q b =
     bindE (decodeACMEJWS srv q) (\<lambda>jws.
     thenE (needs (jws_Payload jws = []))
     (thenE (requireACMEOrderAccount (PathValue b ''id'') (jws_AccountID jws))
     (bindE (worldE (GetACMEOrder (PathValue b ''id''))) (\<lambda>order.
      bindE (toACMEProtocolOrder (hr_request q) order) (\<lambda>response.
      writeACMEJSON srv q [] 200 (P_order response))))))"

definition acmeGetAuthorization :: handler where
  "acmeGetAuthorization srv q b =
     bindE (serviceCall srv q (\<lambda>svc ctx actor. PollACMEAuthorization svc ctx actor (PathValue b ''id''))) (\<lambda>authorization.
     bindE (toACMEProtocolAuthorization (hr_request q) authorization) (\<lambda>response.
     returnE (writeJSON (retry_after (acmeAuthorizationHasProcessingChallenge response)) 200 (P_authorization response))))"

definition acmePostAsGetAuthorization :: handler where
  "acmePostAsGetAuthorization srv q b =
     bindE (decodeACMEJWS srv q) (\<lambda>jws.
     thenE (needs (jws_Payload jws = []))
     (thenE (requireACMEAuthorizationAccount (PathValue b ''id'') (jws_AccountID jws))
     (bindE (serviceCall srv q (\<lambda>svc ctx actor. PollACMEAuthorization svc ctx actor (PathValue b ''id''))) (\<lambda>authorization.
      bindE (toACMEProtocolAuthorization (hr_request q) authorization) (\<lambda>response.
      writeACMEJSON srv q (retry_after (acmeAuthorizationHasProcessingChallenge response)) 200 (P_authorization response))))))"

definition acmeCompleteChallenge :: handler where
  "acmeCompleteChallenge srv q b =
     bindE (decodeACMEJWS srv q) (\<lambda>jws.
     thenE (requireACMEChallengeAccount (PathValue b ''id'') (jws_AccountID jws))
     (bindE (serviceCall srv q (\<lambda>svc ctx actor. ValidateACMEHTTP01Challenge svc ctx actor (PathValue b ''id''))) (\<lambda>challenge.
      writeACMEJSON srv q
        (retry_after (chal_Status challenge = ACMEChallengeProcessing) @
         [(''Link'', acmeAuthorizationLink (hr_request q) (chal_AuthorizationID challenge))])
        200 (P_challenge (toACMEProtocolChallenge (hr_request q) challenge)))))"

text \<open>\<open>pkix.Name{CommonName: cn}.String()\<close>: RFC 2253 escapes.\<close>

definition rdn_escape :: "string \<Rightarrow> string" where
  "rdn_escape s =
     concat (map (\<lambda>(i, c).
       if c \<in> set '',+<>;'' \<or> c = CHR 0x22 \<or> c = CHR 0x5C \<or> (c = CHR '' '' \<and> (i = 0 \<or> i = length s - 1)) \<or>
               (c = CHR ''#'' \<and> i = 0)
       then [CHR 0x5C, c] else [c]) (enumerate 0 s))"

definition common_name :: "string \<Rightarrow> string" where
  "common_name cn = (if cn = [] then [] else ''CN='' @ rdn_escape cn)"

definition acmeDefaultSubjectFromCSR :: "string list \<Rightarrow> string list \<Rightarrow> string" where
  "acmeDefaultSubjectFromCSR dnsNames ips =
     (case find (\<lambda>name. TrimSpace name \<noteq> []) dnsNames of
        Some name \<Rightarrow> common_name name
      | None \<Rightarrow> (case ips of [] \<Rightarrow> [] | ip # _ \<Rightarrow> common_name ip))"

definition decodeACMECSR :: "string \<Rightarrow> nat list option" where
  "decodeACMECSR encoded =
     (case base64_url_decode encoded of Some der \<Rightarrow> Some der | None \<Rightarrow> base64_url_padded_decode encoded)"

text \<open>\<open>pem.EncodeToMemory\<close>: standard base64 with padding in lines of 64.\<close>

definition base64_std :: "nat list \<Rightarrow> string" where
  "base64_std bs =
     (let s = map (\<lambda>c. if c = CHR ''-'' then CHR ''+'' else if c = CHR ''_'' then CHR ''/'' else c) (base64_url bs) in
      s @ replicate ((4 - length s mod 4) mod 4) (CHR ''=''))"

definition pem_encode :: "string \<Rightarrow> nat list \<Rightarrow> string" where
  "pem_encode typ bs =
     (let nl = [CHR 0x0A] in
      ''-----BEGIN '' @ typ @ ''-----'' @ nl @ concat (map (\<lambda>l. l @ nl) (chunks 64 (base64_std bs))) @
      ''-----END '' @ typ @ ''-----'' @ nl)"

definition normalizeACMEFinalizeRequest :: "acme_crypto \<Rightarrow> finalizeACMEOrderRequest \<Rightarrow> (string \<times> string) option" where
  "normalizeACMEFinalizeRequest cry req =
     (if TrimSpace (fin_CSRPEM req) \<noteq> [] then Some (fin_CSRPEM req, fin_RequestedSubject req)
      else if TrimSpace (fin_CSR req) = [] then None
      else case decodeACMECSR (fin_CSR req) of
        None \<Rightarrow> None
      | Some der \<Rightarrow>
          (case cry_ParseCertificateRequest cry der of
             None \<Rightarrow> None
           | Some (csrSubject, dnsNames, ips) \<Rightarrow>
               let s1 = fin_RequestedSubject req;
                   s2 = (if TrimSpace s1 = [] then csrSubject else s1);
                   s3 = (if TrimSpace s2 = [] then acmeDefaultSubjectFromCSR dnsNames ips else s2) in
               if TrimSpace s3 = [] then None
               else Some (pem_encode ''CERTIFICATE REQUEST'' der, s3)))"

definition acmeFinalizeOrder :: handler where
  "acmeFinalizeOrder srv q b =
     bindE (decodeACMEJWS srv q) (\<lambda>jws.
     bindE (need (json_Unmarshal finalizeACMEOrderRequest_fields zero_finalizeACMEOrderRequest (jws_Payload jws))) (\<lambda>req.
     thenE (requireACMEOrderAccount (PathValue b ''id'') (jws_AccountID jws))
     (bindE (need (normalizeACMEFinalizeRequest (srv_crypto srv) req)) (\<lambda>(csrPEM, requestedSubject).
      bindE (serviceCall srv q (\<lambda>svc ctx actor. FinalizeACMEOrder svc ctx actor (PathValue b ''id'')
          \<lparr>fao_CSRPEM = csrPEM, fao_RequestedSubject = requestedSubject\<rparr>)) (\<lambda>order.
      bindE (toACMEProtocolOrder (hr_request q) order) (\<lambda>response.
      writeACMEJSON srv q [] 200 (P_order response)))))))"

definition acmeRevokeCertificate :: handler where
  "acmeRevokeCertificate srv q b =
     bindE (decodeACMEJWS srv q) (\<lambda>jws.
     bindE (need (json_Unmarshal acmeRevokeCertificateRequest_fields zero_acmeRevokeCertificateRequest (jws_Payload jws))) (\<lambda>req.
     thenE (needs (arc_CertificateID req \<noteq> [] \<and> str_RevocationReason (arc_Reason req) \<noteq> []))
     (thenE (requireACMECertificateAccount (arc_CertificateID req) (jws_AccountID jws))
     (bindE (serviceCall srv q (\<lambda>svc ctx actor. RevokeCertificate svc ctx actor (arc_CertificateID req) (arc_Reason req))) (\<lambda>_.
      writeACMEJSON srv q [] 200 P_empty)))))"

definition acmeAppendCertificateChainBlock :: "string \<Rightarrow> string \<Rightarrow> string" where
  "acmeAppendCertificateChainBlock builder block =
     (let normalized = rev (dropWhile line_break (rev block)) in
      if normalized = [] then builder
      else builder @ (if builder = [] then [] else [CHR 0x0A]) @ normalized)"

definition acmeCertificateChainPEM :: "string \<Rightarrow> (web, herr, string) eff" where
  "acmeCertificateChainPEM certificateID =
     bindE (worldE (repoE (repo_GetCertificate certificateID))) (\<lambda>certificate.
     bindE (worldE (GetIssuerChain (cert_IssuerID certificate))) (\<lambda>chain.
     let text = foldl acmeAppendCertificateChainBlock [] (cert_CertificatePEM certificate # map iss_CertificatePEM chain) in
     returnE (if text = [] then [] else text @ [CHR 0x0A])))"

definition acmeGetCertificate :: handler where
  "acmeGetCertificate srv q b =
     bindE (acmeCertificateChainPEM (PathValue b ''id'')) (\<lambda>chainPEM.
     returnE \<lparr>rs_Status = 200, rs_Header = [(''Content-Type'', ''application/pem-certificate-chain'')], rs_Body = Text chainPEM\<rparr>)"

definition acmePostAsGetCertificate :: handler where
  "acmePostAsGetCertificate srv q b =
     bindE (decodeACMEJWS srv q) (\<lambda>jws.
     thenE (needs (jws_Payload jws = []))
     (thenE (requireACMECertificateAccount (PathValue b ''id'') (jws_AccountID jws))
     (bindE (acmeCertificateChainPEM (PathValue b ''id'')) (\<lambda>chainPEM.
      bindE (replay_nonce srv) (\<lambda>nonce.
      returnE \<lparr>rs_Status = 200,
        rs_Header = nonce @ [(''Link'', acmeDirectoryLink (hr_request q)), (''Content-Type'', ''application/pem-certificate-chain'')],
        rs_Body = Text chainPEM\<rparr>)))))"

end
