(* ===== verification/HttpServer.thy ===== *)
theory HttpServer
  imports AcmeHttp
begin

text \<open>
  The server of \<open>service/internal/httpapi/server.go\<close>: the answer to an error, the table of routes and
  \<open>ServeHTTP\<close>, which authenticates a request, asks the authorizer, applies the rate limit and
  dispatches. The answers of the router itself have the status and the headers of \<open>net/http\<close>; the
  page of a redirect is not kept.
\<close>

section \<open>Errors\<close>

definition StatusText :: "int \<Rightarrow> string" where
  "StatusText code =
     (case map_of
        [(400, ''Bad Request''), (401, ''Unauthorized''), (403, ''Forbidden''), (404, ''Not Found''),
         (405, ''Method Not Allowed''), (409, ''Conflict''), (415, ''Unsupported Media Type''),
         (422, ''Unprocessable Entity''), (429, ''Too Many Requests''), (500, ''Internal Server Error''),
         (502, ''Bad Gateway'')] code of None \<Rightarrow> [] | Some t \<Rightarrow> t)"

text \<open>
  \<open>int(window.Seconds())\<close> is the whole seconds of the window, which is positive. The quotient is exact
  as long as the window is below \<open>2^24\<close> seconds, where \<open>float64\<close> still tells the nanoseconds apart.
\<close>

definition writeACMEProblem :: "server \<Rightarrow> hreq \<Rightarrow> int \<Rightarrow> herr \<Rightarrow> (web, herr, response) eff" where
  "writeACMEProblem srv q status e =
     bindE (replay_nonce srv) (\<lambda>nonce.
     returnE \<lparr>rs_Status = status,
       rs_Header = nonce @ [(''Link'', acmeDirectoryLink (hr_request q))] @
         (if herr_Is e ErrRateLimited
          then [(''Retry-After'', itoa (acme_RateLimitWindow (srv_acme srv) div Second))] else []) @
         [(''Content-Type'', ''application/problem+json'')],
       rs_Body = JSON (P_problem \<lparr>apr_Type = acmeProblemType e, apr_Title = StatusText status, apr_Status = status,
                                  apr_Detail = publicErrorMessage e\<rparr>)\<rparr>)"

definition audit_error :: "herr \<Rightarrow> err" where
  "audit_error e = (case e of errACMEBadNonce \<Rightarrow> ErrInvalidRequest | Svc x \<Rightarrow> x)"

definition writeError :: "server \<Rightarrow> hreq \<Rightarrow> herr \<Rightarrow> (web, herr, response) eff" where
  "writeError srv q e =
     (let r = hr_request q; status = statusForError e in
      bindE (attemptE (serviceCall srv q (\<lambda>svc ctx actor. RecordAPIFailure svc ctx actor
          \<lparr>afr_Method = rq_Method r, afr_Path = rq_Path r, afr_StatusCode = status, afr_Err = audit_error e\<rparr>))) (\<lambda>_.
      if isPublicACMEProtocolEndpoint (rq_Method r) (rq_Path r) then writeACMEProblem srv q status e
      else returnE (writeJSON [] status (P_error (publicErrorMessage e)))))"

text \<open>A handler's answer, or the answer to its error.\<close>

definition answering :: "server \<Rightarrow> hreq \<Rightarrow> (web, herr, response) eff \<Rightarrow> (web, herr, response) eff" where
  "answering srv q m =
     bindE (attemptE m) (\<lambda>r. case r of Inl e \<Rightarrow> writeError srv q e | Inr resp \<Rightarrow> returnE resp)"

section \<open>Routes\<close>

definition registerRoutes :: "handler routes" where
  "registerRoutes =
     [(''GET'', ''/debug/vars'', debugVars_handler),
      (''POST'', ''/identities'', createIdentity_handler),
      (''GET'', ''/identities'', listIdentities_handler),
      (''GET'', ''/identities/{id}'', getIdentity_handler),
      (''POST'', ''/issuers'', createIssuer_handler),
      (''GET'', ''/issuers/{id}/chain'', getIssuerChain_handler),
      (''POST'', ''/issuers/{id}/ocsp-responders'', createOCSPResponder_handler),
      (''GET'', ''/issuers/{id}/ocsp-responders'', listOCSPResponders_handler),
      (''POST'', ''/issuers/{id}/ocsp-responders/rotate'', rotateOCSPResponder_handler),
      (''POST'', ''/issuers/{id}/ocsp-responders/{responderID}/disable'', disableOCSPResponder_handler),
      (''POST'', ''/notification-endpoints'', createNotificationEndpoint_handler),
      (''GET'', ''/notification-endpoints'', listNotificationEndpoints_handler),
      (''POST'', ''/notification-endpoints/{id}/disable'', disableNotificationEndpoint_handler),
      (''GET'', ''/outbox/messages'', listOutboxMessages_handler),
      (''POST'', ''/outbox/messages/dead-letter/replay'', replayDeadLetterOutboxMessages_handler),
      (''POST'', ''/outbox/messages/{id}/retry'', retryOutboxMessage_handler),
      (''GET'', ''/operator/certificate-inventory'', listCertificateInventory_handler),
      (''GET'', ''/operator/expiry-slo'', getExpirySLO_handler),
      (''POST'', ''/api-keys'', createAPIKey_handler),
      (''GET'', ''/api-keys'', listAPIKeys_handler),
      (''POST'', ''/api-keys/{id}/rotate'', rotateAPIKey_handler),
      (''POST'', ''/api-keys/{id}/disable'', disableAPIKey_handler),
      (''POST'', ''/acme/accounts'', createACMEAccount_handler),
      (''GET'', ''/acme/accounts'', listACMEAccounts_handler),
      (''POST'', ''/acme/orders'', createACMEOrder_handler),
      (''GET'', ''/acme/orders/{id}'', getACMEOrder_handler),
      (''GET'', ''/acme/orders/{id}/authorizations'', listACMEAuthorizations_handler),
      (''POST'', ''/acme/orders/{id}/finalize'', finalizeACMEOrder_handler),
      (''GET'', ''/acme/authorizations/{id}/challenges'', listACMEChallenges_handler),
      (''POST'', ''/acme/challenges/{id}/complete'', completeACMEChallenge_handler),
      (''GET'', ''/acme/directory'', acmeDirectory),
      (''HEAD'', ''/acme/new-nonce'', acmeNewNonce),
      (''GET'', ''/acme/new-nonce'', acmeNewNonce),
      (''POST'', ''/acme/new-account'', acmeNewAccount),
      (''POST'', ''/acme/account/{id}'', acmeUpdateAccount),
      (''POST'', ''/acme/new-order'', acmeNewOrder),
      (''POST'', ''/acme/key-change'', acmeKeyChange),
      (''GET'', ''/acme/order/{id}'', acmeGetOrder),
      (''POST'', ''/acme/order/{id}'', acmePostAsGetOrder),
      (''GET'', ''/acme/authz/{id}'', acmeGetAuthorization),
      (''POST'', ''/acme/authz/{id}'', acmePostAsGetAuthorization),
      (''POST'', ''/acme/challenge/{id}'', acmeCompleteChallenge),
      (''POST'', ''/acme/order/{id}/finalize'', acmeFinalizeOrder),
      (''POST'', ''/acme/revoke-cert'', acmeRevokeCertificate),
      (''GET'', ''/acme/cert/{id}'', acmeGetCertificate),
      (''POST'', ''/acme/cert/{id}'', acmePostAsGetCertificate),
      (''POST'', ''/certificate-profiles'', createCertificateProfile_handler),
      (''GET'', ''/certificate-profiles'', listCertificateProfiles_handler),
      (''GET'', ''/certificate-profiles/{id}'', getCertificateProfile_handler),
      (''POST'', ''/enrollments'', createEnrollment_handler),
      (''GET'', ''/enrollments'', listEnrollments_handler),
      (''GET'', ''/enrollments/{id}'', getEnrollment_handler),
      (''POST'', ''/enrollments/{id}/approve'', approveEnrollment_handler),
      (''POST'', ''/enrollments/{id}/reject'', rejectEnrollment_handler),
      (''POST'', ''/certificates'', issueCertificate_handler),
      (''GET'', ''/certificates'', listCertificates_handler),
      (''POST'', ''/certificates/expiration-scan'', scanCertificateExpirations_handler),
      (''GET'', ''/certificates/{id}'', getCertificate_handler),
      (''POST'', ''/certificates/{id}/revoke'', revokeCertificate_handler),
      (''POST'', ''/certificates/{id}/suspend'', suspendCertificate_handler),
      (''POST'', ''/certificates/{id}/resume'', resumeCertificate_handler),
      (''POST'', ''/certificates/{id}/renew'', renewCertificate_handler),
      (''POST'', ''/certificates/{id}/reissue'', reissueCertificate_handler),
      (''POST'', ''/crls'', publishCRL_handler),
      (''GET'', ''/crls/{id}'', getCRLPublication_handler),
      (''GET'', ''/issuers/{id}/crl'', getLatestIssuerCRL_handler),
      (''POST'', ''/ocsp'', respondOCSP_handler),
      (''GET'', ''/audit-events'', listAuditEvents_handler),
      (''GET'', ''/audit-events/integrity'', getAuditIntegrity_handler),
      (''POST'', ''/audit-events/retention/prune'', pruneAuditEvents_handler),
      (''POST'', ''/audit-events/repair/issuance'', repairIssuanceAuditEvents_handler),
      (''GET'', ''/trust/anchors'', listTrustAnchors_handler)]"

section \<open>Dispatch\<close>

text \<open>\<open>url.URL{Path: p, RawQuery: q}.String()\<close> for a path that starts with a slash.\<close>

definition upper_hex :: "nat \<Rightarrow> char" where
  "upper_hex n = (if n < 10 then char_of (48 + n) else char_of (55 + n))"

definition path_byte_ok :: "char \<Rightarrow> bool" where
  "path_byte_ok c \<longleftrightarrow>
     (let n = of_char c :: nat in
      48 \<le> n \<and> n \<le> 57 \<or> 65 \<le> n \<and> n \<le> 90 \<or> 97 \<le> n \<and> n \<le> 122 \<or> c \<in> set ''-_.~$&+,/:;=@'')"

definition escape_path :: "string \<Rightarrow> string" where
  "escape_path p =
     concat (map (\<lambda>c. if path_byte_ok c then [c]
                      else [CHR ''%'', upper_hex (of_char c div 16), upper_hex (of_char c mod 16)]) p)"

definition redirect_url :: "http_request \<Rightarrow> string \<Rightarrow> string" where
  "redirect_url r path = escape_path path @ (if rq_RawQuery r = [] then [] else CHR ''?'' # rq_RawQuery r)"

text \<open>\<open>http.Error\<close>.\<close>

definition http_Error :: "(string \<times> string) list \<Rightarrow> string \<Rightarrow> int \<Rightarrow> response" where
  "http_Error header msg code =
     \<lparr>rs_Status = code,
      rs_Header = header @ [(''Content-Type'', ''text/plain; charset=utf-8''), (''X-Content-Type-Options'', ''nosniff'')],
      rs_Body = Text (msg @ [CHR 0x0A])\<rparr>"

text \<open>The methods of the patterns that match a path, sorted; \<open>HEAD\<close> comes with \<open>GET\<close>.\<close>

definition matchingMethods :: "handler routes \<Rightarrow> string \<Rightarrow> string list" where
  "matchingMethods rs path =
     (let segs = Split (drop 1 path) (CHR ''/'');
          has = (\<lambda>m. list_ex (\<lambda>(m', pat, _). m' = m \<and> match_segs (pattern_segs pat) segs \<noteq> None) rs) in
      (if has ''GET'' then [''GET''] else []) @ (if has ''GET'' \<or> has ''HEAD'' then [''HEAD''] else []) @
      (if has ''POST'' then [''POST''] else []))"

definition mux_ServeHTTP :: "server \<Rightarrow> hreq \<Rightarrow> (web, herr, response) eff" where
  "mux_ServeHTTP srv q =
     (case mux_Handler registerRoutes (hr_request q) of
        Dispatch pat h b \<Rightarrow> answering srv q (h srv q b)
      | Redirect pat path \<Rightarrow>
          returnE \<lparr>rs_Status = 301, rs_Header = [(''Location'', redirect_url (hr_request q) path)], rs_Body = NoBody\<rparr>
      | MethodNotAllowed \<Rightarrow>
          returnE (http_Error [(''Allow'', Join (matchingMethods registerRoutes (rq_EscapedPath (hr_request q))) '', '')]
                     (StatusText 405) 405)
      | NotFound \<Rightarrow> returnE (http_Error [] ''404 page not found'' 404))"

text \<open>The authorizer sees a request that is not public and has a route; it can only refuse.\<close>

definition route_pattern :: "http_request \<Rightarrow> string" where
  "route_pattern r =
     (case mux_Handler registerRoutes r of Dispatch pat _ _ \<Rightarrow> pat | Redirect pat _ \<Rightarrow> pat | _ \<Rightarrow> [])"

definition authorization_input :: "server \<Rightarrow> hreq \<Rightarrow> AuditRequestMetadata \<Rightarrow> AuthorizationInput" where
  "authorization_input srv q md =
     (let r = hr_request q in
      \<lparr>azi_ActorID = requestActor q, azi_AuthenticationMethod = auth_Mode (srv_auth srv),
       azi_RequiredScope = str_requiredScope (requiredScopeForRequest (rq_Method r) (rq_Path r)),
       azi_HTTPMethod = rq_Method r, azi_RoutePattern = route_pattern r, azi_RequestID = arm_RequestID md,
       azi_Traceparent = arm_Traceparent md, azi_ClientIP = arm_ClientIP md, azi_UserAgent = arm_UserAgent md\<rparr>)"

definition authorizeRequest :: "server \<Rightarrow> AuditRequestMetadata \<Rightarrow> hreq \<Rightarrow> (web, herr, hreq \<times> bool) eff" where
  "authorizeRequest srv md q =
     (let r = hr_request q in
      case srv_authorizer srv of
        None \<Rightarrow> returnE (q, True)
      | Some authorize \<Rightarrow>
          if isPublicEndpoint (rq_Method r) (rq_Path r) \<or> route_pattern r = [] then returnE (q, True)
          else bindE (worldE (drawE (authorize (authorization_input srv q md)))) (\<lambda>(result, err, contextErr).
            returnE (q\<lparr>hr_ctx := (hr_ctx q)\<lparr>ctx_authorization := Some (authorizationAuditMetadata result err contextErr)\<rparr>\<rparr>,
                     err = None \<and> azr_Outcome result = AuthorizationOutcomeAllow)))"

text \<open>The answer and the boundary that the request is counted under.\<close>

definition serveAuthenticated :: "server \<Rightarrow> AuditRequestMetadata \<Rightarrow> hreq \<Rightarrow> (web, herr, string \<times> response) eff" where
  "serveAuthenticated srv md q0 =
     (let r = hr_request q0; boundary = requestMetricBoundary (rq_Path r) in
      bindE (authorizeRequest srv md q0) (\<lambda>(q, allowed).
      if \<not> allowed then bindE (writeError srv q (Svc ErrForbidden)) (\<lambda>resp. returnE (boundary, resp))
      else bindE (attemptE (checkACMERateLimit srv r)) (\<lambda>limited.
        case limited of
          Inl e \<Rightarrow> bindE (writeError srv q e) (\<lambda>resp. returnE (''rate_limit'', resp))
        | Inr _ \<Rightarrow> bindE (mux_ServeHTTP srv q) (\<lambda>resp. returnE (boundary, resp)))))"

definition request_metadata :: "server \<Rightarrow> http_request \<Rightarrow> string \<Rightarrow> time \<Rightarrow> AuditRequestMetadata" where
  "request_metadata srv r requestID now =
     \<lparr>arm_RequestID = requestID, arm_Traceparent = TrimSpace (header_Get r ''Traceparent''),
      arm_ClientIP = requestClientIP r (auth_TrustedProxies (srv_auth srv)),
      arm_UserAgent = TrimSpace (header_Get r ''User-Agent''), arm_AuthMethod = auth_Mode (srv_auth srv),
      arm_StartedAt = now\<rparr>"

definition serveRequest :: "server \<Rightarrow> http_request \<Rightarrow> AuditRequestMetadata \<Rightarrow> (web, herr, string \<times> response) eff" where
  "serveRequest srv r md =
     (let q = \<lparr>hr_request = r, hr_ctx = background\<lparr>ctx_request := Some md\<rparr>, hr_actor = None\<rparr> in
      bindE (attemptE (authenticateRequest srv q)) (\<lambda>authenticated.
      case authenticated of
        Inl e \<Rightarrow>
          thenE (RecordEvent ''auth:failure'')
          (bindE (writeError srv (q\<lparr>hr_actor := Some ''anonymous''\<rparr>) e) (\<lambda>resp. returnE (''auth'', resp)))
      | Inr q' \<Rightarrow> serveAuthenticated srv md q'))"

definition ServeHTTP :: "server \<Rightarrow> http_request \<Rightarrow> (web, herr, response) eff" where
  "ServeHTTP srv r =
     bindE (requestIDForRequest srv r) (\<lambda>requestID.
     bindE (timeNow srv) (\<lambda>now.
     bindE (serveRequest srv r (request_metadata srv r requestID now)) (\<lambda>(boundary, resp).
     thenE (RecordHTTPRequest boundary (rs_Status resp))
     (returnE (resp\<lparr>rs_Header := (''X-Request-Id'', requestID) # rs_Header resp\<rparr>)))))"

end
