(* ===== verification/LifecycleSpec.thy ===== *)
theory LifecycleSpec
  imports MemoryStore
begin

text \<open>
  The abstract specification of the store: the state transitions of
  \<open>docs/reference/state-transitions.md\<close> as an inductive step relation. A step is what one committed
  transaction makes visible, or a part of it that is a transition of its own. \<open>LifecycleInv\<close> shows
  what sequences of steps keep, the refinement theories which operation takes which steps.
\<close>

section \<open>Identifiers and well-formed stores\<close>

text \<open>
  The identifiers in use: the keys of the tables that are filed under generated identifiers, and
  the certificate identifiers that signed issuance attempts have reserved.
\<close>

definition table_ids :: "'v gomap \<Rightarrow> string set" where
  "table_ids m = {k. mget m k \<noteq> None}"

definition reserved_ids :: "IssuanceAttempt gomap \<Rightarrow> string set" where
  "reserved_ids m = {i. \<exists>k a. mget m k = Some a \<and> att_Status a = IssuanceAttemptSigned \<and> i = att_CertificateID a}"

definition ids_of :: "memory_store \<Rightarrow> string set" where
  "ids_of s =
     table_ids (t_identities s) \<union> table_ids (t_issuers s) \<union> table_ids (t_ocspResponders s) \<union>
     table_ids (t_notifications s) \<union> table_ids (t_profiles s) \<union> table_ids (t_enrollments s) \<union>
     table_ids (t_certificates s) \<union> reserved_ids (t_issuanceAttempts s) \<union> table_ids (t_revocations s) \<union>
     table_ids (t_crls s) \<union> table_ids (t_outbox s) \<union> table_ids (t_apiKeys s) \<union>
     table_ids (t_acmeAccounts s) \<union> table_ids (t_acmeOrders s) \<union> table_ids (t_acmeAuthzs s) \<union>
     table_ids (t_acmeChallenges s)"

text \<open>Every record is filed under its own key, once.\<close>

definition wf_store :: "memory_store \<Rightarrow> bool" where
  "wf_store s \<longleftrightarrow>
     keyed idn_ID (t_identities s) \<and> keyed iss_ID (t_issuers s) \<and> keyed rsp_ID (t_ocspResponders s) \<and>
     keyed ep_ID (t_notifications s) \<and> keyed prof_ID (t_profiles s) \<and> keyed enr_ID (t_enrollments s) \<and>
     keyed cert_ID (t_certificates s) \<and> keyed att_EnrollmentID (t_issuanceAttempts s) \<and>
     keyed rev_ID (t_revocations s) \<and> keyed crl_ID (t_crls s) \<and> keyed msg_ID (t_outbox s) \<and>
     keyed key_ID (t_apiKeys s) \<and> keyed acct_ID (t_acmeAccounts s) \<and> keyed ord_ID (t_acmeOrders s) \<and>
     keyed authz_ID (t_acmeAuthzs s) \<and> keyed chal_ID (t_acmeChallenges s)"

abbreviation put_identity :: "Identity \<Rightarrow> memory_store \<Rightarrow> memory_store" where
  "put_identity x s \<equiv> s\<lparr>t_identities := mput (idn_ID x) x (t_identities s)\<rparr>"

abbreviation put_issuer :: "Issuer \<Rightarrow> memory_store \<Rightarrow> memory_store" where
  "put_issuer x s \<equiv> s\<lparr>t_issuers := mput (iss_ID x) x (t_issuers s)\<rparr>"

abbreviation put_responder :: "OCSPResponder \<Rightarrow> memory_store \<Rightarrow> memory_store" where
  "put_responder x s \<equiv> s\<lparr>t_ocspResponders := mput (rsp_ID x) x (t_ocspResponders s)\<rparr>"

abbreviation put_endpoint :: "NotificationEndpoint \<Rightarrow> memory_store \<Rightarrow> memory_store" where
  "put_endpoint x s \<equiv> s\<lparr>t_notifications := mput (ep_ID x) x (t_notifications s)\<rparr>"

abbreviation put_profile :: "CertificateProfile \<Rightarrow> memory_store \<Rightarrow> memory_store" where
  "put_profile x s \<equiv> s\<lparr>t_profiles := mput (prof_ID x) x (t_profiles s)\<rparr>"

abbreviation put_enrollment :: "Enrollment \<Rightarrow> memory_store \<Rightarrow> memory_store" where
  "put_enrollment x s \<equiv> s\<lparr>t_enrollments := mput (enr_ID x) x (t_enrollments s)\<rparr>"

abbreviation put_certificate :: "Certificate \<Rightarrow> memory_store \<Rightarrow> memory_store" where
  "put_certificate x s \<equiv> s\<lparr>t_certificates := mput (cert_ID x) x (t_certificates s)\<rparr>"

abbreviation put_attempt :: "IssuanceAttempt \<Rightarrow> memory_store \<Rightarrow> memory_store" where
  "put_attempt x s \<equiv> s\<lparr>t_issuanceAttempts := mput (att_EnrollmentID x) x (t_issuanceAttempts s)\<rparr>"

abbreviation put_revocation :: "Revocation \<Rightarrow> memory_store \<Rightarrow> memory_store" where
  "put_revocation x s \<equiv> s\<lparr>t_revocations := mput (rev_ID x) x (t_revocations s)\<rparr>"

abbreviation put_crl :: "CRLPublication \<Rightarrow> memory_store \<Rightarrow> memory_store" where
  "put_crl x s \<equiv> s\<lparr>t_crls := mput (crl_ID x) x (t_crls s)\<rparr>"

abbreviation put_message :: "OutboxMessage \<Rightarrow> memory_store \<Rightarrow> memory_store" where
  "put_message x s \<equiv> s\<lparr>t_outbox := mput (msg_ID x) x (t_outbox s)\<rparr>"

abbreviation put_api_key :: "APIKey \<Rightarrow> memory_store \<Rightarrow> memory_store" where
  "put_api_key x s \<equiv> s\<lparr>t_apiKeys := mput (key_ID x) x (t_apiKeys s)\<rparr>"

abbreviation put_account :: "ACMEAccount \<Rightarrow> memory_store \<Rightarrow> memory_store" where
  "put_account x s \<equiv> s\<lparr>t_acmeAccounts := mput (acct_ID x) x (t_acmeAccounts s)\<rparr>"

abbreviation put_order :: "ACMEOrder \<Rightarrow> memory_store \<Rightarrow> memory_store" where
  "put_order x s \<equiv> s\<lparr>t_acmeOrders := mput (ord_ID x) x (t_acmeOrders s)\<rparr>"

abbreviation put_authz :: "ACMEAuthorization \<Rightarrow> memory_store \<Rightarrow> memory_store" where
  "put_authz x s \<equiv> s\<lparr>t_acmeAuthzs := mput (authz_ID x) x (t_acmeAuthzs s)\<rparr>"

abbreviation put_challenge :: "ACMEChallenge \<Rightarrow> memory_store \<Rightarrow> memory_store" where
  "put_challenge x s \<equiv> s\<lparr>t_acmeChallenges := mput (chal_ID x) x (t_acmeChallenges s)\<rparr>"

section \<open>Guards\<close>

text \<open>Two active intermediates under one active root that is a trust anchor.\<close>

definition same_root :: "Issuer gomap \<Rightarrow> string \<Rightarrow> string \<Rightarrow> bool" where
  "same_root issuers i j \<longleftrightarrow> i \<noteq> j \<and>
     (\<exists>a b r. mget issuers i = Some a \<and> mget issuers j = Some b \<and> mget issuers (iss_ParentIssuerID a) = Some r \<and>
        iss_ParentIssuerID b = iss_ParentIssuerID a \<and>
        iss_Status a = IssuerActive \<and> iss_Status b = IssuerActive \<and> iss_Status r = IssuerActive \<and>
        iss_Kind a = IssuerIntermediateCA \<and> iss_Kind b = IssuerIntermediateCA \<and>
        iss_Kind r = IssuerRootCA \<and> iss_TrustAnchor r)"

definition no_active_responder :: "OCSPResponder gomap \<Rightarrow> string \<Rightarrow> bool" where
  "no_active_responder m i \<longleftrightarrow>
     (\<forall>k r. mget m k = Some r \<longrightarrow> rsp_IssuerID r = i \<longrightarrow> rsp_Status r \<noteq> OCSPResponderActive)"

text \<open>The certificate of an enrollment, with the material that its signed attempt recorded.\<close>

definition certificate_of :: "Enrollment \<Rightarrow> IssuanceAttempt \<Rightarrow> Certificate \<Rightarrow> bool" where
  "certificate_of e a c \<longleftrightarrow>
     cert_ID c = att_CertificateID a \<and> cert_EnrollmentID c = enr_ID e \<and> cert_Status c = CertificateValid \<and>
     cert_IdentityID c = enr_IdentityID e \<and> cert_IssuerID c = enr_IssuerID e \<and>
     cert_CertificateProfileID c = enr_CertificateProfileID e \<and>
     cert_DNSNames c = enr_RequestedDNSNames e \<and> cert_IPAddresses c = enr_RequestedIPAddresses e \<and>
     cert_SerialNumber c = att_SerialNumber a \<and> cert_Subject c = att_Subject a \<and>
     cert_NotBefore c = att_NotBefore a \<and> cert_NotAfter c = att_NotAfter a \<and>
     cert_CertificatePEM c = att_CertificatePEM a"

definition serial_free :: "Certificate gomap \<Rightarrow> Certificate \<Rightarrow> bool" where
  "serial_free m c \<longleftrightarrow>
     (\<forall>k x. mget m k = Some x \<longrightarrow> cert_ID x \<noteq> cert_ID c \<longrightarrow> cert_IssuerID c \<noteq> [] \<longrightarrow> cert_SerialNumber c \<noteq> [] \<longrightarrow>
        \<not> (cert_IssuerID x = cert_IssuerID c \<and> cert_SerialNumber x = cert_SerialNumber c))"

definition number_free :: "CRLPublication gomap \<Rightarrow> CRLPublication \<Rightarrow> bool" where
  "number_free m p \<longleftrightarrow>
     (\<forall>k x. mget m k = Some x \<longrightarrow> crl_IssuerID x = crl_IssuerID p \<longrightarrow>
        crl_DistributionPoint x = crl_DistributionPoint p \<longrightarrow> crl_CRLNumber x \<noteq> crl_CRLNumber p)"

definition thumbprint_free :: "ACMEAccount gomap \<Rightarrow> ACMEAccount \<Rightarrow> bool" where
  "thumbprint_free m a \<longleftrightarrow>
     (acct_KeyThumbprint a \<noteq> [] \<longrightarrow>
       (\<forall>k x. mget m k = Some x \<longrightarrow> acct_ID x \<noteq> acct_ID a \<longrightarrow> acct_KeyThumbprint x \<noteq> acct_KeyThumbprint a))"

text \<open>The moves of an outbox message.\<close>

inductive message_move :: "OutboxMessageStatus \<Rightarrow> OutboxMessageStatus \<Rightarrow> bool" where
  "message_move OutboxPending OutboxProcessing"
| "message_move OutboxProcessing OutboxPending"
| "message_move OutboxProcessing OutboxCompleted"
| "message_move OutboxProcessing OutboxDeadLetter"
| "message_move OutboxFailed OutboxPending"
| "message_move OutboxDeadLetter OutboxPending"

inductive_simps message_move_from [simp]:
  "message_move OutboxPending t" "message_move OutboxProcessing t" "message_move OutboxCompleted t"
  "message_move OutboxDeadLetter t" "message_move OutboxFailed t"

text \<open>
  A new order comes with one pending authorization and one pending challenge per requested name,
  under identifiers that are distinct and not in use.
\<close>

type_synonym authz_pair = "ACMEAuthorization \<times> ACMEChallenge"

definition put_all :: "('v \<Rightarrow> string) \<Rightarrow> 'v list \<Rightarrow> 'v gomap \<Rightarrow> 'v gomap" where
  "put_all key vs m = fold (\<lambda>v. mput (key v) v) vs m"

definition pair_ids :: "authz_pair list \<Rightarrow> string list" where
  "pair_ids ps = map authz_ID (map fst ps) @ map chal_ID (map snd ps)"

definition opens :: "memory_store \<Rightarrow> ACMEOrder \<Rightarrow> authz_pair list \<Rightarrow> bool" where
  "opens s o' ps \<longleftrightarrow>
     ord_Status o' = ACMEOrderPending \<and>
     map (\<lambda>(a, c). (authz_IdentifierType a, authz_IdentifierValue a)) ps =
       map (Pair ''dns'') (ord_RequestedDNSNames o') @ map (Pair ''ip'') (ord_RequestedIPAddresses o') \<and>
     (\<forall>(a, c) \<in> set ps. authz_OrderID a = ord_ID o' \<and> authz_Status a = ACMEAuthorizationPending \<and>
        chal_AuthorizationID c = authz_ID a \<and> chal_Status c = ACMEChallengePending) \<and>
     distinct (ord_ID o' # pair_ids ps) \<and> set (ord_ID o' # pair_ids ps) \<inter> ids_of s = {}"

definition order_open :: "memory_store \<Rightarrow> string \<Rightarrow> bool" where
  "order_open s i \<longleftrightarrow> (\<exists>x. mget (t_acmeOrders s) i = Some x \<and> ord_Status x = ACMEOrderPending)"

definition authz_of :: "memory_store \<Rightarrow> string \<Rightarrow> ACMEAuthorization \<Rightarrow> bool" where
  "authz_of s i a \<longleftrightarrow> (\<exists>k. mget (t_acmeAuthzs s) k = Some a) \<and> authz_OrderID a = i"

definition challenge_of :: "memory_store \<Rightarrow> string \<Rightarrow> ACMEChallenge \<Rightarrow> bool" where
  "challenge_of s i c \<longleftrightarrow> (\<exists>k. mget (t_acmeChallenges s) k = Some c) \<and> chal_AuthorizationID c = i"

section \<open>Steps\<close>

inductive store_step :: "memory_store \<Rightarrow> memory_store \<Rightarrow> bool" where
  identity_created:
    "idn_ID x \<notin> ids_of s \<Longrightarrow> idn_Status x = IdentityActive \<Longrightarrow> store_step s (put_identity x s)"
| issuer_created:
    "iss_ID x \<notin> ids_of s \<Longrightarrow> iss_Status x = IssuerActive \<Longrightarrow>
     iss_ParentIssuerID x = [] \<or> iss_ParentIssuerID x \<in> table_ids (t_issuers s) \<Longrightarrow>
     store_step s (put_issuer x s)"
| profile_created:
    "prof_ID x \<notin> ids_of s \<Longrightarrow> prof_IssuerID x \<in> table_ids (t_issuers s) \<Longrightarrow> store_step s (put_profile x s)"
| profile_issuer_changed:
    "mget (t_profiles s) (prof_ID x) = Some x \<Longrightarrow> same_root (t_issuers s) (prof_IssuerID x) i \<Longrightarrow>
     store_step s (put_profile (x\<lparr>prof_IssuerID := i, prof_UpdatedAt := t\<rparr>) s)"
| responder_created:
    "rsp_ID x \<notin> ids_of s \<Longrightarrow> rsp_Status x = OCSPResponderActive \<Longrightarrow>
     no_active_responder (t_ocspResponders s) (rsp_IssuerID x) \<Longrightarrow> store_step s (put_responder x s)"
| responder_disabled:
    "mget (t_ocspResponders s) (rsp_ID x) = Some x \<Longrightarrow> rsp_Status x = OCSPResponderActive \<Longrightarrow>
     store_step s (put_responder (x\<lparr>rsp_Status := OCSPResponderDisabled, rsp_UpdatedAt := t\<rparr>) s)"
| endpoint_created:
    "ep_ID x \<notin> ids_of s \<Longrightarrow> ep_Status x = NotificationEndpointActive \<Longrightarrow> store_step s (put_endpoint x s)"
| endpoint_disabled:
    "mget (t_notifications s) (ep_ID x) = Some x \<Longrightarrow> ep_Status x = NotificationEndpointActive \<Longrightarrow>
     store_step s (put_endpoint (x\<lparr>ep_Status := NotificationEndpointDisabled, ep_UpdatedAt := t\<rparr>) s)"
| enrollment_created:
    "enr_ID x \<notin> ids_of s \<Longrightarrow> enr_Status x = EnrollmentPending \<Longrightarrow>
     enr_IdentityID x \<in> table_ids (t_identities s) \<Longrightarrow> enr_IssuerID x \<in> table_ids (t_issuers s) \<Longrightarrow>
     enr_SourceCertificateID x = [] \<or> enr_SourceCertificateID x \<in> table_ids (t_certificates s) \<Longrightarrow>
     store_step s (put_enrollment x s)"
| enrollment_approved:
    "mget (t_enrollments s) (enr_ID x) = Some x \<Longrightarrow> enr_Status x = EnrollmentPending \<Longrightarrow>
     store_step s (put_enrollment (x\<lparr>enr_Status := EnrollmentApproved, enr_ApprovedBy := by',
       enr_ApprovedAt := t, enr_UpdatedAt := t\<rparr>) s)"
| enrollment_rejected:
    "mget (t_enrollments s) (enr_ID x) = Some x \<Longrightarrow> enr_Status x = EnrollmentPending \<Longrightarrow>
     store_step s (put_enrollment (x\<lparr>enr_Status := EnrollmentRejected, enr_UpdatedAt := t\<rparr>) s)"
| attempt_claimed:
    "att_Status a = IssuanceAttemptSigning \<Longrightarrow>
     (\<And>b. mget (t_issuanceAttempts s) (att_EnrollmentID a) = Some b \<Longrightarrow>
        att_Status b \<in> {IssuanceAttemptSigning, IssuanceAttemptFailed}) \<Longrightarrow>
     store_step s (put_attempt a s)"
| attempt_signed:
    "mget (t_issuanceAttempts s) (att_EnrollmentID a) = Some b \<Longrightarrow> att_Status b = IssuanceAttemptSigning \<Longrightarrow>
     att_Status a = IssuanceAttemptSigned \<Longrightarrow> att_CertificateID a \<notin> ids_of s \<Longrightarrow>
     store_step s (put_attempt a s)"
| attempt_failed:
    "mget (t_issuanceAttempts s) (att_EnrollmentID a) = Some b \<Longrightarrow> att_Status b = IssuanceAttemptSigned \<Longrightarrow>
     att_Status a = IssuanceAttemptFailed \<Longrightarrow> store_step s (put_attempt a s)"
| certificate_issued:
    "mget (t_enrollments s) (enr_ID e) = Some e \<Longrightarrow> enr_Status e = EnrollmentApproved \<Longrightarrow>
     mget (t_issuanceAttempts s) (enr_ID e) = Some a \<Longrightarrow> att_EnrollmentID a = enr_ID e \<Longrightarrow>
     att_Status a = IssuanceAttemptSigned \<Longrightarrow> certificate_of e a c \<Longrightarrow> serial_free (t_certificates s) c \<Longrightarrow>
     store_step s (put_attempt (a\<lparr>att_Status := IssuanceAttemptFinalized, att_FinalizedAt := t, att_UpdatedAt := t\<rparr>)
       (put_certificate c (put_enrollment (e\<lparr>enr_Status := EnrollmentIssued, enr_UpdatedAt := t\<rparr>) s)))"
| certificate_suspended:
    "mget (t_certificates s) (cert_ID c) = Some c \<Longrightarrow> cert_Status c = CertificateValid \<Longrightarrow>
     store_step s (put_certificate (c\<lparr>cert_Status := CertificateSuspended, cert_UpdatedAt := t\<rparr>) s)"
| certificate_resumed:
    "mget (t_certificates s) (cert_ID c) = Some c \<Longrightarrow> cert_Status c = CertificateSuspended \<Longrightarrow>
     store_step s (put_certificate (c\<lparr>cert_Status := CertificateValid, cert_UpdatedAt := t\<rparr>) s)"
| certificate_expired:
    "mget (t_certificates s) (cert_ID c) = Some c \<Longrightarrow>
     cert_Status c \<in> {CertificateValid, CertificateSuspended} \<Longrightarrow> cert_NotAfter c \<le> t \<Longrightarrow>
     store_step s (put_certificate (c\<lparr>cert_Status := CertificateExpired, cert_UpdatedAt := t\<rparr>) s)"
| renewal_notified:
    "mget (t_certificates s) (cert_ID c) = Some c \<Longrightarrow> cert_Status c = CertificateValid \<Longrightarrow>
     cert_RenewalNotifiedAt c = 0 \<Longrightarrow>
     store_step s (put_certificate (c\<lparr>cert_RenewalNotifiedAt := t, cert_UpdatedAt := t\<rparr>) s)"
| certificate_revoked:
    "mget (t_certificates s) (cert_ID c) = Some c \<Longrightarrow>
     cert_Status c \<in> {CertificateValid, CertificateSuspended} \<Longrightarrow>
     rev_ID r \<notin> ids_of s \<Longrightarrow> rev_CertificateID r = cert_ID c \<Longrightarrow> rev_RevokedAt r = t \<Longrightarrow>
     store_step s (put_revocation r
       (put_certificate (c\<lparr>cert_Status := CertificateRevoked, cert_UpdatedAt := t\<rparr>) s))"
| crl_published:
    "crl_ID x \<notin> ids_of s \<Longrightarrow> crl_IssuerID x \<in> table_ids (t_issuers s) \<Longrightarrow> number_free (t_crls s) x \<Longrightarrow>
     store_step s (put_crl x s)"
| crl_claims_changed: "store_step s (s\<lparr>t_crlClaims := claims\<rparr>)"
| audit_appended:
    "appendMemoryAuditEvent event (t_audit s) = (Inr (), log) \<Longrightarrow> store_step s (s\<lparr>t_audit := log\<rparr>)"
| audit_pruned:
    "pruneMemoryAuditEvents cutoff (t_audit s) = (Inr n, log) \<Longrightarrow> store_step s (s\<lparr>t_audit := log\<rparr>)"
| message_created:
    "msg_ID x \<notin> ids_of s \<Longrightarrow> msg_Status x = OutboxPending \<Longrightarrow> store_step s (put_message x s)"
| message_moved:
    "mget (t_outbox s) (msg_ID x) = Some y \<Longrightarrow> message_move (msg_Status y) (msg_Status x) \<Longrightarrow>
     store_step s (put_message x s)"
| jobs_changed: "store_step s (s\<lparr>t_jobAttempts := jobs\<rparr>)"
| deliveries_changed: "store_step s (s\<lparr>t_webhookDeliveries := deliveries\<rparr>)"
| api_key_created:
    "key_ID x \<notin> ids_of s \<Longrightarrow> key_Status x = APIKeyActive \<Longrightarrow> store_step s (put_api_key x s)"
| api_key_used:
    "mget (t_apiKeys s) (key_ID x) = Some x \<Longrightarrow> key_Status x = APIKeyActive \<Longrightarrow>
     store_step s (put_api_key (x\<lparr>key_LastUsedAt := t, key_UpdatedAt := t\<rparr>) s)"
| api_key_disabled:
    "mget (t_apiKeys s) (key_ID x) = Some x \<Longrightarrow> key_Status x = APIKeyActive \<Longrightarrow>
     store_step s (put_api_key (x\<lparr>key_Status := APIKeyDisabled, key_UpdatedAt := t\<rparr>) s)"
| account_created:
    "acct_ID x \<notin> ids_of s \<Longrightarrow> acct_Status x = ACMEAccountValid \<Longrightarrow> thumbprint_free (t_acmeAccounts s) x \<Longrightarrow>
     store_step s (put_account x s)"
| account_updated:
    "mget (t_acmeAccounts s) (acct_ID x) = Some y \<Longrightarrow> acct_Status y = ACMEAccountValid \<Longrightarrow>
     acct_Status x \<in> {ACMEAccountValid, ACMEAccountDeactivated} \<Longrightarrow> thumbprint_free (t_acmeAccounts s) x \<Longrightarrow>
     store_step s (put_account x s)"
| order_opened:
    "opens s x ps \<Longrightarrow> ord_AccountID x \<in> table_ids (t_acmeAccounts s) \<Longrightarrow>
     store_step s ((put_order x s)\<lparr>t_acmeAuthzs := put_all authz_ID (map fst ps) (t_acmeAuthzs s),
       t_acmeChallenges := put_all chal_ID (map snd ps) (t_acmeChallenges s)\<rparr>)"
| challenge_processing:
    "mget (t_acmeChallenges s) (chal_ID x) = Some x \<Longrightarrow>
     chal_Status x \<in> {ACMEChallengePending, ACMEChallengeProcessing} \<Longrightarrow>
     store_step s (put_challenge (x\<lparr>chal_Status := ACMEChallengeProcessing, chal_UpdatedAt := t\<rparr>) s)"
| challenge_validated:
    "mget (t_acmeChallenges s) (chal_ID x) = Some x \<Longrightarrow>
     chal_Status x \<in> {ACMEChallengePending, ACMEChallengeProcessing} \<Longrightarrow>
     store_step s (put_challenge (x\<lparr>chal_Status := ACMEChallengeValid, chal_ValidatedAt := t, chal_UpdatedAt := t\<rparr>) s)"
| authz_validated:
    "mget (t_acmeAuthzs s) (authz_ID x) = Some x \<Longrightarrow> authz_Status x = ACMEAuthorizationPending \<Longrightarrow>
     (\<And>c. challenge_of s (authz_ID x) c \<Longrightarrow> chal_Status c = ACMEChallengeValid) \<Longrightarrow>
     store_step s (put_authz (x\<lparr>authz_Status := ACMEAuthorizationValid, authz_ValidationReuseExpiresAt := r,
       authz_UpdatedAt := t\<rparr>) s)"
| order_ready:
    "mget (t_acmeOrders s) (ord_ID x) = Some x \<Longrightarrow> ord_Status x = ACMEOrderPending \<Longrightarrow>
     (\<And>a. authz_of s (ord_ID x) a \<Longrightarrow> authz_Status a = ACMEAuthorizationValid) \<Longrightarrow>
     store_step s (put_order (x\<lparr>ord_Status := ACMEOrderReady, ord_UpdatedAt := t\<rparr>) s)"
| order_invalidated:
    "mget (t_acmeOrders s) (ord_ID x) = Some x \<Longrightarrow> ord_Status x = ACMEOrderReady \<Longrightarrow>
     store_step s (put_order (x\<lparr>ord_Status := ACMEOrderInvalid, ord_UpdatedAt := t\<rparr>) s)"
| order_finalized:
    "mget (t_acmeOrders s) (ord_ID x) = Some x \<Longrightarrow> ord_Status x = ACMEOrderReady \<Longrightarrow>
     mget (t_certificates s) i = Some c \<Longrightarrow> cert_EnrollmentID c = e \<Longrightarrow>
     cert_DNSNames c = ord_RequestedDNSNames x \<Longrightarrow> cert_IPAddresses c = ord_RequestedIPAddresses x \<Longrightarrow>
     store_step s (put_order (x\<lparr>ord_CSRPEM := csr, ord_RequestedSubject := subject, ord_EnrollmentID := e,
       ord_CertificateID := i, ord_Status := ACMEOrderValid, ord_UpdatedAt := t\<rparr>) s)"

abbreviation store_steps :: "memory_store \<Rightarrow> memory_store \<Rightarrow> bool" where
  "store_steps \<equiv> store_step\<^sup>*\<^sup>*"

end
