(* ===== verification/LifecycleInv.thy ===== *)
theory LifecycleInv
  imports LifecycleSpec
begin

text \<open>
  What the steps of \<open>LifecycleSpec\<close> keep: the invariant \<open>spec_inv\<close> of the store, table by table, and
  how certificates, enrollments, API keys and revocations evolve along a sequence of steps.
\<close>

section \<open>What a sequence of steps keeps\<close>

text \<open>
  The invariants are predicates of the tables they speak about, so that a step on another table
  keeps them at once.
\<close>

definition enrolled_ok :: "Enrollment gomap \<Rightarrow> Certificate gomap \<Rightarrow> bool" where
  "enrolled_ok enrs certs \<longleftrightarrow>
     (\<forall>k c. mget certs k = Some c \<longrightarrow>
        (\<exists>e. mget enrs (cert_EnrollmentID c) = Some e \<and> enr_Status e = EnrollmentIssued \<and>
             cert_IdentityID c = enr_IdentityID e \<and> cert_IssuerID c = enr_IssuerID e \<and>
             cert_CertificateProfileID c = enr_CertificateProfileID e \<and>
             cert_DNSNames c = enr_RequestedDNSNames e \<and> cert_IPAddresses c = enr_RequestedIPAddresses e)) \<and>
     (\<forall>k e. mget enrs k = Some e \<longrightarrow> enr_Status e = EnrollmentIssued \<longrightarrow>
        (\<exists>!i. \<exists>c. mget certs i = Some c \<and> cert_EnrollmentID c = k))"

definition serials_ok :: "Certificate gomap \<Rightarrow> bool" where
  "serials_ok certs \<longleftrightarrow>
     (\<forall>i j c d. mget certs i = Some c \<longrightarrow> mget certs j = Some d \<longrightarrow>
        cert_IssuerID c = cert_IssuerID d \<longrightarrow> cert_SerialNumber c = cert_SerialNumber d \<longrightarrow>
        cert_IssuerID c \<noteq> [] \<longrightarrow> cert_SerialNumber c \<noteq> [] \<longrightarrow> i = j)"

definition attempts_ok :: "Certificate gomap \<Rightarrow> IssuanceAttempt gomap \<Rightarrow> bool" where
  "attempts_ok certs atts \<longleftrightarrow>
     table_ids certs \<inter> reserved_ids atts = {} \<and>
     (\<forall>j k a b. mget atts j = Some a \<longrightarrow> mget atts k = Some b \<longrightarrow>
        att_Status a = IssuanceAttemptSigned \<longrightarrow> att_Status b = IssuanceAttemptSigned \<longrightarrow>
        att_CertificateID a = att_CertificateID b \<longrightarrow> j = k)"

definition revocations_ok :: "Certificate gomap \<Rightarrow> Revocation gomap \<Rightarrow> bool" where
  "revocations_ok certs revs \<longleftrightarrow>
     (\<forall>k r. mget revs k = Some r \<longrightarrow>
        (\<exists>c. mget certs (rev_CertificateID r) = Some c \<and> cert_Status c = CertificateRevoked)) \<and>
     (\<forall>i c. mget certs i = Some c \<longrightarrow> cert_Status c = CertificateRevoked \<longrightarrow>
        (\<exists>!k. \<exists>r. mget revs k = Some r \<and> rev_CertificateID r = i))"

definition responders_ok :: "OCSPResponder gomap \<Rightarrow> bool" where
  "responders_ok rsps \<longleftrightarrow>
     (\<forall>j k a b. mget rsps j = Some a \<longrightarrow> mget rsps k = Some b \<longrightarrow>
        rsp_Status a = OCSPResponderActive \<longrightarrow> rsp_Status b = OCSPResponderActive \<longrightarrow>
        rsp_IssuerID a = rsp_IssuerID b \<longrightarrow> j = k)"

definition crls_ok :: "CRLPublication gomap \<Rightarrow> bool" where
  "crls_ok crls \<longleftrightarrow>
     (\<forall>j k a b. mget crls j = Some a \<longrightarrow> mget crls k = Some b \<longrightarrow> crl_IssuerID a = crl_IssuerID b \<longrightarrow>
        crl_DistributionPoint a = crl_DistributionPoint b \<longrightarrow> crl_CRLNumber a = crl_CRLNumber b \<longrightarrow> j = k)"

definition accounts_ok :: "ACMEAccount gomap \<Rightarrow> bool" where
  "accounts_ok accts \<longleftrightarrow>
     (\<forall>j k a b. mget accts j = Some a \<longrightarrow> mget accts k = Some b \<longrightarrow>
        acct_KeyThumbprint a = acct_KeyThumbprint b \<longrightarrow> acct_KeyThumbprint a \<noteq> [] \<longrightarrow> j = k)"

text \<open>
  ACME: authorizations and challenges hang together, every requested name of an order has an
  authorization, a valid authorization has only valid challenges, and at least one, and an order
  that has left the pending state has only valid authorizations.
\<close>

definition acme_links_ok ::
  "ACMEOrder gomap \<Rightarrow> ACMEAuthorization gomap \<Rightarrow> ACMEChallenge gomap \<Rightarrow> bool" where
  "acme_links_ok ords azs chs \<longleftrightarrow>
     (\<forall>k a. mget azs k = Some a \<longrightarrow> authz_OrderID a \<in> table_ids ords) \<and>
     (\<forall>k c. mget chs k = Some c \<longrightarrow> chal_AuthorizationID c \<in> table_ids azs) \<and>
     (\<forall>k a. mget azs k = Some a \<longrightarrow> (\<exists>i c. mget chs i = Some c \<and> chal_AuthorizationID c = k)) \<and>
     (\<forall>k x. mget ords k = Some x \<longrightarrow>
        (\<forall>n \<in> set (map (Pair ''dns'') (ord_RequestedDNSNames x) @ map (Pair ''ip'') (ord_RequestedIPAddresses x)).
           \<exists>i a. mget azs i = Some a \<and> authz_OrderID a = k \<and>
             (authz_IdentifierType a, authz_IdentifierValue a) = n))"

definition acme_status_ok ::
  "ACMEOrder gomap \<Rightarrow> ACMEAuthorization gomap \<Rightarrow> ACMEChallenge gomap \<Rightarrow> bool" where
  "acme_status_ok ords azs chs \<longleftrightarrow>
     (\<forall>k a i c. mget azs k = Some a \<longrightarrow> authz_Status a = ACMEAuthorizationValid \<longrightarrow>
        mget chs i = Some c \<longrightarrow> chal_AuthorizationID c = k \<longrightarrow> chal_Status c = ACMEChallengeValid) \<and>
     (\<forall>k x i a. mget ords k = Some x \<longrightarrow> ord_Status x \<noteq> ACMEOrderPending \<longrightarrow>
        mget azs i = Some a \<longrightarrow> authz_OrderID a = k \<longrightarrow> authz_Status a = ACMEAuthorizationValid)"

definition orders_ok :: "ACMEOrder gomap \<Rightarrow> Certificate gomap \<Rightarrow> bool" where
  "orders_ok ords certs \<longleftrightarrow>
     (\<forall>k x. mget ords k = Some x \<longrightarrow> ord_Status x = ACMEOrderValid \<longrightarrow>
        (\<exists>c. mget certs (ord_CertificateID x) = Some c \<and> cert_EnrollmentID c = ord_EnrollmentID x \<and>
             cert_DNSNames c = ord_RequestedDNSNames x \<and> cert_IPAddresses c = ord_RequestedIPAddresses x))"

definition spec_inv :: "memory_store \<Rightarrow> bool" where
  "spec_inv s \<longleftrightarrow>
     wf_store s \<and> valid_log (t_audit s) \<and> enrolled_ok (t_enrollments s) (t_certificates s) \<and>
     serials_ok (t_certificates s) \<and> attempts_ok (t_certificates s) (t_issuanceAttempts s) \<and>
     revocations_ok (t_certificates s) (t_revocations s) \<and> responders_ok (t_ocspResponders s) \<and>
     crls_ok (t_crls s) \<and> accounts_ok (t_acmeAccounts s) \<and>
     acme_links_ok (t_acmeOrders s) (t_acmeAuthzs s) (t_acmeChallenges s) \<and>
     acme_status_ok (t_acmeOrders s) (t_acmeAuthzs s) (t_acmeChallenges s) \<and>
     orders_ok (t_acmeOrders s) (t_certificates s)"

subsection \<open>Helpers\<close>

lemma table_ids_mput [simp]: "table_ids (mput k v m) = insert k (table_ids m)"
  by (auto simp: table_ids_def)

lemma table_ids_Nil [simp]: "table_ids [] = {}"
  by (simp add: table_ids_def)

lemma mget_table_ids: "mget m k = Some v \<Longrightarrow> k \<in> table_ids m"
  by (simp add: table_ids_def)

lemma not_table_ids: "k \<notin> table_ids m \<longleftrightarrow> mget m k = None"
  by (simp add: table_ids_def)

lemma reserved_ids_mput:
  "reserved_ids (mput k a m) \<subseteq>
     reserved_ids m \<union> (if att_Status a = IssuanceAttemptSigned then {att_CertificateID a} else {})"
  by (auto simp: reserved_ids_def split: if_splits)

lemma keyed_put_all: "keyed key m \<Longrightarrow> keyed key (put_all key vs m)"
  unfolding put_all_def by (induction vs arbitrary: m) (simp_all add: keyed_mput)

lemma table_ids_put_all [simp]: "table_ids (put_all key vs m) = key ` set vs \<union> table_ids m"
  unfolding put_all_def by (induction vs arbitrary: m) auto

lemma mget_put_all:
  "distinct (map key vs) \<Longrightarrow>
     mget (put_all key vs m) k = Some v \<longleftrightarrow>
       (v \<in> set vs \<and> key v = k) \<or> (k \<notin> key ` set vs \<and> mget m k = Some v)"
  unfolding put_all_def by (induction vs arbitrary: m) (auto split: if_splits)

lemma mget_put_all_new:
  assumes "distinct (map key vs)" and "key ` set vs \<inter> table_ids m = {}"
  shows "mget (put_all key vs m) k = Some v \<longleftrightarrow> mget m k = Some v \<or> (key v = k \<and> v \<in> set vs)"
proof -
  have "k \<notin> key ` set vs" if "mget m k = Some v"
    using assms(2) mget_table_ids [OF that] by blast
  then show ?thesis
    unfolding mget_put_all [OF assms(1)] by blast
qed

lemma wf_store_step:
  assumes "store_step s s'" and "wf_store s"
  shows "wf_store s'"
  using assms by cases (auto simp: wf_store_def keyed_put_all)

lemma valid_log_step:
  assumes "store_step s s'" and "valid_log (t_audit s)"
  shows "valid_log (t_audit s')"
  using assms
proof cases
  case (audit_appended event log)
  then show ?thesis using append_keeps_valid [OF assms(2), of event] by simp
next
  case (audit_pruned cutoff n log)
  then show ?thesis using prune_keeps_valid [OF assms(2), of cutoff] by simp
qed (use assms in simp_all)

lemma ids_of_tables:
  "i \<notin> ids_of s \<Longrightarrow> mget (t_enrollments s) i = None"
  "i \<notin> ids_of s \<Longrightarrow> mget (t_certificates s) i = None"
  "i \<notin> ids_of s \<Longrightarrow> mget (t_revocations s) i = None"
  "i \<notin> ids_of s \<Longrightarrow> mget (t_ocspResponders s) i = None"
  "i \<notin> ids_of s \<Longrightarrow> mget (t_crls s) i = None"
  "i \<notin> ids_of s \<Longrightarrow> mget (t_apiKeys s) i = None"
  "i \<notin> ids_of s \<Longrightarrow> mget (t_acmeAccounts s) i = None"
  "i \<notin> ids_of s \<Longrightarrow> mget (t_acmeOrders s) i = None"
  "i \<notin> ids_of s \<Longrightarrow> mget (t_acmeAuthzs s) i = None"
  "i \<notin> ids_of s \<Longrightarrow> mget (t_acmeChallenges s) i = None"
  "i \<notin> ids_of s \<Longrightarrow> mget (t_outbox s) i = None"
  "i \<notin> ids_of s \<Longrightarrow> i \<notin> reserved_ids (t_issuanceAttempts s)"
  by (simp_all add: ids_of_def table_ids_def)

lemma responders_ok_step:
  assumes "store_step s s'" and "responders_ok (t_ocspResponders s)"
  shows "responders_ok (t_ocspResponders s')"
  using assms
proof cases
  case (responder_created x)
  then show ?thesis
    using assms(2) by (auto simp: responders_ok_def no_active_responder_def)
next
  case (responder_disabled x t)
  then show ?thesis
    using assms(2) by (auto simp: responders_ok_def)
qed (use assms in simp_all)

lemma crls_ok_step:
  assumes "store_step s s'" and "crls_ok (t_crls s)"
  shows "crls_ok (t_crls s')"
  using assms
proof cases
  case (crl_published x)
  then show ?thesis
    using assms(2) by (auto simp: crls_ok_def number_free_def) metis
qed (use assms in simp_all)

lemma accounts_ok_step:
  assumes "store_step s s'" and "wf_store s" and "accounts_ok (t_acmeAccounts s)"
  shows "accounts_ok (t_acmeAccounts s')"
proof -
  have put: "accounts_ok (mput (acct_ID x) x (t_acmeAccounts s))" if "thumbprint_free (t_acmeAccounts s) x" for x
    using assms(2,3) that unfolding wf_store_def accounts_ok_def thumbprint_free_def keyed_def
    by (auto split: if_splits) metis+
  from assms(1) show ?thesis
    by cases (use put assms in simp_all)
qed

lemma serials_ok_step:
  assumes "store_step s s'" and "wf_store s" and "serials_ok (t_certificates s)"
  shows "serials_ok (t_certificates s')"
proof -
  have k: "keyed cert_ID (t_certificates s)"
    using assms(2) by (simp add: wf_store_def)
  have upd: "serials_ok (mput (cert_ID c) d (t_certificates s))"
    if "mget (t_certificates s) (cert_ID c) = Some c" "cert_IssuerID d = cert_IssuerID c"
      "cert_SerialNumber d = cert_SerialNumber c" for c d
    using assms(3) that unfolding serials_ok_def by (auto split: if_splits)
  have new: "serials_ok (mput (cert_ID c) c (t_certificates s))" if "serial_free (t_certificates s) c" for c
    using assms(3) that k unfolding serials_ok_def serial_free_def keyed_def by (auto split: if_splits) metis+
  from assms(1) show ?thesis
    by cases (use upd new assms in simp_all)
qed

lemma attempts_ok_put:
  assumes "attempts_ok certs atts"
    and "att_Status a = IssuanceAttemptSigned \<Longrightarrow>
      att_CertificateID a \<notin> table_ids certs \<and> att_CertificateID a \<notin> reserved_ids atts"
  shows "attempts_ok certs (mput i a atts)"
proof -
  have "table_ids certs \<inter> reserved_ids (mput i a atts) = {}"
    using assms reserved_ids_mput [of i a atts] unfolding attempts_ok_def by (auto split: if_splits)
  then show ?thesis
    using assms unfolding attempts_ok_def reserved_ids_def by simp metis
qed

lemma attempts_ok_cert:
  "attempts_ok certs atts \<Longrightarrow> i \<notin> reserved_ids atts \<Longrightarrow> attempts_ok (mput i c certs) atts"
  by (simp add: attempts_ok_def)

lemma attempts_ok_known: "attempts_ok certs atts \<Longrightarrow> mget certs i = Some c \<Longrightarrow> i \<notin> reserved_ids atts"
  by (auto simp: attempts_ok_def dest: mget_table_ids)

lemma attempts_ok_step:
  assumes step: "store_step s s'" and ok: "attempts_ok (t_certificates s) (t_issuanceAttempts s)"
  shows "attempts_ok (t_certificates s') (t_issuanceAttempts s')"
  using step
proof cases
  case (attempt_claimed a)
  then show ?thesis using attempts_ok_put [OF ok, of a] by simp
next
  case (attempt_signed a b)
  then have "att_CertificateID a \<notin> table_ids (t_certificates s)"
    by (simp add: ids_of_def)
  then show ?thesis
    using attempt_signed ids_of_tables(12) by (simp add: attempts_ok_put [OF ok])
next
  case (attempt_failed a b)
  then show ?thesis using attempts_ok_put [OF ok, of a] by simp
next
  case (certificate_issued e a c t)
  let ?atts = "mput (enr_ID e) (a\<lparr>att_Status := IssuanceAttemptFinalized, att_FinalizedAt := t, att_UpdatedAt := t\<rparr>)
    (t_issuanceAttempts s)"
  have id: "cert_ID c = att_CertificateID a"
    using certificate_issued by (simp add: certificate_of_def)
  have "k = enr_ID e" if "mget (t_issuanceAttempts s) k = Some b" "att_Status b = IssuanceAttemptSigned"
    "att_CertificateID b = cert_ID c" for k b
    using ok certificate_issued that unfolding id attempts_ok_def by metis
  then have "cert_ID c \<notin> reserved_ids ?atts"
    unfolding reserved_ids_def by (auto split: if_splits)
  moreover have "attempts_ok (t_certificates s) ?atts"
    by (rule attempts_ok_put [OF ok]) simp
  ultimately show ?thesis
    using certificate_issued attempts_ok_cert by simp
qed (use ok in \<open>simp_all add: attempts_ok_cert attempts_ok_known\<close>)

lemma enrolled_ok_cert_update:
  assumes "enrolled_ok enrs certs" and "mget certs i = Some c"
    and "cert_EnrollmentID d = cert_EnrollmentID c" "cert_IdentityID d = cert_IdentityID c"
      "cert_IssuerID d = cert_IssuerID c" "cert_CertificateProfileID d = cert_CertificateProfileID c"
      "cert_DNSNames d = cert_DNSNames c" "cert_IPAddresses d = cert_IPAddresses c"
  shows "enrolled_ok enrs (mput i d certs)"
proof -
  have "(\<exists>x. mget (mput i d certs) j = Some x \<and> cert_EnrollmentID x = k) \<longleftrightarrow>
      (\<exists>x. mget certs j = Some x \<and> cert_EnrollmentID x = k)" for j k
    using assms(2,3) by auto
  moreover have "mget (mput i d certs) k = Some x \<Longrightarrow>
      \<exists>e. mget enrs (cert_EnrollmentID x) = Some e \<and> enr_Status e = EnrollmentIssued \<and>
        cert_IdentityID x = enr_IdentityID e \<and> cert_IssuerID x = enr_IssuerID e \<and>
        cert_CertificateProfileID x = enr_CertificateProfileID e \<and>
        cert_DNSNames x = enr_RequestedDNSNames e \<and> cert_IPAddresses x = enr_RequestedIPAddresses e" for k x
    using assms unfolding enrolled_ok_def by (auto split: if_splits)
  ultimately show ?thesis
    using assms(1) unfolding enrolled_ok_def by presburger
qed

lemma enrolled_ok_enr_update:
  assumes "enrolled_ok enrs certs" and "enr_Status e \<noteq> EnrollmentIssued"
    and "\<And>x. mget enrs i = Some x \<Longrightarrow> enr_Status x \<noteq> EnrollmentIssued"
  shows "enrolled_ok (mput i e enrs) certs"
  using assms unfolding enrolled_ok_def by (auto split: if_splits) metis

lemma enrolled_ok_issue:
  assumes ok: "enrolled_ok enrs certs" and e: "mget enrs (enr_ID e) = Some e" "enr_Status e = EnrollmentApproved"
    and c: "certificate_of e a c" and new: "mget certs (cert_ID c) = None"
  shows "enrolled_ok (mput (enr_ID e) (e\<lparr>enr_Status := EnrollmentIssued, enr_UpdatedAt := t\<rparr>) enrs)
    (mput (cert_ID c) c certs)"
proof -
  have other: "cert_EnrollmentID x \<noteq> enr_ID e" if "mget certs k = Some x" for k x
    using ok e that unfolding enrolled_ok_def by fastforce
  have eid: "cert_EnrollmentID c = enr_ID e"
    using c by (simp add: certificate_of_def)
  have "(\<exists>x. mget (mput (cert_ID c) c certs) j = Some x \<and> cert_EnrollmentID x = k) \<longleftrightarrow>
      (if k = enr_ID e then j = cert_ID c else \<exists>x. mget certs j = Some x \<and> cert_EnrollmentID x = k)" for j k
    using other new eid by auto
  then show ?thesis
    using ok c other unfolding enrolled_ok_def certificate_of_def by auto
qed

lemma issued_is_new:
  assumes "attempts_ok (t_certificates s) (t_issuanceAttempts s)" "mget (t_issuanceAttempts s) k = Some a"
    "att_Status a = IssuanceAttemptSigned" "certificate_of e a c"
  shows "mget (t_certificates s) (cert_ID c) = None"
  using assms by (fastforce simp: attempts_ok_def certificate_of_def table_ids_def reserved_ids_def)

lemma enrolled_ok_step:
  assumes step: "store_step s s'"
    and att: "attempts_ok (t_certificates s) (t_issuanceAttempts s)"
    and ok: "enrolled_ok (t_enrollments s) (t_certificates s)"
  shows "enrolled_ok (t_enrollments s') (t_certificates s')"
  using step
proof cases
  case (certificate_issued e a c t)
  then show ?thesis
    using issued_is_new [OF att] enrolled_ok_issue [OF ok] by simp
next
  case (enrollment_created x)
  then show ?thesis
    using enrolled_ok_enr_update [OF ok, of x "enr_ID x"] ids_of_tables(1) [of "enr_ID x" s] by simp
qed (use ok in \<open>auto intro: enrolled_ok_enr_update enrolled_ok_cert_update dest: ids_of_tables\<close>)

lemma revocations_ok_step:
  assumes step: "store_step s s'"
    and att: "attempts_ok (t_certificates s) (t_issuanceAttempts s)"
    and ok: "revocations_ok (t_certificates s) (t_revocations s)"
  shows "revocations_ok (t_certificates s') (t_revocations s')"
proof -
  have upd: "revocations_ok (mput i d (t_certificates s)) (t_revocations s)"
    if "\<And>x. mget (t_certificates s) i = Some x \<Longrightarrow> cert_Status x \<noteq> CertificateRevoked"
      "cert_Status d \<noteq> CertificateRevoked" for i d
    using ok that unfolding revocations_ok_def by (auto split: if_splits) metis
  from step show ?thesis
  proof cases
    case (certificate_issued e a c t)
    then have "cert_Status c \<noteq> CertificateRevoked"
      by (simp add: certificate_of_def)
    then show ?thesis
      using certificate_issued issued_is_new [OF att] upd [of "cert_ID c" c] by simp
  next
    case (certificate_revoked c r t)
    have no: "rev_CertificateID x \<noteq> cert_ID c" if "mget (t_revocations s) j = Some x" for j x
      using ok certificate_revoked that unfolding revocations_ok_def by fastforce
    have "(\<exists>x. mget (mput (rev_ID r) r (t_revocations s)) j = Some x \<and> rev_CertificateID x = i) \<longleftrightarrow>
        (if i = cert_ID c then j = rev_ID r else \<exists>x. mget (t_revocations s) j = Some x \<and> rev_CertificateID x = i)" for i j
      using no certificate_revoked ids_of_tables(3) [of "rev_ID r" s] by auto
    then show ?thesis
      using ok no certificate_revoked unfolding revocations_ok_def by auto
  qed (use ok in \<open>auto intro!: upd\<close>)
qed

subsection \<open>ACME\<close>

lemma links_order:
  assumes "acme_links_ok ords azs chs" and "mget ords k = Some x"
    and "ord_RequestedDNSNames y = ord_RequestedDNSNames x" "ord_RequestedIPAddresses y = ord_RequestedIPAddresses x"
  shows "acme_links_ok (mput k y ords) azs chs"
  using assms unfolding acme_links_ok_def by auto

lemma links_authz:
  assumes ok: "acme_links_ok ords azs chs" and a: "mget azs k = Some a"
    and b: "authz_OrderID b = authz_OrderID a" "authz_IdentifierType b = authz_IdentifierType a"
      "authz_IdentifierValue b = authz_IdentifierValue a"
  shows "acme_links_ok ords (mput k b azs) chs"
proof -
  have "(\<exists>i c. mget (mput k b azs) i = Some c \<and> authz_OrderID c = o' \<and>
        (authz_IdentifierType c, authz_IdentifierValue c) = n) \<longleftrightarrow>
      (\<exists>i c. mget azs i = Some c \<and> authz_OrderID c = o' \<and> (authz_IdentifierType c, authz_IdentifierValue c) = n)" for o' n
    using a b by (metis mget_mput option.inject)
  then show ?thesis
    using ok a b unfolding acme_links_ok_def by (auto split: if_splits simp: mget_table_ids)
qed

lemma links_challenge:
  assumes ok: "acme_links_ok ords azs chs" and c: "mget chs k = Some c"
    and d: "chal_AuthorizationID d = chal_AuthorizationID c"
  shows "acme_links_ok ords azs (mput k d chs)"
proof -
  have "(\<exists>i x. mget (mput k d chs) i = Some x \<and> chal_AuthorizationID x = a) \<longleftrightarrow>
      (\<exists>i x. mget chs i = Some x \<and> chal_AuthorizationID x = a)" for a
    using c d by (metis mget_mput option.inject)
  then show ?thesis
    using ok c d unfolding acme_links_ok_def by (auto split: if_splits)
qed

lemma opens_fresh:
  assumes "opens s x ps"
  shows "ord_ID x \<notin> table_ids (t_acmeOrders s)" "distinct (map authz_ID (map fst ps))"
    "distinct (map chal_ID (map snd ps))" "authz_ID ` set (map fst ps) \<inter> table_ids (t_acmeAuthzs s) = {}"
    "chal_ID ` set (map snd ps) \<inter> table_ids (t_acmeChallenges s) = {}"
  using assms by (auto simp: opens_def pair_ids_def ids_of_def)

lemma opens_pair:
  assumes "opens s x ps" and "(a, c) \<in> set ps"
  shows "authz_OrderID a = ord_ID x" "authz_Status a = ACMEAuthorizationPending"
    "chal_AuthorizationID c = authz_ID a" "chal_Status c = ACMEChallengePending"
  using assms by (auto simp: opens_def)

lemma opened_authz:
  assumes "opens s x ps"
  shows "mget (put_all authz_ID (map fst ps) (t_acmeAuthzs s)) k = Some a \<longleftrightarrow>
    mget (t_acmeAuthzs s) k = Some a \<or> (authz_ID a = k \<and> (\<exists>c. (a, c) \<in> set ps))"
proof -
  have "a \<in> set (map fst ps) \<longleftrightarrow> (\<exists>c. (a, c) \<in> set ps)"
    by force
  then show ?thesis
    by (simp only: mget_put_all_new [OF opens_fresh(2) [OF assms] opens_fresh(4) [OF assms]])
qed

lemma opened_challenge:
  assumes "opens s x ps"
  shows "mget (put_all chal_ID (map snd ps) (t_acmeChallenges s)) k = Some c \<longleftrightarrow>
    mget (t_acmeChallenges s) k = Some c \<or> (chal_ID c = k \<and> (\<exists>a. (a, c) \<in> set ps))"
proof -
  have "c \<in> set (map snd ps) \<longleftrightarrow> (\<exists>a. (a, c) \<in> set ps)"
    by force
  then show ?thesis
    by (simp only: mget_put_all_new [OF opens_fresh(3) [OF assms] opens_fresh(5) [OF assms]])
qed

lemma opened_cover:
  assumes op: "opens s x ps"
    and "n \<in> set (map (Pair ''dns'') (ord_RequestedDNSNames x) @ map (Pair ''ip'') (ord_RequestedIPAddresses x))"
  shows "\<exists>i a. mget (put_all authz_ID (map fst ps) (t_acmeAuthzs s)) i = Some a \<and> authz_OrderID a = ord_ID x \<and>
    (authz_IdentifierType a, authz_IdentifierValue a) = n"
proof -
  have "n \<in> set (map (\<lambda>(a, c). (authz_IdentifierType a, authz_IdentifierValue a)) ps)"
    using assms by (simp add: opens_def)
  then show ?thesis
    using opens_pair(1) [OF op] unfolding opened_authz [OF op] by fastforce
qed

lemma opened_has_challenge:
  assumes op: "opens s x ps" and ok: "acme_links_ok ords (t_acmeAuthzs s) (t_acmeChallenges s)"
    and "mget (put_all authz_ID (map fst ps) (t_acmeAuthzs s)) k = Some a"
  shows "\<exists>i c. mget (put_all chal_ID (map snd ps) (t_acmeChallenges s)) i = Some c \<and> chal_AuthorizationID c = k"
proof -
  from assms(3) consider "mget (t_acmeAuthzs s) k = Some a" | c where "(a, c) \<in> set ps" "authz_ID a = k"
    by (auto simp: opened_authz [OF op])
  then show ?thesis
  proof cases
    case 1
    then obtain i c where "mget (t_acmeChallenges s) i = Some c" "chal_AuthorizationID c = k"
      using ok unfolding acme_links_ok_def by blast
    then show ?thesis by (auto simp: opened_challenge [OF op])
  next
    case 2
    then have "mget (put_all chal_ID (map snd ps) (t_acmeChallenges s)) (chal_ID c) = Some c"
        "chal_AuthorizationID c = k"
      using opens_pair(3) [OF op] by (auto simp: opened_challenge [OF op])
    then show ?thesis by blast
  qed
qed

lemma links_opened:
  assumes ok: "acme_links_ok (t_acmeOrders s) (t_acmeAuthzs s) (t_acmeChallenges s)" and op: "opens s x ps"
  shows "acme_links_ok (mput (ord_ID x) x (t_acmeOrders s)) (put_all authz_ID (map fst ps) (t_acmeAuthzs s))
    (put_all chal_ID (map snd ps) (t_acmeChallenges s))"
    (is "acme_links_ok ?ords ?azs ?chs")
proof -
  have "authz_OrderID a \<in> table_ids ?ords" if "mget ?azs k = Some a" for k a
    using that ok opens_pair(1) [OF op] by (auto simp: opened_authz [OF op] acme_links_ok_def)
  moreover have "chal_AuthorizationID c \<in> table_ids ?azs" if "mget ?chs k = Some c" for k c
  proof -
    from that consider "mget (t_acmeChallenges s) k = Some c" | a where "(a, c) \<in> set ps"
      by (auto simp: opened_challenge [OF op])
    then show ?thesis
    proof cases
      case 1
      then show ?thesis using ok by (simp add: acme_links_ok_def)
    next
      case 2
      then show ?thesis using opens_pair(3) [OF op] by force
    qed
  qed
  moreover have "\<exists>i a. mget ?azs i = Some a \<and> authz_OrderID a = k \<and>
      (authz_IdentifierType a, authz_IdentifierValue a) = n"
    if y: "mget ?ords k = Some y"
      and n: "n \<in> set (map (Pair ''dns'') (ord_RequestedDNSNames y) @ map (Pair ''ip'') (ord_RequestedIPAddresses y))" for k y n
  proof (cases "k = ord_ID x")
    case True
    then show ?thesis using y opened_cover [OF op, of n] n by simp
  next
    case False
    then obtain i a where "mget (t_acmeAuthzs s) i = Some a" "authz_OrderID a = k"
        "(authz_IdentifierType a, authz_IdentifierValue a) = n"
      using ok y n unfolding acme_links_ok_def by (metis mget_mput)
    then show ?thesis unfolding opened_authz [OF op] by blast
  qed
  ultimately show ?thesis
    using opened_has_challenge [OF op ok] unfolding acme_links_ok_def by blast
qed

lemma acme_links_step:
  assumes "store_step s s'" and ok: "acme_links_ok (t_acmeOrders s) (t_acmeAuthzs s) (t_acmeChallenges s)"
  shows "acme_links_ok (t_acmeOrders s') (t_acmeAuthzs s') (t_acmeChallenges s')"
  using assms(1)
proof cases
  case (order_opened x ps)
  then show ?thesis using links_opened [OF ok] by simp
next
  case (challenge_processing x t)
  then show ?thesis using links_challenge [OF ok] by simp
next
  case (challenge_validated x t)
  then show ?thesis using links_challenge [OF ok] by simp
next
  case (authz_validated x r t)
  then show ?thesis using links_authz [OF ok] by simp
next
  case (order_ready x t)
  then show ?thesis using links_order [OF ok] by simp
next
  case (order_invalidated x t)
  then show ?thesis using links_order [OF ok] by simp
next
  case (order_finalized x i c e csr subject t)
  then show ?thesis using links_order [OF ok] by simp
qed (use ok in simp_all)

lemma status_opened:
  assumes ok: "acme_status_ok (t_acmeOrders s) (t_acmeAuthzs s) (t_acmeChallenges s)" and op: "opens s x ps"
  shows "acme_status_ok (mput (ord_ID x) x (t_acmeOrders s)) (put_all authz_ID (map fst ps) (t_acmeAuthzs s))
    (put_all chal_ID (map snd ps) (t_acmeChallenges s))"
    (is "acme_status_ok ?ords ?azs ?chs")
proof -
  have "chal_Status c = ACMEChallengeValid"
    if "mget ?azs k = Some a" "authz_Status a = ACMEAuthorizationValid" "mget ?chs i = Some c"
      "chal_AuthorizationID c = k" for k a i c
  proof -
    have old: "mget (t_acmeAuthzs s) k = Some a"
      using that(1,2) opens_pair(2) [OF op] by (fastforce simp: opened_authz [OF op])
    have "\<not> (\<exists>b. (b, c) \<in> set ps)"
      using that(4) opens_pair(3) [OF op] opens_fresh(4) [OF op] mget_table_ids [OF old] by force
    then have "mget (t_acmeChallenges s) i = Some c"
      using that(3) by (simp add: opened_challenge [OF op])
    then show ?thesis
      using ok old that unfolding acme_status_ok_def by blast
  qed
  moreover have "authz_Status a = ACMEAuthorizationValid"
    if "mget ?ords k = Some y" "ord_Status y \<noteq> ACMEOrderPending" "mget ?azs i = Some a" "authz_OrderID a = k" for k y i a
  proof -
    have k: "k \<noteq> ord_ID x"
      using that(1,2) op by (auto simp: opens_def)
    then have "mget (t_acmeAuthzs s) i = Some a"
      using that(3,4) opens_pair(1) [OF op] by (auto simp: opened_authz [OF op])
    then show ?thesis
      using ok that k unfolding acme_status_ok_def by (metis mget_mput)
  qed
  ultimately show ?thesis
    unfolding acme_status_ok_def by blast
qed

lemma status_order:
  assumes "acme_status_ok ords azs chs"
    and "ord_Status y \<noteq> ACMEOrderPending \<Longrightarrow>
      (\<And>i a. mget azs i = Some a \<Longrightarrow> authz_OrderID a = k \<Longrightarrow> authz_Status a = ACMEAuthorizationValid)"
  shows "acme_status_ok (mput k y ords) azs chs"
  using assms unfolding acme_status_ok_def by simp

lemma status_challenge:
  assumes "acme_status_ok ords azs chs" and "mget chs k = Some c" "chal_Status c \<noteq> ACMEChallengeValid"
    and "chal_AuthorizationID d = chal_AuthorizationID c"
  shows "acme_status_ok ords azs (mput k d chs)"
  using assms unfolding acme_status_ok_def by simp metis

lemma status_authz:
  assumes "acme_status_ok ords azs chs"
    and "authz_Status a = ACMEAuthorizationValid"
    and "\<And>i c. mget chs i = Some c \<Longrightarrow> chal_AuthorizationID c = k \<Longrightarrow> chal_Status c = ACMEChallengeValid"
  shows "acme_status_ok ords (mput k a azs) chs"
  using assms unfolding acme_status_ok_def by simp

lemma acme_status_step:
  assumes "store_step s s'" and ok: "acme_status_ok (t_acmeOrders s) (t_acmeAuthzs s) (t_acmeChallenges s)"
  shows "acme_status_ok (t_acmeOrders s') (t_acmeAuthzs s') (t_acmeChallenges s')"
  using assms(1)
proof cases
  case (order_opened x ps)
  then show ?thesis using status_opened [OF ok] by simp
next
  case (challenge_processing x t)
  then show ?thesis by (auto intro: status_challenge [OF ok])
next
  case (challenge_validated x t)
  then show ?thesis by (auto intro: status_challenge [OF ok])
next
  case (authz_validated x r t)
  then show ?thesis by (auto intro!: status_authz [OF ok] simp: challenge_of_def)
next
  case (order_ready x t)
  then show ?thesis by (auto intro!: status_order [OF ok] simp: authz_of_def)
next
  case (order_invalidated x t)
  then have "authz_Status a = ACMEAuthorizationValid"
    if "mget (t_acmeAuthzs s) i = Some a" "authz_OrderID a = ord_ID x" for i a
    using ok that unfolding acme_status_ok_def by (metis ACMEOrderStatus.distinct(1))
  with order_invalidated show ?thesis by (auto intro!: status_order [OF ok])
next
  case (order_finalized x i c e csr subject t)
  then have "authz_Status a = ACMEAuthorizationValid"
    if "mget (t_acmeAuthzs s) i = Some a" "authz_OrderID a = ord_ID x" for i a
    using ok that unfolding acme_status_ok_def by (metis ACMEOrderStatus.distinct(1))
  with order_finalized show ?thesis by (auto intro!: status_order [OF ok])
qed (use ok in simp_all)

lemma orders_ok_order:
  assumes "orders_ok ords certs"
    and "ord_Status y = ACMEOrderValid \<Longrightarrow> \<exists>c. mget certs (ord_CertificateID y) = Some c \<and>
      cert_EnrollmentID c = ord_EnrollmentID y \<and> cert_DNSNames c = ord_RequestedDNSNames y \<and>
      cert_IPAddresses c = ord_RequestedIPAddresses y"
  shows "orders_ok (mput k y ords) certs"
  using assms unfolding orders_ok_def by simp

lemma orders_ok_cert:
  assumes "orders_ok ords certs"
    and "\<And>c. mget certs k = Some c \<Longrightarrow> cert_EnrollmentID d = cert_EnrollmentID c \<and>
      cert_DNSNames d = cert_DNSNames c \<and> cert_IPAddresses d = cert_IPAddresses c"
  shows "orders_ok ords (mput k d certs)"
  using assms unfolding orders_ok_def by (auto split: if_splits) metis+

lemma orders_ok_step:
  assumes "store_step s s'" and att: "attempts_ok (t_certificates s) (t_issuanceAttempts s)"
    and ok: "orders_ok (t_acmeOrders s) (t_certificates s)"
  shows "orders_ok (t_acmeOrders s') (t_certificates s')"
  using assms(1)
proof cases
  case (certificate_issued e a c t)
  then show ?thesis
    using issued_is_new [OF att] by (auto intro!: orders_ok_cert [OF ok])
next
  case (order_opened x ps)
  then show ?thesis by (auto intro!: orders_ok_order [OF ok] simp: opens_def)
qed (use ok in \<open>auto intro!: orders_ok_order orders_ok_cert\<close>)

subsection \<open>All of them\<close>

lemma spec_inv_step:
  assumes "store_step s s'" and "spec_inv s"
  shows "spec_inv s'"
  using assms(2) unfolding spec_inv_def
  by (simp add: wf_store_step [OF assms(1)] valid_log_step [OF assms(1)] enrolled_ok_step [OF assms(1)]
      serials_ok_step [OF assms(1)] attempts_ok_step [OF assms(1)] revocations_ok_step [OF assms(1)]
      responders_ok_step [OF assms(1)] crls_ok_step [OF assms(1)] accounts_ok_step [OF assms(1)]
      acme_links_step [OF assms(1)] acme_status_step [OF assms(1)] orders_ok_step [OF assms(1)])

lemma spec_inv_steps: "store_steps s s' \<Longrightarrow> spec_inv s \<Longrightarrow> spec_inv s'"
  by (induction rule: rtranclp_induct) (auto intro: spec_inv_step)

lemma spec_inv_NewMemoryStore: "spec_inv NewMemoryStore"
  by (simp add: spec_inv_def NewMemoryStore_def wf_store_def valid_log_empty enrolled_ok_def serials_ok_def
      attempts_ok_def reserved_ids_def revocations_ok_def responders_ok_def crls_ok_def accounts_ok_def
      acme_links_ok_def acme_status_ok_def orders_ok_def)

section \<open>How records evolve\<close>

text \<open>
  A certificate, enrollment or API key is never removed; a step changes only its status and the
  fields that go with it, and some statuses are final.
\<close>

definition cert_evolves :: "Certificate \<Rightarrow> Certificate \<Rightarrow> bool" where
  "cert_evolves c d \<longleftrightarrow>
     d = c\<lparr>cert_Status := cert_Status d, cert_RenewalNotifiedAt := cert_RenewalNotifiedAt d,
           cert_UpdatedAt := cert_UpdatedAt d\<rparr> \<and>
     (cert_Status c = cert_Status d \<or>
      (cert_Status c \<in> {CertificateValid, CertificateSuspended} \<and>
       cert_Status d \<in> {CertificateValid, CertificateSuspended, CertificateRevoked, CertificateExpired}))"

definition enr_evolves :: "Enrollment \<Rightarrow> Enrollment \<Rightarrow> bool" where
  "enr_evolves e f \<longleftrightarrow>
     f = e\<lparr>enr_Status := enr_Status f, enr_ApprovedBy := enr_ApprovedBy f, enr_ApprovedAt := enr_ApprovedAt f,
           enr_UpdatedAt := enr_UpdatedAt f\<rparr> \<and>
     (enr_Status e = enr_Status f \<or>
      (enr_Status e = EnrollmentPending \<and> enr_Status f \<in> {EnrollmentApproved, EnrollmentRejected, EnrollmentIssued}) \<or>
      (enr_Status e = EnrollmentApproved \<and> enr_Status f = EnrollmentIssued))"

definition key_evolves :: "APIKey \<Rightarrow> APIKey \<Rightarrow> bool" where
  "key_evolves k l \<longleftrightarrow>
     l = k\<lparr>key_Status := key_Status l, key_LastUsedAt := key_LastUsedAt l, key_UpdatedAt := key_UpdatedAt l\<rparr> \<and>
     (key_Status k = key_Status l \<or> (key_Status k = APIKeyActive \<and> key_Status l = APIKeyDisabled))"

text \<open>Every record of a table stays, up to a relation between its versions.\<close>

definition table_evolves :: "('v \<Rightarrow> 'v \<Rightarrow> bool) \<Rightarrow> 'v gomap \<Rightarrow> 'v gomap \<Rightarrow> bool" where
  "table_evolves R m n \<longleftrightarrow> (\<forall>k x. mget m k = Some x \<longrightarrow> (\<exists>y. mget n k = Some y \<and> R x y))"

lemma table_evolves_refl: "(\<And>x. R x x) \<Longrightarrow> table_evolves R m m"
  by (simp add: table_evolves_def)

lemma table_evolves_trans:
  assumes "\<And>x y z. R x y \<Longrightarrow> R y z \<Longrightarrow> R x z"
  shows "table_evolves R l m \<Longrightarrow> table_evolves R m n \<Longrightarrow> table_evolves R l n"
  unfolding table_evolves_def using assms by meson

lemma table_evolves_mput:
  "(\<And>x. R x x) \<Longrightarrow> (\<And>x. mget m k = Some x \<Longrightarrow> R x y) \<Longrightarrow> table_evolves R m (mput k y m)"
  by (simp add: table_evolves_def)

lemma table_evolvesD: "table_evolves R m n \<Longrightarrow> mget m k = Some x \<Longrightarrow> \<exists>y. mget n k = Some y \<and> R x y"
  by (simp add: table_evolves_def)

lemma cert_evolves_refl: "cert_evolves c c"
  by (simp add: cert_evolves_def)

lemma cert_evolves_trans: "cert_evolves c d \<Longrightarrow> cert_evolves d e \<Longrightarrow> cert_evolves c e"
  by (cases c; cases d; cases e) (auto simp: cert_evolves_def)

lemma enr_evolves_refl: "enr_evolves e e"
  by (simp add: enr_evolves_def)

lemma enr_evolves_trans: "enr_evolves e f \<Longrightarrow> enr_evolves f g \<Longrightarrow> enr_evolves e g"
  by (cases e; cases f; cases g) (auto simp: enr_evolves_def)

lemma key_evolves_refl: "key_evolves k k"
  by (simp add: key_evolves_def)

lemma key_evolves_trans: "key_evolves k l \<Longrightarrow> key_evolves l m \<Longrightarrow> key_evolves k m"
  by (cases k; cases l; cases m) (auto simp: key_evolves_def)

lemma certificates_evolve_step:
  assumes "store_step s s'" and "spec_inv s"
  shows "table_evolves cert_evolves (t_certificates s) (t_certificates s')"
proof -
  note refl = table_evolves_refl [of cert_evolves, OF cert_evolves_refl]
  have upd: "table_evolves cert_evolves (t_certificates s) (mput i d (t_certificates s))"
    if "\<And>c. mget (t_certificates s) i = Some c \<Longrightarrow> cert_evolves c d" for i d
    by (rule table_evolves_mput) (auto simp: cert_evolves_refl that)
  have att: "attempts_ok (t_certificates s) (t_issuanceAttempts s)"
    using assms(2) by (simp add: spec_inv_def)
  from assms(1) show ?thesis
  proof cases
    case (certificate_issued e a c t)
    then show ?thesis using issued_is_new [OF att] by (auto intro!: upd)
  qed (auto intro!: upd simp: refl cert_evolves_def)
qed

lemma enrollments_evolve_step:
  assumes "store_step s s'"
  shows "table_evolves enr_evolves (t_enrollments s) (t_enrollments s')"
proof -
  note refl = table_evolves_refl [of enr_evolves, OF enr_evolves_refl]
  have upd: "table_evolves enr_evolves (t_enrollments s) (mput i d (t_enrollments s))"
    if "\<And>c. mget (t_enrollments s) i = Some c \<Longrightarrow> enr_evolves c d" for i d
    by (rule table_evolves_mput) (auto simp: enr_evolves_refl that)
  from assms show ?thesis
  proof cases
    case (enrollment_created x)
    then show ?thesis using ids_of_tables(1) by (auto intro!: upd)
  qed (auto intro!: upd simp: refl enr_evolves_def)
qed

lemma api_keys_evolve_step:
  assumes "store_step s s'"
  shows "table_evolves key_evolves (t_apiKeys s) (t_apiKeys s')"
proof -
  note refl = table_evolves_refl [of key_evolves, OF key_evolves_refl]
  have upd: "table_evolves key_evolves (t_apiKeys s) (mput i d (t_apiKeys s))"
    if "\<And>c. mget (t_apiKeys s) i = Some c \<Longrightarrow> key_evolves c d" for i d
    by (rule table_evolves_mput) (auto simp: key_evolves_refl that)
  from assms show ?thesis
  proof cases
    case (api_key_created x)
    then show ?thesis using ids_of_tables(6) by (auto intro!: upd)
  qed (auto intro!: upd simp: refl key_evolves_def)
qed

lemma revocations_stay_step:
  assumes "store_step s s'"
  shows "table_evolves (=) (t_revocations s) (t_revocations s')"
  using assms
proof cases
  case (certificate_revoked c r t)
  then show ?thesis using ids_of_tables(3) by (auto simp: table_evolves_def)
qed (auto simp: table_evolves_refl)

text \<open>Along a sequence of steps.\<close>

locale evolving =
  fixes tab :: "memory_store \<Rightarrow> 'v gomap" and R :: "'v \<Rightarrow> 'v \<Rightarrow> bool"
  assumes R_refl: "R x x" and R_trans: "R x y \<Longrightarrow> R y z \<Longrightarrow> R x z"
    and tab_step: "store_step s s' \<Longrightarrow> spec_inv s \<Longrightarrow> table_evolves R (tab s) (tab s')"
begin

lemma tab_steps: "store_steps s s' \<Longrightarrow> spec_inv s \<Longrightarrow> table_evolves R (tab s) (tab s')"
proof (induction rule: rtranclp_induct)
  case base
  then show ?case by (simp add: table_evolves_refl R_refl)
next
  case (step t u)
  have "table_evolves R (tab s) (tab t)" "table_evolves R (tab t) (tab u)"
    using step spec_inv_steps tab_step by blast+
  then show ?case
    by (rule table_evolves_trans [rotated]) (rule R_trans)
qed

lemma tab_keeps:
  "store_steps s s' \<Longrightarrow> spec_inv s \<Longrightarrow> mget (tab s) k = Some x \<Longrightarrow> \<exists>y. mget (tab s') k = Some y \<and> R x y"
  by (rule table_evolvesD [OF tab_steps])

end

interpretation certs: evolving t_certificates cert_evolves
  by unfold_locales (auto intro: cert_evolves_refl cert_evolves_trans certificates_evolve_step)

interpretation enrs: evolving t_enrollments enr_evolves
  by unfold_locales (auto intro: enr_evolves_refl enr_evolves_trans enrollments_evolve_step)

interpretation keys: evolving t_apiKeys key_evolves
  by unfold_locales (auto intro: key_evolves_refl key_evolves_trans api_keys_evolve_step)

interpretation revs: evolving t_revocations "(=)"
  by unfold_locales (auto intro: revocations_stay_step)

end
