(* ===== verification/Refinement.thy ===== *)
theory Refinement
  imports LifecycleInv ServiceBase
begin

text \<open>
  A program logic for "this computation takes only steps of the specification". \<open>good\<close> says that
  the store satisfies the invariant and that every identifier in it was drawn from the generator
  before; \<open>R\<close> is a set of identifiers that were drawn and are not in use yet. A triple
  \<open>hoare svc tx R P m R' Q\<close> says that \<open>m\<close>, started in a good world whose store satisfies \<open>P\<close>, takes
  steps of the specification to a good world again and establishes \<open>Q\<close>; in a transaction (\<open>tx\<close>)
  nothing is asked of the store after an error, since it is rolled back.
\<close>

named_theorems hoare_intros \<open>rules of the program logic, driven by the head of the program\<close>
named_theorems quiet_intros \<open>computations that leave the store alone\<close>

section \<open>Good worlds\<close>

text \<open>
  \<open>uuid.NewString\<close> never returns a value twice: the generator is injective.
\<close>

definition good :: "service \<Rightarrow> string set \<Rightarrow> world \<Rightarrow> bool" where
  "good svc R w \<longleftrightarrow>
     inj (svc_idgen svc) \<and> spec_inv (w_store w) \<and>
     ids_of (w_store w) \<union> R \<subseteq> svc_idgen svc ` {..<w_tick w} \<and> R \<inter> ids_of (w_store w) = {}"

lemma good_subset: "good svc R w \<Longrightarrow> R' \<subseteq> R \<Longrightarrow> good svc R' w"
  by (auto simp: good_def)

lemma good_later:
  assumes "good svc R w" and "w_store w' = w_store w" and "w_tick w \<le> w_tick w'"
  shows "good svc R w'"
proof -
  have "svc_idgen svc ` {..<w_tick w} \<subseteq> svc_idgen svc ` {..<w_tick w'}"
    using assms(3) by auto
  then show ?thesis
    using assms(1,2) unfolding good_def by auto
qed

lemma good_newID:
  assumes "good svc R w"
  shows "good svc (insert (svc_idgen svc (w_tick w)) R) (w\<lparr>w_tick := Suc (w_tick w)\<rparr>)"
    and "svc_idgen svc (w_tick w) \<notin> R"
proof -
  let ?i = "svc_idgen svc (w_tick w)" and ?S = "svc_idgen svc ` {..<w_tick w}"
  have new: "?i \<notin> ?S"
    using assms by (auto simp: good_def inj_def)
  have sub: "ids_of (w_store w) \<union> R \<subseteq> ?S"
    using assms by (simp add: good_def)
  with new have fresh: "?i \<notin> R" "?i \<notin> ids_of (w_store w)" by blast+
  then show "?i \<notin> R" by simp
  have "svc_idgen svc ` {..<Suc (w_tick w)} = insert ?i ?S"
    by (simp add: lessThan_Suc)
  then have "ids_of (w_store w) \<union> insert ?i R \<subseteq> svc_idgen svc ` {..<Suc (w_tick w)}"
    using sub by blast
  then show "good svc (insert ?i R) (w\<lparr>w_tick := Suc (w_tick w)\<rparr>)"
    using assms fresh by (simp add: good_def)
qed

lemma good_steps:
  assumes "good svc R w" and "store_steps (w_store w) s'" and "ids_of s' \<subseteq> ids_of (w_store w) \<union> N" and "N \<subseteq> R"
  shows "good svc (R - N) (w\<lparr>w_store := s'\<rparr>)"
proof -
  have "ids_of s' \<union> (R - N) \<subseteq> svc_idgen svc ` {..<w_tick w}"
    using assms(1,3,4) unfolding good_def by blast
  moreover have "spec_inv s'"
    using assms(1,2) spec_inv_steps by (auto simp: good_def)
  ultimately show ?thesis
    using assms unfolding good_def by auto
qed

lemma good_initial: "inj (svc_idgen svc) \<Longrightarrow> w_store w = NewMemoryStore \<Longrightarrow> good svc {} w"
  using spec_inv_NewMemoryStore by (simp add: good_def ids_of_def NewMemoryStore_def reserved_ids_def)

section \<open>Triples\<close>

definition hoare ::
  "service \<Rightarrow> bool \<Rightarrow> string set \<Rightarrow> (memory_store \<Rightarrow> bool) \<Rightarrow> (world, 'e, 'a) eff \<Rightarrow> ('a \<Rightarrow> string set) \<Rightarrow>
   ('a \<Rightarrow> memory_store \<Rightarrow> bool) \<Rightarrow> bool" where
  "hoare svc tx R P m R' Q \<longleftrightarrow>
     (\<forall>w. good svc R w \<longrightarrow> P (w_store w) \<longrightarrow>
        w_tick w \<le> w_tick (snd (m w)) \<and>
        wp m (\<lambda>x w'. good svc (R' x) w' \<and> store_steps (w_store w) (w_store w') \<and> Q x (w_store w'))
          (\<lambda>e w'. tx \<or> (good svc {} w' \<and> store_steps (w_store w) (w_store w'))) w)"

abbreviation runs ::
  "service \<Rightarrow> bool \<Rightarrow> string set \<Rightarrow> (memory_store \<Rightarrow> bool) \<Rightarrow> (world, 'e, 'a) eff \<Rightarrow> bool" where
  "runs svc tx R P m \<equiv> hoare svc tx R P m (\<lambda>_. {}) (\<lambda>_ _. True)"

text \<open>A whole operation: no assumption on the store, whatever the outcome.\<close>

abbreviation refines :: "service \<Rightarrow> (world, 'e, 'a) eff \<Rightarrow> bool" where
  "refines svc m \<equiv> runs svc False {} (\<lambda>_. True) m"

lemma wp_outcome: "wp m (\<lambda>_. F) (\<lambda>_. F) s \<longleftrightarrow> F (snd (m s))"
  by (cases "m s"; cases "fst (m s)") (auto simp: wp_def)

lemma refines_iff:
  "refines svc m \<longleftrightarrow> (\<forall>w. good svc {} w \<longrightarrow>
     good svc {} (snd (m w)) \<and> store_steps (w_store w) (w_store (snd (m w))) \<and> w_tick w \<le> w_tick (snd (m w)))"
  unfolding hoare_def simp_thms wp_outcome by blast

lemma hoareI:
  assumes "\<And>w. good svc R w \<Longrightarrow> P (w_store w) \<Longrightarrow> w_tick w \<le> w_tick (snd (m w))"
    and "\<And>w x w'. good svc R w \<Longrightarrow> P (w_store w) \<Longrightarrow> m w = (Inr x, w') \<Longrightarrow>
      good svc (R' x) w' \<and> store_steps (w_store w) (w_store w') \<and> Q x (w_store w')"
    and "\<And>w e w'. good svc R w \<Longrightarrow> P (w_store w) \<Longrightarrow> m w = (Inl e, w') \<Longrightarrow> \<not> tx \<Longrightarrow>
      good svc {} w' \<and> store_steps (w_store w) (w_store w')"
  shows "hoare svc tx R P m R' Q"
  unfolding hoare_def wp_def
proof (intro allI impI conjI)
  fix w assume w: "good svc R w" "P (w_store w)"
  then show "w_tick w \<le> w_tick (snd (m w))" by (rule assms(1))
  obtain r w' where m: "m w = (r, w')" by (cases "m w")
  show "case m w of
      (Inl e, w') \<Rightarrow> tx \<or> (good svc {} w' \<and> store_steps (w_store w) (w_store w'))
    | (Inr x, w') \<Rightarrow> good svc (R' x) w' \<and> store_steps (w_store w) (w_store w') \<and> Q x (w_store w')"
    using assms(2) [OF w] assms(3) [OF w] m by (cases r) auto
qed

lemma hoare_tick: "hoare svc tx R P m R' Q \<Longrightarrow> good svc R w \<Longrightarrow> P (w_store w) \<Longrightarrow> m w = (r, w') \<Longrightarrow>
    w_tick w \<le> w_tick w'"
  unfolding hoare_def by (metis snd_conv)

lemma hoare_success: "hoare svc tx R P m R' Q \<Longrightarrow> good svc R w \<Longrightarrow> P (w_store w) \<Longrightarrow> m w = (Inr x, w') \<Longrightarrow>
    good svc (R' x) w' \<and> store_steps (w_store w) (w_store w') \<and> Q x (w_store w')"
  unfolding hoare_def wp_def by fastforce

lemma hoare_error: "hoare svc tx R P m R' Q \<Longrightarrow> good svc R w \<Longrightarrow> P (w_store w) \<Longrightarrow> m w = (Inl e, w') \<Longrightarrow> \<not> tx \<Longrightarrow>
    good svc {} w' \<and> store_steps (w_store w) (w_store w')"
  unfolding hoare_def wp_def by fastforce

text \<open>Running a bind: it fails in the first part or in the second.\<close>

lemma bindE_cases:
  assumes "bindE m k w = (r, w'')"
  obtains (first) e where "m w = (Inl e, w'')" "r = Inl e"
    | (second) x w' where "m w = (Inr x, w')" "k x w' = (r, w'')"
  using assms by (cases "m w"; cases "fst (m w)") (auto simp: bindE_def)

lemma hoare_bind:
  assumes m: "hoare svc tx R P m R' Q" and k: "\<And>x. hoare svc tx (R' x) (Q x) (k x) R'' Q''"
  shows "hoare svc tx R P (bindE m k) R'' Q''"
proof (rule hoareI)
  fix w assume w: "good svc R w" "P (w_store w)"
  obtain r w'' where b: "bindE m k w = (r, w'')" by (cases "bindE m k w")
  then show "w_tick w \<le> w_tick (snd (bindE m k w))"
  proof (cases rule: bindE_cases)
    case (first e)
    then show ?thesis using hoare_tick [OF m w] b by simp
  next
    case (second x w')
    then have "w_tick w \<le> w_tick w'" "w_tick w' \<le> w_tick w''"
      using hoare_tick [OF m w] hoare_success [OF m w second(1)] hoare_tick [OF k, of x w' r w''] by auto
    then show ?thesis using b by simp
  qed
next
  fix w y w'' assume w: "good svc R w" "P (w_store w)" and b: "bindE m k w = (Inr y, w'')"
  from b show "good svc (R'' y) w'' \<and> store_steps (w_store w) (w_store w'') \<and> Q'' y (w_store w'')"
  proof (cases rule: bindE_cases)
    case (second x w')
    then show ?thesis
      using hoare_success [OF m w second(1)] hoare_success [OF k, of x w' y w''] by (meson rtranclp_trans)
  qed simp
next
  fix w e w'' assume w: "good svc R w" "P (w_store w)" and b: "bindE m k w = (Inl e, w'')" and tx: "\<not> tx"
  from b show "good svc {} w'' \<and> store_steps (w_store w) (w_store w'')"
  proof (cases rule: bindE_cases)
    case (first e')
    then show ?thesis using hoare_error [OF m w first(1) tx] by simp
  next
    case (second x w')
    then show ?thesis
      using hoare_success [OF m w second(1)] hoare_error [OF k, of x w' e w''] tx by (meson rtranclp_trans)
  qed
qed

lemma hoare_consequence:
  assumes m: "hoare svc tx R P m R' Q" and "R \<subseteq> R1" and "\<And>s. P1 s \<Longrightarrow> P s"
    and "\<And>x. R1' x \<subseteq> R' x" and "\<And>x s. Q x s \<Longrightarrow> Q1 x s"
  shows "hoare svc tx R1 P1 m R1' Q1"
proof (rule hoareI)
  fix w assume w: "good svc R1 w" "P1 (w_store w)"
  then have w': "good svc R w" "P (w_store w)" using assms(2,3) good_subset by blast+
  show "w_tick w \<le> w_tick (snd (m w))" using hoare_tick [OF m w'] by (metis prod.collapse)
  show "good svc (R1' x) w' \<and> store_steps (w_store w) (w_store w') \<and> Q1 x (w_store w')"
    if "m w = (Inr x, w')" for x w'
    using hoare_success [OF m w' that] assms(4,5) good_subset by blast
  show "good svc {} w' \<and> store_steps (w_store w) (w_store w')" if "m w = (Inl e, w')" "\<not> tx" for e w'
    by (rule hoare_error [OF m w' that])
qed

lemma hoare_weaken:
  "hoare svc tx R P m R' Q \<Longrightarrow> (\<And>x. R1' x \<subseteq> R' x) \<Longrightarrow> (\<And>x s. Q x s \<Longrightarrow> Q1 x s) \<Longrightarrow>
   hoare svc tx R P m R1' Q1"
  by (rule hoare_consequence [OF _ subset_refl])

lemma hoare_runs: "hoare svc tx R P m R' Q \<Longrightarrow> runs svc tx R P m"
  by (rule hoare_weaken) auto

lemma runs_from: "refines svc m \<Longrightarrow> runs svc False R P m"
  by (rule hoare_consequence) auto

lemma hoare_WithinTx:
  assumes m: "hoare svc True R P m R' Q"
  shows "hoare svc tx R P (WithinTx m) R' Q"
proof (rule hoareI)
  fix w assume w: "good svc R w" "P (w_store w)"
  show "w_tick w \<le> w_tick (snd (WithinTx m w))"
    using hoare_tick [OF m w] by (auto simp: WithinTx_def split: prod.splits sum.splits)
  show "good svc (R' x) w' \<and> store_steps (w_store w) (w_store w') \<and> Q x (w_store w')"
    if "WithinTx m w = (Inr x, w')" for x w'
    using that hoare_success [OF m w] by (auto simp: WithinTx_def split: prod.splits sum.splits)
  show "good svc {} w' \<and> store_steps (w_store w) (w_store w')" if run: "WithinTx m w = (Inl e, w')" for e w'
  proof -
    obtain w1 where "m w = (Inl e, w1)" "w' = w1\<lparr>w_store := w_store w\<rparr>"
      using run by (cases "m w"; cases "fst (m w)") (auto simp: WithinTx_def)
    then have "good svc {} w'"
      using hoare_tick [OF m w] by (intro good_later [OF good_subset [OF w(1)]]) auto
    with \<open>w' = _\<close> show ?thesis by simp
  qed
qed

section \<open>Rules for the heads of programs\<close>

text \<open>
  Computations that leave the store alone: reads, draws and calls of collaborators. They form the
  relation of a \<open>state_preorder\<close>, whose composition rules are used for them.
\<close>

definition unchanged :: "world \<Rightarrow> world \<Rightarrow> bool" where
  "unchanged w w' \<longleftrightarrow> w_store w' = w_store w \<and> w_tick w \<le> w_tick w'"

interpretation quiet: state_preorder unchanged
  by unfold_locales (auto simp: unchanged_def)

abbreviation quiet_eff :: "(world, 'e, 'a) eff \<Rightarrow> bool" where
  "quiet_eff \<equiv> keeps unchanged"

definition pure_read :: "(memory_store, 'e, 'a) eff \<Rightarrow> bool" where
  "pure_read m \<longleftrightarrow> (\<forall>s. snd (m s) = s)"

lemma pure_read_get [quiet_intros]: "pure_read (getE f)" "pure_read (readE g)"
  by (simp_all add: pure_read_def getE_def readE_def)

lemma quiet_drawE [quiet_intros]: "quiet_eff (drawE f)"
  by (simp add: keeps_def unchanged_def drawE_def)

lemma quiet_callE [quiet_intros]: "quiet_eff (callE f)"
  by (simp add: keeps_def unchanged_def callE_def)

lemma quiet_repoE [quiet_intros]: "pure_read m \<Longrightarrow> quiet_eff (repoE m)"
  by (auto simp: keeps_def unchanged_def repoE_def pure_read_def case_prod_beta)

lemma quiet_WithinTx [quiet_intros]: "quiet_eff m \<Longrightarrow> quiet_eff (WithinTx m)"
  unfolding keeps_def unchanged_def WithinTx_def by (auto split: prod.splits sum.splits) (metis snd_conv)+

lemmas quiet_rules = quiet.keeps_returnE quiet.keeps_throwE quiet.keeps_failIf quiet.keeps_fromSum quiet.keeps_bindE
  quiet.keeps_attemptE quiet.keeps_mapErrE quiet.keeps_forE quiet.keeps_foldE quiet.keeps_if
  quiet.keeps_case_sum quiet.keeps_case_option quiet.keeps_case_prod quiet_intros

lemma quiet_run: "quiet_eff m \<Longrightarrow> m w = (r, w') \<Longrightarrow> w_store w' = w_store w \<and> w_tick w \<le> w_tick w'"
  unfolding keeps_def unchanged_def by (metis snd_conv)

lemma hoare_quiet_value:
  assumes "quiet_eff m" and "\<And>w x w'. m w = (Inr x, w') \<Longrightarrow> V x (w_store w)"
  shows "hoare svc tx R P m (\<lambda>_. R) (\<lambda>x s. P s \<and> V x s)"
proof (rule hoareI)
  fix w assume w: "good svc R w" "P (w_store w)"
  show "w_tick w \<le> w_tick (snd (m w))"
    using quiet_run [OF assms(1)] by (metis prod.collapse)
  show "good svc R w' \<and> store_steps (w_store w) (w_store w') \<and> P (w_store w') \<and> V x (w_store w')"
    if "m w = (Inr x, w')" for x w'
    using quiet_run [OF assms(1) that] assms(2) [OF that] w good_later [OF w(1)] by auto
  show "good svc {} w' \<and> store_steps (w_store w) (w_store w')" if "m w = (Inl e, w')" for e w'
    using quiet_run [OF assms(1) that] good_later [OF good_subset [OF w(1)]] by auto
qed

lemma hoare_quiet: "quiet_eff m \<Longrightarrow> hoare svc tx R P m (\<lambda>_. R) (\<lambda>_. P)"
  using hoare_quiet_value [of m "\<lambda>_ _. True"] by simp

text \<open>The pure facts that a head establishes become assumptions of the rest.\<close>

lemma hoare_fact:
  assumes "quiet_eff m" and "\<And>w x w'. m w = (Inr x, w') \<Longrightarrow> V x"
    and "\<And>x. V x \<Longrightarrow> hoare svc tx R P (k x) R' Q"
  shows "hoare svc tx R P (bindE m k) R' Q"
proof (rule hoare_bind [OF hoare_quiet_value [where V = "\<lambda>x _. V x"]])
  fix x
  show "hoare svc tx R (\<lambda>s. P s \<and> V x) (k x) R' Q"
    using assms(3) [of x] by (cases "V x") (auto simp: hoare_def)
qed (use assms in auto)

lemma runs_failIf [hoare_intros]:
  "(\<not> b \<Longrightarrow> hoare svc tx R P (k ()) R' Q) \<Longrightarrow> hoare svc tx R P (bindE (failIf b e) k) R' Q"
  by (rule hoare_fact [OF quiet.keeps_failIf, where V = "\<lambda>_. \<not> b"]) (auto simp: failIf_def throwE_def split: if_splits)

lemma runs_fromSum [hoare_intros]:
  "(\<And>x. r = Inr x \<Longrightarrow> hoare svc tx R P (k x) R' Q) \<Longrightarrow> hoare svc tx R P (bindE (fromSum r) k) R' Q"
  by (rule hoare_fact [OF quiet.keeps_fromSum, where V = "\<lambda>x. r = Inr x"]) (auto simp: fromSum_def)

lemma runs_returnE [hoare_intros]: "hoare svc tx R P (k x) R' Q \<Longrightarrow> hoare svc tx R P (bindE (returnE x) k) R' Q"
  by (simp add: bindE_def returnE_def)

lemma runs_newID [hoare_intros]:
  assumes "\<And>i. i \<notin> R \<Longrightarrow> hoare svc tx (insert i R) P (k i) R' Q"
  shows "hoare svc tx R P (bindE (newID svc) k) R' Q"
proof (rule hoareI)
  fix w assume w: "good svc R w" "P (w_store w)"
  let ?i = "svc_idgen svc (w_tick w)" and ?w = "w\<lparr>w_tick := Suc (w_tick w)\<rparr>"
  have run: "bindE (newID svc) k w = k ?i ?w"
    by (simp add: bindE_def drawE_def)
  note h = assms [OF good_newID(2) [OF w(1)]] and g = good_newID(1) [OF w(1)]
  show "w_tick w \<le> w_tick (snd (bindE (newID svc) k w))"
    using hoare_tick [OF h g] w(2) unfolding run by (cases "k ?i ?w") (auto dest: Suc_leD)
  show "good svc (R' x) w' \<and> store_steps (w_store w) (w_store w') \<and> Q x (w_store w')"
    if "bindE (newID svc) k w = (Inr x, w')" for x w'
    using hoare_success [OF h g] w(2) that unfolding run by simp
  show "good svc {} w' \<and> store_steps (w_store w) (w_store w')"
    if "bindE (newID svc) k w = (Inl e, w')" "\<not> tx" for e w'
    using hoare_error [OF h g] w(2) that unfolding run by simp
qed

lemma runs_quiet: "quiet_eff m \<Longrightarrow> (\<And>x. hoare svc tx R P (k x) R' Q) \<Longrightarrow> hoare svc tx R P (bindE m k) R' Q"
  by (rule hoare_bind [OF hoare_quiet])

lemma runs_drawE [hoare_intros]:
  "(\<And>x. hoare svc tx R P (k x) R' Q) \<Longrightarrow> hoare svc tx R P (bindE (drawE f) k) R' Q"
  by (rule runs_quiet [OF quiet_drawE])

lemma runs_callE [hoare_intros]:
  "(\<And>x. hoare svc tx R P (k x) R' Q) \<Longrightarrow> hoare svc tx R P (bindE (callE f) k) R' Q"
  by (rule runs_quiet [OF quiet_callE])

lemma runs_mapErrE_callE [hoare_intros]:
  "(\<And>x. hoare svc tx R P (k x) R' Q) \<Longrightarrow> hoare svc tx R P (bindE (mapErrE g (callE f)) k) R' Q"
  by (rule runs_quiet [OF quiet.keeps_mapErrE [OF quiet_callE]])

lemma runs_read:
  "pure_read m \<Longrightarrow> (\<And>x. hoare svc tx R (\<lambda>s. P s \<and> fst (m s) = Inr x) (k x) R' Q) \<Longrightarrow>
   hoare svc tx R P (bindE (repoE m) k) R' Q"
  by (rule hoare_bind [OF hoare_quiet_value [OF quiet_repoE, where V = "\<lambda>x s. fst (m s) = Inr x"]])
     (auto simp: repoE_def split: prod.splits)

lemma runs_read_attempt:
  "pure_read m \<Longrightarrow> (\<And>r. hoare svc tx R (\<lambda>s. P s \<and> fst (m s) = r) (k r) R' Q) \<Longrightarrow>
   hoare svc tx R P (bindE (attemptE (repoE m)) k) R' Q"
  by (rule hoare_bind [OF hoare_quiet_value [OF quiet.keeps_attemptE [OF quiet_repoE], where V = "\<lambda>r s. fst (m s) = r"]])
     (auto simp: repoE_def attemptE_def split: prod.splits)

lemma runs_read_mapErrE:
  "pure_read m \<Longrightarrow> (\<And>x. hoare svc tx R (\<lambda>s. P s \<and> fst (m s) = Inr x) (k x) R' Q) \<Longrightarrow>
   hoare svc tx R P (bindE (mapErrE g (repoE m)) k) R' Q"
  by (rule hoare_bind [OF hoare_quiet_value [OF quiet.keeps_mapErrE [OF quiet_repoE], where V = "\<lambda>x s. fst (m s) = Inr x"]])
     (auto simp: repoE_def mapErrE_def split: prod.splits sum.splits)

lemma hoare_returnE: "(\<And>s. P s \<Longrightarrow> Q x s) \<Longrightarrow> R' x \<subseteq> R \<Longrightarrow> hoare svc tx R P (returnE x) R' Q"
  by (rule hoareI) (auto simp: returnE_def intro: good_subset)

lemma runs_done [hoare_intros]: "runs svc tx R P (returnE x)"
  by (rule hoare_returnE) auto

lemma hoare_throwE [hoare_intros]: "hoare svc tx R P (throwE e) R' Q"
  by (rule hoareI) (auto simp: throwE_def intro: good_subset)

lemma runs_bind_throw: "hoare svc tx R P (bindE (throwE e) k) R' Q"
  by (rule hoareI) (auto simp: bindE_def throwE_def intro: good_subset)

lemma runs_last_quiet: "quiet_eff m \<Longrightarrow> runs svc tx R P m"
  by (rule hoare_consequence [OF hoare_quiet]) auto

lemma runs_if [hoare_intros]:
  "(b \<Longrightarrow> hoare svc tx R P m R' Q) \<Longrightarrow> (\<not> b \<Longrightarrow> hoare svc tx R P n R' Q) \<Longrightarrow>
   hoare svc tx R P (if b then m else n) R' Q"
  by simp

lemma runs_call: "refines svc m \<Longrightarrow> (\<And>x. refines svc (k x)) \<Longrightarrow> runs svc False R P (bindE m k)"
  by (rule hoare_bind [OF runs_from])

text \<open>A fact about the value that holds whatever the world is.\<close>

lemma hoare_value:
  assumes m: "hoare svc tx R P m R' Q" and "\<And>w x w'. m w = (Inr x, w') \<Longrightarrow> V x"
  shows "hoare svc tx R P m R' (\<lambda>x s. Q x s \<and> V x)"
proof (rule hoareI)
  fix w assume w: "good svc R w" "P (w_store w)"
  show "w_tick w \<le> w_tick (snd (m w))"
    using hoare_tick [OF m w] by (metis prod.collapse)
  show "good svc (R' x) w' \<and> store_steps (w_store w) (w_store w') \<and> Q x (w_store w') \<and> V x"
    if "m w = (Inr x, w')" for x w'
    using hoare_success [OF m w that] assms(2) [OF that] by simp
  show "good svc {} w' \<and> store_steps (w_store w) (w_store w')" if "m w = (Inl e, w')" "\<not> tx" for e w'
    by (rule hoare_error [OF m w that])
qed

lemma hoare_assume: "(V \<Longrightarrow> hoare svc tx R P m R' Q) \<Longrightarrow> hoare svc tx R (\<lambda>s. P s \<and> V) m R' Q"
  by (cases V) (auto simp: hoare_def)

lemma runs_call_value:
  assumes "refines svc m" and "\<And>w x w'. m w = (Inr x, w') \<Longrightarrow> V x" and "\<And>x. V x \<Longrightarrow> refines svc (k x)"
  shows "runs svc False R P (bindE m k)"
  by (rule hoare_bind [OF hoare_value [OF runs_from [OF assms(1)] assms(2)] hoare_assume [OF assms(3)]])

text \<open>A transaction in the middle of an operation, and a local definition.\<close>

lemma runs_tx:
  "runs svc True R P m \<Longrightarrow> (\<And>x. refines svc (k x)) \<Longrightarrow> runs svc False R P (bindE (WithinTx m) k)"
  by (rule hoare_bind [OF hoare_WithinTx])

lemma runs_let: "(\<And>y. y = x \<Longrightarrow> hoare svc tx R P (k y) R' Q) \<Longrightarrow> hoare svc tx R P (Let x k) R' Q"
  by simp

text \<open>Control flow in the head of a bind moves outwards.\<close>

lemma bindE_assoc: "bindE (bindE m k) l = bindE m (\<lambda>x. bindE (k x) l)"
proof
  show "bindE (bindE m k) l w = bindE m (\<lambda>x. bindE (k x) l) w" for w
    by (cases "m w"; cases "fst (m w)") (simp_all add: bindE_def)
qed

lemma runs_bind_bind: "hoare svc tx R P (bindE m (\<lambda>x. bindE (k x) l)) R' Q \<Longrightarrow> hoare svc tx R P (bindE (bindE m k) l) R' Q"
  by (simp add: bindE_assoc)

lemma runs_bind_if:
  "(b \<Longrightarrow> hoare svc tx R P (bindE m k) R' Q) \<Longrightarrow> (\<not> b \<Longrightarrow> hoare svc tx R P (bindE n k) R' Q) \<Longrightarrow>
   hoare svc tx R P (bindE (if b then m else n) k) R' Q"
  by simp

lemma runs_bind_let:
  "(\<And>y. y = x \<Longrightarrow> hoare svc tx R P (bindE (m y) k) R' Q) \<Longrightarrow> hoare svc tx R P (bindE (Let x m) k) R' Q"
  by simp

lemma runs_case_sum:
  "(\<And>e. r = Inl e \<Longrightarrow> hoare svc tx R P (f e) R' Q) \<Longrightarrow> (\<And>x. r = Inr x \<Longrightarrow> hoare svc tx R P (g x) R' Q) \<Longrightarrow>
   hoare svc tx R P (case r of Inl e \<Rightarrow> f e | Inr x \<Rightarrow> g x) R' Q"
  by (cases r) simp_all

lemma runs_bind_case_sum:
  "(\<And>e. r = Inl e \<Longrightarrow> hoare svc tx R P (bindE (f e) k) R' Q) \<Longrightarrow>
   (\<And>x. r = Inr x \<Longrightarrow> hoare svc tx R P (bindE (g x) k) R' Q) \<Longrightarrow>
   hoare svc tx R P (bindE (case r of Inl e \<Rightarrow> f e | Inr x \<Rightarrow> g x) k) R' Q"
  by (cases r) simp_all

lemma runs_case_option:
  "(r = None \<Longrightarrow> hoare svc tx R P m R' Q) \<Longrightarrow> (\<And>x. r = Some x \<Longrightarrow> hoare svc tx R P (g x) R' Q) \<Longrightarrow>
   hoare svc tx R P (case r of None \<Rightarrow> m | Some x \<Rightarrow> g x) R' Q"
  by (cases r) simp_all

lemma runs_case_prod:
  "(\<And>x y. r = (x, y) \<Longrightarrow> hoare svc tx R P (g x y) R' Q) \<Longrightarrow> hoare svc tx R P (case r of (x, y) \<Rightarrow> g x y) R' Q"
  by (cases r) simp_all

lemma hoare_mapErrE:
  assumes m: "hoare svc tx R P m R' Q"
  shows "hoare svc tx R P (mapErrE g m) R' Q"
proof (rule hoareI)
  fix w assume w: "good svc R w" "P (w_store w)"
  show "w_tick w \<le> w_tick (snd (mapErrE g m w))"
    using hoare_tick [OF m w] by (cases "m w"; cases "fst (m w)") (auto simp: mapErrE_def)
  show "good svc (R' x) w' \<and> store_steps (w_store w) (w_store w') \<and> Q x (w_store w')"
    if "mapErrE g m w = (Inr x, w')" for x w'
    using that hoare_success [OF m w] by (cases "m w"; cases "fst (m w)") (auto simp: mapErrE_def)
  show "good svc {} w' \<and> store_steps (w_store w) (w_store w')" if "mapErrE g m w = (Inl e, w')" "\<not> tx" for e w'
    using that hoare_error [OF m w] by (cases "m w"; cases "fst (m w)") (auto simp: mapErrE_def)
qed

lemma runs_attemptE:
  assumes m: "runs svc False R P m"
  shows "runs svc False R P (attemptE m)"
proof (rule hoareI)
  fix w assume w: "good svc R w" "P (w_store w)"
  show "w_tick w \<le> w_tick (snd (attemptE m w))"
    using hoare_tick [OF m w] by (cases "m w") (auto simp: attemptE_def)
  show "good svc {} w' \<and> store_steps (w_store w) (w_store w') \<and> True" if "attemptE m w = (Inr r, w')" for r w'
    using that hoare_success [OF m w] hoare_error [OF m w] by (cases "m w"; cases r) (auto simp: attemptE_def)
qed (simp add: attemptE_def case_prod_beta)

lemma hoare_attemptE:
  assumes m: "hoare svc False R P m R' Q"
  shows "hoare svc False R P (attemptE m) (\<lambda>r. case r of Inl _ \<Rightarrow> {} | Inr x \<Rightarrow> R' x)
    (\<lambda>r s. case r of Inl _ \<Rightarrow> True | Inr x \<Rightarrow> Q x s)"
proof (rule hoareI)
  fix w assume w: "good svc R w" "P (w_store w)"
  show "w_tick w \<le> w_tick (snd (attemptE m w))"
    using hoare_tick [OF m w] by (cases "m w") (auto simp: attemptE_def)
  show "good svc (case r of Inl _ \<Rightarrow> {} | Inr x \<Rightarrow> R' x) w' \<and> store_steps (w_store w) (w_store w') \<and>
      (case r of Inl _ \<Rightarrow> True | Inr x \<Rightarrow> Q x (w_store w'))" if "attemptE m w = (Inr r, w')" for r w'
    using that hoare_success [OF m w] hoare_error [OF m w] by (cases "m w"; cases r) (auto simp: attemptE_def)
qed (simp add: attemptE_def case_prod_beta)

lemma runs_attempt_case:
  assumes "hoare svc False R P m (\<lambda>_. {}) Q" and "\<And>e. hoare svc False {} (\<lambda>_. True) (f e) R' Q'"
    and "\<And>x. hoare svc False {} (Q x) (g x) R' Q'"
  shows "hoare svc False R P (bindE (attemptE m) (\<lambda>r. case r of Inl e \<Rightarrow> f e | Inr x \<Rightarrow> g x)) R' Q'"
proof (rule hoare_bind [OF hoare_attemptE [OF assms(1)]])
  show "hoare svc False (case r of Inl _ \<Rightarrow> {} | Inr x \<Rightarrow> {}) (\<lambda>s. case r of Inl _ \<Rightarrow> True | Inr x \<Rightarrow> Q x s)
      (case r of Inl e \<Rightarrow> f e | Inr x \<Rightarrow> g x) R' Q'" for r
    using assms(2,3) by (cases r) simp_all
qed

text \<open>What is known of a good world, and what steps keep, may be added to the postcondition.\<close>

lemma hoare_post:
  assumes m: "hoare svc tx R P m R' Q" and "\<And>x s. spec_inv s \<Longrightarrow> Q x s \<Longrightarrow> Q1 x s"
  shows "hoare svc tx R P m R' Q1"
proof (rule hoareI)
  fix w assume w: "good svc R w" "P (w_store w)"
  show "w_tick w \<le> w_tick (snd (m w))" using hoare_tick [OF m w] by (metis prod.collapse)
  show "good svc (R' x) w' \<and> store_steps (w_store w) (w_store w') \<and> Q1 x (w_store w')"
    if "m w = (Inr x, w')" for x w'
    using hoare_success [OF m w that] assms(2) by (auto simp: good_def)
  show "good svc {} w' \<and> store_steps (w_store w) (w_store w')" if "m w = (Inl e, w')" "\<not> tx" for e w'
    by (rule hoare_error [OF m w that])
qed

lemma hoare_stable:
  assumes m: "hoare svc tx R P m R' Q" and "\<And>s s'. spec_inv s \<Longrightarrow> store_steps s s' \<Longrightarrow> I s \<Longrightarrow> I s'"
  shows "hoare svc tx R (\<lambda>s. P s \<and> I s) m R' (\<lambda>x s. Q x s \<and> I s)"
proof (rule hoareI)
  fix w assume w: "good svc R w" "P (w_store w) \<and> I (w_store w)"
  show "w_tick w \<le> w_tick (snd (m w))" using hoare_tick [OF m w(1)] w(2) by (metis prod.collapse)
  show "good svc (R' x) w' \<and> store_steps (w_store w) (w_store w') \<and> Q x (w_store w') \<and> I (w_store w')"
    if "m w = (Inr x, w')" for x w'
    using hoare_success [OF m w(1) _ that] w assms(2) by (auto simp: good_def)
  show "good svc {} w' \<and> store_steps (w_store w) (w_store w')" if "m w = (Inl e, w')" "\<not> tx" for e w'
    using hoare_error [OF m w(1) _ that] w(2) by simp
qed

lemma hoare_keeps:
  assumes m: "hoare svc tx R P m R' Q" and "keeps (\<lambda>w w'. f (w_store w') = f (w_store w)) m"
  shows "hoare svc tx R (\<lambda>s. P s \<and> I (f s)) m R' (\<lambda>x s. Q x s \<and> I (f s))"
proof (rule hoareI)
  fix w assume w: "good svc R w" "P (w_store w) \<and> I (f (w_store w))"
  have eq: "f (w_store w') = f (w_store w)" if "m w = (r, w')" for r w'
    using assms(2) that unfolding keeps_def by (metis snd_conv)
  show "w_tick w \<le> w_tick (snd (m w))" using hoare_tick [OF m w(1)] w(2) by (metis prod.collapse)
  show "good svc (R' x) w' \<and> store_steps (w_store w) (w_store w') \<and> Q x (w_store w') \<and> I (f (w_store w'))"
    if "m w = (Inr x, w')" for x w'
    using hoare_success [OF m w(1) _ that] w eq [OF that] by auto
  show "good svc {} w' \<and> store_steps (w_store w) (w_store w')" if "m w = (Inl e, w')" "\<not> tx" for e w'
    using hoare_error [OF m w(1) _ that] w(2) by simp
qed

lemma hoare_forE:
  assumes "\<And>x. x \<in> set xs \<Longrightarrow> hoare svc tx R P (f x) (\<lambda>_. R) (\<lambda>_. P)"
  shows "hoare svc tx R P (forE xs f) (\<lambda>_. R) (\<lambda>_. P)"
  using assms
proof (induction xs)
  case Nil
  then show ?case by (auto intro: hoare_returnE)
next
  case (Cons x xs)
  then show ?case unfolding forE.simps thenE_def by (intro hoare_bind) auto
qed

lemma hoare_foldE:
  assumes "\<And>x b. x \<in> set xs \<Longrightarrow> hoare svc tx R P (f b x) (\<lambda>_. R) (\<lambda>_. P)"
  shows "hoare svc tx R P (foldE xs b f) (\<lambda>_. R) (\<lambda>_. P)"
  using assms
proof (induction xs arbitrary: b)
  case Nil
  then show ?case by (auto intro: hoare_returnE)
next
  case (Cons x xs)
  then show ?case unfolding foldE.simps by (intro hoare_bind) auto
qed

lemma runs_foldE:
  assumes "\<And>x b. x \<in> set xs \<Longrightarrow> runs svc False {} (\<lambda>_. True) (f b x)" and "\<And>b. refines svc (k b)"
  shows "runs svc False R P (bindE (foldE xs b f) k)"
  by (rule hoare_bind [OF runs_from [OF hoare_foldE] assms(2)]) (rule assms(1))

lemma runs_case_prod_app:
  "(\<And>x y. r = (x, y) \<Longrightarrow> hoare svc tx R P (g x y z) R' Q) \<Longrightarrow> hoare svc tx R P ((case r of (x, y) \<Rightarrow> g x y) z) R' Q"
  by (cases r) simp_all

section \<open>Updates\<close>

lemma hoare_updE:
  assumes "\<And>s s'. spec_inv s \<Longrightarrow> P s \<Longrightarrow> R \<inter> ids_of s = {} \<Longrightarrow> f s = Inr s' \<Longrightarrow>
      store_step s s' \<and> ids_of s' \<subseteq> ids_of s \<union> N \<and> Q s'" and "N \<subseteq> R"
  shows "hoare svc tx R P (repoE (updE f)) (\<lambda>_. R - N) (\<lambda>_. Q)"
proof (rule hoareI)
  fix w assume w: "good svc R w" "P (w_store w)"
  then have s: "spec_inv (w_store w)" "R \<inter> ids_of (w_store w) = {}"
    by (simp_all add: good_def)
  show "w_tick w \<le> w_tick (snd (repoE (updE f) w))"
    by (simp add: repoE_def case_prod_beta)
  show "good svc (R - N) w' \<and> store_steps (w_store w) (w_store w') \<and> Q (w_store w')"
    if run: "repoE (updE f) w = (Inr x, w')" for x w'
  proof -
    obtain s' where s': "f (w_store w) = Inr s'" "w' = w\<lparr>w_store := s'\<rparr>"
      using run by (auto simp: repoE_def updE_def split: prod.splits sum.splits)
    from assms(1) [OF s(1) w(2) s(2) s'(1)]
    have "store_steps (w_store w) s'" "ids_of s' \<subseteq> ids_of (w_store w) \<union> N" "Q s'" by auto
    with good_steps [OF w(1) _ _ assms(2)] s'(2) show ?thesis by simp
  qed
  show "good svc {} w' \<and> store_steps (w_store w) (w_store w')" if "repoE (updE f) w = (Inl e, w')" for e w'
  proof -
    have "w' = w" using that by (auto simp: repoE_def updE_def split: prod.splits sum.splits)
    with good_subset [OF w(1), of "{}"] show ?thesis by simp
  qed
qed

lemma ids_of_put:
  "ids_of (s\<lparr>t_identities := mput k v1 (t_identities s)\<rparr>) \<subseteq> insert k (ids_of s)"
  "ids_of (s\<lparr>t_issuers := mput k v2 (t_issuers s)\<rparr>) \<subseteq> insert k (ids_of s)"
  "ids_of (s\<lparr>t_ocspResponders := mput k v3 (t_ocspResponders s)\<rparr>) \<subseteq> insert k (ids_of s)"
  "ids_of (s\<lparr>t_notifications := mput k v4 (t_notifications s)\<rparr>) \<subseteq> insert k (ids_of s)"
  "ids_of (s\<lparr>t_profiles := mput k v5 (t_profiles s)\<rparr>) \<subseteq> insert k (ids_of s)"
  "ids_of (s\<lparr>t_enrollments := mput k v6 (t_enrollments s)\<rparr>) \<subseteq> insert k (ids_of s)"
  "ids_of (s\<lparr>t_certificates := mput k v7 (t_certificates s)\<rparr>) \<subseteq> insert k (ids_of s)"
  "ids_of (s\<lparr>t_revocations := mput k v8 (t_revocations s)\<rparr>) \<subseteq> insert k (ids_of s)"
  "ids_of (s\<lparr>t_crls := mput k v9 (t_crls s)\<rparr>) \<subseteq> insert k (ids_of s)"
  "ids_of (s\<lparr>t_outbox := mput k v10 (t_outbox s)\<rparr>) \<subseteq> insert k (ids_of s)"
  "ids_of (s\<lparr>t_apiKeys := mput k v11 (t_apiKeys s)\<rparr>) \<subseteq> insert k (ids_of s)"
  "ids_of (s\<lparr>t_acmeAccounts := mput k v12 (t_acmeAccounts s)\<rparr>) \<subseteq> insert k (ids_of s)"
  "ids_of (s\<lparr>t_acmeOrders := mput k v13 (t_acmeOrders s)\<rparr>) \<subseteq> insert k (ids_of s)"
  "ids_of (s\<lparr>t_acmeAuthzs := mput k v14 (t_acmeAuthzs s)\<rparr>) \<subseteq> insert k (ids_of s)"
  "ids_of (s\<lparr>t_acmeChallenges := mput k v15 (t_acmeChallenges s)\<rparr>) \<subseteq> insert k (ids_of s)"
  by (simp_all add: ids_of_def)

lemma ids_of_other [simp]:
  "ids_of (s\<lparr>t_audit := log\<rparr>) = ids_of s" "ids_of (s\<lparr>t_crlClaims := claims\<rparr>) = ids_of s"
  "ids_of (s\<lparr>t_jobAttempts := jobs\<rparr>) = ids_of s" "ids_of (s\<lparr>t_webhookDeliveries := dels\<rparr>) = ids_of s"
  by (simp_all add: ids_of_def)

lemma ids_of_table:
  "mget (t_identities s) k \<noteq> None \<Longrightarrow> k \<in> ids_of s" "mget (t_issuers s) k \<noteq> None \<Longrightarrow> k \<in> ids_of s"
  "mget (t_ocspResponders s) k \<noteq> None \<Longrightarrow> k \<in> ids_of s" "mget (t_notifications s) k \<noteq> None \<Longrightarrow> k \<in> ids_of s"
  "mget (t_profiles s) k \<noteq> None \<Longrightarrow> k \<in> ids_of s" "mget (t_enrollments s) k \<noteq> None \<Longrightarrow> k \<in> ids_of s"
  "mget (t_certificates s) k \<noteq> None \<Longrightarrow> k \<in> ids_of s" "mget (t_revocations s) k \<noteq> None \<Longrightarrow> k \<in> ids_of s"
  "mget (t_crls s) k \<noteq> None \<Longrightarrow> k \<in> ids_of s" "mget (t_outbox s) k \<noteq> None \<Longrightarrow> k \<in> ids_of s"
  "mget (t_apiKeys s) k \<noteq> None \<Longrightarrow> k \<in> ids_of s" "mget (t_acmeAccounts s) k \<noteq> None \<Longrightarrow> k \<in> ids_of s"
  "mget (t_acmeOrders s) k \<noteq> None \<Longrightarrow> k \<in> ids_of s" "mget (t_acmeAuthzs s) k \<noteq> None \<Longrightarrow> k \<in> ids_of s"
  "mget (t_acmeChallenges s) k \<noteq> None \<Longrightarrow> k \<in> ids_of s"
  by (simp_all add: ids_of_def table_ids_def)

text \<open>
  The steps of the operations that create a record under a reserved identifier, and of those that
  update a record in place. \<open>stored\<close> facts come from a read in the same transaction.
\<close>

lemma hoare_create:
  assumes "i \<in> R" and "\<And>s. ids_of (put s) \<subseteq> insert i (ids_of s)"
    and "\<And>s s'. spec_inv s \<Longrightarrow> P s \<Longrightarrow> i \<notin> ids_of s \<Longrightarrow> f s = Inr s' \<Longrightarrow> s' = put s \<and> store_step s (put s)"
  shows "hoare svc tx R P (repoE (updE f)) (\<lambda>_. R - {i}) (\<lambda>_ s'. \<exists>s. P s \<and> s' = put s)"
proof (rule hoare_updE)
  fix s s' assume "spec_inv s" "P s" "R \<inter> ids_of s = {}" "f s = Inr s'"
  moreover have "i \<notin> ids_of s" using assms(1) \<open>R \<inter> ids_of s = {}\<close> by blast
  ultimately have "s' = put s" "store_step s (put s)" using assms(3) by blast+
  then show "store_step s s' \<and> ids_of s' \<subseteq> ids_of s \<union> {i} \<and> (\<exists>s. P s \<and> s' = put s)"
    using assms(2) [of s] \<open>P s\<close> by auto
qed (use assms(1) in simp)

lemma hoare_update:
  assumes "\<And>s s'. spec_inv s \<Longrightarrow> P s \<Longrightarrow> f s = Inr s' \<Longrightarrow>
      s' = put s \<and> store_step s (put s) \<and> ids_of (put s) \<subseteq> ids_of s"
  shows "hoare svc tx R P (repoE (updE f)) (\<lambda>_. R) (\<lambda>_ s'. \<exists>s. P s \<and> s' = put s)"
proof -
  have "hoare svc tx R P (repoE (updE f)) (\<lambda>_. R - {}) (\<lambda>_ s'. \<exists>s. P s \<and> s' = put s)"
    by (rule hoare_updE) (use assms in auto)
  then show ?thesis by simp
qed

lemma hoare_CreateIdentity:
  "idn_ID x \<in> R \<Longrightarrow> idn_Status x = IdentityActive \<Longrightarrow>
   hoare svc tx R P (repoE (repo_CreateIdentity x)) (\<lambda>_. R - {idn_ID x}) (\<lambda>_ s'. \<exists>s. P s \<and> s' = put_identity x s)"
  unfolding repo_CreateIdentity_def
  by (rule hoare_create) (auto intro: identity_created simp: ids_of_put)

lemma hoare_CreateIssuer:
  "iss_ID x \<in> R \<Longrightarrow> iss_Status x = IssuerActive \<Longrightarrow>
   (\<And>s. P s \<Longrightarrow> iss_ParentIssuerID x = [] \<or> iss_ParentIssuerID x \<in> table_ids (t_issuers s)) \<Longrightarrow>
   hoare svc tx R P (repoE (repo_CreateIssuer x)) (\<lambda>_. R - {iss_ID x}) (\<lambda>_ s'. \<exists>s. P s \<and> s' = put_issuer x s)"
  unfolding repo_CreateIssuer_def
  by (rule hoare_create) (auto intro: issuer_created simp: ids_of_put)

lemma hoare_CreateCertificateProfile:
  "prof_ID x \<in> R \<Longrightarrow> (\<And>s. P s \<Longrightarrow> prof_IssuerID x \<in> table_ids (t_issuers s)) \<Longrightarrow>
   hoare svc tx R P (repoE (repo_CreateCertificateProfile x)) (\<lambda>_. R - {prof_ID x})
     (\<lambda>_ s'. \<exists>s. P s \<and> s' = put_profile x s)"
  unfolding repo_CreateCertificateProfile_def
  by (rule hoare_create) (auto intro: profile_created simp: ids_of_put)

lemma hoare_CreateNotificationEndpoint:
  "ep_ID x \<in> R \<Longrightarrow> ep_Status x = NotificationEndpointActive \<Longrightarrow>
   hoare svc tx R P (repoE (repo_CreateNotificationEndpoint x)) (\<lambda>_. R - {ep_ID x})
     (\<lambda>_ s'. \<exists>s. P s \<and> s' = put_endpoint x s)"
  unfolding repo_CreateNotificationEndpoint_def
  by (rule hoare_create) (auto intro: endpoint_created simp: ids_of_put)

lemma hoare_CreateEnrollment:
  "enr_ID x \<in> R \<Longrightarrow> enr_Status x = EnrollmentPending \<Longrightarrow>
   (\<And>s. spec_inv s \<Longrightarrow> P s \<Longrightarrow> enr_IdentityID x \<in> table_ids (t_identities s) \<and> enr_IssuerID x \<in> table_ids (t_issuers s) \<and>
      (enr_SourceCertificateID x = [] \<or> enr_SourceCertificateID x \<in> table_ids (t_certificates s))) \<Longrightarrow>
   hoare svc tx R P (repoE (repo_CreateEnrollment x)) (\<lambda>_. R - {enr_ID x})
     (\<lambda>_ s'. \<exists>s. P s \<and> s' = put_enrollment x s)"
  unfolding repo_CreateEnrollment_def
  by (rule hoare_create) (auto intro: enrollment_created simp: ids_of_put)

lemma hoare_CreateAPIKey:
  "key_ID x \<in> R \<Longrightarrow> key_Status x = APIKeyActive \<Longrightarrow>
   hoare svc tx R P (repoE (repo_CreateAPIKey x)) (\<lambda>_. R - {key_ID x}) (\<lambda>_ s'. \<exists>s. P s \<and> s' = put_api_key x s)"
  unfolding repo_CreateAPIKey_def
  by (rule hoare_create) (auto intro: api_key_created simp: ids_of_put)

lemma hoare_CreateOutboxMessage:
  "msg_ID x \<in> R \<Longrightarrow> msg_Status x = OutboxPending \<Longrightarrow>
   hoare svc tx R P (repoE (repo_CreateOutboxMessage x)) (\<lambda>_. R - {msg_ID x}) (\<lambda>_ s'. \<exists>s. P s \<and> s' = put_message x s)"
  unfolding repo_CreateOutboxMessage_def
  by (rule hoare_create) (auto intro: message_created simp: ids_of_put)

lemma wf_keyed:
  "spec_inv s \<Longrightarrow> keyed rsp_ID (t_ocspResponders s)" "spec_inv s \<Longrightarrow> keyed crl_ID (t_crls s)"
  "spec_inv s \<Longrightarrow> keyed acct_ID (t_acmeAccounts s)" "spec_inv s \<Longrightarrow> keyed cert_ID (t_certificates s)"
  "spec_inv s \<Longrightarrow> keyed authz_ID (t_acmeAuthzs s)" "spec_inv s \<Longrightarrow> keyed chal_ID (t_acmeChallenges s)"
  "spec_inv s \<Longrightarrow> keyed ord_ID (t_acmeOrders s)" "spec_inv s \<Longrightarrow> keyed enr_ID (t_enrollments s)"
  "spec_inv s \<Longrightarrow> keyed att_EnrollmentID (t_issuanceAttempts s)" "spec_inv s \<Longrightarrow> keyed key_ID (t_apiKeys s)"
  "spec_inv s \<Longrightarrow> keyed prof_ID (t_profiles s)" "spec_inv s \<Longrightarrow> keyed ep_ID (t_notifications s)"
  "spec_inv s \<Longrightarrow> keyed msg_ID (t_outbox s)" "spec_inv s \<Longrightarrow> keyed rev_ID (t_revocations s)"
  "spec_inv s \<Longrightarrow> keyed iss_ID (t_issuers s)" "spec_inv s \<Longrightarrow> keyed idn_ID (t_identities s)"
  by (simp_all add: spec_inv_def wf_store_def)

lemma no_active_responder_iff:
  "keyed rsp_ID m \<Longrightarrow> no_active_responder m i \<longleftrightarrow> (\<exists>e. activeOCSPResponderByIssuer m i = Inl e)"
  by (auto simp: no_active_responder_def active_none in_vals_iff [OF keyed_wf])

lemma hoare_CreateOCSPResponder:
  "rsp_ID x \<in> R \<Longrightarrow> rsp_Status x = OCSPResponderActive \<Longrightarrow>
   hoare svc tx R P (repoE (repo_CreateOCSPResponder x)) (\<lambda>_. R - {rsp_ID x})
     (\<lambda>_ s'. \<exists>s. P s \<and> s' = put_responder x s)"
  unfolding repo_CreateOCSPResponder_def
  by (rule hoare_create)
     (auto intro!: responder_created simp: ids_of_put no_active_responder_iff [OF wf_keyed(1)] split: if_splits sum.splits)

lemma hoare_CreateCRLPublication:
  "crl_ID x \<in> R \<Longrightarrow> (\<And>s. P s \<Longrightarrow> crl_IssuerID x \<in> table_ids (t_issuers s)) \<Longrightarrow>
   hoare svc tx R P (repoE (repo_CreateCRLPublication x)) (\<lambda>_. R - {crl_ID x}) (\<lambda>_ s'. \<exists>s. P s \<and> s' = put_crl x s)"
  unfolding repo_CreateCRLPublication_def
proof (rule hoare_create)
  fix s s' assume a: "spec_inv s" "P s" "crl_ID x \<notin> ids_of s" and p: "\<And>s. P s \<Longrightarrow> crl_IssuerID x \<in> table_ids (t_issuers s)"
    and f: "(case case ensureCRLPublicationNumberAvailable (t_crls s) x of Inl e \<Rightarrow> Inl e
        | Inr _ \<Rightarrow> Inr (mput (crl_ID x) x (t_crls s)) of Inl e \<Rightarrow> Inl e | Inr t \<Rightarrow> Inr (s\<lparr>t_crls := t\<rparr>)) = Inr s'"
  have "ensureCRLPublicationNumberAvailable (t_crls s) x = Inr ()"
    using f by (auto split: sum.splits)
  then have "number_free (t_crls s) x"
    using a(3) wf_keyed(2) [OF a(1)] ids_of_tables(5) [OF a(3)] unfolding ensure_crl_number number_free_def
    by (metis in_vals_iff keyed_def option.distinct(1))
  then show "s' = put_crl x s \<and> store_step s (put_crl x s)"
    using f a p by (auto intro: crl_published split: sum.splits)
qed (auto simp: ids_of_put)

lemma thumbprint_free_iff:
  "keyed acct_ID m \<Longrightarrow> thumbprint_free m a \<longleftrightarrow> ensureACMEAccountThumbprintAvailable m a = Inr ()"
  by (auto simp: thumbprint_free_def ensure_thumbprint in_vals_iff [OF keyed_wf])

lemma hoare_CreateACMEAccount:
  "acct_ID x \<in> R \<Longrightarrow> acct_Status x = ACMEAccountValid \<Longrightarrow>
   hoare svc tx R P (repoE (repo_CreateACMEAccount x)) (\<lambda>_. R - {acct_ID x})
     (\<lambda>_ s'. \<exists>s. P s \<and> s' = put_account x s)"
  unfolding repo_CreateACMEAccount_def
  by (rule hoare_create)
     (auto intro!: account_created simp: ids_of_put thumbprint_free_iff [OF wf_keyed(3)] split: if_splits sum.splits)

text \<open>
  Updates in place: the compare-and-set succeeded, so a record in the expected state is stored;
  what remains is that the new record is a step.
\<close>

lemma ids_of_known: "ids_of s' \<subseteq> insert k (ids_of s) \<Longrightarrow> k \<in> ids_of s \<Longrightarrow> ids_of s' \<subseteq> ids_of s"
  by blast

lemma hoare_UpdateOCSPResponderIfStatus:
  assumes "\<And>s y. spec_inv s \<Longrightarrow> P s \<Longrightarrow> mget (t_ocspResponders s) (rsp_ID x) = Some y \<Longrightarrow> rsp_Status y = st \<Longrightarrow>
    store_step s (put_responder x s)"
  shows "hoare svc tx R P (repoE (repo_UpdateOCSPResponderIfStatus x st)) (\<lambda>_. R) (\<lambda>_ s'. \<exists>s. P s \<and> s' = put_responder x s)"
  unfolding repo_UpdateOCSPResponderIfStatus_def
  by (rule hoare_update)
     (use assms in \<open>auto simp: cas_responder.upd_success_iff intro!: ids_of_known [OF ids_of_put(3)] ids_of_table(3) split: sum.splits\<close>)

lemma hoare_UpdateNotificationEndpointIfStatus:
  assumes "\<And>s y. spec_inv s \<Longrightarrow> P s \<Longrightarrow> mget (t_notifications s) (ep_ID x) = Some y \<Longrightarrow> ep_Status y = st \<Longrightarrow>
    store_step s (put_endpoint x s)"
  shows "hoare svc tx R P (repoE (repo_UpdateNotificationEndpointIfStatus x st)) (\<lambda>_. R) (\<lambda>_ s'. \<exists>s. P s \<and> s' = put_endpoint x s)"
  unfolding repo_UpdateNotificationEndpointIfStatus_def
  by (rule hoare_update)
     (use assms in \<open>auto simp: cas_endpoint.upd_success_iff intro!: ids_of_known [OF ids_of_put(4)] ids_of_table(4) split: sum.splits\<close>)

lemma hoare_UpdateEnrollmentIfStatus:
  assumes "\<And>s y. spec_inv s \<Longrightarrow> P s \<Longrightarrow> mget (t_enrollments s) (enr_ID x) = Some y \<Longrightarrow> enr_Status y = st \<Longrightarrow>
    store_step s (put_enrollment x s)"
  shows "hoare svc tx R P (repoE (repo_UpdateEnrollmentIfStatus x st)) (\<lambda>_. R) (\<lambda>_ s'. \<exists>s. P s \<and> s' = put_enrollment x s)"
  unfolding repo_UpdateEnrollmentIfStatus_def
  by (rule hoare_update)
     (use assms in \<open>auto simp: cas_enrollment.upd_success_iff intro!: ids_of_known [OF ids_of_put(6)] ids_of_table(6) split: sum.splits\<close>)

lemma hoare_UpdateCertificateIfStatus:
  assumes "\<And>s y. spec_inv s \<Longrightarrow> P s \<Longrightarrow> mget (t_certificates s) (cert_ID x) = Some y \<Longrightarrow> cert_Status y = st \<Longrightarrow>
    store_step s (put_certificate x s)"
  shows "hoare svc tx R P (repoE (repo_UpdateCertificateIfStatus x st)) (\<lambda>_. R) (\<lambda>_ s'. \<exists>s. P s \<and> s' = put_certificate x s)"
  unfolding repo_UpdateCertificateIfStatus_def
  by (rule hoare_update)
     (use assms in \<open>auto simp: cas_certificate.upd_success_iff intro!: ids_of_known [OF ids_of_put(7)] ids_of_table(7) split: sum.splits\<close>)

lemma hoare_UpdateOutboxMessageStatusIfStatus:
  assumes "\<And>s y. spec_inv s \<Longrightarrow> P s \<Longrightarrow> mget (t_outbox s) (msg_ID x) = Some y \<Longrightarrow> msg_Status y = st \<Longrightarrow>
    store_step s (put_message x s)"
  shows "hoare svc tx R P (repoE (repo_UpdateOutboxMessageStatusIfStatus x st)) (\<lambda>_. R) (\<lambda>_ s'. \<exists>s. P s \<and> s' = put_message x s)"
  unfolding repo_UpdateOutboxMessageStatusIfStatus_def
  by (rule hoare_update)
     (use assms in \<open>auto simp: cas_outbox_status.upd_success_iff intro!: ids_of_known [OF ids_of_put(10)] ids_of_table(10) split: sum.splits\<close>)

lemma hoare_UpdateAPIKeyIfStatus:
  assumes "\<And>s y. spec_inv s \<Longrightarrow> P s \<Longrightarrow> mget (t_apiKeys s) (key_ID x) = Some y \<Longrightarrow> key_Status y = st \<Longrightarrow>
    store_step s (put_api_key x s)"
  shows "hoare svc tx R P (repoE (repo_UpdateAPIKeyIfStatus x st)) (\<lambda>_. R) (\<lambda>_ s'. \<exists>s. P s \<and> s' = put_api_key x s)"
  unfolding repo_UpdateAPIKeyIfStatus_def
  by (rule hoare_update)
     (use assms in \<open>auto simp: cas_api_key.upd_success_iff intro!: ids_of_known [OF ids_of_put(11)] ids_of_table(11) split: sum.splits\<close>)

lemma hoare_UpdateACMEAccountIfStatus:
  assumes "\<And>s y. spec_inv s \<Longrightarrow> P s \<Longrightarrow> mget (t_acmeAccounts s) (acct_ID x) = Some y \<Longrightarrow> acct_Status y = st \<Longrightarrow> thumbprint_free (t_acmeAccounts s) x \<Longrightarrow>
    store_step s (put_account x s)"
  shows "hoare svc tx R P (repoE (repo_UpdateACMEAccountIfStatus x st)) (\<lambda>_. R) (\<lambda>_ s'. \<exists>s. P s \<and> s' = put_account x s)"
  unfolding repo_UpdateACMEAccountIfStatus_def
  by (rule hoare_update)
     (use assms in \<open>auto simp: cas_account.upd_success_iff thumbprint_free_iff [OF wf_keyed(3)] intro!: ids_of_known [OF ids_of_put(12)] ids_of_table(12) split: sum.splits\<close>)

lemma hoare_UpdateACMEOrderIfStatus:
  assumes "\<And>s y. spec_inv s \<Longrightarrow> P s \<Longrightarrow> mget (t_acmeOrders s) (ord_ID x) = Some y \<Longrightarrow> ord_Status y = st \<Longrightarrow>
    store_step s (put_order x s)"
  shows "hoare svc tx R P (repoE (repo_UpdateACMEOrderIfStatus x st)) (\<lambda>_. R) (\<lambda>_ s'. \<exists>s. P s \<and> s' = put_order x s)"
  unfolding repo_UpdateACMEOrderIfStatus_def
  by (rule hoare_update)
     (use assms in \<open>auto simp: cas_order.upd_success_iff intro!: ids_of_known [OF ids_of_put(13)] ids_of_table(13) split: sum.splits\<close>)

lemma hoare_UpdateACMEAuthorizationIfStatus:
  assumes "\<And>s y. spec_inv s \<Longrightarrow> P s \<Longrightarrow> mget (t_acmeAuthzs s) (authz_ID x) = Some y \<Longrightarrow> authz_Status y = st \<Longrightarrow>
    store_step s (put_authz x s)"
  shows "hoare svc tx R P (repoE (repo_UpdateACMEAuthorizationIfStatus x st)) (\<lambda>_. R) (\<lambda>_ s'. \<exists>s. P s \<and> s' = put_authz x s)"
  unfolding repo_UpdateACMEAuthorizationIfStatus_def
  by (rule hoare_update)
     (use assms in \<open>auto simp: cas_authorization.upd_success_iff intro!: ids_of_known [OF ids_of_put(14)] ids_of_table(14) split: sum.splits\<close>)

lemma hoare_UpdateACMEChallengeIfStatus:
  assumes "\<And>s y. spec_inv s \<Longrightarrow> P s \<Longrightarrow> mget (t_acmeChallenges s) (chal_ID x) = Some y \<Longrightarrow> chal_Status y = st \<Longrightarrow>
    store_step s (put_challenge x s)"
  shows "hoare svc tx R P (repoE (repo_UpdateACMEChallengeIfStatus x st)) (\<lambda>_. R) (\<lambda>_ s'. \<exists>s. P s \<and> s' = put_challenge x s)"
  unfolding repo_UpdateACMEChallengeIfStatus_def
  by (rule hoare_update)
     (use assms in \<open>auto simp: cas_challenge.upd_success_iff intro!: ids_of_known [OF ids_of_put(15)] ids_of_table(15) split: sum.splits\<close>)

lemma hoare_UpdateCertificateProfileIssuerIfCurrent:
  assumes "\<And>s y. spec_inv s \<Longrightarrow> P s \<Longrightarrow> mget (t_profiles s) (prof_ID x) = Some y \<Longrightarrow> prof_IssuerID y = i \<Longrightarrow>
    prof_UpdatedAt y = t \<Longrightarrow> store_step s (put_profile x s)"
  shows "hoare svc tx R P (repoE (repo_UpdateCertificateProfileIssuerIfCurrent x i t)) (\<lambda>_. R)
    (\<lambda>_ s'. \<exists>s. P s \<and> s' = put_profile x s)"
  unfolding repo_UpdateCertificateProfileIssuerIfCurrent_def
  by (rule hoare_update)
     (use assms in \<open>auto simp: cas_profile.upd_success_iff [where c = "(i, t)", simplified]
        intro!: ids_of_known [OF ids_of_put(5)] ids_of_table(5) split: sum.splits\<close>)

lemma hoare_UpdateOutboxMessageIfCurrent:
  assumes "message_move (msg_Status y) (msg_Status x)"
  shows "hoare svc tx R P (repoE (repo_UpdateOutboxMessageIfCurrent x y)) (\<lambda>_. R)
    (\<lambda>_ s'. \<exists>s. P s \<and> s' = put_message x s)"
  unfolding repo_UpdateOutboxMessageIfCurrent_def
  by (rule hoare_update)
     (use assms in \<open>auto simp: cas_outbox.upd_success_iff same_message_def intro: message_moved
        intro!: ids_of_known [OF ids_of_put(10)] ids_of_table(10) split: sum.splits\<close>)

lemma ids_of_put_attempt:
  "ids_of (put_attempt a s) \<subseteq> ids_of s \<union> (if att_Status a = IssuanceAttemptSigned then {att_CertificateID a} else {})"
  using reserved_ids_mput [of "att_EnrollmentID a" a "t_issuanceAttempts s"] by (auto simp: ids_of_def)

lemma ids_of_put_unsigned: "att_Status a \<noteq> IssuanceAttemptSigned \<Longrightarrow> ids_of (put_attempt a s) \<subseteq> ids_of s"
  using ids_of_put_attempt [of a s] by simp

lemma hoare_CreateIssuanceAttempt:
  assumes "att_Status x = IssuanceAttemptSigning"
  shows "hoare svc tx R P (repoE (repo_CreateIssuanceAttempt x)) (\<lambda>_. R) (\<lambda>_ s'. \<exists>s. P s \<and> s' = put_attempt x s)"
  unfolding repo_CreateIssuanceAttempt_def
  by (rule hoare_update)
     (use assms ids_of_put_unsigned in \<open>auto simp: createIssuanceAttempt_def intro!: attempt_claimed
        split: sum.splits option.splits\<close>)

lemma hoare_UpdateIssuanceAttemptIfCurrent:
  assumes "att_Status x \<noteq> IssuanceAttemptSigned"
    and "\<And>s b. spec_inv s \<Longrightarrow> P s \<Longrightarrow> mget (t_issuanceAttempts s) (att_EnrollmentID x) = Some b \<Longrightarrow>
      same_attempt b y \<Longrightarrow> store_step s (put_attempt x s)"
  shows "hoare svc tx R P (repoE (repo_UpdateIssuanceAttemptIfCurrent x y)) (\<lambda>_. R)
    (\<lambda>_ s'. \<exists>s. P s \<and> s' = put_attempt x s)"
  unfolding repo_UpdateIssuanceAttemptIfCurrent_def
  by (rule hoare_update)
     (use assms ids_of_put_unsigned in \<open>auto simp: cas_attempt.upd_success_iff split: sum.splits\<close>)

lemma hoare_sign_attempt:
  assumes "att_Status x = IssuanceAttemptSigned" "att_Status y = IssuanceAttemptSigning" "att_CertificateID x \<in> R"
  shows "hoare svc tx R P (repoE (repo_UpdateIssuanceAttemptIfCurrent x y)) (\<lambda>_. R - {att_CertificateID x})
    (\<lambda>_ s'. \<exists>s. P s \<and> s' = put_attempt x s)"
  unfolding repo_UpdateIssuanceAttemptIfCurrent_def
proof (rule hoare_create)
  show "ids_of (put_attempt x s) \<subseteq> insert (att_CertificateID x) (ids_of s)" for s
    using ids_of_put_attempt [of x s] assms(1) by auto
qed (use assms in \<open>auto simp: cas_attempt.upd_success_iff same_attempt_def intro: attempt_signed split: sum.splits\<close>)

text \<open>Leases, job attempts and deliveries are not constrained by the specification.\<close>

lemma hoare_claims:
  "hoare svc tx R P (repoE (repo_CreateCRLGenerationClaim x)) (\<lambda>_. R) (\<lambda>_ s'. \<exists>s c. P s \<and> s' = s\<lparr>t_crlClaims := c\<rparr>)"
  "hoare svc tx R P (repoE (repo_UpdateCRLGenerationClaimIfCurrent x y)) (\<lambda>_. R) (\<lambda>_ s'. \<exists>s c. P s \<and> s' = s\<lparr>t_crlClaims := c\<rparr>)"
  "hoare svc tx R P (repoE (repo_DeleteCRLGenerationClaimIfCurrent x)) (\<lambda>_. R) (\<lambda>_ s'. \<exists>s c. P s \<and> s' = s\<lparr>t_crlClaims := c\<rparr>)"
  unfolding repo_CreateCRLGenerationClaim_def repo_UpdateCRLGenerationClaimIfCurrent_def
    repo_DeleteCRLGenerationClaimIfCurrent_def
  by (rule hoare_updE [where N = "{}", simplified];
      auto intro: crl_claims_changed split: sum.splits)+

lemma hoare_CreateJobAttempt:
  "hoare svc tx R P (repoE (repo_CreateJobAttempt x)) (\<lambda>_. R) (\<lambda>_ _. True)"
  unfolding repo_CreateJobAttempt_def
  by (rule hoare_updE [where N = "{}", simplified]) (auto intro: jobs_changed)

lemma hoare_UpsertWebhookDelivery:
  "hoare svc tx R P (repoE (repo_UpsertWebhookDelivery x)) (\<lambda>_. R) (\<lambda>_ _. True)"
  unfolding repo_UpsertWebhookDelivery_def
  by (rule hoare_updE [where N = "{}", simplified]) (auto intro: deliveries_changed)

section \<open>Audit events and outbox messages\<close>

lemma append_errors_quiet:
  "appendMemoryAuditEvent event log = (Inl e, log') \<Longrightarrow> valid_log log \<Longrightarrow> log' = log"
proof -
  assume run: "appendMemoryAuditEvent event log = (Inl e, log')" and v: "valid_log log"
  obtain es st where log: "log = (es, st)" by (cases log)
  show ?thesis
    using append_bad_metadata [OF v [unfolded log]] append_valid [OF v [unfolded log]] run
    unfolding log by (cases "canonicalAuditMetadata (ev_MetadataJSON event)") fastforce+
qed

lemma hoare_CreateAuditEvent:
  "hoare svc tx R P (repoE (repo_CreateAuditEvent x)) (\<lambda>_. R) (\<lambda>_ s'. \<exists>s log. P s \<and> s' = s\<lparr>t_audit := log\<rparr>)"
proof (rule hoareI)
  fix w assume w: "good svc R w" "P (w_store w)"
  have v: "valid_log (t_audit (w_store w))"
    using w(1) by (simp add: good_def spec_inv_def)
  show "w_tick w \<le> w_tick (snd (repoE (repo_CreateAuditEvent x) w))"
    by (simp add: repoE_def case_prod_beta)
  show "good svc R w' \<and> store_steps (w_store w) (w_store w') \<and> (\<exists>s log. P s \<and> w_store w' = s\<lparr>t_audit := log\<rparr>)"
    if run: "repoE (repo_CreateAuditEvent x) w = (Inr y, w')" for y w'
  proof -
    obtain log where "appendMemoryAuditEvent x (t_audit (w_store w)) = (Inr (), log)"
        and w': "w' = w\<lparr>w_store := (w_store w)\<lparr>t_audit := log\<rparr>\<rparr>"
      using run by (auto simp: repoE_def repo_CreateAuditEvent_def split: prod.splits)
    then have "store_steps (w_store w) ((w_store w)\<lparr>t_audit := log\<rparr>)"
      by (auto intro: audit_appended)
    moreover have "\<exists>s log. P s \<and> w_store w' = s\<lparr>t_audit := log\<rparr>"
      using w(2) w' by (intro exI [of _ "w_store w"] exI [of _ log]) simp
    ultimately show ?thesis
      using good_steps [OF w(1), where N = "{}"] w' by auto
  qed
  show "good svc {} w' \<and> store_steps (w_store w) (w_store w')"
    if run: "repoE (repo_CreateAuditEvent x) w = (Inl e, w')" for e w'
  proof -
    have "w' = w"
      using run append_errors_quiet [OF _ v] by (auto simp: repoE_def repo_CreateAuditEvent_def split: prod.splits)
    then show ?thesis using good_subset [OF w(1)] by simp
  qed
qed

lemma hoare_createAuditEvent:
  "hoare svc tx R P (createAuditEvent svc ctx actor action rtype rid now flds) (\<lambda>_. R)
     (\<lambda>_ s'. \<exists>s log. P s \<and> s' = s\<lparr>t_audit := log\<rparr>)"
  unfolding createAuditEvent_def createAuditEventWithResult_def
  by (rule runs_quiet [OF quiet_drawE])+ (rule hoare_CreateAuditEvent)

lemma hoare_createOutboxMessage:
  "hoare svc tx R P (createOutboxMessage svc mtype now flds) (\<lambda>_. R) (\<lambda>_ _. True)"
  unfolding createOutboxMessage_def
  by (rule runs_newID, rule hoare_weaken, rule hoare_CreateOutboxMessage) auto

lemmas runs_audit = hoare_bind [OF hoare_createAuditEvent]
lemmas runs_outbox = hoare_bind [OF hoare_createOutboxMessage]

section \<open>Parts of the store that a computation leaves alone\<close>

interpretation frame: store_preorder "\<lambda>s s'. f s' = f s" for f
  by unfold_locales auto

abbreviation framed :: "(memory_store \<Rightarrow> 'b) \<Rightarrow> (world, 'e, 'a) eff \<Rightarrow> bool" where
  "framed f \<equiv> keeps (\<lambda>w w'. f (w_store w') = f (w_store w))"

lemma framed_quiet: "quiet_eff m \<Longrightarrow> framed f m"
  by (simp add: keeps_def unchanged_def)

lemma framed_updE: "(\<And>s s'. g s = Inr s' \<Longrightarrow> f s' = f s) \<Longrightarrow> framed f (repoE (updE g))"
  by (rule frame.keeps_repoE [OF frame.tables.keeps_updE])

lemma framed_createAuditEvent:
  "(\<And>s l. f (s\<lparr>t_audit := l\<rparr>) = f s) \<Longrightarrow> framed f (createAuditEvent svc ctx actor action rtype rid now flds)"
  unfolding createAuditEvent_def createAuditEventWithResult_def
  by (intro frame.keeps_rules frame.keeps_repoE)
     (auto simp: keeps_def repo_CreateAuditEvent_def split: prod.splits)

lemma framed_createOutboxMessage:
  "(\<And>s l. f (s\<lparr>t_outbox := l\<rparr>) = f s) \<Longrightarrow> framed f (createOutboxMessage svc mtype now flds)"
  unfolding createOutboxMessage_def repo_CreateOutboxMessage_def
  by (intro frame.keeps_rules framed_updE) auto

section \<open>Updates whose failure is a value\<close>

definition is_update :: "(memory_store, err, unit) eff \<Rightarrow> bool" where
  "is_update m \<longleftrightarrow> (\<exists>f. m = updE f)"

lemma is_updates:
  "is_update (repo_UpdateCertificateIfStatus c st)" "is_update (repo_UpdateOutboxMessageIfCurrent x y)"
  "is_update (repo_DeleteCRLGenerationClaimIfCurrent cl)"
  by (auto simp: is_update_def repo_defs)

lemma hoare_attempt_update:
  assumes upd: "is_update m" and m: "hoare svc tx R P (repoE m) (\<lambda>_. R') (\<lambda>_. Q)"
  shows "hoare svc tx R P (attemptE (repoE m)) (\<lambda>r. case r of Inl _ \<Rightarrow> R | Inr _ \<Rightarrow> R')
    (\<lambda>r. case r of Inl _ \<Rightarrow> P | Inr _ \<Rightarrow> Q)"
proof (rule hoareI)
  fix w assume w: "good svc R w" "P (w_store w)"
  obtain f where f: "m = updE f" using upd by (auto simp: is_update_def)
  show "w_tick w \<le> w_tick (snd (attemptE (repoE m) w))"
    by (simp add: repoE_def attemptE_def case_prod_beta)
  show "good svc (case r of Inl _ \<Rightarrow> R | Inr _ \<Rightarrow> R') w' \<and> store_steps (w_store w) (w_store w') \<and>
      (case r of Inl _ \<Rightarrow> P | Inr _ \<Rightarrow> Q) (w_store w')" if run: "attemptE (repoE m) w = (Inr r, w')" for r w'
  proof (cases r)
    case (Inl e)
    then have "w' = w"
      using run by (auto simp: f attemptE_def repoE_def updE_def split: prod.splits sum.splits)
    then show ?thesis using w Inl by simp
  next
    case (Inr x)
    then have "repoE m w = (Inr x, w')"
      using run by (auto simp: attemptE_def split: prod.splits)
    from hoare_success [OF m w this] show ?thesis using Inr by simp
  qed
qed (simp add: attemptE_def case_prod_beta)

section \<open>Reads\<close>

lemma pure_reads:
  "pure_read (repo_GetIdentity v1)"
  "pure_read repo_ListIdentities"
  "pure_read (repo_GetIssuer v2)"
  "pure_read repo_ListIssuers"
  "pure_read (repo_GetOCSPResponder v3)"
  "pure_read (repo_ListOCSPRespondersByIssuer v4)"
  "pure_read (repo_GetActiveOCSPResponderByIssuer v5)"
  "pure_read (repo_GetNotificationEndpoint v6)"
  "pure_read repo_ListNotificationEndpoints"
  "pure_read (repo_GetCertificateProfile v7)"
  "pure_read repo_ListCertificateProfiles"
  "pure_read (repo_GetEnrollment v8)"
  "pure_read repo_ListEnrollments"
  "pure_read (repo_GetCertificate v9)"
  "pure_read (repo_GetCertificateByEnrollmentID v10)"
  "pure_read repo_ListCertificates"
  "pure_read (repo_ListCertificatesExpiringWithin v11 v12 v13 v14)"
  "pure_read (repo_ListCertificatesForExpirationScan v15 v16 v17)"
  "pure_read (repo_GetIssuanceAttempt v18)"
  "pure_read (repo_ListRevocationsByIssuer v19)"
  "pure_read (repo_GetCRLPublication v20)"
  "pure_read (repo_GetLatestCRLPublicationByIssuer v21)"
  "pure_read (repo_ListCRLPublicationsByIssuer v22)"
  "pure_read (repo_GetCRLGenerationClaim v23 v24)"
  "pure_read repo_ListAuditEvents"
  "pure_read repo_VerifyAuditChain"
  "pure_read (repo_GetOutboxMessage v25)"
  "pure_read (repo_ListOutboxMessages v26)"
  "pure_read (repo_ListDueOutboxMessages v27 v28)"
  "pure_read (repo_ListJobAttemptsByOutboxMessage v29)"
  "pure_read (repo_GetWebhookDelivery v30 v31)"
  "pure_read (repo_GetAPIKey v32)"
  "pure_read (repo_GetAPIKeyByTokenHash v33)"
  "pure_read repo_ListAPIKeys"
  "pure_read (repo_GetACMEAccount v34)"
  "pure_read repo_ListACMEAccounts"
  "pure_read (repo_GetACMEOrder v35)"
  "pure_read (repo_ListACMEOrdersByAccount v36)"
  "pure_read (repo_GetACMEAuthorization v37)"
  "pure_read (repo_ListACMEAuthorizationsByOrder v38)"
  "pure_read (repo_GetACMEChallenge v39)"
  "pure_read (repo_ListACMEChallengesByAuthorization v40)"
  by (simp_all add: repo_defs pure_read_get)

lemmas runs_reads = pure_reads [THEN runs_read]
lemmas runs_attempts = pure_reads [THEN runs_read_attempt]
lemmas runs_mapped = pure_reads [THEN runs_read_mapErrE]
lemmas quiet_reads = pure_reads [THEN quiet_repoE]

text \<open>What a read that succeeded has found.\<close>

lemma lookup_Inr [simp]: "lookup e m k = Inr v \<longleftrightarrow> mget m k = Some v"
  by (simp add: lookup_def split: option.splits)

lemma read_simps:
  "fst (repo_GetIdentity i s) = Inr x0 \<longleftrightarrow> mget (t_identities s) i = Some x0"
  "fst (repo_GetIssuer i s) = Inr x1 \<longleftrightarrow> mget (t_issuers s) i = Some x1"
  "fst (repo_GetOCSPResponder i s) = Inr x2 \<longleftrightarrow> mget (t_ocspResponders s) i = Some x2"
  "fst (repo_GetNotificationEndpoint i s) = Inr x3 \<longleftrightarrow> mget (t_notifications s) i = Some x3"
  "fst (repo_GetCertificateProfile i s) = Inr x4 \<longleftrightarrow> mget (t_profiles s) i = Some x4"
  "fst (repo_GetEnrollment i s) = Inr x5 \<longleftrightarrow> mget (t_enrollments s) i = Some x5"
  "fst (repo_GetCertificate i s) = Inr x6 \<longleftrightarrow> mget (t_certificates s) i = Some x6"
  "fst (repo_GetIssuanceAttempt i s) = Inr x7 \<longleftrightarrow> mget (t_issuanceAttempts s) i = Some x7"
  "fst (repo_GetCRLPublication i s) = Inr x8 \<longleftrightarrow> mget (t_crls s) i = Some x8"
  "fst (repo_GetOutboxMessage i s) = Inr x9 \<longleftrightarrow> mget (t_outbox s) i = Some x9"
  "fst (repo_GetAPIKey i s) = Inr x10 \<longleftrightarrow> mget (t_apiKeys s) i = Some x10"
  "fst (repo_GetACMEAccount i s) = Inr x11 \<longleftrightarrow> mget (t_acmeAccounts s) i = Some x11"
  "fst (repo_GetACMEOrder i s) = Inr x12 \<longleftrightarrow> mget (t_acmeOrders s) i = Some x12"
  "fst (repo_GetACMEAuthorization i s) = Inr x13 \<longleftrightarrow> mget (t_acmeAuthzs s) i = Some x13"
  "fst (repo_GetACMEChallenge i s) = Inr x14 \<longleftrightarrow> mget (t_acmeChallenges s) i = Some x14"
  by (simp_all add: repo_defs readE_def)

lemmas own_key = wf_keyed [THEN keyed_key]

text \<open>The steps that change a record in place, with the key of the changed record computed.\<close>

lemmas place_steps = profile_issuer_changed [simplified] responder_disabled [simplified] endpoint_disabled [simplified]
  enrollment_approved [simplified] enrollment_rejected [simplified] certificate_suspended [simplified]
  certificate_resumed [simplified] certificate_expired [simplified] renewal_notified [simplified]
  api_key_used [simplified] api_key_disabled [simplified] challenge_processing [simplified]
  challenge_validated [simplified] authz_validated [simplified] order_ready [simplified]
  order_invalidated [simplified] order_finalized [simplified]

section \<open>Several updates that make one step\<close>

text \<open>
  In a transaction an error rolls everything back, so updates that follow each other can be taken as
  one, and identifiers drawn between them can be drawn before.
\<close>

lemma repoE_bind: "repoE (bindE a b) = bindE (repoE a) (\<lambda>x. repoE (b x))"
proof
  show "repoE (bindE a b) w = bindE (repoE a) (\<lambda>x. repoE (b x)) w" for w
    by (cases "a (w_store w)"; cases "fst (a (w_store w))") (simp_all add: repoE_def bindE_def case_prod_beta)
qed

lemma runs_fuse:
  "hoare svc tx R P (bindE (repoE (bindE a (\<lambda>_. b))) k) R' Q \<Longrightarrow>
   hoare svc tx R P (bindE (repoE a) (\<lambda>_. bindE (repoE b) k)) R' Q"
  by (simp add: repoE_bind bindE_assoc)

lemma world_swap: "(w :: world)\<lparr>w_store := s, w_tick := n\<rparr> = w\<lparr>w_tick := n, w_store := s\<rparr>"
  by (cases w) simp

lemma runs_swap_newID:
  assumes h: "hoare svc True R P (bindE (newID svc) (\<lambda>i. bindE (repoE m) (\<lambda>x. k x i))) R' Q"
  shows "hoare svc True R P (bindE (repoE m) (\<lambda>x. bindE (newID svc) (k x))) R' Q"
proof -
  have run: "bindE (repoE m) (\<lambda>x. bindE (newID svc) (k x)) w =
      (case m (w_store w) of (Inl e, s) \<Rightarrow> (Inl e, w\<lparr>w_store := s\<rparr>)
       | _ \<Rightarrow> bindE (newID svc) (\<lambda>i. bindE (repoE m) (\<lambda>x. k x i)) w)" for w
    by (cases "m (w_store w)"; cases "fst (m (w_store w))") (simp_all add: bindE_def repoE_def drawE_def world_swap)
  show ?thesis
  proof (rule hoareI)
    fix w assume w: "good svc R w" "P (w_store w)"
    show "w_tick w \<le> w_tick (snd (bindE (repoE m) (\<lambda>x. bindE (newID svc) (k x)) w))"
      using hoare_tick [OF h w] unfolding run by (auto split: prod.splits sum.splits) (metis prod.collapse)
    show "good svc (R' x) w' \<and> store_steps (w_store w) (w_store w') \<and> Q x (w_store w')"
      if "bindE (repoE m) (\<lambda>x. bindE (newID svc) (k x)) w = (Inr x, w')" for x w'
      using that hoare_success [OF h w] unfolding run by (auto split: prod.splits sum.splits)
  qed simp
qed

lemma hoare_tx_steps:
  assumes "\<And>s x s'. spec_inv s \<Longrightarrow> P s \<Longrightarrow> R \<inter> ids_of s = {} \<Longrightarrow> m s = (Inr x, s') \<Longrightarrow>
      store_steps s s' \<and> ids_of s' \<subseteq> ids_of s \<union> N \<and> Q x s'" and "N \<subseteq> R"
  shows "hoare svc True R P (repoE m) (\<lambda>_. R - N) Q"
proof (rule hoareI)
  fix w assume w: "good svc R w" "P (w_store w)"
  then have s: "spec_inv (w_store w)" "R \<inter> ids_of (w_store w) = {}" by (simp_all add: good_def)
  show "w_tick w \<le> w_tick (snd (repoE m w))" by (simp add: repoE_def case_prod_beta)
  show "good svc (R - N) w' \<and> store_steps (w_store w) (w_store w') \<and> Q x (w_store w')"
    if run: "repoE m w = (Inr x, w')" for x w'
  proof -
    obtain s' where s': "m (w_store w) = (Inr x, s')" "w' = w\<lparr>w_store := s'\<rparr>"
      using run by (auto simp: repoE_def split: prod.splits)
    with assms(1) [OF s(1) w(2) s(2) s'(1)] good_steps [OF w(1) _ _ assms(2)] show ?thesis by simp
  qed
qed simp

text \<open>The rules that need no thought, tried in this order.\<close>

lemmas runs_rules = runs_let runs_bind_let runs_bind_bind runs_bind_if runs_bind_case_sum
  runs_case_sum runs_case_option runs_case_prod runs_tx runs_failIf runs_fromSum runs_returnE runs_newID runs_drawE runs_mapErrE_callE runs_callE
  runs_reads runs_attempts runs_mapped runs_audit runs_outbox runs_done hoare_throwE runs_if runs_bind_throw
  hoare_runs [OF hoare_createAuditEvent] hoare_runs [OF hoare_createOutboxMessage] hoare_WithinTx

end
