(* ===== verification/RefineRegistry.thy ===== *)
theory RefineRegistry
  imports Refinement Registry ApiKeys
begin

text \<open>
  The operations of the registries and of API keys take only steps of the specification.
\<close>

section \<open>Registries\<close>

lemma refines_CreateIdentity: "refines svc (CreateIdentity svc ctx actor req)"
  unfolding CreateIdentity_def thenE_def
  by (intro runs_rules hoare_bind [OF hoare_CreateIdentity]) simp_all

lemma refines_CreateIssuer: "refines svc (CreateIssuer svc ctx actor req)"
  unfolding CreateIssuer_def thenE_def
  by (intro runs_rules hoare_bind [OF hoare_CreateIssuer])
     (auto simp: new_issuer_def read_simps mget_table_ids)

lemma refines_CreateCertificateProfile: "refines svc (CreateCertificateProfile svc ctx actor req)"
  unfolding CreateCertificateProfile_def thenE_def
  by (intro runs_rules hoare_bind [OF hoare_CreateCertificateProfile])
     (auto simp: read_simps mget_table_ids)

lemma refines_CreateNotificationEndpoint: "refines svc (CreateNotificationEndpoint svc ctx actor req)"
  unfolding CreateNotificationEndpoint_def thenE_def
  by (intro runs_rules hoare_bind [OF hoare_CreateNotificationEndpoint]) simp_all

lemma refines_DisableNotificationEndpoint: "refines svc (DisableNotificationEndpoint svc ctx actor ident)"
  unfolding DisableNotificationEndpoint_def thenE_def
  by (intro runs_rules hoare_bind [OF hoare_UpdateNotificationEndpointIfStatus])
     (auto simp: read_simps dest: own_key intro: place_steps)

lemma quiet_validate_responder: "quiet_eff (validate_responder svc issuer req)"
  unfolding validate_responder_def by (intro quiet_rules)

lemma refines_CreateOCSPResponder: "refines svc (CreateOCSPResponder svc ctx actor req)"
  unfolding CreateOCSPResponder_def thenE_def
  by (intro runs_rules runs_quiet [OF quiet_validate_responder] hoare_bind [OF hoare_CreateOCSPResponder])
     (auto simp: new_responder_def)

lemma refines_DisableOCSPResponder: "refines svc (DisableOCSPResponder svc ctx actor issuerID responderID)"
  unfolding DisableOCSPResponder_def thenE_def
  by (intro runs_rules hoare_bind [OF hoare_UpdateOCSPResponderIfStatus])
     (auto simp: read_simps dest: own_key intro: place_steps)

lemma active_stored:
  "spec_inv s \<Longrightarrow> activeOCSPResponderByIssuer (t_ocspResponders s) i = Inr a \<Longrightarrow>
     mget (t_ocspResponders s) (rsp_ID a) = Some a \<and> rsp_Status a = OCSPResponderActive"
  using active_some keyed_vals [OF wf_keyed(1)] by blast

lemma refines_RotateOCSPResponder: "refines svc (RotateOCSPResponder svc ctx actor req)"
  unfolding RotateOCSPResponder_def rotate_responder_tx_def thenE_def
  by (intro runs_rules runs_quiet [OF quiet_validate_responder]
     hoare_bind [OF hoare_CreateOCSPResponder] hoare_bind [OF hoare_UpdateOCSPResponderIfStatus])
     (auto simp: new_responder_def repo_GetActiveOCSPResponderByIssuer_def readE_def
       dest!: active_stored intro: place_steps)

lemma rollover_step:
  assumes "spec_inv s" "mget (t_profiles s) p = Some x" "prof_IssuerID x = i"
    and a: "mget (t_issuers s) i = Some a" and b: "mget (t_issuers s) j = Some b"
    and "mget (t_issuers s) (iss_ParentIssuerID a) = Some r" "iss_ID a \<noteq> iss_ID b" "iss_ParentIssuerID b = iss_ParentIssuerID a"
    "iss_Status a = IssuerActive" "iss_Status b = IssuerActive" "iss_Status r = IssuerActive"
    "iss_Kind a = IssuerIntermediateCA" "iss_Kind b = IssuerIntermediateCA" "iss_Kind r = IssuerRootCA" "iss_TrustAnchor r"
  shows "store_step s (put_profile (x\<lparr>prof_IssuerID := iss_ID b, prof_UpdatedAt := t\<rparr>) s)"
proof (rule profile_issuer_changed)
  show "mget (t_profiles s) (prof_ID x) = Some x" using own_key(11) [OF assms(1,2)] assms(2) by simp
  have "iss_ID a = i" "iss_ID b = j" using own_key(15) [OF assms(1)] a b by auto
  then show "same_root (t_issuers s) (prof_IssuerID x) (iss_ID b)" using assms by (auto simp: same_root_def)
qed

lemma refines_TransitionCertificateProfileIssuer: "refines svc (TransitionCertificateProfileIssuer svc ctx actor req)"
  unfolding TransitionCertificateProfileIssuer_def validateIntermediateIssuerTransition_def thenE_def
  by (intro runs_rules hoare_bind [OF hoare_UpdateCertificateProfileIssuerIfCurrent])
     (auto simp: read_simps intro!: rollover_step [simplified])

section \<open>API keys\<close>

lemma token_key_stored:
  "spec_inv s \<Longrightarrow> apiKeyByTokenHash (t_apiKeys s) h = Inr key \<Longrightarrow> mget (t_apiKeys s) (key_ID key) = Some key"
  using api_key_by_hash_some keyed_vals [OF wf_keyed(10)] by fastforce

lemma quiet_getAPIKeyByToken: "quiet_eff (getAPIKeyByToken svc token)"
  unfolding getAPIKeyByToken_def Let_def by (intro quiet_rules quiet_reads)

lemma getAPIKeyByToken_stored:
  "getAPIKeyByToken svc token w = (Inr key, w') \<Longrightarrow> \<exists>h. apiKeyByTokenHash (t_apiKeys (w_store w)) h = Inr key"
  by (auto simp: getAPIKeyByToken_def Let_def bindE_def attemptE_def repoE_def returnE_def throwE_def
     repo_GetAPIKeyByTokenHash_def readE_def split: sum.splits if_splits)

lemma hoare_getAPIKeyByToken:
  "hoare svc tx R P (getAPIKeyByToken svc token) (\<lambda>_. R)
     (\<lambda>key s. P s \<and> (\<exists>h. apiKeyByTokenHash (t_apiKeys s) h = Inr key))"
  by (rule hoare_quiet_value [OF quiet_getAPIKeyByToken]) (rule getAPIKeyByToken_stored)

lemma refines_AuthenticateAPIKey: "refines svc (AuthenticateAPIKey svc token)"
  unfolding AuthenticateAPIKey_def thenE_def
  by (intro runs_rules hoare_bind [OF hoare_mapErrE [OF hoare_UpdateAPIKeyIfStatus]]
       hoare_bind [OF hoare_mapErrE [OF hoare_getAPIKeyByToken]])
     (auto intro!: place_steps dest: token_key_stored)

lemma refines_EnsureAPIKey: "refines svc (EnsureAPIKey svc ctx actor req)"
  unfolding EnsureAPIKey_def thenE_def
  by (intro runs_rules runs_quiet [OF quiet.keeps_attemptE [OF quiet_getAPIKeyByToken]] hoare_bind [OF hoare_CreateAPIKey])
     auto

lemma refines_CreateAPIKey: "refines svc (CreateAPIKey svc ctx actor req)"
  unfolding CreateAPIKey_def thenE_def generateAPIKeyToken_def
  by (intro runs_rules hoare_bind [OF hoare_CreateAPIKey]) auto

lemma refines_DisableAPIKey: "refines svc (DisableAPIKey svc ctx actor ident)"
  unfolding DisableAPIKey_def thenE_def
  by (intro runs_rules hoare_bind [OF hoare_UpdateAPIKeyIfStatus])
     (auto simp: read_simps dest: own_key intro: place_steps)

lemma refines_RotateAPIKey: "refines svc (RotateAPIKey svc ctx actor ident)"
  unfolding RotateAPIKey_def thenE_def generateAPIKeyToken_def
  by (intro runs_rules hoare_bind [OF hoare_UpdateAPIKeyIfStatus] hoare_bind [OF hoare_CreateAPIKey])
     (auto simp: read_simps rotated_key_def dest: own_key intro: place_steps)

end
