(* ===== verification/RefineCertificates.thy ===== *)
theory RefineCertificates
  imports Refinement Issuance
begin

text \<open>
  Revocation, suspension, the expiration scan, enrollments and issuance take only steps of the
  specification.
\<close>

section \<open>Certificates\<close>

lemma quiet_addIdentityDeploymentTarget: "quiet_eff (addIdentityDeploymentTarget i flds)"
  unfolding addIdentityDeploymentTarget_def by (intro quiet_rules quiet_reads)

lemmas runs_target = runs_quiet [OF quiet_addIdentityDeploymentTarget]

lemma canRevoke_cases:
  "canRevokeCertificateStatus st force \<Longrightarrow> st \<in> {CertificateValid, CertificateSuspended}"
  by (auto simp: canRevokeCertificateStatus_def split: if_splits)

lemma hoare_revoke:
  assumes "\<And>s. spec_inv s \<Longrightarrow> P s \<Longrightarrow> mget (t_certificates s) (cert_ID c) = Some c"
    and "cert_Status c \<in> {CertificateValid, CertificateSuspended}"
    and "rev_ID r \<in> R" "rev_CertificateID r = cert_ID c" "rev_RevokedAt r = t"
    and x: "x = c\<lparr>cert_Status := CertificateRevoked, cert_UpdatedAt := t\<rparr>"
  shows "hoare svc True R P (repoE (bindE (repo_UpdateCertificateIfStatus x (cert_Status c)) (\<lambda>_. repo_CreateRevocation r)))
    (\<lambda>_. R - {rev_ID r}) (\<lambda>_ s'. \<exists>s. P s \<and> s' = put_revocation r (put_certificate x s))"
proof (rule hoare_tx_steps)
  fix s u s' assume s: "spec_inv s" "P s" "R \<inter> ids_of s = {}"
    and run: "bindE (repo_UpdateCertificateIfStatus x (cert_Status c)) (\<lambda>_. repo_CreateRevocation r) s = (Inr u, s')"
  have s': "s' = put_revocation r (put_certificate x s)"
    using run by (auto simp: repo_defs bindE_def updE_def cas_certificate.upd_success_iff split: sum.splits prod.splits)
  have "store_step s s'"
    unfolding s' x using certificate_revoked [of s c r t] assms s by auto
  moreover have "cert_ID x \<in> ids_of s"
    using ids_of_table(7) assms(1) [OF s(1,2)] x by auto
  then have "ids_of s' \<subseteq> ids_of s \<union> {rev_ID r}"
    using ids_of_put(8) [where s = "put_certificate x s" and k = "rev_ID r" and ?v8.0 = r]
      ids_of_put(7) [where s = s and k = "cert_ID x" and ?v7.0 = x] unfolding s' by auto
  ultimately show "store_steps s s' \<and> ids_of s' \<subseteq> ids_of s \<union> {rev_ID r} \<and>
      (\<exists>s. P s \<and> s' = put_revocation r (put_certificate x s))"
    using s(2) s' by blast
qed (use assms in simp)

lemma refines_revokeCertificate: "refines svc (revokeCertificate svc ctx actor i reason force)"
  unfolding revokeCertificate_def thenE_def
  by (intro runs_swap_newID runs_fuse runs_rules runs_target hoare_bind [OF hoare_revoke])
     (auto simp: read_simps dest: own_key canRevoke_cases)

lemma refines_transitionCertificateStatus:
  assumes "(a, b) \<in> {(CertificateValid, CertificateSuspended), (CertificateSuspended, CertificateValid)}"
  shows "refines svc (transitionCertificateStatus svc ctx actor i a b action)"
  unfolding transitionCertificateStatus_def thenE_def
  by (intro runs_rules runs_target hoare_bind [OF hoare_UpdateCertificateIfStatus])
     (use assms in \<open>auto simp: read_simps dest: own_key intro!: place_steps\<close>)

lemma refines_SuspendCertificate: "refines svc (SuspendCertificate svc ctx actor i)"
  unfolding SuspendCertificate_def thenE_def
  by (intro runs_rules refines_transitionCertificateStatus) simp

lemma refines_ResumeCertificate: "refines svc (ResumeCertificate svc ctx actor i)"
  unfolding ResumeCertificate_def thenE_def
  by (intro runs_rules refines_transitionCertificateStatus) simp

subsection \<open>The expiration scan\<close>

text \<open>The candidates that the loop has not reached are stored as they were read.\<close>

abbreviation unscanned :: "Certificate list \<Rightarrow> Certificate gomap \<Rightarrow> bool" where
  "unscanned xs m \<equiv> \<forall>x \<in> set xs. mget m (cert_ID x) = Some x"

lemma runs_scan_notify: "runs svc True R P (scan_notify svc ctx actor action c window now)"
  unfolding scan_notify_def thenE_def by (intro runs_rules runs_target)

lemma framed_scan_notify: "framed t_certificates (scan_notify svc ctx actor action c window now)"
  unfolding scan_notify_def
  by (intro frame.keeps_rules framed_quiet [OF quiet_addIdentityDeploymentTarget] framed_createAuditEvent
      framed_createOutboxMessage) simp_all

lemma hoare_scan_notify:
  "hoare svc True R (\<lambda>s. I (t_certificates s)) (scan_notify svc ctx actor action c window now) (\<lambda>_. {})
     (\<lambda>_ s. I (t_certificates s))"
  using hoare_keeps [OF runs_scan_notify framed_scan_notify, where P = "\<lambda>_. True"] by simp

lemma hoare_scan_update:
  assumes "\<And>s. spec_inv s \<Longrightarrow> mget (t_certificates s) (cert_ID c) = Some c \<Longrightarrow> store_step s (put_certificate c' s)"
    and "cert_ID c' = cert_ID c" "cert_ID c \<notin> cert_ID ` set xs"
    and "\<And>x. hoare svc True {} (\<lambda>s. unscanned xs (t_certificates s)) (k x) (\<lambda>_. {}) (\<lambda>_ s. unscanned xs (t_certificates s))"
  shows "hoare svc True {} (\<lambda>s. mget (t_certificates s) (cert_ID c) = Some c \<and> unscanned xs (t_certificates s))
    (bindE (attemptE (repoE (repo_UpdateCertificateIfStatus c' st))) (\<lambda>r. case r of
       Inl e \<Rightarrow> if errors_Is e ErrInvalidTransition then returnE y else throwE e | Inr x \<Rightarrow> k x))
    (\<lambda>_. {}) (\<lambda>_ s. unscanned xs (t_certificates s))"
proof (rule hoare_bind [OF hoare_attempt_update [OF is_updates(1), where R' = "{}" and Q = "\<lambda>s. unscanned xs (t_certificates s)"]])
  show "hoare svc True {} (\<lambda>s. mget (t_certificates s) (cert_ID c) = Some c \<and> unscanned xs (t_certificates s))
      (repoE (repo_UpdateCertificateIfStatus c' st)) (\<lambda>_. {}) (\<lambda>_ s. unscanned xs (t_certificates s))"
    by (rule hoare_weaken [OF hoare_UpdateCertificateIfStatus]) (use assms(1-3) in \<open>auto simp: image_iff\<close>)
  show "hoare svc True (case r of Inl _ \<Rightarrow> {} | Inr _ \<Rightarrow> {})
      (case r of Inl _ \<Rightarrow> \<lambda>s. mget (t_certificates s) (cert_ID c) = Some c \<and> unscanned xs (t_certificates s)
        | Inr _ \<Rightarrow> \<lambda>s. unscanned xs (t_certificates s))
      (case r of Inl e \<Rightarrow> if errors_Is e ErrInvalidTransition then returnE y else throwE e | Inr x \<Rightarrow> k x)
      (\<lambda>_. {}) (\<lambda>_ s. unscanned xs (t_certificates s))" for r
    using assms(4) by (cases r) (auto intro: hoare_returnE hoare_throwE)
qed

lemma hoare_scan_step:
  assumes "cert_ID c \<notin> cert_ID ` set xs"
  shows "hoare svc True {} (\<lambda>s. mget (t_certificates s) (cert_ID c) = Some c \<and> unscanned xs (t_certificates s))
    (scan_step svc ctx actor window now warn result c) (\<lambda>_. {}) (\<lambda>_ s. unscanned xs (t_certificates s))"
  unfolding scan_step_def Let_def thenE_def
  by (intro runs_if hoare_scan_update hoare_bind [OF hoare_scan_notify [where I = "unscanned xs"]] hoare_returnE)
     (use assms in \<open>auto simp: certificateIsExpiredCandidate_def certificateNeedsRenewalWarning_def After_def IsZero_def
        intro!: place_steps\<close>)

lemma hoare_scan:
  "distinct (map cert_ID xs) \<Longrightarrow>
   hoare svc True {} (\<lambda>s. unscanned xs (t_certificates s)) (foldE xs b (scan_step svc ctx actor window now warn)) (\<lambda>_. {}) (\<lambda>_ _. True)"
proof (induction xs arbitrary: b)
  case (Cons c xs)
  then show ?case
    using hoare_bind [OF hoare_scan_step Cons.IH] by (simp add: image_iff)
qed (simp add: runs_done)

lemma keyed_distinct:
  assumes "keyed key m"
  shows "distinct (map key (mvals m))"
proof -
  have "map key (mvals m) = map fst m"
    using assms by (auto simp: mvals_def keyed_def mget_def wf_map_def)
  then show ?thesis using assms by (simp add: keyed_def wf_map_def)
qed

lemma distinct_map_sort: "distinct (map key (sort_slice lt xs)) = distinct (map key xs)"
  by (metis mset_sort_slice mset_map mset_eq_imp_distinct_iff)

lemma distinct_map_take: "distinct (map f xs) \<Longrightarrow> distinct (map f (take n xs))"
  by (metis distinct_take take_map)

lemma scan_candidates:
  assumes "spec_inv s"
  shows "distinct (map cert_ID (listCertificatesForExpirationScan (t_certificates s) now warn limit))"
    "unscanned (listCertificatesForExpirationScan (t_certificates s) now warn limit) (t_certificates s)"
proof -
  have "distinct (map cert_ID (filter p (mvals (t_certificates s))))" for p
    by (rule distinct_map_filter [OF keyed_distinct [OF wf_keyed(4) [OF assms]]])
  then have "distinct (map cert_ID (sort_slice lt (filter p (mvals (t_certificates s)))))" for p lt
    by (simp only: distinct_map_sort)
  then show "distinct (map cert_ID (listCertificatesForExpirationScan (t_certificates s) now warn limit))"
    unfolding listCertificatesForExpirationScan_def by_created_def
    by (cases "limit \<le> 0") (simp_all only: if_True if_False not_False_eq_True list.map distinct.simps distinct_map_take)
  show "unscanned (listCertificatesForExpirationScan (t_certificates s) now warn limit) (t_certificates s)"
  proof
    fix x assume "x \<in> set (listCertificatesForExpirationScan (t_certificates s) now warn limit)"
    then have "x \<in> set (mvals (t_certificates s))"
      by (auto simp: listCertificatesForExpirationScan_def by_created_def dest: in_set_takeD split: if_splits)
    then show "mget (t_certificates s) (cert_ID x) = Some x"
      by (rule iffD1 [OF keyed_vals [OF wf_keyed(4) [OF assms]]])
  qed
qed

lemma hoare_ListCertificatesForExpirationScan:
  "hoare svc tx R P (repoE (repo_ListCertificatesForExpirationScan now warn limit)) (\<lambda>_. R)
     (\<lambda>xs s. unscanned xs (t_certificates s) \<and> distinct (map cert_ID xs))"
  by (rule hoare_post [OF hoare_quiet_value [OF quiet_reads(18), where
        V = "\<lambda>xs s. xs = listCertificatesForExpirationScan (t_certificates s) now warn limit"]])
     (auto simp: repoE_def repo_ListCertificatesForExpirationScan_def getE_def scan_candidates)

lemma refines_ScanCertificateExpirations: "refines svc (ScanCertificateExpirations svc ctx actor window limit)"
  unfolding ScanCertificateExpirations_def thenE_def
  by (intro runs_failIf runs_drawE runs_let hoare_WithinTx hoare_bind [OF hoare_ListCertificatesForExpirationScan]
      hoare_assume hoare_scan)

section \<open>Enrollments\<close>

lemma quiet_request_profile: "quiet_eff (request_profile i j)"
  unfolding request_profile_def thenE_def by (intro quiet_rules quiet_reads)

lemma quiet_enrollment_policy: "quiet_eff (enrollment_policy req profile identity info now)"
  unfolding enrollment_policy_def Let_def thenE_def by (intro quiet_rules)

lemmas runs_checks = runs_quiet [OF quiet_request_profile] runs_quiet [OF quiet_enrollment_policy]

lemma refines_CreateEnrollment: "refines svc (CreateEnrollment svc ctx actor req)"
  unfolding CreateEnrollment_def thenE_def
  by (intro runs_rules runs_target runs_checks hoare_bind [OF hoare_CreateEnrollment])
     (auto simp: new_enrollment_def read_simps mget_table_ids)

lemma own_cert_id: "spec_inv s \<Longrightarrow> mget (t_certificates s) i = Some c \<Longrightarrow> cert_ID c \<in> table_ids (t_certificates s)"
  using own_key(4) mget_table_ids by fastforce

lemma runs_replacement_tx:
  "enr_ID e \<in> R \<Longrightarrow> enr_Status e = EnrollmentPending \<Longrightarrow> runs svc False R P (replacement_tx svc ctx actor i e refs action now)"
  unfolding replacement_tx_def thenE_def
  by (intro runs_rules runs_target runs_checks hoare_bind [OF hoare_CreateEnrollment])
     (auto simp: read_simps mget_table_ids own_cert_id)

lemma refines_createCertificateReplacementEnrollment:
  "refines svc (createCertificateReplacementEnrollment svc ctx actor i csr t action)"
  unfolding createCertificateReplacementEnrollment_def thenE_def
  by (intro runs_rules runs_checks runs_replacement_tx) (simp_all add: new_enrollment_def)

lemma refines_RenewCertificate: "refines svc (RenewCertificate svc ctx actor i csr t)"
  unfolding RenewCertificate_def by (rule refines_createCertificateReplacementEnrollment)

lemma refines_ReissueCertificate: "refines svc (ReissueCertificate svc ctx actor i csr)"
  unfolding ReissueCertificate_def thenE_def
  by (intro runs_rules runs_from [OF refines_createCertificateReplacementEnrollment])

lemma refines_ApproveEnrollmentWithReason: "refines svc (ApproveEnrollmentWithReason svc ctx actor i reason)"
  unfolding ApproveEnrollmentWithReason_def thenE_def
  by (intro runs_rules runs_target hoare_bind [OF hoare_UpdateEnrollmentIfStatus])
     (auto simp: read_simps dest: own_key intro!: place_steps)

lemma refines_RejectEnrollment: "refines svc (RejectEnrollment svc ctx actor i)"
  unfolding RejectEnrollment_def thenE_def
  by (intro runs_rules runs_target hoare_bind [OF hoare_UpdateEnrollmentIfStatus])
     (auto simp: read_simps dest: own_key intro!: place_steps)

section \<open>Issuance\<close>

lemma quiet_issued_fields:
  "quiet_eff (addCertificatePolicyAuditFields c f)" "quiet_eff (addReplacementCertificateLinkage c f)"
  "quiet_eff (signing_audit_fields c f)"
  unfolding addCertificatePolicyAuditFields_def addReplacementCertificateLinkage_def signing_audit_fields_def Let_def thenE_def
  by (intro quiet_rules quiet_reads)+

abbreviation issued :: "string \<Rightarrow> Certificate \<Rightarrow> memory_store \<Rightarrow> bool" where
  "issued i c s \<equiv> mget (t_certificates s) (cert_ID c) = Some c \<and> cert_EnrollmentID c = i"

lemma issued_audit [simp]: "issued i c (s\<lparr>t_audit := log\<rparr>) = issued i c s"
  by simp

lemma hoare_ensureCertificateIssuedAuditEvent:
  "hoare svc False R (issued i c') (ensureCertificateIssuedAuditEvent svc ctx actor c now) (\<lambda>_. R) (\<lambda>_. issued i c')"
  unfolding ensureCertificateIssuedAuditEvent_def
  by (intro runs_reads runs_if hoare_returnE hoare_WithinTx runs_quiet [OF quiet_issued_fields(1)]
      runs_quiet [OF quiet_issued_fields(2)] runs_quiet [OF quiet_issued_fields(3)] runs_target
      hoare_weaken [OF hoare_createAuditEvent]) auto

lemma refines_ensureCertificateIssuedAuditEvent:
  "refines svc (ensureCertificateIssuedAuditEvent svc ctx actor c now)"
  unfolding ensureCertificateIssuedAuditEvent_def
  by (intro runs_rules runs_quiet [OF quiet_issued_fields(1)]
      runs_quiet [OF quiet_issued_fields(2)] runs_quiet [OF quiet_issued_fields(3)] runs_target)

lemma refines_RepairMissingIssuanceAuditEvents: "refines svc (RepairMissingIssuanceAuditEvents svc ctx actor)"
  unfolding RepairMissingIssuanceAuditEvents_def thenE_def
  by (intro runs_rules runs_foldE runs_case_prod_app hoare_bind [OF refines_ensureCertificateIssuedAuditEvent])

lemma hoare_GetCertificateByEnrollmentID:
  "hoare svc tx R P (repoE (repo_GetCertificateByEnrollmentID i)) (\<lambda>_. R) (issued i)"
proof (rule hoare_post)
  show "hoare svc tx R P (repoE (repo_GetCertificateByEnrollmentID i)) (\<lambda>_. R)
      (\<lambda>c s. P s \<and> c \<in> set (mvals (t_certificates s)) \<and> cert_EnrollmentID c = i)"
    by (rule hoare_quiet_value [OF quiet_reads(15)])
       (auto simp: repoE_def repo_GetCertificateByEnrollmentID_def readE_def dest: certificate_by_enrollment_some)
qed (auto simp: keyed_vals [OF wf_keyed(4)])

lemma hoare_finalize_updates:
  assumes P: "\<And>s. spec_inv s \<Longrightarrow> P s \<Longrightarrow> mget (t_enrollments s) i = Some e \<and> mget (t_issuanceAttempts s) i = Some a"
    and e: "enr_Status e = EnrollmentApproved" and a: "att_Status a = IssuanceAttemptSigned"
    and e': "e' = e\<lparr>enr_Status := EnrollmentIssued, enr_UpdatedAt := t\<rparr>"
    and a': "a' = a\<lparr>att_Status := IssuanceAttemptFinalized, att_FinalizedAt := t, att_UpdatedAt := t\<rparr>"
    and c: "c = issued_certificate e a t"
  shows "hoare svc True R P (repoE (bindE (bindE (repo_UpdateEnrollmentIfStatus e' EnrollmentApproved)
      (\<lambda>_. repo_CreateCertificate c)) (\<lambda>_. repo_UpdateIssuanceAttemptIfCurrent a' a)))
    (\<lambda>_. R) (\<lambda>_ s'. issued i c s')"
proof -
  have "hoare svc True R P (repoE (bindE (bindE (repo_UpdateEnrollmentIfStatus e' EnrollmentApproved)
      (\<lambda>_. repo_CreateCertificate c)) (\<lambda>_. repo_UpdateIssuanceAttemptIfCurrent a' a)))
    (\<lambda>_. R - {}) (\<lambda>_ s'. issued i c s')"
  proof (rule hoare_tx_steps)
    fix s u s' assume s: "spec_inv s" "P s"
      and run: "bindE (bindE (repo_UpdateEnrollmentIfStatus e' EnrollmentApproved) (\<lambda>_. repo_CreateCertificate c))
        (\<lambda>_. repo_UpdateIssuanceAttemptIfCurrent a' a) s = (Inr u, s')"
    have stored: "mget (t_enrollments s) (enr_ID e) = Some e" "mget (t_issuanceAttempts s) (enr_ID e) = Some a"
      "att_EnrollmentID a = enr_ID e" "enr_ID e = i"
      using P [OF s] own_key(8,9) [OF s(1)] by auto
    have s': "s' = put_attempt a' (put_certificate c (put_enrollment e' s))"
      and free: "ensureCertificateFinalizationKeysAvailable (t_certificates s) c = Inr ()"
      using run by (auto simp: repo_defs bindE_def updE_def cas_enrollment.upd_success_iff cas_attempt.upd_success_iff
        split: sum.splits prod.splits)
    have "serial_free (t_certificates s) c"
      using free unfolding ensure_certificate_keys serial_free_def by (metis in_vals_iff keyed_wf wf_keyed(4) s(1))
    moreover have "certificate_of e a c"
      by (simp add: c issued_certificate_def certificate_of_def)
    ultimately have "store_step s s'"
      unfolding s' e' a' using certificate_issued stored(1-3) e a by blast
    moreover have "cert_ID c \<in> ids_of s" "enr_ID e' \<in> ids_of s"
      using stored a e' ids_of_table(6) by (auto simp: c issued_certificate_def ids_of_def reserved_ids_def)
    moreover have "ids_of s' \<subseteq> ids_of (put_certificate c (put_enrollment e' s))"
      unfolding s' by (rule ids_of_put_unsigned) (simp add: a')
    moreover have "ids_of (put_certificate c (put_enrollment e' s)) \<subseteq> insert (cert_ID c) (ids_of (put_enrollment e' s))"
      by (rule ids_of_put)
    moreover have "ids_of (put_enrollment e' s) \<subseteq> insert (enr_ID e') (ids_of s)" by (rule ids_of_put)
    ultimately have "store_step s s'" "ids_of s' \<subseteq> ids_of s" by blast+
    moreover have "issued i c s'"
      using stored(4) by (simp add: s' c issued_certificate_def)
    ultimately show "store_steps s s' \<and> ids_of s' \<subseteq> ids_of s \<union> {} \<and> issued i c s'" by auto
  qed simp
  then show ?thesis by simp
qed

lemma hoare_finalize_tx: "hoare svc tx R P (finalize_tx i attempt now) (\<lambda>_. R) (issued i)"
  unfolding finalize_tx_def thenE_def Let_def
  by (intro hoare_WithinTx runs_fuse runs_reads runs_if runs_failIf hoare_GetCertificateByEnrollmentID
      hoare_bind [OF hoare_finalize_updates] hoare_returnE)
     (auto simp: read_simps dest: own_key)

lemma failed_step:
  assumes "att_Status a = IssuanceAttemptSigned" "att_Status a' = IssuanceAttemptFailed"
  shows "hoare svc tx R P (repoE (repo_UpdateIssuanceAttemptIfCurrent a' a)) (\<lambda>_. R) (\<lambda>_ _. True)"
  by (rule hoare_weaken [OF hoare_UpdateIssuanceAttemptIfCurrent])
     (use assms in \<open>auto simp: same_attempt_def intro: attempt_failed\<close>)

lemma hoare_finalizeSignedIssuanceAttempt:
  "hoare svc False {} P (finalizeSignedIssuanceAttempt i attempt now) (\<lambda>_. {}) (issued i)"
  unfolding finalizeSignedIssuanceAttempt_def thenE_def
  by (intro runs_if hoare_GetCertificateByEnrollmentID hoare_throwE hoare_bind [OF hoare_attemptE [OF hoare_finalize_tx]]
      runs_let runs_case_sum hoare_bind [OF hoare_WithinTx [OF failed_step]] hoare_returnE
      hoare_bind [OF hoare_attemptE [OF hoare_GetCertificateByEnrollmentID]]) auto

lemma claim_over_signs:
  "claim_over current now w = (Inr (a, b), w') \<Longrightarrow> b \<Longrightarrow> att_Status a = IssuanceAttemptSigning"
  by (cases "att_Status current")
     (auto simp: claim_over_def thenE_def bindE_def returnE_def throwE_def renew_claim_def split: prod.splits sum.splits if_splits)

lemma claim_signs:
  "claimIssuanceAttempt i now w = (Inr (a, b), w') \<Longrightarrow> b \<Longrightarrow> att_Status a = IssuanceAttemptSigning"
  unfolding claimIssuanceAttempt_def WithinTx_def
  by (auto simp: thenE_def bindE_def returnE_def throwE_def new_attempt_def dest: claim_over_signs
     split: prod.splits sum.splits if_splits)

lemma runs_take_over:
  "att_Status current \<in> {IssuanceAttemptSigning, IssuanceAttemptFailed} \<Longrightarrow>
   runs svc True R P (bindE (repoE (repo_UpdateIssuanceAttemptIfCurrent (renew_claim current now) current)) (\<lambda>_. returnE x))"
  by (intro hoare_bind [OF hoare_UpdateIssuanceAttemptIfCurrent] runs_done attempt_claimed)
     (auto simp: renew_claim_def same_attempt_def)

lemma runs_claim_over: "runs svc True R P (claim_over current now)"
  by (cases "att_Status current") (simp_all add: claim_over_def thenE_def runs_take_over runs_done hoare_throwE)

lemma refines_claimIssuanceAttempt: "refines svc (claimIssuanceAttempt i now)"
  unfolding claimIssuanceAttempt_def thenE_def
  by (intro runs_rules runs_claim_over hoare_bind [OF hoare_CreateIssuanceAttempt]) (simp_all add: new_attempt_def)

lemma refines_sign_attempt:
  "att_Status attempt = IssuanceAttemptSigning \<Longrightarrow> refines svc (sign_attempt svc e iss p attempt now)"
  unfolding sign_attempt_def persistSignedIssuanceAttempt_def thenE_def
  by (intro runs_rules runs_quiet [OF quiet.keeps_mapErrE [OF quiet.keeps_fromSum]] hoare_bind [OF hoare_WithinTx [OF hoare_sign_attempt]])
     (simp_all add: signed_attempt_def)

lemma quiet_issue_checks: "quiet_eff (issue_checks svc e i p now)"
  unfolding issue_checks_def validatePublicTLSLint_def thenE_def
  by (intro quiet_rules quiet_enrollment_policy)

lemma hoare_report:
  "hoare svc False {} (issued i c) (bindE (ensureCertificateIssuedAuditEvent svc ctx actor c now) (\<lambda>_. returnE c))
     (\<lambda>_. {}) (issued i)"
  by (intro hoare_bind [OF hoare_ensureCertificateIssuedAuditEvent] hoare_returnE) auto

lemma hoare_issue_claimed:
  "hoare svc False {} P (bindE (claimIssuanceAttempt i now) (\<lambda>(attempt, shouldSign).
      bindE (if shouldSign then sign_attempt svc e iss p attempt now else returnE attempt) (\<lambda>attempt'.
      bindE (finalizeSignedIssuanceAttempt i attempt' now) (\<lambda>certificate.
      bindE (ensureCertificateIssuedAuditEvent svc ctx actor certificate now) (\<lambda>_. returnE certificate)))))
    (\<lambda>_. {}) (issued i)"
proof (rule hoare_bind [OF hoare_value [OF runs_from [OF refines_claimIssuanceAttempt], where
      V = "\<lambda>(a, b). b \<longrightarrow> att_Status a = IssuanceAttemptSigning"]])
  show "case x of (a, b) \<Rightarrow> b \<longrightarrow> att_Status a = IssuanceAttemptSigning"
    if "claimIssuanceAttempt i now w = (Inr x, w')" for w x w'
    using that claim_signs by (cases x) auto
  show "hoare svc False {} (\<lambda>s. True \<and> (case x of (a, b) \<Rightarrow> b \<longrightarrow> att_Status a = IssuanceAttemptSigning))
      (case x of (attempt, shouldSign) \<Rightarrow>
        bindE (if shouldSign then sign_attempt svc e iss p attempt now else returnE attempt) (\<lambda>attempt'.
        bindE (finalizeSignedIssuanceAttempt i attempt' now) (\<lambda>certificate.
        bindE (ensureCertificateIssuedAuditEvent svc ctx actor certificate now) (\<lambda>_. returnE certificate))))
      (\<lambda>_. {}) (issued i)" for x
    by (rule hoare_assume, intro runs_case_prod runs_bind_if runs_returnE hoare_bind [OF hoare_finalizeSignedIssuanceAttempt]
        hoare_report hoare_bind [OF refines_sign_attempt]) auto
qed

lemma hoare_IssueCertificate: "hoare svc False {} P (IssueCertificate svc ctx actor i) (\<lambda>_. {}) (issued i)"
  unfolding IssueCertificate_def thenE_def
  by (intro runs_failIf runs_reads runs_if runs_attempt_case [OF hoare_GetCertificateByEnrollmentID] hoare_throwE runs_drawE
    runs_bind_if runs_returnE runs_quiet [OF quiet_issue_checks] hoare_issue_claimed hoare_report)

lemma refines_IssueCertificate: "refines svc (IssueCertificate svc ctx actor i)"
  by (rule hoare_runs [OF hoare_IssueCertificate])

end
