(* ===== verification/RefineAcme.thy ===== *)
theory RefineAcme
  imports RefineCertificates Acme
begin

text \<open>
  The ACME operations take only steps of the specification.
\<close>

section \<open>Accounts\<close>

lemma quiet_require_account: "quiet_eff (require_account a e)"
  unfolding require_account_def thenE_def by (intro quiet_rules)

lemma require_account_valid: "require_account a e w = (Inr x, w') \<Longrightarrow> acct_Status a = ACMEAccountValid"
  by (auto simp: require_account_def thenE_def bindE_def failIf_def returnE_def throwE_def split: if_splits)

lemma runs_require_account:
  "(acct_Status a = ACMEAccountValid \<Longrightarrow> hoare svc tx R P (k ()) R' Q) \<Longrightarrow>
   hoare svc tx R P (bindE (require_account a e) k) R' Q"
  by (rule hoare_fact [OF quiet_require_account require_account_valid]) auto

lemma refines_createACMEAccount: "refines svc (createACMEAccount svc ctx actor req)"
  unfolding createACMEAccount_def thenE_def
  by (intro runs_rules hoare_bind [OF hoare_CreateACMEAccount]) simp_all

lemma refines_CreateACMEAccount: "refines svc (CreateACMEAccount svc ctx actor req)"
  unfolding CreateACMEAccount_def thenE_def
  by (intro runs_rules refines_createACMEAccount)

lemma refines_CreateOrGetACMEAccount: "refines svc (CreateOrGetACMEAccount svc ctx actor req)"
  unfolding CreateOrGetACMEAccount_def thenE_def Let_def
  by (intro runs_rules hoare_bind [OF runs_from [OF refines_createACMEAccount]])

lemma account_step:
  "spec_inv s \<Longrightarrow> mget (t_acmeAccounts s) i = Some a \<Longrightarrow> acct_ID x = acct_ID a \<Longrightarrow> acct_Status a = ACMEAccountValid \<Longrightarrow>
   acct_Status x \<in> {ACMEAccountValid, ACMEAccountDeactivated} \<Longrightarrow> thumbprint_free (t_acmeAccounts s) x \<Longrightarrow>
   store_step s (put_account x s)"
  using own_key(3) account_updated by metis

lemma refines_UpdateACMEAccount: "refines svc (UpdateACMEAccount svc ctx actor i req)"
  unfolding UpdateACMEAccount_def thenE_def
  by (intro runs_rules runs_require_account hoare_bind [OF hoare_UpdateACMEAccountIfStatus] account_step)
     (auto simp: read_simps)

lemma refines_UpdateACMEAccountKey: "refines svc (UpdateACMEAccountKey svc ctx actor i req)"
  unfolding UpdateACMEAccountKey_def thenE_def
  by (intro runs_rules runs_require_account hoare_bind [OF hoare_UpdateACMEAccountIfStatus] account_step)
     (auto simp: read_simps)

section \<open>Challenges\<close>

lemma listed_authzs:
  "spec_inv s \<Longrightarrow> fst (repo_ListACMEAuthorizationsByOrder i s) = Inr xs \<Longrightarrow> authz_of s i a \<longleftrightarrow> a \<in> set xs"
  using in_vals_iff [OF keyed_wf [OF wf_keyed(5)]]
  by (auto simp: repo_ListACMEAuthorizationsByOrder_def getE_def listACMEAuthorizationsByOrder_def by_created_def authz_of_def)

lemma listed_challenges:
  "spec_inv s \<Longrightarrow> fst (repo_ListACMEChallengesByAuthorization i s) = Inr xs \<Longrightarrow> challenge_of s i c \<longleftrightarrow> c \<in> set xs"
  using in_vals_iff [OF keyed_wf [OF wf_keyed(6)]]
  by (auto simp: repo_ListACMEChallengesByAuthorization_def getE_def listACMEChallengesByAuthorization_def by_created_def challenge_of_def)

lemma runs_promoteACMEOrderIfReady:
  assumes "\<And>s. spec_inv s \<Longrightarrow> P s \<Longrightarrow> mget (t_acmeOrders s) (ord_ID x) = Some x"
  shows "hoare svc True R P (promoteACMEOrderIfReady x now) (\<lambda>_. R) (\<lambda>_ _. True)"
  unfolding promoteACMEOrderIfReady_def
  by (intro runs_if hoare_returnE runs_reads hoare_weaken [OF hoare_UpdateACMEOrderIfStatus])
     (use assms in \<open>auto simp: listed_authzs list_ex_iff intro!: place_steps\<close>)

lemma runs_promoteACMEAuthorizationIfReady:
  assumes "\<And>s. spec_inv s \<Longrightarrow> P s \<Longrightarrow> mget (t_acmeAuthzs s) (authz_ID x) = Some x" and "authz_Status x = ACMEAuthorizationPending"
  shows "hoare svc True R P (promoteACMEAuthorizationIfReady x now) (\<lambda>_. R) (\<lambda>_ _. True)"
  unfolding promoteACMEAuthorizationIfReady_def thenE_def
  by (intro runs_if hoare_returnE runs_reads hoare_bind [OF hoare_UpdateACMEAuthorizationIfStatus] runs_promoteACMEOrderIfReady)
     (use assms in \<open>auto simp: read_simps listed_challenges list_ex_iff dest: own_key intro!: place_steps\<close>)

lemma refines_CompleteACMEChallenge: "refines svc (CompleteACMEChallenge svc ctx actor i)"
  unfolding CompleteACMEChallenge_def thenE_def
  by (intro runs_rules hoare_bind [OF runs_promoteACMEAuthorizationIfReady] hoare_bind [OF hoare_UpdateACMEChallengeIfStatus])
     (auto simp: read_simps open_challenge_def dest: own_key intro!: place_steps)

lemma refines_markACMEChallengeProcessing: "refines svc (markACMEChallengeProcessing svc ctx actor i)"
  unfolding markACMEChallengeProcessing_def thenE_def
  by (intro runs_rules hoare_bind [OF hoare_UpdateACMEChallengeIfStatus])
     (auto simp: read_simps open_challenge_def dest: own_key intro!: place_steps)

lemma quiet_get_acmeHTTP01ValidationContext: "quiet_eff (get_acmeHTTP01ValidationContext svc i)"
  unfolding get_acmeHTTP01ValidationContext_def thenE_def by (intro quiet_rules quiet_reads)

lemma refines_ValidateACMEHTTP01Challenge: "refines svc (ValidateACMEHTTP01Challenge svc ctx actor i)"
  unfolding ValidateACMEHTTP01Challenge_def
  by (intro runs_quiet [OF quiet_get_acmeHTTP01ValidationContext] runs_quiet [OF quiet.keeps_attemptE [OF quiet_callE]]
      runs_case_sum refines_markACMEChallengeProcessing refines_CompleteACMEChallenge)

lemma refines_PollACMEAuthorization: "refines svc (PollACMEAuthorization svc ctx actor i)"
  unfolding PollACMEAuthorization_def thenE_def
  by (intro runs_failIf runs_reads runs_if runs_done hoare_bind [OF runs_from [OF hoare_forE]] runs_last_quiet [OF quiet_reads(39)]
      hoare_bind [OF refines_ValidateACMEHTTP01Challenge])

section \<open>Orders\<close>

text \<open>
  The authorizations of a new order, as the loop creates them: each takes three identifiers, for
  the authorization, its challenge and the challenge's token.
\<close>

definition order_pair :: "service \<Rightarrow> string \<Rightarrow> time \<Rightarrow> nat \<Rightarrow> string \<times> string \<Rightarrow> authz_pair" where
  "order_pair svc oid now n name =
     (\<lparr>authz_ID = svc_idgen svc n, authz_OrderID = oid, authz_IdentifierType = fst name,
       authz_IdentifierValue = snd name, authz_Status = ACMEAuthorizationPending,
       authz_ExpiresAt = AddD now defaultACMEAuthorizationLifetime, authz_ValidationReuseExpiresAt = 0,
       authz_CreatedAt = now, authz_UpdatedAt = now\<rparr>,
      \<lparr>chal_ID = svc_idgen svc (Suc n), chal_AuthorizationID = svc_idgen svc n, chal_Type = ACMEChallengeHTTP01,
       chal_Token = svc_idgen svc (Suc (Suc n)), chal_Status = ACMEChallengePending, chal_ValidatedAt = 0,
       chal_CreatedAt = now, chal_UpdatedAt = now\<rparr>)"

primrec order_pairs :: "service \<Rightarrow> string \<Rightarrow> time \<Rightarrow> nat \<Rightarrow> (string \<times> string) list \<Rightarrow> authz_pair list" where
  "order_pairs svc oid now n [] = []"
| "order_pairs svc oid now n (name # names) = order_pair svc oid now n name # order_pairs svc oid now (n + 3) names"

definition with_pairs :: "authz_pair list \<Rightarrow> memory_store \<Rightarrow> memory_store" where
  "with_pairs ps s = s\<lparr>t_acmeAuthzs := put_all authz_ID (map fst ps) (t_acmeAuthzs s),
     t_acmeChallenges := put_all chal_ID (map snd ps) (t_acmeChallenges s)\<rparr>"

lemma run_createACMEAuthorization:
  "createACMEAuthorization svc oid ty v ACMEChallengeHTTP01 now w =
     (Inr (), w\<lparr>w_store := with_pairs [order_pair svc oid now (w_tick w) (ty, v)] (w_store w), w_tick := w_tick w + 3\<rparr>)"
  by (cases w; cases "w_store w")
     (simp add: createACMEAuthorization_def Let_def thenE_def bindE_def drawE_def repoE_def repo_defs updE_def with_pairs_def
       order_pair_def put_all_def)

lemma with_pairs_append: "with_pairs qs (with_pairs ps s) = with_pairs (ps @ qs) s"
  by (simp add: with_pairs_def put_all_def)

lemma run_authorization_loop:
  "forE names (\<lambda>v. createACMEAuthorization svc oid ty v ACMEChallengeHTTP01 now) w =
     (Inr (), w\<lparr>w_store := with_pairs (order_pairs svc oid now (w_tick w) (map (Pair ty) names)) (w_store w),
        w_tick := w_tick w + 3 * length names\<rparr>)"
proof (induction names arbitrary: w)
  case Nil
  then show ?case by (cases w) (simp add: returnE_def with_pairs_def put_all_def)
next
  case (Cons v names)
  then show ?case
    by (simp add: thenE_def bindE_def run_createACMEAuthorization with_pairs_append add.commute)
qed

lemma order_pairs_append:
  "order_pairs svc oid now n (xs @ ys) = order_pairs svc oid now n xs @ order_pairs svc oid now (n + 3 * length xs) ys"
  by (induction xs arbitrary: n) (simp_all add: add.assoc)

definition order_names :: "ACMEOrder \<Rightarrow> (string \<times> string) list" where
  "order_names x = map (Pair ''dns'') (ord_RequestedDNSNames x) @ map (Pair ''ip'') (ord_RequestedIPAddresses x)"

lemma run_createACMEAuthorizations:
  "createACMEAuthorizations svc x now w =
     (Inr (), w\<lparr>w_store := with_pairs (order_pairs svc (ord_ID x) now (w_tick w) (order_names x)) (w_store w),
        w_tick := w_tick w + 3 * length (order_names x)\<rparr>)"
  by (simp add: createACMEAuthorizations_def thenE_def bindE_def run_authorization_loop with_pairs_append
      order_names_def order_pairs_append algebra_simps)

lemma pair_ids_bounds:
  "set (pair_ids (order_pairs svc oid now n names)) \<subseteq> svc_idgen svc ` {n..<n + 3 * length names}"
proof (induction names arbitrary: n)
  case (Cons name names)
  have "svc_idgen svc ` {n + 3..<n + 3 + 3 * length names} \<subseteq> svc_idgen svc ` {n..<n + 3 * length (name # names)}"
    by (intro image_mono) auto
  then have "set (pair_ids (order_pairs svc oid now (n + 3) names)) \<subseteq> svc_idgen svc ` {n..<n + 3 * length (name # names)}"
    using Cons.IH [of "n + 3"] by blast
  then show ?case by (auto simp: pair_ids_def order_pair_def)
qed (simp add: pair_ids_def)

lemma distinct_pair_ids:
  "inj (svc_idgen svc) \<Longrightarrow> distinct (pair_ids (order_pairs svc oid now n names))"
proof (induction names arbitrary: n)
  case (Cons name names)
  let ?ps = "order_pairs svc oid now (n + 3) names"
  have b: "set (pair_ids ?ps) \<subseteq> svc_idgen svc ` {n + 3..<n + 3 + 3 * length names}"
    by (rule pair_ids_bounds)
  have "svc_idgen svc k \<notin> set (pair_ids ?ps)" if "k < n + 3" for k
  proof
    assume "svc_idgen svc k \<in> set (pair_ids ?ps)"
    with b obtain j where "n + 3 \<le> j" "svc_idgen svc k = svc_idgen svc j" by fastforce
    with that show False using inj_eq [OF Cons.prems] by simp
  qed
  then have "svc_idgen svc n \<notin> set (pair_ids ?ps)" "svc_idgen svc (Suc n) \<notin> set (pair_ids ?ps)" by auto
  then show ?case
    using Cons.IH [OF Cons.prems, of "n + 3"] inj_eq [OF Cons.prems] by (simp add: pair_ids_def order_pair_def)
qed (simp add: pair_ids_def)

lemma order_pairs_opens:
  "map (\<lambda>(a, c). (authz_IdentifierType a, authz_IdentifierValue a)) (order_pairs svc oid now n names) = names"
  "\<forall>(a, c) \<in> set (order_pairs svc oid now n names). authz_OrderID a = oid \<and> authz_Status a = ACMEAuthorizationPending \<and>
     chal_AuthorizationID c = authz_ID a \<and> chal_Status c = ACMEChallengePending"
  by (induction names arbitrary: n) (auto simp: order_pair_def)

lemma ids_of_with_pairs: "ids_of (with_pairs ps s) = ids_of s \<union> set (pair_ids ps)"
  by (auto simp: ids_of_def with_pairs_def pair_ids_def)

lemma goodI:
  "inj (svc_idgen svc) \<Longrightarrow> spec_inv s \<Longrightarrow> ids_of s \<union> R \<subseteq> svc_idgen svc ` {..<n} \<Longrightarrow> R \<inter> ids_of s = {} \<Longrightarrow>
   good svc R (w\<lparr>w_store := s, w_tick := n\<rparr>)"
  by (simp add: good_def)

lemma opened_ids:
  "A' \<subseteq> insert i A \<union> F \<Longrightarrow> A \<union> R \<subseteq> U \<Longrightarrow> F \<subseteq> V \<Longrightarrow> U \<union> V \<subseteq> W \<Longrightarrow> i \<in> R \<Longrightarrow> A' \<union> (R - {i}) \<subseteq> W"
  "A' \<subseteq> insert i A \<union> F \<Longrightarrow> F \<inter> (A \<union> R) = {} \<Longrightarrow> R \<inter> A = {} \<Longrightarrow> (R - {i}) \<inter> A' = {}"
  by blast+

text \<open>The order and its authorizations are one step, under identifiers that were not in use.\<close>

lemma hoare_open_order:
  assumes x: "ord_ID x \<in> R" "ord_Status x = ACMEOrderPending"
    and acct: "\<And>s. P s \<Longrightarrow> ord_AccountID x \<in> table_ids (t_acmeAccounts s)"
  shows "hoare svc True R P (bindE (repoE (repo_CreateACMEOrder x)) (\<lambda>_. createACMEAuthorizations svc x now))
    (\<lambda>_. R - {ord_ID x}) (\<lambda>_ _. True)"
proof (rule hoareI)
  fix w assume w: "good svc R w" "P (w_store w)"
  let ?n = "w_tick w" and ?s = "w_store w" and ?k = "3 * length (order_names x)"
  let ?ps = "order_pairs svc (ord_ID x) now ?n (order_names x)"
  let ?s' = "with_pairs ?ps (put_order x ?s)"
  have run: "bindE (repoE (repo_CreateACMEOrder x)) (\<lambda>_. createACMEAuthorizations svc x now) w =
      (Inr (), w\<lparr>w_store := ?s', w_tick := ?n + ?k\<rparr>)"
    by (simp add: bindE_def repoE_def repo_CreateACMEOrder_def updE_def run_createACMEAuthorizations)
  then show "?n \<le> w_tick (snd (bindE (repoE (repo_CreateACMEOrder x)) (\<lambda>_. createACMEAuthorizations svc x now) w))"
    by simp
  have g: "inj (svc_idgen svc)" "spec_inv ?s" "ids_of ?s \<union> R \<subseteq> svc_idgen svc ` {..<?n}" "R \<inter> ids_of ?s = {}"
    using w(1) by (simp_all add: good_def)
  have ids: "set (pair_ids ?ps) \<subseteq> svc_idgen svc ` {?n..<?n + ?k}"
    by (rule pair_ids_bounds)
  have "svc_idgen svc ` {?n..<?n + ?k} \<inter> svc_idgen svc ` {..<?n} = {}"
    using g(1) by (auto simp: inj_eq)
  then have fresh: "set (pair_ids ?ps) \<inter> (ids_of ?s \<union> R) = {}"
    using ids g(3) by blast
  have "opens ?s x ?ps"
    unfolding opens_def order_names_def [symmetric]
    using order_pairs_opens [of svc "ord_ID x" now ?n "order_names x"] distinct_pair_ids [OF g(1)] fresh x g(4) by auto
  then have step: "store_step ?s ?s'"
    using order_opened [OF _ acct [OF w(2)]] by (simp add: with_pairs_def)
  have inv: "spec_inv ?s'" using spec_inv_step [OF step g(2)] .
  have bound: "ids_of ?s' \<subseteq> insert (ord_ID x) (ids_of ?s) \<union> set (pair_ids ?ps)"
    unfolding ids_of_with_pairs using ids_of_put(13) by blast
  moreover have "svc_idgen svc ` {..<?n} \<union> svc_idgen svc ` {?n..<?n + ?k} \<subseteq> svc_idgen svc ` {..<?n + ?k}"
    by auto
  ultimately have "ids_of ?s' \<union> (R - {ord_ID x}) \<subseteq> svc_idgen svc ` {..<?n + ?k}"
    by (rule opened_ids(1) [OF _ g(3) ids _ x(1)])
  moreover have "(R - {ord_ID x}) \<inter> ids_of ?s' = {}"
    by (rule opened_ids(2) [OF bound fresh g(4)])
  ultimately have "good svc (R - {ord_ID x}) (w\<lparr>w_store := ?s', w_tick := ?n + ?k\<rparr>)"
    by (rule goodI [OF g(1) inv])
  then show "good svc (R - {ord_ID x}) w' \<and> store_steps ?s (w_store w') \<and> True"
    if "bindE (repoE (repo_CreateACMEOrder x)) (\<lambda>_. createACMEAuthorizations svc x now) w = (Inr u, w')" for u w'
    using that step unfolding run by auto
qed simp

lemma runs_open_order:
  assumes "ord_ID x \<in> R" "ord_Status x = ACMEOrderPending" "\<And>s. P s \<Longrightarrow> ord_AccountID x \<in> table_ids (t_acmeAccounts s)"
    and "\<And>u. hoare svc True (R - {ord_ID x}) (\<lambda>_. True) (k u) R' Q"
  shows "hoare svc True R P (bindE (repoE (repo_CreateACMEOrder x)) (\<lambda>_. bindE (createACMEAuthorizations svc x now) k)) R' Q"
  using hoare_bind [OF hoare_open_order [OF assms(1-3)] assms(4)] by (simp add: bindE_assoc)

lemma runs_create_order_tx:
  assumes "ord_ID x \<in> R" "ord_Status x = ACMEOrderPending" "ord_AccountID x = cao_AccountID req"
  shows "runs svc False R P (create_order_tx svc ctx actor req x now)"
  unfolding create_order_tx_def thenE_def
  by (intro hoare_WithinTx runs_reads runs_require_account runs_fromSum runs_bind_if runs_bind_bind runs_returnE
      runs_open_order hoare_runs [OF hoare_createAuditEvent])
     (use assms in \<open>auto simp: read_simps mget_table_ids\<close>)

lemma quiet_order_caa: "quiet_eff (validatePublicTLSCAA svc names)"
  unfolding validatePublicTLSCAA_def PublicTLSCAAPolicy_check_def by (intro quiet_rules)

lemma refines_CreateACMEOrder: "refines svc (CreateACMEOrder svc ctx actor req)"
  unfolding CreateACMEOrder_def thenE_def
  by (intro runs_drawE runs_fromSum runs_bind_if runs_bind_bind runs_reads runs_returnE runs_newID runs_let
      runs_quiet [OF quiet_order_caa] hoare_bind [OF runs_create_order_tx] runs_done)
     (auto simp: new_order_def)

section \<open>Finalization\<close>

text \<open>
  Creating, approving and issuing the enrollment leaves the orders alone, and what was requested
  stays as it was.
\<close>

lemma keeps_let: "(\<And>y. y = x \<Longrightarrow> keeps R (f y)) \<Longrightarrow> keeps R (Let x f)"
  by simp

lemma framed_orders_enroll:
  "framed t_acmeOrders (repoE (repo_CreateEnrollment e))"
  "framed t_acmeOrders (repoE (repo_UpdateEnrollmentIfStatus e st))"
  "framed t_acmeOrders (repoE (repo_CreateCertificate c))"
  "framed t_acmeOrders (repoE (repo_CreateIssuanceAttempt a))"
  "framed t_acmeOrders (repoE (repo_UpdateIssuanceAttemptIfCurrent a b))"
  unfolding repo_CreateEnrollment_def repo_UpdateEnrollmentIfStatus_def repo_CreateCertificate_def
    repo_CreateIssuanceAttempt_def repo_UpdateIssuanceAttemptIfCurrent_def
  by (rule framed_updE; auto split: sum.splits)+

lemma framed_orders_log:
  "framed t_acmeOrders (createAuditEvent svc ctx actor action rtype rid now flds)"
  by (rule framed_createAuditEvent) simp

lemmas framed_rules = keeps_let frame.keeps_rules framed_orders_enroll framed_orders_log quiet_reads [THEN framed_quiet]
  framed_quiet [OF quiet_addIdentityDeploymentTarget] framed_quiet [OF quiet_request_profile]
  framed_quiet [OF quiet_enrollment_policy] framed_quiet [OF quiet_issue_checks] quiet_issued_fields [THEN framed_quiet]

lemma framed_orders_CreateEnrollment: "framed t_acmeOrders (CreateEnrollment svc ctx actor req)"
  unfolding CreateEnrollment_def by (intro framed_rules)

lemma framed_orders_ApproveEnrollment: "framed t_acmeOrders (ApproveEnrollment svc ctx actor i)"
  unfolding ApproveEnrollment_def ApproveEnrollmentWithReason_def by (intro framed_rules)

lemma framed_orders_claim_over: "framed t_acmeOrders (claim_over a now)"
proof -
  have "framed t_acmeOrders (thenE (repoE (repo_UpdateIssuanceAttemptIfCurrent (renew_claim a now) a)) (returnE (renew_claim a now, True)))"
    by (intro framed_rules)
  then show ?thesis
    by (cases "att_Status a") (simp_all add: claim_over_def frame.worlds.keeps_returnE frame.worlds.keeps_throwE)
qed

lemma framed_orders_IssueCertificate: "framed t_acmeOrders (IssueCertificate svc ctx actor i)"
  unfolding IssueCertificate_def claimIssuanceAttempt_def sign_attempt_def persistSignedIssuanceAttempt_def
    finalizeSignedIssuanceAttempt_def finalize_tx_def ensureCertificateIssuedAuditEvent_def
  by (intro framed_rules framed_orders_claim_over)

abbreviation requested :: "string \<Rightarrow> string list \<Rightarrow> string list \<Rightarrow> memory_store \<Rightarrow> bool" where
  "requested i names addrs s \<equiv>
     \<exists>e. mget (t_enrollments s) i = Some e \<and> enr_RequestedDNSNames e = names \<and> enr_RequestedIPAddresses e = addrs"

lemma enr_evolves_names:
  "enr_evolves e f \<Longrightarrow> enr_RequestedDNSNames f = enr_RequestedDNSNames e \<and> enr_RequestedIPAddresses f = enr_RequestedIPAddresses e"
  by (cases e; cases f) (simp add: enr_evolves_def)

lemma requested_stable: "spec_inv s \<Longrightarrow> store_steps s s' \<Longrightarrow> requested i names addrs s \<Longrightarrow> requested i names addrs s'"
proof (elim exE conjE)
  fix e assume s: "spec_inv s" "store_steps s s'" "mget (t_enrollments s) i = Some e"
    and e: "enr_RequestedDNSNames e = names" "enr_RequestedIPAddresses e = addrs"
  obtain f where "mget (t_enrollments s') i = Some f" "enr_evolves e f"
    using enrs.tab_keeps [OF s(2,1,3)] by blast
  with enr_evolves_names [of e f] e show "requested i names addrs s'" by simp
qed

lemma hoare_CreateEnrollment_requested:
  "hoare svc False {} P (CreateEnrollment svc ctx actor req) (\<lambda>_. {})
     (\<lambda>e. requested (enr_ID e) (cer_RequestedDNSNames req) (cer_RequestedIPAddresses req))"
  unfolding CreateEnrollment_def thenE_def
  by (intro runs_drawE runs_fromSum runs_reads runs_checks runs_mapErrE_callE runs_failIf runs_newID runs_let hoare_WithinTx
      runs_target hoare_bind [OF hoare_CreateEnrollment] hoare_bind [OF hoare_createAuditEvent] hoare_returnE)
     (auto simp: new_enrollment_def read_simps mget_table_ids)

lemma refines_ApproveEnrollment: "refines svc (ApproveEnrollment svc ctx actor i)"
  unfolding ApproveEnrollment_def by (rule refines_ApproveEnrollmentWithReason)

abbreviation order_stored :: "ACMEOrder \<Rightarrow> memory_store \<Rightarrow> bool" where
  "order_stored x s \<equiv> mget (t_acmeOrders s) (ord_ID x) = Some x"

lemma hoare_enroll_order:
  "hoare svc False {} (order_stored x) (CreateEnrollment svc ctx actor (finalize_request x req)) (\<lambda>_. {})
     (\<lambda>e s. requested (enr_ID e) (ord_RequestedDNSNames x) (ord_RequestedIPAddresses x) s \<and> order_stored x s)"
  using hoare_keeps [OF hoare_CreateEnrollment_requested [where P = "\<lambda>_. True" and req = "finalize_request x req"]
      framed_orders_CreateEnrollment, where I = "\<lambda>m. mget m (ord_ID x) = Some x"]
  by (simp add: finalize_request_def)

lemma hoare_approve_order:
  "hoare svc False {} (\<lambda>s. requested i names addrs s \<and> order_stored x s) (ApproveEnrollment svc ctx actor j) (\<lambda>_. {})
     (\<lambda>_ s. requested i names addrs s \<and> order_stored x s)"
  using hoare_keeps [OF hoare_stable [OF refines_ApproveEnrollment requested_stable] framed_orders_ApproveEnrollment,
      where I = "\<lambda>m. mget m (ord_ID x) = Some x"] by simp

lemma hoare_issue_order:
  "hoare svc False {} (\<lambda>s. requested i names addrs s \<and> order_stored x s) (IssueCertificate svc ctx actor i) (\<lambda>_. {})
     (\<lambda>c s. (issued i c s \<and> requested i names addrs s) \<and> order_stored x s)"
  using hoare_keeps [OF hoare_stable [OF hoare_IssueCertificate [where P = "\<lambda>_. True"] requested_stable] framed_orders_IssueCertificate,
      where I = "\<lambda>m. mget m (ord_ID x) = Some x"] by simp

lemma issued_names:
  "spec_inv s \<Longrightarrow> issued i c s \<Longrightarrow> requested i names addrs s \<Longrightarrow> cert_DNSNames c = names \<and> cert_IPAddresses c = addrs"
  unfolding spec_inv_def enrolled_ok_def by fastforce

lemma finalize_step:
  assumes "spec_inv s" "(issued i c s \<and> requested i (ord_RequestedDNSNames x) (ord_RequestedIPAddresses x) s) \<and> order_stored x s"
    and "ord_Status x = ACMEOrderReady"
    and "y = x\<lparr>ord_CSRPEM := csr, ord_RequestedSubject := subject, ord_EnrollmentID := i, ord_CertificateID := cert_ID c,
      ord_Status := ACMEOrderValid, ord_UpdatedAt := t\<rparr>"
  shows "store_step s (put_order y s)"
  unfolding assms(4)
  by (rule order_finalized) (use assms(1-3) issued_names in auto)

lemma refines_finalize_issue:
  "ord_Status x = ACMEOrderReady \<Longrightarrow> runs svc False {} (order_stored x) (finalize_issue svc ctx actor x req)"
  unfolding finalize_issue_def thenE_def
  by (intro hoare_bind [OF hoare_enroll_order] hoare_bind [OF hoare_approve_order] hoare_bind [OF hoare_issue_order]
      runs_drawE runs_let hoare_bind [OF hoare_WithinTx [OF hoare_UpdateACMEOrderIfStatus]] finalize_step
      hoare_bind [OF hoare_WithinTx [OF hoare_createAuditEvent]] runs_done)

lemma runs_invalidateACMEOrder:
  assumes "ord_Status x = ACMEOrderReady" and "\<And>s. spec_inv s \<Longrightarrow> P s \<Longrightarrow> order_stored x s"
  shows "runs svc False {} P (invalidateACMEOrder svc ctx actor x)"
  unfolding invalidateACMEOrder_def thenE_def
  by (intro runs_drawE runs_let hoare_WithinTx hoare_bind [OF hoare_UpdateACMEOrderIfStatus] hoare_runs [OF hoare_createAuditEvent])
     (use assms in \<open>auto intro!: place_steps\<close>)

lemma quiet_validation_evidence: "quiet_eff (validateACMEPublicTLSValidationEvidence x now)"
  unfolding validateACMEPublicTLSValidationEvidence_def by (intro quiet_rules quiet_reads)

lemma hoare_pre:
  assumes m: "hoare svc tx R P m R' Q" and "\<And>s. spec_inv s \<Longrightarrow> P1 s \<Longrightarrow> P s"
  shows "hoare svc tx R P1 m R' Q"
  using m assms(2) by (simp add: hoare_def good_def)

lemma refines_FinalizeACMEOrder: "refines svc (FinalizeACMEOrder svc ctx actor i req)"
  unfolding FinalizeACMEOrder_def thenE_def
  by (intro runs_failIf runs_reads runs_if runs_done runs_drawE hoare_bind [OF runs_invalidateACMEOrder] hoare_throwE
      runs_quiet [OF quiet_validation_evidence] hoare_pre [OF refines_finalize_issue])
     (auto simp: read_simps dest: own_key)

end
