(* ===== verification/RefineServices.thy ===== *)
theory RefineServices
  imports Refinement Crl Ocsp Listings
begin

text \<open>
  CRL publication, OCSP, the outbox with its webhooks and the audit operations take only steps of
  the specification.
\<close>

section \<open>CRL publication\<close>

lemma refines_claimCRLGeneration: "refines svc (claimCRLGeneration i dp now)"
  unfolding claimCRLGeneration_def thenE_def
  by (intro runs_rules hoare_bind [OF hoare_claims(1)] hoare_bind [OF hoare_claims(2)])

lemma runs_publish_tx:
  "crl_ID x \<in> R \<Longrightarrow> runs svc False R P (publish_tx svc ctx actor x evidence claim now)"
  unfolding publish_tx_def thenE_def
  by (intro runs_rules hoare_bind [OF hoare_CreateCRLPublication] hoare_runs [OF hoare_claims(3)])
     (auto simp: read_simps mget_table_ids)

lemma refines_publish_claimed: "refines svc (publish_claimed svc ctx actor req issuer claim now)"
  unfolding publish_claimed_def thenE_def
  by (intro runs_rules runs_quiet [OF quiet.keeps_mapErrE [OF quiet.keeps_fromSum]] hoare_bind [OF runs_publish_tx])
     (auto simp: new_publication_def)

lemma refines_release_claim: "refines svc (release_claim claim)"
  unfolding release_claim_def
proof (intro hoare_WithinTx hoare_bind [OF hoare_attempt_update [OF is_updates(3) hoare_claims(3)]])
  show "hoare svc True (case r of Inl _ \<Rightarrow> {} | Inr _ \<Rightarrow> {}) (case r of Inl _ \<Rightarrow> \<lambda>_. True | Inr _ \<Rightarrow> \<lambda>s'. \<exists>s c. True \<and> s' = s\<lparr>t_crlClaims := c\<rparr>)
      (case r of Inl e \<Rightarrow> if errors_Is e ErrCRLGenerationClaimNotFound \<or> errors_Is e ErrInvalidTransition then returnE () else throwE e
        | Inr _ \<Rightarrow> returnE ()) (\<lambda>_. {}) (\<lambda>_ _. True)" for r
    by (cases r) (auto intro: runs_done hoare_throwE)
qed

lemma refines_PublishCRL: "refines svc (PublishCRL svc ctx actor req)"
  unfolding PublishCRL_def thenE_def
  by (intro runs_drawE runs_fromSum runs_reads hoare_bind [OF runs_from [OF refines_claimCRLGeneration]]
      hoare_bind [OF runs_attemptE [OF refines_publish_claimed]] hoare_bind [OF runs_attemptE [OF refines_release_claim]]
      runs_case_sum runs_done hoare_throwE)

section \<open>OCSP\<close>

lemma quiet_status_step: "quiet_eff (status_step a b acc x)"
  unfolding status_step_def Let_def thenE_def by (intro quiet_rules quiet_reads)

lemma quiet_ocspCertificateStatuses: "quiet_eff (ocspCertificateStatuses svc ids)"
  unfolding ocspCertificateStatuses_def ocspIssuersByHash_def by (intro quiet_rules quiet_reads quiet_status_step)

lemma quiet_ocspSignerForIssuer: "quiet_eff (ocspSignerForIssuer issuer)"
  unfolding ocspSignerForIssuer_def by (intro quiet_rules quiet_reads)

lemma refines_RespondOCSP: "refines svc (RespondOCSP svc ctx actor der)"
  unfolding RespondOCSP_def thenE_def
  by (intro runs_rules runs_quiet [OF quiet_ocspCertificateStatuses] runs_quiet [OF quiet_ocspSignerForIssuer]
      runs_quiet [OF quiet.keeps_mapErrE [OF quiet.keeps_fromSum]])

section \<open>Outbox\<close>

lemma replay_move: "msg_Status y \<in> {OutboxDeadLetter, OutboxFailed} \<Longrightarrow> message_move (msg_Status y) OutboxPending"
  by auto

lemma replay_msg: "msg_ID (outboxMessageForReplay m now) = msg_ID m" "msg_Status (outboxMessageForReplay m now) = OutboxPending"
  by (simp_all add: outboxMessageForReplay_def)

lemma refines_RetryOutboxMessage: "refines svc (RetryOutboxMessage svc ctx actor i)"
  unfolding RetryOutboxMessage_def thenE_def
  by (intro runs_rules hoare_bind [OF hoare_UpdateOutboxMessageStatusIfStatus] message_moved) (auto simp: replay_msg)

lemma hoare_replay_step: "hoare svc True {} (\<lambda>_. True) (replay_step req now acc m) (\<lambda>_. {}) (\<lambda>_ _. True)"
  unfolding replay_step_def thenE_def
  by (intro runs_rules hoare_bind [OF hoare_UpdateOutboxMessageStatusIfStatus] message_moved) (auto simp: replay_msg)

lemma refines_ReplayDeadLetterOutboxMessages: "refines svc (ReplayDeadLetterOutboxMessages svc ctx actor req)"
  unfolding ReplayDeadLetterOutboxMessages_def thenE_def
  by (intro runs_failIf runs_drawE hoare_WithinTx runs_reads runs_newID runs_audit runs_done
      hoare_bind [OF hoare_consequence [OF hoare_foldE [OF hoare_replay_step]]]) auto

subsection \<open>The dispatcher, for handlers that keep to the specification\<close>

lemma attempt_move:
  assumes "message_move (msg_Status y) (msg_Status x)"
    and "\<And>e. hoare svc False {} (\<lambda>_. True) (f e) (\<lambda>_. {}) (\<lambda>_ _. True)" and "\<And>u. hoare svc False {} (\<lambda>_. True) (g u) (\<lambda>_. {}) (\<lambda>_ _. True)"
  shows "runs svc False {} P (bindE (attemptE (repoE (repo_UpdateOutboxMessageIfCurrent x y))) (\<lambda>r. case r of Inl e \<Rightarrow> f e | Inr u \<Rightarrow> g u))"
  by (rule runs_attempt_case [OF hoare_UpdateOutboxMessageIfCurrent [OF assms(1)] assms(2)])
     (rule hoare_consequence [OF assms(3)], auto)

lemma refines_take_message: "msg_Status m = OutboxPending \<Longrightarrow> refines svc (take_message m now)"
  unfolding take_message_def
  by (intro attempt_move runs_if runs_done hoare_throwE) (auto simp: claimed_message_def)

lemma refines_dispatcher_claim: "refines svc (dispatcher_claim d m)"
  unfolding dispatcher_claim_def
  by (intro runs_if runs_done runs_drawE attempt_move hoare_throwE refines_take_message) (auto simp: recovered_message_def)

lemma dispatcher_claim_processing:
  "dispatcher_claim d m w = (Inr (Some c), w') \<Longrightarrow> msg_Status c = OutboxProcessing"
  by (auto simp: dispatcher_claim_def take_message_def bindE_def attemptE_def drawE_def returnE_def throwE_def claimed_message_def
      split: prod.splits sum.splits if_splits)

lemma refines_dispatcher_finish:
  "msg_Status m = OutboxProcessing \<Longrightarrow> st \<in> {OutboxPending, OutboxCompleted, OutboxDeadLetter} \<Longrightarrow>
   runs svc False {} P (dispatcher_finish m st attempt)"
  unfolding dispatcher_finish_def thenE_def
  by (intro hoare_WithinTx hoare_bind [OF hoare_UpdateOutboxMessageIfCurrent] hoare_runs [OF hoare_CreateJobAttempt]) auto

lemma handled_message_move:
  "handled_message c r t = (h, st) \<Longrightarrow> msg_Status c = OutboxProcessing \<Longrightarrow>
   msg_Status h = OutboxProcessing \<and> st \<in> {OutboxPending, OutboxCompleted, OutboxDeadLetter}"
  by (auto simp: handled_message_def Let_def split: sum.splits if_splits)

lemma refines_dispatch_claimed:
  assumes "\<And>m. refines svc (dsp_handler d m)" and "msg_Status c = OutboxProcessing"
  shows "refines svc
    (bindE (drawE (dsp_clock d)) (\<lambda>startedAt.
     bindE (attemptE (dsp_handler d c)) (\<lambda>result.
     bindE (drawE (dsp_clock d)) (\<lambda>finishedAt.
     case handled_message c result finishedAt of (handled, nextStatus) \<Rightarrow>
     bindE (drawE (dsp_idgen d)) (\<lambda>ident.
     bindE (dispatcher_finish handled nextStatus (a handled startedAt result finishedAt ident)) (\<lambda>_.
     returnE True))))))"
  by (intro runs_drawE hoare_bind [OF runs_attemptE [OF assms(1)]] runs_case_prod hoare_bind [OF refines_dispatcher_finish] runs_done)
     (use assms(2) handled_message_move in blast)+

lemma refines_dispatch_one:
  assumes "\<And>m. refines svc (dsp_handler d m)"
  shows "refines svc (dispatch_one d m)"
  unfolding dispatch_one_def thenE_def
proof (rule runs_call_value [OF refines_dispatcher_claim, where V = "\<lambda>c. \<forall>x. c = Some x \<longrightarrow> msg_Status x = OutboxProcessing"])
qed (auto intro!: runs_case_option runs_done refines_dispatch_claimed [OF assms] dest: dispatcher_claim_processing)

lemma refines_RunOnce:
  assumes "\<And>m. refines svc (dsp_handler d m)"
  shows "refines svc (RunOnce d limit)"
  unfolding RunOnce_def
  by (intro runs_quiet [OF quiet.keeps_mapErrE [OF quiet.keeps_bindE [OF quiet_drawE quiet_reads(29)]]]
      hoare_foldE hoare_bind [OF hoare_mapErrE [OF refines_dispatch_one [OF assms]]] runs_done)

subsection \<open>Handlers\<close>

lemma refines_registry:
  "(\<And>k h. mget handlers k = Some h \<Longrightarrow> refines svc (h m)) \<Longrightarrow> refines svc (OutboxHandlerRegistry_Handle handlers m)"
  unfolding OutboxHandlerRegistry_Handle_def by (intro runs_case_option hoare_throwE)

lemma quiet_postWebhook: "quiet_eff (postWebhook h e m body)"
  unfolding postWebhook_def Let_def by (intro quiet_rules)

lemma runs_recordWebhookDelivery: "runs svc False {} P (recordWebhookDelivery h m e c st err)"
  unfolding recordWebhookDelivery_def by (intro runs_drawE runs_let hoare_runs [OF hoare_UpsertWebhookDelivery])

lemma refines_deliver_webhook: "refines svc (deliver_webhook h m body e)"
  unfolding deliver_webhook_def thenE_def
  by (intro runs_if runs_done runs_attempts runs_bind_case_sum runs_returnE runs_bind_if runs_bind_throw
      runs_quiet [OF quiet.keeps_attemptE [OF quiet_postWebhook]] runs_case_sum runs_recordWebhookDelivery
      hoare_bind [OF runs_recordWebhookDelivery] hoare_throwE)

lemma refines_WebhookOutboxHandler_Handle: "refines svc (WebhookOutboxHandler_Handle h m)"
  unfolding WebhookOutboxHandler_Handle_def
  by (intro runs_reads runs_fromSum runs_from [OF hoare_forE] refines_deliver_webhook)

lemma mget_const: "mget (map (\<lambda>k. (k, v)) ks) k = Some x \<Longrightarrow> x = v"
  by (induction ks) (auto simp: mget_def split: if_splits)

lemma refines_lifecycle_handler:
  "refines svc (NewLifecycleOutboxHandlerWithWebhook (map_option WebhookOutboxHandler_Handle webhook) m)"
  unfolding NewLifecycleOutboxHandlerWithWebhook_def NewLifecycleOutboxHandler_def
  by (cases webhook)
     (auto intro!: refines_registry runs_done refines_WebhookOutboxHandler_Handle simp: NoopOutboxHandler_def dest!: mget_const)

section \<open>The audit log\<close>

lemma hoare_DeleteAuditEventsBefore:
  "hoare svc True R P (repoE (repo_DeleteAuditEventsBefore t)) (\<lambda>_. R) (\<lambda>_ _. True)"
proof -
  have "hoare svc True R P (repoE (repo_DeleteAuditEventsBefore t)) (\<lambda>_. R - {}) (\<lambda>_ _. True)"
    by (rule hoare_tx_steps) (auto simp: repo_DeleteAuditEventsBefore_def split: prod.splits intro!: r_into_rtranclp audit_pruned)
  then show ?thesis by simp
qed

lemma refines_PruneAuditEventsBefore: "refines svc (PruneAuditEventsBefore svc ctx actor t)"
  unfolding PruneAuditEventsBefore_def thenE_def
  by (intro runs_bind_if runs_bind_throw runs_bind_bind runs_drawE runs_failIf runs_let hoare_WithinTx runs_newID
      hoare_bind [OF hoare_DeleteAuditEventsBefore] runs_audit runs_done)

lemma refines_RecordAPIFailure: "refines svc (RecordAPIFailure svc ctx actor req)"
  unfolding RecordAPIFailure_def createAuditEventWithResult_def
  by (intro runs_let runs_drawE hoare_WithinTx runs_newID hoare_runs [OF hoare_CreateAuditEvent])

end
