(* ===== verification/ServiceRuns.thy ===== *)
theory ServiceRuns
  imports RefineRegistry RefineAcme RefineServices
begin

text \<open>
  The service as a whole: a node answers one request after the other, with every operation that can
  change the store among the requests, failed ones included. Every request is a sequence of steps of
  the specification, so what holds of all steps holds of every state that a node can reach.
\<close>

section \<open>Nodes and requests\<close>

text \<open>A node: the service, and the outbox dispatcher that the program starts with it.\<close>

record node =
  nd_service :: service
  nd_webhook :: "WebhookOutboxHandler option"
  nd_clock :: "nat \<Rightarrow> time"
  nd_idgen :: "nat \<Rightarrow> string"

definition node_dispatcher :: "node \<Rightarrow> OutboxDispatcher" where
  "node_dispatcher n =
     \<lparr>dsp_handler = NewLifecycleOutboxHandlerWithWebhook (map_option WebhookOutboxHandler_Handle (nd_webhook n)),
      dsp_clock = nd_clock n, dsp_idgen = nd_idgen n\<rparr>"

datatype request =
    Do_CreateIdentity CreateIdentityRequest
  | Do_CreateIssuer CreateIssuerRequest
  | Do_CreateCertificateProfile CreateCertificateProfileRequest
  | Do_TransitionCertificateProfileIssuer TransitionCertificateProfileIssuerRequest
  | Do_CreateNotificationEndpoint CreateNotificationEndpointRequest
  | Do_DisableNotificationEndpoint string
  | Do_CreateOCSPResponder CreateOCSPResponderRequest
  | Do_DisableOCSPResponder string string
  | Do_RotateOCSPResponder RotateOCSPResponderRequest
  | Do_AuthenticateAPIKey string
  | Do_EnsureAPIKey EnsureAPIKeyRequest
  | Do_CreateAPIKey CreateAPIKeyRequest
  | Do_DisableAPIKey string
  | Do_RotateAPIKey string
  | Do_CreateEnrollment CreateEnrollmentRequest
  | Do_RenewCertificate string string time
  | Do_ReissueCertificate string string
  | Do_ApproveEnrollmentWithReason string string
  | Do_RejectEnrollment string
  | Do_IssueCertificate string
  | Do_RepairMissingIssuanceAuditEvents
  | Do_RevokeCertificate string RevocationReason
  | Do_ForceRevokeCertificate string RevocationReason
  | Do_SuspendCertificate string
  | Do_ResumeCertificate string
  | Do_ScanCertificateExpirations duration int
  | Do_PublishCRL PublishCRLRequest
  | Do_RespondOCSP string
  | Do_CreateACMEAccount CreateACMEAccountRequest
  | Do_CreateOrGetACMEAccount CreateACMEAccountRequest
  | Do_UpdateACMEAccount string UpdateACMEAccountRequest
  | Do_UpdateACMEAccountKey string UpdateACMEAccountKeyRequest
  | Do_CreateACMEOrder CreateACMEOrderRequest
  | Do_CompleteACMEChallenge string
  | Do_ValidateACMEHTTP01Challenge string
  | Do_PollACMEAuthorization string
  | Do_FinalizeACMEOrder string FinalizeACMEOrderRequest
  | Do_RetryOutboxMessage string
  | Do_ReplayDeadLetterOutboxMessages ReplayDeadLetterOutboxRequest
  | Do_RunOnce int
  | Do_PruneAuditEventsBefore time
  | Do_RecordAPIFailure APIFailureAuditRequest

text \<open>The outcome of a request is reduced to success or its error.\<close>

definition void :: "('s, 'e, 'a) eff \<Rightarrow> ('s, 'e, unit) eff" where
  "void m = bindE m (\<lambda>_. returnE ())"

fun perform :: "node \<Rightarrow> request_ctx \<Rightarrow> string \<Rightarrow> request \<Rightarrow> (world, err, unit) eff" where
  "perform n ctx actor (Do_CreateIdentity r) = void (CreateIdentity (nd_service n) ctx actor r)"
| "perform n ctx actor (Do_CreateIssuer r) = void (CreateIssuer (nd_service n) ctx actor r)"
| "perform n ctx actor (Do_CreateCertificateProfile r) = void (CreateCertificateProfile (nd_service n) ctx actor r)"
| "perform n ctx actor (Do_TransitionCertificateProfileIssuer r) =
     void (TransitionCertificateProfileIssuer (nd_service n) ctx actor r)"
| "perform n ctx actor (Do_CreateNotificationEndpoint r) = void (CreateNotificationEndpoint (nd_service n) ctx actor r)"
| "perform n ctx actor (Do_DisableNotificationEndpoint i) = void (DisableNotificationEndpoint (nd_service n) ctx actor i)"
| "perform n ctx actor (Do_CreateOCSPResponder r) = void (CreateOCSPResponder (nd_service n) ctx actor r)"
| "perform n ctx actor (Do_DisableOCSPResponder i j) = void (DisableOCSPResponder (nd_service n) ctx actor i j)"
| "perform n ctx actor (Do_RotateOCSPResponder r) = void (RotateOCSPResponder (nd_service n) ctx actor r)"
| "perform n ctx actor (Do_AuthenticateAPIKey t) = void (AuthenticateAPIKey (nd_service n) t)"
| "perform n ctx actor (Do_EnsureAPIKey r) = void (EnsureAPIKey (nd_service n) ctx actor r)"
| "perform n ctx actor (Do_CreateAPIKey r) = void (CreateAPIKey (nd_service n) ctx actor r)"
| "perform n ctx actor (Do_DisableAPIKey i) = void (DisableAPIKey (nd_service n) ctx actor i)"
| "perform n ctx actor (Do_RotateAPIKey i) = void (RotateAPIKey (nd_service n) ctx actor i)"
| "perform n ctx actor (Do_CreateEnrollment r) = void (CreateEnrollment (nd_service n) ctx actor r)"
| "perform n ctx actor (Do_RenewCertificate i csr t) = void (RenewCertificate (nd_service n) ctx actor i csr t)"
| "perform n ctx actor (Do_ReissueCertificate i csr) = void (ReissueCertificate (nd_service n) ctx actor i csr)"
| "perform n ctx actor (Do_ApproveEnrollmentWithReason i reason) =
     void (ApproveEnrollmentWithReason (nd_service n) ctx actor i reason)"
| "perform n ctx actor (Do_RejectEnrollment i) = void (RejectEnrollment (nd_service n) ctx actor i)"
| "perform n ctx actor (Do_IssueCertificate i) = void (IssueCertificate (nd_service n) ctx actor i)"
| "perform n ctx actor Do_RepairMissingIssuanceAuditEvents =
     void (RepairMissingIssuanceAuditEvents (nd_service n) ctx actor)"
| "perform n ctx actor (Do_RevokeCertificate i reason) = void (RevokeCertificate (nd_service n) ctx actor i reason)"
| "perform n ctx actor (Do_ForceRevokeCertificate i reason) = void (ForceRevokeCertificate (nd_service n) ctx actor i reason)"
| "perform n ctx actor (Do_SuspendCertificate i) = void (SuspendCertificate (nd_service n) ctx actor i)"
| "perform n ctx actor (Do_ResumeCertificate i) = void (ResumeCertificate (nd_service n) ctx actor i)"
| "perform n ctx actor (Do_ScanCertificateExpirations window limit) =
     void (ScanCertificateExpirations (nd_service n) ctx actor window limit)"
| "perform n ctx actor (Do_PublishCRL r) = void (PublishCRL (nd_service n) ctx actor r)"
| "perform n ctx actor (Do_RespondOCSP der) = void (RespondOCSP (nd_service n) ctx actor der)"
| "perform n ctx actor (Do_CreateACMEAccount r) = void (CreateACMEAccount (nd_service n) ctx actor r)"
| "perform n ctx actor (Do_CreateOrGetACMEAccount r) = void (CreateOrGetACMEAccount (nd_service n) ctx actor r)"
| "perform n ctx actor (Do_UpdateACMEAccount i r) = void (UpdateACMEAccount (nd_service n) ctx actor i r)"
| "perform n ctx actor (Do_UpdateACMEAccountKey i r) = void (UpdateACMEAccountKey (nd_service n) ctx actor i r)"
| "perform n ctx actor (Do_CreateACMEOrder r) = void (CreateACMEOrder (nd_service n) ctx actor r)"
| "perform n ctx actor (Do_CompleteACMEChallenge i) = void (CompleteACMEChallenge (nd_service n) ctx actor i)"
| "perform n ctx actor (Do_ValidateACMEHTTP01Challenge i) = void (ValidateACMEHTTP01Challenge (nd_service n) ctx actor i)"
| "perform n ctx actor (Do_PollACMEAuthorization i) = void (PollACMEAuthorization (nd_service n) ctx actor i)"
| "perform n ctx actor (Do_FinalizeACMEOrder i r) = void (FinalizeACMEOrder (nd_service n) ctx actor i r)"
| "perform n ctx actor (Do_RetryOutboxMessage i) = void (RetryOutboxMessage (nd_service n) ctx actor i)"
| "perform n ctx actor (Do_ReplayDeadLetterOutboxMessages r) =
     void (ReplayDeadLetterOutboxMessages (nd_service n) ctx actor r)"
| "perform n ctx actor (Do_RunOnce limit) = void (mapErrE snd (RunOnce (node_dispatcher n) limit))"
| "perform n ctx actor (Do_PruneAuditEventsBefore t) = void (PruneAuditEventsBefore (nd_service n) ctx actor t)"
| "perform n ctx actor (Do_RecordAPIFailure r) = void (RecordAPIFailure (nd_service n) ctx actor r)"

type_synonym call = "request_ctx \<times> string \<times> request"

fun serve :: "node \<Rightarrow> call list \<Rightarrow> world \<Rightarrow> world" where
  "serve n [] w = w"
| "serve n ((ctx, actor, req) # calls) w = serve n calls (snd (perform n ctx actor req w))"

section \<open>Every request keeps to the specification\<close>

lemma refines_void: "refines svc m \<Longrightarrow> refines svc (void m)"
  unfolding void_def by (rule hoare_bind [OF _ runs_done])

lemma refines_mapErrE: "refines svc m \<Longrightarrow> refines svc (mapErrE f m)"
  by (rule hoare_mapErrE)

lemma refines_dispatcher: "refines svc (RunOnce (node_dispatcher n) limit)"
  by (rule refines_RunOnce) (simp add: node_dispatcher_def refines_lifecycle_handler)

lemmas refines_operations = refines_CreateIdentity refines_CreateIssuer refines_CreateCertificateProfile
  refines_TransitionCertificateProfileIssuer refines_CreateNotificationEndpoint refines_DisableNotificationEndpoint
  refines_CreateOCSPResponder refines_DisableOCSPResponder refines_RotateOCSPResponder refines_AuthenticateAPIKey
  refines_EnsureAPIKey refines_CreateAPIKey refines_DisableAPIKey refines_RotateAPIKey refines_CreateEnrollment
  refines_RenewCertificate refines_ReissueCertificate refines_ApproveEnrollmentWithReason refines_RejectEnrollment
  refines_IssueCertificate refines_RepairMissingIssuanceAuditEvents refines_revokeCertificate refines_SuspendCertificate
  refines_ResumeCertificate refines_ScanCertificateExpirations refines_PublishCRL refines_RespondOCSP
  refines_CreateACMEAccount refines_CreateOrGetACMEAccount refines_UpdateACMEAccount refines_UpdateACMEAccountKey
  refines_CreateACMEOrder refines_CompleteACMEChallenge refines_ValidateACMEHTTP01Challenge refines_PollACMEAuthorization
  refines_FinalizeACMEOrder refines_RetryOutboxMessage refines_ReplayDeadLetterOutboxMessages refines_dispatcher
  refines_PruneAuditEventsBefore refines_RecordAPIFailure

lemma refines_perform: "refines (nd_service n) (perform n ctx actor req)"
  by (cases req)
     (simp_all add: refines_void refines_mapErrE refines_operations RevokeCertificate_def ForceRevokeCertificate_def)

abbreviation good_world :: "node \<Rightarrow> world \<Rightarrow> bool" where
  "good_world n w \<equiv> good (nd_service n) {} w"

lemma serve_refines:
  "good_world n w \<Longrightarrow> good_world n (serve n calls w) \<and> store_steps (w_store w) (w_store (serve n calls w))"
proof (induction calls arbitrary: w)
  case (Cons call calls)
  obtain ctx actor req where call: "call = (ctx, actor, req)" by (cases call)
  let ?w = "snd (perform n ctx actor req w)"
  have "good_world n ?w" "store_steps (w_store w) (w_store ?w)"
    using refines_perform Cons.prems unfolding refines_iff by blast+
  with Cons.IH [of ?w] show ?case by (auto simp: call intro: rtranclp_trans)
qed simp

lemma serve_good: "good_world n w \<Longrightarrow> good_world n (serve n calls w)"
  using serve_refines by blast

lemma serve_steps: "good_world n w \<Longrightarrow> store_steps (w_store w) (w_store (serve n calls w))"
  using serve_refines by blast

lemma serve_inv: "good_world n w \<Longrightarrow> spec_inv (w_store (serve n calls w))"
  using serve_good by (auto simp: good_def)

lemma good_inv: "good_world n w \<Longrightarrow> spec_inv (w_store w)"
  by (simp add: good_def)

end
