(* ===== verification/HttpRefine.thy ===== *)
theory HttpRefine
  imports HttpServer ServiceRuns
begin

text \<open>
  Every request that the server answers takes steps of the lifecycle specification, and the server's
  own tables stay within their bounds. The relation \<open>web_step\<close> between the states before and after is a
  preorder; the rules of \<open>state_preorder\<close> carry it through every handler.
\<close>

named_theorems web_intros \<open>computations of the server that keep to the specification\<close>

section \<open>The relation\<close>

definition rates_ok :: "server \<Rightarrow> web \<Rightarrow> bool" where
  "rates_ok srv h \<longleftrightarrow> (\<forall>(k, b) \<in> set (web_rates h). rate_Count b \<le> max 0 (acme_RateLimit (srv_acme srv)))"

definition web_ok :: "server \<Rightarrow> web \<Rightarrow> bool" where
  "web_ok srv h \<longleftrightarrow>
     good (srv_service srv) {} (web_world h) \<and> length (web_nonces h) \<le> defaultACMENonceCacheSize \<and> rates_ok srv h"

definition web_step :: "server \<Rightarrow> web \<Rightarrow> web \<Rightarrow> bool" where
  "web_step srv h h' \<longleftrightarrow>
     (web_ok srv h \<longrightarrow> web_ok srv h' \<and> store_steps (w_store (web_world h)) (w_store (web_world h')))"

interpretation web: state_preorder "web_step srv" for srv
  by unfold_locales (auto simp: web_step_def)

abbreviation web_keeps :: "server \<Rightarrow> (web, 'e, 'a) eff \<Rightarrow> bool" where
  "web_keeps srv \<equiv> keeps (web_step srv)"

lemma rates_ok_world [simp]: "rates_ok srv (h\<lparr>web_world := w\<rparr>) = rates_ok srv h"
  by (simp add: rates_ok_def)

lemma web_worldE:
  assumes "refines (srv_service srv) m"
  shows "web_keeps srv (worldE m)"
  using assms unfolding refines_iff keeps_def web_step_def web_ok_def worldE_def
  by (simp add: case_prod_beta)

lemma refines_quiet: "quiet_eff m \<Longrightarrow> refines svc m"
  by (rule hoare_runs [OF hoare_quiet])

lemma web_draws [web_intros]: "web_keeps srv (worldE (drawE f))" "web_keeps srv (worldE (callE g))"
  by (intro web_worldE refines_quiet quiet_drawE quiet_callE)+

lemma web_metrics [web_intros]: "web_keeps srv (RecordEvent key)" "web_keeps srv (RecordHTTPRequest boundary status)"
  unfolding RecordEvent_def RecordHTTPRequest_def
  by (intro web.keeps_updE; auto simp: web_step_def web_ok_def rates_ok_def)+

section \<open>Nonces\<close>

lemma length_evictOldestLocked: "length (evictOldestLocked n nonces) \<le> n"
  by (induction n nonces rule: evictOldestLocked.induct) (simp add: evictOldestLocked.simps)

lemma length_mput: "length (mput k v m) \<le> Suc (length m)"
  by (induction m) (auto simp: mput_def)

lemma length_nonce_Issue: "length (nonce_Issue nonce at till nonces) \<le> defaultACMENonceCacheSize"
proof -
  have "length (nonce_Issue nonce at till nonces) \<le> Suc (defaultACMENonceCacheSize - 1)"
    unfolding nonce_Issue_def using length_mput length_evictOldestLocked by (meson Suc_le_mono le_trans)
  then show ?thesis by (simp add: defaultACMENonceCacheSize_def)
qed

lemma length_nonce_Consume: "length (snd (nonce_Consume nonce now nonces)) \<le> length nonces"
proof -
  have "length (mdel nonce ns) \<le> length ns" for ns :: "acmeStoredNonce gomap"
    by (simp add: mdel_def AList.delete_eq)
  moreover have "length (removeExpiredLocked now nonces) \<le> length nonces"
    by (simp add: removeExpiredLocked_def)
  ultimately show ?thesis
    by (auto simp: nonce_Consume_def Let_def split: option.splits intro: le_trans)
qed

lemma web_nonces_update:
  "(\<And>ns. length ns \<le> defaultACMENonceCacheSize \<Longrightarrow> length (f ns) \<le> defaultACMENonceCacheSize) \<Longrightarrow>
   web_keeps srv (updE (\<lambda>h. Inr (h\<lparr>web_nonces := f (web_nonces h)\<rparr>)))"
  by (rule web.keeps_updE) (auto simp: web_step_def web_ok_def rates_ok_def)

lemma web_issueACMENonce [web_intros]: "web_keeps srv (issueACMENonce srv)"
  unfolding issueACMENonce_def Let_def
  by (intro web.keeps_bindE web.keeps_thenE web.keeps_returnE web_draws web_nonces_update length_nonce_Issue)

lemma web_consumeACMENonce [web_intros]: "web_keeps srv (consumeACMENonce srv nonce)"
proof -
  have "web_keeps srv (bindE (getE (\<lambda>h. nonce_Consume nonce now (web_nonces h))) (\<lambda>(ok, nonces).
     thenE (updE (\<lambda>h. Inr (h\<lparr>web_nonces := nonces\<rparr>))) (returnE ok)))" for now
    using length_nonce_Consume [of nonce now]
    by (auto simp: keeps_def web_step_def web_ok_def rates_ok_def bindE_def getE_def thenE_def updE_def returnE_def
        case_prod_beta intro: le_trans)
  then show ?thesis
    unfolding consumeACMENonce_def by (rule web.keeps_bindE [OF web_draws(1)])
qed

section \<open>The rate limit\<close>

lemma set_mput: "x \<in> set (mput k v m) \<Longrightarrow> x = (k, v) \<or> x \<in> set m"
  by (induction m) (auto simp: mput_def split: if_splits)

lemma current_bucket_count:
  assumes "\<forall>(k, b) \<in> set rates. rate_Count b \<le> L" and "0 \<le> L"
  shows "rate_Count (current_bucket rates key now window) \<le> L"
  using assms by (auto simp: current_bucket_def mget_def split: option.splits dest!: map_of_SomeD)

lemma take_slot_bound:
  assumes "\<forall>(k, b) \<in> set rates. rate_Count b \<le> max 0 limit" and "take_slot limit window key now rates = (ok, rates')"
  shows "\<forall>(k, b) \<in> set rates'. rate_Count b \<le> max 0 limit"
proof -
  have "rate_Count (current_bucket rates key now window) \<le> max 0 limit"
    by (rule current_bucket_count [OF assms(1)]) simp
  with assms show ?thesis
    by (fastforce simp: take_slot_def Let_def dest!: set_mput split: if_splits)
qed

lemma web_checkACMERateLimit [web_intros]: "web_keeps srv (checkACMERateLimit srv r)"
proof -
  have "web_step srv h (h\<lparr>web_rates := rates'\<rparr>)"
    if "take_slot (acme_RateLimit (srv_acme srv)) window key now (web_rates h) = (ok, rates')" for h window key now ok rates'
    using take_slot_bound [OF _ that] by (auto simp: web_step_def web_ok_def rates_ok_def)
  then have "web_keeps srv (bindE (getE web_rates) (\<lambda>rates.
      case take_slot (acme_RateLimit (srv_acme srv)) window key now rates of
        (ok, rates') \<Rightarrow> thenE (updE (\<lambda>h. Inr (h\<lparr>web_rates := rates'\<rparr>))) (K ok)))"
    if "\<And>ok. web_keeps srv (K ok)" for window key now and K :: "bool \<Rightarrow> (web, herr, unit) eff"
    using that unfolding keeps_def
    by (auto simp: bindE_def getE_def thenE_def updE_def split: prod.splits)
       (rule web.R_trans; blast)
  then show ?thesis
    unfolding checkACMERateLimit_def Let_def
    by (intro web.keeps_if web.keeps_returnE web.keeps_bindE [OF web_draws(1)])
       (simp add: web.keeps_if web.keeps_returnE web.keeps_thenE web.keeps_throwE web_metrics)
qed

section \<open>The operations that only read\<close>

lemma pure_read_queries: "pure_read (repo_ListCertificateInventory opts)" "pure_read (repo_ListAuditEventsQuery query)"
  unfolding repo_ListCertificateInventory_def repo_ListAuditEventsQuery_def by (rule pure_read_get)+

lemma quiet_thenE: "quiet_eff m \<Longrightarrow> quiet_eff n \<Longrightarrow> quiet_eff (thenE m n)"
  by (rule quiet.keeps_thenE)

lemmas reading_defs = GetIssuerChain_def
  ListTrustAnchors_def
  ListAPIKeys_def
  GetAuditIntegrity_def
  GetCRLPublication_def
  GetLatestCRLPublication_def
  GetLatestCRLPublicationForDistributionPoint_def
  ListOutboxMessagesQuery_def
  ListOCSPRespondersByIssuer_def
  ListIdentitiesQuery_def
  ListEnrollmentsQuery_def
  ListCertificatesQuery_def
  ListCertificateInventory_def
  ListAuditEventsQuery_def
  ExpirySLO_def
  GetACMEAccount_def
  GetACMEOrder_def
  GetACMEAuthorization_def
  GetACMEChallenge_def
  ListACMEOrdersByAccount_def
  ListACMEAuthorizations_def
  ListACMEChallenges_def

lemma quiet_operations:
  "quiet_eff (GetIssuerChain ident)"
  "quiet_eff (ListTrustAnchors)"
  "quiet_eff (ListAPIKeys)"
  "quiet_eff (GetAuditIntegrity)"
  "quiet_eff (GetCRLPublication ident)"
  "quiet_eff (GetLatestCRLPublication ident)"
  "quiet_eff (GetLatestCRLPublicationForDistributionPoint ident dp)"
  "quiet_eff (ListOutboxMessagesQuery oopts)"
  "quiet_eff (ListOCSPRespondersByIssuer ident)"
  "quiet_eff (ListIdentitiesQuery iopts)"
  "quiet_eff (ListEnrollmentsQuery eopts)"
  "quiet_eff (ListCertificatesQuery svc copts)"
  "quiet_eff (ListCertificateInventory fopts)"
  "quiet_eff (ListAuditEventsQuery aopts)"
  "quiet_eff (ExpirySLO svc)"
  "quiet_eff (GetACMEAccount ident)"
  "quiet_eff (GetACMEOrder ident)"
  "quiet_eff (GetACMEAuthorization ident)"
  "quiet_eff (GetACMEChallenge ident)"
  "quiet_eff (ListACMEOrdersByAccount ident)"
  "quiet_eff (ListACMEAuthorizations ident)"
  "quiet_eff (ListACMEChallenges ident)"
  unfolding reading_defs identityFilterLookup_def Let_def
  by (intro quiet_thenE quiet_rules pure_reads pure_read_queries)+

lemmas refines_reads = quiet_operations [THEN refines_quiet] quiet_reads [THEN refines_quiet]

lemma web_need [web_intros]: "web_keeps srv (need v)"
  unfolding need_def by (intro web.keeps_case_option web.keeps_throwE web.keeps_returnE)

lemma web_needs [web_intros]: "web_keeps srv (needs c)"
  unfolding needs_def by (rule web.keeps_failIf)

lemma web_decodeJSON [web_intros]: "web_keeps srv (decodeJSON r fs z)" "web_keeps srv (decodeOptionalJSON r fs z)"
  unfolding decodeJSON_def decodeOptionalJSON_def
  by (intro web.keeps_if web.keeps_throwE web.keeps_returnE web.keeps_fromSum)+

lemma web_answer [web_intros]: "web_keeps srv m \<Longrightarrow> web_keeps srv (answer status f m)"
  unfolding answer_def by (intro web.keeps_bindE web.keeps_returnE)

lemma web_serviceCall [web_intros]:
  "refines (srv_service srv) (f (srv_service srv) (hr_ctx q) (requestActor q)) \<Longrightarrow> web_keeps srv (serviceCall srv q f)"
  unfolding serviceCall_def by (rule web_worldE)

lemma refines_revocations: "refines svc (RevokeCertificate svc ctx actor i reason)"
    "refines svc (ForceRevokeCertificate svc ctx actor i reason)"
  unfolding RevokeCertificate_def ForceRevokeCertificate_def by (rule refines_revokeCertificate)+

lemma refines_if: "refines svc m \<Longrightarrow> refines svc n \<Longrightarrow> refines svc (if c then m else n)"
  by simp

lemmas web_flow = web.keeps_bindE web.keeps_thenE web.keeps_returnE web.keeps_throwE web.keeps_failIf web.keeps_fromSum
  web.keeps_getE web.keeps_attemptE web.keeps_if web.keeps_case_sum web.keeps_case_option web.keeps_case_prod

lemmas web_rules = web_intros web_worldE refines_reads refines_operations refines_revocations refines_if web_flow

section \<open>Handlers\<close>

lemma web_createIdentity_handler: "web_keeps srv (createIdentity_handler srv q b)"
  unfolding createIdentity_handler_def Let_def by (intro web_rules)

lemma web_listIdentities_handler: "web_keeps srv (listIdentities_handler srv q b)"
  unfolding listIdentities_handler_def Let_def by (intro web_rules)

lemma web_getIdentity_handler: "web_keeps srv (getIdentity_handler srv q b)"
  unfolding getIdentity_handler_def Let_def by (intro web_rules)

lemma web_createIssuer_handler: "web_keeps srv (createIssuer_handler srv q b)"
  unfolding createIssuer_handler_def Let_def by (intro web_rules)

lemma web_getIssuerChain_handler: "web_keeps srv (getIssuerChain_handler srv q b)"
  unfolding getIssuerChain_handler_def Let_def by (intro web_rules)

lemma web_createOCSPResponder_handler: "web_keeps srv (createOCSPResponder_handler srv q b)"
  unfolding createOCSPResponder_handler_def Let_def by (intro web_rules)

lemma web_listOCSPResponders_handler: "web_keeps srv (listOCSPResponders_handler srv q b)"
  unfolding listOCSPResponders_handler_def Let_def by (intro web_rules)

lemma web_disableOCSPResponder_handler: "web_keeps srv (disableOCSPResponder_handler srv q b)"
  unfolding disableOCSPResponder_handler_def Let_def by (intro web_rules)

lemma web_rotateOCSPResponder_handler: "web_keeps srv (rotateOCSPResponder_handler srv q b)"
  unfolding rotateOCSPResponder_handler_def Let_def by (intro web_rules)

lemma web_createNotificationEndpoint_handler: "web_keeps srv (createNotificationEndpoint_handler srv q b)"
  unfolding createNotificationEndpoint_handler_def Let_def by (intro web_rules)

lemma web_listNotificationEndpoints_handler: "web_keeps srv (listNotificationEndpoints_handler srv q b)"
  unfolding listNotificationEndpoints_handler_def Let_def by (intro web_rules)

lemma web_disableNotificationEndpoint_handler: "web_keeps srv (disableNotificationEndpoint_handler srv q b)"
  unfolding disableNotificationEndpoint_handler_def Let_def by (intro web_rules)

lemma web_listOutboxMessages_handler: "web_keeps srv (listOutboxMessages_handler srv q b)"
  unfolding listOutboxMessages_handler_def Let_def by (intro web_rules)

lemma web_retryOutboxMessage_handler: "web_keeps srv (retryOutboxMessage_handler srv q b)"
  unfolding retryOutboxMessage_handler_def Let_def by (intro web_rules)

lemma web_replayDeadLetterOutboxMessages_handler: "web_keeps srv (replayDeadLetterOutboxMessages_handler srv q b)"
  unfolding replayDeadLetterOutboxMessages_handler_def Let_def by (intro web_rules)

lemma web_createAPIKey_handler: "web_keeps srv (createAPIKey_handler srv q b)"
  unfolding createAPIKey_handler_def Let_def by (intro web_rules)

lemma web_listAPIKeys_handler: "web_keeps srv (listAPIKeys_handler srv q b)"
  unfolding listAPIKeys_handler_def Let_def by (intro web_rules)

lemma web_disableAPIKey_handler: "web_keeps srv (disableAPIKey_handler srv q b)"
  unfolding disableAPIKey_handler_def Let_def by (intro web_rules)

lemma web_rotateAPIKey_handler: "web_keeps srv (rotateAPIKey_handler srv q b)"
  unfolding rotateAPIKey_handler_def Let_def by (intro web_rules)

lemma web_createCertificateProfile_handler: "web_keeps srv (createCertificateProfile_handler srv q b)"
  unfolding createCertificateProfile_handler_def Let_def by (intro web_rules)

lemma web_listCertificateProfiles_handler: "web_keeps srv (listCertificateProfiles_handler srv q b)"
  unfolding listCertificateProfiles_handler_def Let_def by (intro web_rules)

lemma web_getCertificateProfile_handler: "web_keeps srv (getCertificateProfile_handler srv q b)"
  unfolding getCertificateProfile_handler_def Let_def by (intro web_rules)

lemma web_createEnrollment_handler: "web_keeps srv (createEnrollment_handler srv q b)"
  unfolding createEnrollment_handler_def Let_def by (intro web_rules)

lemma web_listEnrollments_handler: "web_keeps srv (listEnrollments_handler srv q b)"
  unfolding listEnrollments_handler_def Let_def by (intro web_rules)

lemma web_getEnrollment_handler: "web_keeps srv (getEnrollment_handler srv q b)"
  unfolding getEnrollment_handler_def Let_def by (intro web_rules)

lemma web_approveEnrollment_handler: "web_keeps srv (approveEnrollment_handler srv q b)"
  unfolding approveEnrollment_handler_def Let_def by (intro web_rules)

lemma web_rejectEnrollment_handler: "web_keeps srv (rejectEnrollment_handler srv q b)"
  unfolding rejectEnrollment_handler_def Let_def by (intro web_rules)

lemma web_issueCertificate_handler: "web_keeps srv (issueCertificate_handler srv q b)"
  unfolding issueCertificate_handler_def Let_def by (intro web_rules)

lemma web_listCertificates_handler: "web_keeps srv (listCertificates_handler srv q b)"
  unfolding listCertificates_handler_def Let_def by (intro web_rules)

lemma web_listCertificateInventory_handler: "web_keeps srv (listCertificateInventory_handler srv q b)"
  unfolding listCertificateInventory_handler_def Let_def by (intro web_rules)

lemma web_getExpirySLO_handler: "web_keeps srv (getExpirySLO_handler srv q b)"
  unfolding getExpirySLO_handler_def Let_def by (intro web_rules)

lemma web_scanCertificateExpirations_handler: "web_keeps srv (scanCertificateExpirations_handler srv q b)"
  unfolding scanCertificateExpirations_handler_def Let_def by (intro web_rules)

lemma web_getCertificate_handler: "web_keeps srv (getCertificate_handler srv q b)"
  unfolding getCertificate_handler_def Let_def by (intro web_rules)

lemma web_revokeCertificate_handler: "web_keeps srv (revokeCertificate_handler srv q b)"
  unfolding revokeCertificate_handler_def Let_def by (intro web_rules)

lemma web_suspendCertificate_handler: "web_keeps srv (suspendCertificate_handler srv q b)"
  unfolding suspendCertificate_handler_def Let_def by (intro web_rules)

lemma web_resumeCertificate_handler: "web_keeps srv (resumeCertificate_handler srv q b)"
  unfolding resumeCertificate_handler_def Let_def by (intro web_rules)

lemma web_renewCertificate_handler: "web_keeps srv (renewCertificate_handler srv q b)"
  unfolding renewCertificate_handler_def Let_def by (intro web_rules)

lemma web_reissueCertificate_handler: "web_keeps srv (reissueCertificate_handler srv q b)"
  unfolding reissueCertificate_handler_def Let_def by (intro web_rules)

lemma web_publishCRL_handler: "web_keeps srv (publishCRL_handler srv q b)"
  unfolding publishCRL_handler_def Let_def by (intro web_rules)

lemma web_getCRLPublication_handler: "web_keeps srv (getCRLPublication_handler srv q b)"
  unfolding getCRLPublication_handler_def Let_def by (intro web_rules)

lemma web_getLatestIssuerCRL_handler: "web_keeps srv (getLatestIssuerCRL_handler srv q b)"
  unfolding getLatestIssuerCRL_handler_def Let_def by (intro web_rules)

lemma web_respondOCSP_handler: "web_keeps srv (respondOCSP_handler srv q b)"
  unfolding respondOCSP_handler_def Let_def by (intro web_rules)

lemma web_listAuditEvents_handler: "web_keeps srv (listAuditEvents_handler srv q b)"
  unfolding listAuditEvents_handler_def Let_def by (intro web_rules)

lemma web_getAuditIntegrity_handler: "web_keeps srv (getAuditIntegrity_handler srv q b)"
  unfolding getAuditIntegrity_handler_def Let_def by (intro web_rules)

lemma web_pruneAuditEvents_handler: "web_keeps srv (pruneAuditEvents_handler srv q b)"
  unfolding pruneAuditEvents_handler_def Let_def by (intro web_rules)

lemma web_repairIssuanceAuditEvents_handler: "web_keeps srv (repairIssuanceAuditEvents_handler srv q b)"
  unfolding repairIssuanceAuditEvents_handler_def Let_def by (intro web_rules)

lemma web_listTrustAnchors_handler: "web_keeps srv (listTrustAnchors_handler srv q b)"
  unfolding listTrustAnchors_handler_def Let_def by (intro web_rules)

lemma web_debugVars_handler: "web_keeps srv (debugVars_handler srv q b)"
  unfolding debugVars_handler_def Let_def by (intro web_rules)

lemmas web_handlers = web_createIdentity_handler
  web_listIdentities_handler
  web_getIdentity_handler
  web_createIssuer_handler
  web_getIssuerChain_handler
  web_createOCSPResponder_handler
  web_listOCSPResponders_handler
  web_disableOCSPResponder_handler
  web_rotateOCSPResponder_handler
  web_createNotificationEndpoint_handler
  web_listNotificationEndpoints_handler
  web_disableNotificationEndpoint_handler
  web_listOutboxMessages_handler
  web_retryOutboxMessage_handler
  web_replayDeadLetterOutboxMessages_handler
  web_createAPIKey_handler
  web_listAPIKeys_handler
  web_disableAPIKey_handler
  web_rotateAPIKey_handler
  web_createCertificateProfile_handler
  web_listCertificateProfiles_handler
  web_getCertificateProfile_handler
  web_createEnrollment_handler
  web_listEnrollments_handler
  web_getEnrollment_handler
  web_approveEnrollment_handler
  web_rejectEnrollment_handler
  web_issueCertificate_handler
  web_listCertificates_handler
  web_listCertificateInventory_handler
  web_getExpirySLO_handler
  web_scanCertificateExpirations_handler
  web_getCertificate_handler
  web_revokeCertificate_handler
  web_suspendCertificate_handler
  web_resumeCertificate_handler
  web_renewCertificate_handler
  web_reissueCertificate_handler
  web_publishCRL_handler
  web_getCRLPublication_handler
  web_getLatestIssuerCRL_handler
  web_respondOCSP_handler
  web_listAuditEvents_handler
  web_getAuditIntegrity_handler
  web_pruneAuditEvents_handler
  web_repairIssuanceAuditEvents_handler
  web_listTrustAnchors_handler
  web_debugVars_handler

section \<open>ACME handlers\<close>

lemma web_acmeJWS_key [web_intros]: "web_keeps srv (acmeJWS_key srv r protected payload)"
  unfolding acmeJWS_key_def by (intro web_intros web_rules)

lemma web_decodeACMEJWS [web_intros]: "web_keeps srv (decodeACMEJWS srv q)"
  unfolding decodeACMEJWS_def Let_def by (intro web_intros web_rules)

lemma web_decodeACMEKeyChangeJWS [web_intros]: "web_keeps srv (decodeACMEKeyChangeJWS srv r payload)"
  unfolding decodeACMEKeyChangeJWS_def by (intro web_intros web_rules)

lemma web_requireACMEOrderAccount [web_intros]: "web_keeps srv (requireACMEOrderAccount i a)"
  unfolding requireACMEOrderAccount_def by (intro web_intros web_rules)

lemma web_requireACMEAccounts [web_intros]:
  "web_keeps srv (requireACMEAuthorizationAccount i a)" "web_keeps srv (requireACMEChallengeAccount i a)"
  "web_keeps srv (requireACMECertificateAccount i a)"
  unfolding requireACMEAuthorizationAccount_def requireACMEChallengeAccount_def requireACMECertificateAccount_def
  by (intro web_intros web_rules web_requireACMEOrderAccount)+

lemma web_toACMEProtocol [web_intros]:
  "web_keeps srv (toACMEProtocolOrder r order)" "web_keeps srv (toACMEProtocolAuthorization r authorization)"
  unfolding toACMEProtocolOrder_def toACMEProtocolAuthorization_def Let_def by (intro web_intros web_rules)+

lemma web_replay_nonce [web_intros]: "web_keeps srv (replay_nonce srv)"
  unfolding replay_nonce_def by (intro web_intros web_rules)

lemma web_writeACMEJSON [web_intros]: "web_keeps srv (writeACMEJSON srv q header status v)"
  unfolding writeACMEJSON_def by (intro web_flow web_replay_nonce)

lemma web_acmeCertificateChainPEM [web_intros]: "web_keeps srv (acmeCertificateChainPEM i)"
  unfolding acmeCertificateChainPEM_def Let_def by (intro web_intros web_rules)

lemma web_new_order_defaults [web_intros]: "web_keeps srv (new_order_defaults srv jws req)"
  unfolding new_order_defaults_def Let_def by (intro web_intros web_rules)

lemmas web_acme_rules = web_intros web_worldE refines_reads refines_operations refines_revocations web_flow

lemma web_createACMEAccount_handler: "web_keeps srv (createACMEAccount_handler srv q b)"
  unfolding createACMEAccount_handler_def Let_def by (intro web_intros web_rules)

lemma web_listACMEAccounts_handler: "web_keeps srv (listACMEAccounts_handler srv q b)"
  unfolding listACMEAccounts_handler_def Let_def by (intro web_intros web_rules)

lemma web_createACMEOrder_handler: "web_keeps srv (createACMEOrder_handler srv q b)"
  unfolding createACMEOrder_handler_def Let_def by (intro web_intros web_rules)

lemma web_getACMEOrder_handler: "web_keeps srv (getACMEOrder_handler srv q b)"
  unfolding getACMEOrder_handler_def Let_def by (intro web_intros web_rules)

lemma web_listACMEAuthorizations_handler: "web_keeps srv (listACMEAuthorizations_handler srv q b)"
  unfolding listACMEAuthorizations_handler_def Let_def by (intro web_intros web_rules)

lemma web_listACMEChallenges_handler: "web_keeps srv (listACMEChallenges_handler srv q b)"
  unfolding listACMEChallenges_handler_def Let_def by (intro web_intros web_rules)

lemma web_completeACMEChallenge_handler: "web_keeps srv (completeACMEChallenge_handler srv q b)"
  unfolding completeACMEChallenge_handler_def Let_def by (intro web_intros web_rules)

lemma web_finalizeACMEOrder_handler: "web_keeps srv (finalizeACMEOrder_handler srv q b)"
  unfolding finalizeACMEOrder_handler_def Let_def by (intro web_intros web_rules)

lemma web_acmeDirectory: "web_keeps srv (acmeDirectory srv q b)"
  unfolding acmeDirectory_def Let_def by (intro web_acme_rules)

lemma web_acmeNewNonce: "web_keeps srv (acmeNewNonce srv q b)"
  unfolding acmeNewNonce_def Let_def by (intro web_acme_rules)

lemma web_acmeNewAccount: "web_keeps srv (acmeNewAccount srv q b)"
  unfolding acmeNewAccount_def Let_def by (intro web_acme_rules)

lemma web_acmeUpdateAccount: "web_keeps srv (acmeUpdateAccount srv q b)"
  unfolding acmeUpdateAccount_def Let_def by (intro web_acme_rules)

lemma web_acmeKeyChange: "web_keeps srv (acmeKeyChange srv q b)"
  unfolding acmeKeyChange_def Let_def by (intro web_acme_rules)

lemma web_acmeNewOrder: "web_keeps srv (acmeNewOrder srv q b)"
  unfolding acmeNewOrder_def Let_def by (intro web_acme_rules)

lemma web_acmeGetOrder: "web_keeps srv (acmeGetOrder srv q b)"
  unfolding acmeGetOrder_def Let_def by (intro web_acme_rules)

lemma web_acmePostAsGetOrder: "web_keeps srv (acmePostAsGetOrder srv q b)"
  unfolding acmePostAsGetOrder_def Let_def by (intro web_acme_rules)

lemma web_acmeGetAuthorization: "web_keeps srv (acmeGetAuthorization srv q b)"
  unfolding acmeGetAuthorization_def Let_def by (intro web_acme_rules)

lemma web_acmePostAsGetAuthorization: "web_keeps srv (acmePostAsGetAuthorization srv q b)"
  unfolding acmePostAsGetAuthorization_def Let_def by (intro web_acme_rules)

lemma web_acmeCompleteChallenge: "web_keeps srv (acmeCompleteChallenge srv q b)"
  unfolding acmeCompleteChallenge_def Let_def by (intro web_acme_rules)

lemma web_acmeFinalizeOrder: "web_keeps srv (acmeFinalizeOrder srv q b)"
  unfolding acmeFinalizeOrder_def Let_def by (intro web_acme_rules)

lemma web_acmeRevokeCertificate: "web_keeps srv (acmeRevokeCertificate srv q b)"
  unfolding acmeRevokeCertificate_def Let_def by (intro web_acme_rules)

lemma web_acmeGetCertificate: "web_keeps srv (acmeGetCertificate srv q b)"
  unfolding acmeGetCertificate_def Let_def by (intro web_acme_rules)

lemma web_acmePostAsGetCertificate: "web_keeps srv (acmePostAsGetCertificate srv q b)"
  unfolding acmePostAsGetCertificate_def Let_def by (intro web_acme_rules)

lemmas web_acme_handlers = web_createACMEAccount_handler
  web_listACMEAccounts_handler
  web_createACMEOrder_handler
  web_getACMEOrder_handler
  web_listACMEAuthorizations_handler
  web_listACMEChallenges_handler
  web_completeACMEChallenge_handler
  web_finalizeACMEOrder_handler
  web_acmeDirectory
  web_acmeNewNonce
  web_acmeNewAccount
  web_acmeUpdateAccount
  web_acmeKeyChange
  web_acmeNewOrder
  web_acmeGetOrder
  web_acmePostAsGetOrder
  web_acmeGetAuthorization
  web_acmePostAsGetAuthorization
  web_acmeCompleteChallenge
  web_acmeFinalizeOrder
  web_acmeRevokeCertificate
  web_acmeGetCertificate
  web_acmePostAsGetCertificate

section \<open>The server\<close>

text \<open>Every route of the table keeps to the specification.\<close>

lemma web_routes: "(m, p, h) \<in> set registerRoutes \<Longrightarrow> web_keeps srv (h srv q b)"
  unfolding registerRoutes_def by (auto intro: web_handlers web_acme_handlers)

lemma find_route_simps:
  "find_route [] method segs = None"
  "find_route (r # rs) method segs = (case route_match method segs r of None \<Rightarrow> find_route rs method segs | Some x \<Rightarrow> Some x)"
  by (simp_all add: find_route_def map_filter_simps split: option.splits list.splits)

lemma find_route_in: "find_route rs method segs = Some (pat, h, b) \<Longrightarrow> (method, pat, h) \<in> set rs"
  by (induction rs) (auto simp: find_route_def map_filter_simps route_match_def split: option.splits if_splits list.splits)

lemma mux_Handler_in:
  assumes "mux_Handler rs r = Dispatch pat h b"
  obtains m where "(m, pat, h) \<in> set rs"
  using assms find_route_in by (fastforce simp: mux_Handler_def match_route_def Let_def split: if_splits option.splits)

lemma web_writeError [web_intros]: "web_keeps srv (writeError srv q e)"
  unfolding writeError_def writeACMEProblem_def Let_def by (intro web_acme_rules)

lemma web_answering: "web_keeps srv m \<Longrightarrow> web_keeps srv (answering srv q m)"
  unfolding answering_def by (intro web_flow web_writeError)

lemma web_mux_ServeHTTP [web_intros]: "web_keeps srv (mux_ServeHTTP srv q)"
proof (cases "mux_Handler registerRoutes (hr_request q)")
  case (Dispatch pat h b)
  then obtain m where "(m, pat, h) \<in> set registerRoutes" by (rule mux_Handler_in)
  then show ?thesis
    using web_answering [OF web_routes] by (simp add: mux_ServeHTTP_def Dispatch)
qed (simp_all add: mux_ServeHTTP_def web.keeps_returnE)

lemma web_authenticateRequest [web_intros]: "web_keeps srv (authenticateRequest srv q)"
  unfolding authenticateRequest_def Let_def by (intro web_acme_rules)

lemma web_authorizeRequest [web_intros]: "web_keeps srv (authorizeRequest srv md q)"
  unfolding authorizeRequest_def Let_def by (intro web_acme_rules)

lemma web_serveAuthenticated [web_intros]: "web_keeps srv (serveAuthenticated srv md q)"
  unfolding serveAuthenticated_def Let_def
  by (intro web_flow web_authorizeRequest web_writeError web_checkACMERateLimit web_mux_ServeHTTP)

lemma web_serveRequest [web_intros]: "web_keeps srv (serveRequest srv r md)"
  unfolding serveRequest_def Let_def
  by (intro web_flow web_authenticateRequest web_metrics web_writeError web_serveAuthenticated)

lemma web_requestIDForRequest [web_intros]: "web_keeps srv (requestIDForRequest srv r)"
  unfolding requestIDForRequest_def Let_def by (intro web_flow web_draws)

lemma web_ServeHTTP: "web_keeps srv (ServeHTTP srv r)"
  unfolding ServeHTTP_def
  by (intro web_flow web_requestIDForRequest web_draws web_serveRequest web_metrics)

section \<open>Runs\<close>

fun serve_requests :: "server \<Rightarrow> http_request list \<Rightarrow> web \<Rightarrow> web" where
  "serve_requests srv [] h = h"
| "serve_requests srv (r # rs) h = serve_requests srv rs (snd (ServeHTTP srv r h))"

lemma serve_requests_step: "web_step srv h (serve_requests srv rs h)"
proof (induction rs arbitrary: h)
  case Nil
  then show ?case by (simp add: web.R_refl)
next
  case (Cons r rs)
  have "web_step srv h (snd (ServeHTTP srv r h))"
    using web_ServeHTTP unfolding keeps_def by blast
  with Cons.IH show ?case by (auto intro: web.R_trans)
qed

lemma serve_requests_ok: "web_ok srv h \<Longrightarrow> web_ok srv (serve_requests srv rs h)"
  and serve_requests_steps:
    "web_ok srv h \<Longrightarrow> store_steps (w_store (web_world h)) (w_store (web_world (serve_requests srv rs h)))"
  using serve_requests_step [of srv h rs] unfolding web_step_def by blast+

end
