(* ===== verification/Samples.thy ===== *)
theory Samples
  imports ServiceRuns
begin

text \<open>
  A small node and a store with one record of most kinds, at which the properties are instantiated:
  a revoked and a valid certificate with their enrollments, a finalized ACME order, an active OCSP
  responder, a published CRL, a disabled API key and a pending outbox message.
\<close>

section \<open>Decimal identifiers\<close>

lemma dec_value_append: "dec_value (s @ [c]) = 10 * dec_value s + (of_char c - 48)"
  by (simp add: dec_value_def)

lemma dec_value_nat_dec: "dec_value (nat_dec n) = n"
proof (induction n rule: nat_dec.induct)
  case (1 n)
  show ?case
  proof (cases "n < 10")
    case True
    then show ?thesis by (simp add: nat_dec.simps [of n] dec_value_def)
  next
    case False
    then show ?thesis using 1 by (subst nat_dec.simps) (simp add: dec_value_append)
  qed
qed

lemma inj_nat_dec: "inj nat_dec"
  by (rule inj_on_inverseI [of _ dec_value]) (rule dec_value_nat_dec)

section \<open>A node\<close>

definition sample_service :: service where
  "sample_service =
     \<lparr>svc_Issue = (\<lambda>_ _. Inl (ErrText ''down'')), svc_InspectCSR = (\<lambda>_ _. Inl (ErrText ''down'')),
      svc_GenerateCRL = (\<lambda>_ _. Inl (ErrText ''down'')), svc_InspectOCSPIssuer = (\<lambda>_ _ _. Inl (ErrText ''down'')),
      svc_ValidateOCSPResponder = (\<lambda>_ _ _. Inl (ErrText ''down'')), svc_InspectOCSP = (\<lambda>_ _. Inl (ErrText ''down'')),
      svc_GenerateOCSPResponse = (\<lambda>_ _. Inl (ErrText ''down'')), svc_keyProvider = (\<lambda>_ _. Inl (ErrText ''down'')),
      svc_clock = int, svc_timeNow = int, svc_idgen = nat_dec,
      svc_acmeHTTP01Verifier = (\<lambda>_ _ _ _. Inr ()), svc_randRead = (\<lambda>_. Inr [1, 2, 3]),
      svc_apiKeyPepper = [], svc_productionPolicy = False, svc_publicTLSMaxValidityOverride = 0,
      svc_publicTLSCAAPolicy = None, svc_publicTLSLintHook = None\<rparr>"

definition sample_node :: node where
  "sample_node = \<lparr>nd_service = sample_service, nd_webhook = None, nd_clock = int, nd_idgen = nat_dec\<rparr>"

lemma sample_idgen [simp]: "svc_idgen (nd_service sample_node) = nat_dec"
  by (simp add: sample_node_def sample_service_def)

section \<open>A store\<close>

definition sample_identity :: Identity where
  "sample_identity =
     \<lparr>idn_ID = ''1'', idn_Type = IdentityService, idn_Name = ''web'', idn_ExternalID = [], idn_Owner = [],
      idn_Team = [], idn_Service = [], idn_Environment = [], idn_DeploymentTarget = [], idn_LastSeenAt = 0,
      idn_MetadataJSON = [], idn_AllowedDNSNames = [], idn_AllowedIPAddresses = [], idn_Status = IdentityActive,
      idn_CreatedAt = 0, idn_UpdatedAt = 0\<rparr>"

definition sample_issuer :: Issuer where
  "sample_issuer =
     \<lparr>iss_ID = ''2'', iss_Name = ''root'', iss_Kind = IssuerRootCA, iss_Status = IssuerActive,
      iss_ParentIssuerID = [], iss_CertificatePEM = [], iss_KeyRef = [], iss_AIAURL = [],
      iss_CRLDistributionPoints = [], iss_TrustAnchor = True, iss_CreatedAt = 0, iss_UpdatedAt = 0\<rparr>"

definition sample_revoked_enrollment :: Enrollment where
  "sample_revoked_enrollment =
     \<lparr>enr_ID = ''3'', enr_IdentityID = ''1'', enr_IssuerID = ''2'', enr_CertificateProfileID = [],
      enr_SourceCertificateID = [], enr_CSRPEM = [], enr_Status = EnrollmentIssued,
      enr_RequestedSubject = ''CN=a.example'', enr_RequestedDNSNames = [''a.example''],
      enr_RequestedIPAddresses = [], enr_CSRDNSNames = [''a.example''], enr_CSRIPAddresses = [],
      enr_RequestedNotAfter = 1000, enr_ApprovedBy = ''ra'', enr_ApprovedAt = 2, enr_CreatedAt = 0,
      enr_UpdatedAt = 0\<rparr>"

definition sample_revoked_certificate :: Certificate where
  "sample_revoked_certificate =
     \<lparr>cert_ID = ''4'', cert_IdentityID = ''1'', cert_IssuerID = ''2'', cert_EnrollmentID = ''3'',
      cert_CertificateProfileID = [], cert_SerialNumber = ''01'', cert_Subject = ''CN=a.example'',
      cert_DNSNames = [''a.example''], cert_IPAddresses = [], cert_NotBefore = 3, cert_NotAfter = 1000,
      cert_Status = CertificateRevoked, cert_CertificatePEM = [], cert_RenewalNotifiedAt = 0, cert_CreatedAt = 0,
      cert_UpdatedAt = 0\<rparr>"

definition sample_valid_enrollment :: Enrollment where
  "sample_valid_enrollment =
     \<lparr>enr_ID = ''5'', enr_IdentityID = ''1'', enr_IssuerID = ''2'', enr_CertificateProfileID = [],
      enr_SourceCertificateID = [], enr_CSRPEM = [], enr_Status = EnrollmentIssued,
      enr_RequestedSubject = ''CN=a.example'', enr_RequestedDNSNames = [''a.example''],
      enr_RequestedIPAddresses = [], enr_CSRDNSNames = [''a.example''], enr_CSRIPAddresses = [],
      enr_RequestedNotAfter = 1000, enr_ApprovedBy = ''ra'', enr_ApprovedAt = 2, enr_CreatedAt = 0,
      enr_UpdatedAt = 0\<rparr>"

definition sample_valid_certificate :: Certificate where
  "sample_valid_certificate =
     \<lparr>cert_ID = ''6'', cert_IdentityID = ''1'', cert_IssuerID = ''2'', cert_EnrollmentID = ''5'',
      cert_CertificateProfileID = [], cert_SerialNumber = ''02'', cert_Subject = ''CN=a.example'',
      cert_DNSNames = [''a.example''], cert_IPAddresses = [], cert_NotBefore = 3, cert_NotAfter = 1000,
      cert_Status = CertificateValid, cert_CertificatePEM = [], cert_RenewalNotifiedAt = 0, cert_CreatedAt = 0,
      cert_UpdatedAt = 0\<rparr>"

definition sample_attempt :: IssuanceAttempt where
  "sample_attempt =
     \<lparr>att_EnrollmentID = ''5'', att_Status = IssuanceAttemptFinalized, att_LeaseExpiresAt = 0,
      att_CertificateID = ''6'', att_CertificatePEM = [], att_SerialNumber = ''02'', att_Subject = [],
      att_NotBefore = 0, att_NotAfter = 0, att_SigningStartedAt = 0, att_SignedAt = 0, att_FinalizedAt = 0,
      att_LastError = [], att_SigningEvidenceJSON = [], att_CreatedAt = 0, att_UpdatedAt = 0\<rparr>"

definition sample_revocation :: Revocation where
  "sample_revocation =
     \<lparr>rev_ID = ''7'', rev_CertificateID = ''4'', rev_Reason = RevocationKeyCompromise, rev_RevokedBy = ''ra'',
      rev_RevokedAt = 5, rev_CreatedAt = 5\<rparr>"

definition sample_crl :: CRLPublication where
  "sample_crl =
     \<lparr>crl_ID = ''8'', crl_IssuerID = ''2'', crl_DistributionPoint = ''http://crl'', crl_CRLNumber = 1,
      crl_ThisUpdate = 0, crl_NextUpdate = 0, crl_Status = CRLPublicationPublished, crl_CRLPEM = [],
      crl_CreatedAt = 0, crl_UpdatedAt = 0\<rparr>"

definition sample_responder :: OCSPResponder where
  "sample_responder =
     \<lparr>rsp_ID = ''9'', rsp_IssuerID = ''2'', rsp_Name = ''ocsp'', rsp_Status = OCSPResponderActive,
      rsp_CertificatePEM = [], rsp_KeyRef = [], rsp_CreatedAt = 0, rsp_UpdatedAt = 0\<rparr>"

definition sample_key :: APIKey where
  "sample_key =
     \<lparr>key_ID = ''10'', key_Name = ''old'', key_TokenHash = ''hash'', key_Status = APIKeyDisabled,
      key_Actor = ''ops'', key_Scopes = [APIKeyScopeOperator], key_ExpiresAt = 0, key_LastUsedAt = 0,
      key_CreatedAt = 0, key_UpdatedAt = 0\<rparr>"

definition sample_active_key :: APIKey where
  "sample_active_key =
     \<lparr>key_ID = ''16'', key_Name = ''ci'', key_TokenHash = HashAPIKeyToken ''tok'', key_Status = APIKeyActive,
      key_Actor = ''ci'', key_Scopes = [APIKeyScopeRead], key_ExpiresAt = 0, key_LastUsedAt = 0,
      key_CreatedAt = 0, key_UpdatedAt = 0\<rparr>"

definition sample_account :: ACMEAccount where
  "sample_account =
     \<lparr>acct_ID = ''11'', acct_Contacts = [], acct_Status = ACMEAccountValid, acct_TermsOfServiceAgreed = True,
      acct_KeyThumbprint = ''tp'', acct_KeyJWKJSON = [], acct_CreatedAt = 0, acct_UpdatedAt = 0\<rparr>"

definition sample_order :: ACMEOrder where
  "sample_order =
     \<lparr>ord_ID = ''12'', ord_AccountID = ''11'', ord_IdentityID = ''1'', ord_IssuerID = ''2'',
      ord_CertificateProfileID = [], ord_Status = ACMEOrderValid, ord_CSRPEM = [], ord_RequestedSubject = [],
      ord_RequestedDNSNames = [''a.example''], ord_RequestedIPAddresses = [], ord_RequestedNotAfter = 0,
      ord_EnrollmentID = ''5'', ord_CertificateID = ''6'', ord_ExpiresAt = 0, ord_CreatedAt = 0,
      ord_UpdatedAt = 0\<rparr>"

definition sample_authz :: ACMEAuthorization where
  "sample_authz =
     \<lparr>authz_ID = ''13'', authz_OrderID = ''12'', authz_IdentifierType = ''dns'',
      authz_IdentifierValue = ''a.example'', authz_Status = ACMEAuthorizationValid, authz_ExpiresAt = 0,
      authz_ValidationReuseExpiresAt = 0, authz_CreatedAt = 0, authz_UpdatedAt = 0\<rparr>"

definition sample_challenge :: ACMEChallenge where
  "sample_challenge =
     \<lparr>chal_ID = ''14'', chal_AuthorizationID = ''13'', chal_Type = ACMEChallengeHTTP01, chal_Token = ''tok'',
      chal_Status = ACMEChallengeValid, chal_ValidatedAt = 0, chal_CreatedAt = 0, chal_UpdatedAt = 0\<rparr>"

definition sample_message :: OutboxMessage where
  "sample_message =
     \<lparr>msg_ID = ''15'', msg_Type = ''certificate.revoked'', msg_PayloadJSON = ''{}'', msg_Status = OutboxPending,
      msg_AvailableAt = 0, msg_ProcessingDeadlineAt = 0, msg_AttemptCount = 0, msg_MaxAttempts = 3,
      msg_LastError = [], msg_CreatedAt = 0, msg_UpdatedAt = 0\<rparr>"

definition sample_store :: memory_store where
  "sample_store =
     \<lparr>t_identities = [(''1'', sample_identity)],
      t_issuers = [(''2'', sample_issuer)],
      t_ocspResponders = [(''9'', sample_responder)],
      t_notifications = [],
      t_profiles = [],
      t_enrollments = [(''3'', sample_revoked_enrollment), (''5'', sample_valid_enrollment)],
      t_certificates = [(''4'', sample_revoked_certificate), (''6'', sample_valid_certificate)],
      t_issuanceAttempts = [(''5'', sample_attempt)],
      t_revocations = [(''7'', sample_revocation)],
      t_crls = [(''8'', sample_crl)],
      t_crlClaims = [],
      t_audit = ([], emptyAuditChainState),
      t_outbox = [(''15'', sample_message)],
      t_jobAttempts = [],
      t_webhookDeliveries = [],
      t_apiKeys = [(''16'', sample_active_key), (''10'', sample_key)],
      t_acmeAccounts = [(''11'', sample_account)],
      t_acmeOrders = [(''12'', sample_order)],
      t_acmeAuthzs = [(''13'', sample_authz)],
      t_acmeChallenges = [(''14'', sample_challenge)]\<rparr>"

lemmas sample_record_defs = sample_identity_def sample_issuer_def sample_responder_def sample_revoked_enrollment_def
  sample_valid_enrollment_def sample_revoked_certificate_def sample_valid_certificate_def sample_attempt_def
  sample_revocation_def sample_crl_def sample_message_def sample_key_def sample_active_key_def sample_account_def sample_order_def
  sample_authz_def sample_challenge_def

lemmas sample_defs = sample_store_def sample_record_defs

definition sample_world :: world where
  "sample_world = \<lparr>w_store = sample_store, w_tick = 20\<rparr>"

lemma sample_tables:
  "wf_store sample_store" "valid_log (t_audit sample_store)"
  by (simp_all add: wf_store_def keyed_def wf_map_def mget_def sample_defs valid_log_empty)

lemma sample_mget [simp]:
  "mget (t_identities sample_store) k = Some x1 \<longleftrightarrow> k = ''1'' \<and> x1 = sample_identity"
  "mget (t_issuers sample_store) k = Some x2 \<longleftrightarrow> k = ''2'' \<and> x2 = sample_issuer"
  "mget (t_ocspResponders sample_store) k = Some x3 \<longleftrightarrow> k = ''9'' \<and> x3 = sample_responder"
  "mget (t_notifications sample_store) k = Some x4 \<longleftrightarrow> False"
  "mget (t_profiles sample_store) k = Some x5 \<longleftrightarrow> False"
  "mget (t_enrollments sample_store) k = Some x6 \<longleftrightarrow> k = ''3'' \<and> x6 = sample_revoked_enrollment \<or> k = ''5'' \<and> x6 = sample_valid_enrollment"
  "mget (t_certificates sample_store) k = Some x7 \<longleftrightarrow> k = ''4'' \<and> x7 = sample_revoked_certificate \<or> k = ''6'' \<and> x7 = sample_valid_certificate"
  "mget (t_issuanceAttempts sample_store) k = Some x8 \<longleftrightarrow> k = ''5'' \<and> x8 = sample_attempt"
  "mget (t_revocations sample_store) k = Some x9 \<longleftrightarrow> k = ''7'' \<and> x9 = sample_revocation"
  "mget (t_crls sample_store) k = Some x10 \<longleftrightarrow> k = ''8'' \<and> x10 = sample_crl"
  "mget (t_crlClaims sample_store) k = Some x11 \<longleftrightarrow> False"
  "mget (t_outbox sample_store) k = Some x12 \<longleftrightarrow> k = ''15'' \<and> x12 = sample_message"
  "mget (t_jobAttempts sample_store) k = Some x13 \<longleftrightarrow> False"
  "mget (t_webhookDeliveries sample_store) k = Some x14 \<longleftrightarrow> False"
  "mget (t_apiKeys sample_store) k = Some x15 \<longleftrightarrow> k = ''10'' \<and> x15 = sample_key \<or> k = ''16'' \<and> x15 = sample_active_key"
  "mget (t_acmeAccounts sample_store) k = Some x16 \<longleftrightarrow> k = ''11'' \<and> x16 = sample_account"
  "mget (t_acmeOrders sample_store) k = Some x17 \<longleftrightarrow> k = ''12'' \<and> x17 = sample_order"
  "mget (t_acmeAuthzs sample_store) k = Some x18 \<longleftrightarrow> k = ''13'' \<and> x18 = sample_authz"
  "mget (t_acmeChallenges sample_store) k = Some x19 \<longleftrightarrow> k = ''14'' \<and> x19 = sample_challenge"
  by (auto simp: sample_store_def mget_def)

lemma sample_enrolled: "enrolled_ok (t_enrollments sample_store) (t_certificates sample_store)"
  unfolding enrolled_ok_def by (auto simp: sample_record_defs conj_disj_distribR ex_disj_distrib)

lemma sample_serials: "serials_ok (t_certificates sample_store)"
  unfolding serials_ok_def by (simp add: sample_record_defs)

lemma sample_attempts: "attempts_ok (t_certificates sample_store) (t_issuanceAttempts sample_store)"
  unfolding attempts_ok_def table_ids_def reserved_ids_def by (simp add: sample_record_defs)

lemma sample_revocations: "revocations_ok (t_certificates sample_store) (t_revocations sample_store)"
  unfolding revocations_ok_def by (simp add: sample_record_defs)

lemma sample_singles:
  "responders_ok (t_ocspResponders sample_store)" "crls_ok (t_crls sample_store)" "accounts_ok (t_acmeAccounts sample_store)"
  "acme_status_ok (t_acmeOrders sample_store) (t_acmeAuthzs sample_store) (t_acmeChallenges sample_store)"
  "orders_ok (t_acmeOrders sample_store) (t_certificates sample_store)"
  by (simp_all add: responders_ok_def crls_ok_def accounts_ok_def acme_status_ok_def orders_ok_def sample_record_defs)

lemma sample_links: "acme_links_ok (t_acmeOrders sample_store) (t_acmeAuthzs sample_store) (t_acmeChallenges sample_store)"
  unfolding acme_links_ok_def table_ids_def by (simp add: sample_record_defs)

lemma sample_inv: "spec_inv sample_store"
  unfolding spec_inv_def
  by (intro conjI sample_tables sample_enrolled sample_serials sample_attempts sample_revocations sample_singles sample_links)

lemma sample_drawn: "nat_dec ` {..<20} = {''0'', ''1'', ''2'', ''3'', ''4'', ''5'', ''6'', ''7'', ''8'', ''9'', ''10'', ''11'', ''12'', ''13'', ''14'', ''15'', ''16'', ''17'', ''18'', ''19''}"
proof -
  have "nat_dec ` {..<20} = set (map nat_dec [0..<20])" by (simp add: lessThan_atLeast0)
  also have "map nat_dec [0..<20] = [''0'', ''1'', ''2'', ''3'', ''4'', ''5'', ''6'', ''7'', ''8'', ''9'', ''10'', ''11'', ''12'', ''13'', ''14'', ''15'', ''16'', ''17'', ''18'', ''19'']" by code_simp
  finally show ?thesis by simp
qed

lemma sample_ids: "ids_of sample_store \<subseteq> nat_dec ` {..<20}"
  unfolding sample_drawn by (auto simp: ids_of_def table_ids_def reserved_ids_def sample_attempt_def)

lemma sample_good: "good_world sample_node sample_world"
  by (simp add: good_def inj_nat_dec sample_world_def sample_inv sample_ids)

lemma sample_w_store [simp]: "w_store sample_world = sample_store"
  by (simp add: sample_world_def)

end
