(* ===== verification/ServiceProps.thy ===== *)
theory ServiceProps
  imports Samples
begin

text \<open>
  What the service guarantees at every moment of a run: the properties of all operations together,
  from the refinement of the specification and its invariant.
\<close>

definition sample_calls :: "call list" where
  "sample_calls =
     [(background, ''ops'', Do_RevokeCertificate ''6'' RevocationSuperseded),
      (background, ''ops'', Do_ResumeCertificate ''4''), (background, ''ops'', Do_RotateAPIKey ''10''),
      (background, ''worker'', Do_ScanCertificateExpirations 10 5), (background, ''worker'', Do_RunOnce 10)]"

section \<open>Refinement and invariant\<close>

text \<open>
  C1. Every sequence of requests, failed ones included, is a sequence of transitions that the
  specification allows, and leads from a good world to a good world.
\<close>

theorem service_refines_specification:
  assumes "good_world n w"
  shows "store_steps (w_store w) (w_store (serve n calls w)) \<and> good_world n (serve n calls w)"
  using serve_refines [OF assms] by simp

theorem service_refines_specification_witness:
  "store_steps sample_store (w_store (serve sample_node sample_calls sample_world)) \<and>
   good_world sample_node (serve sample_node sample_calls sample_world)"
  using service_refines_specification [OF sample_good, of sample_calls] by simp

text \<open>
  C2. From an empty store, whatever is requested, the invariant holds: tables are keyed, the audit
  log is sealed, certificates and enrollments match, serial numbers and CRL numbers are unique,
  revocations belong to revoked certificates, and the ACME objects hang together.
\<close>

theorem reachable_stores_satisfy_invariant:
  assumes "inj (svc_idgen (nd_service n))" and "w_store w = NewMemoryStore"
  shows "spec_inv (w_store (serve n calls w))"
  by (rule serve_inv [OF good_initial [OF assms]])

definition empty_world :: world where
  "empty_world = \<lparr>w_store = NewMemoryStore, w_tick = 0\<rparr>"

theorem reachable_stores_satisfy_invariant_witness:
  "spec_inv (w_store (serve sample_node sample_calls empty_world))"
  using reachable_stores_satisfy_invariant [of sample_node empty_world sample_calls]
  by (simp add: inj_nat_dec empty_world_def)

section \<open>Certificates\<close>

lemma cert_evolves_fields:
  "cert_evolves c d \<Longrightarrow>
     cert_SerialNumber d = cert_SerialNumber c \<and> cert_IssuerID d = cert_IssuerID c \<and>
     cert_EnrollmentID d = cert_EnrollmentID c \<and> cert_Subject d = cert_Subject c \<and>
     cert_DNSNames d = cert_DNSNames c \<and> cert_IPAddresses d = cert_IPAddresses c \<and>
     cert_NotBefore d = cert_NotBefore c \<and> cert_NotAfter d = cert_NotAfter c \<and>
     cert_CertificatePEM d = cert_CertificatePEM c \<and>
     (cert_Status c \<in> {CertificateRevoked, CertificateExpired} \<longrightarrow> cert_Status d = cert_Status c)"
  by (cases c; cases d) (auto simp: cert_evolves_def)

text \<open>
  C3. A certificate is never deleted and its contents never change; once it is revoked or expired
  it stays so, whatever is requested later.
\<close>

theorem certificates_are_permanent:
  assumes "good_world n w" and "mget (t_certificates (w_store w)) i = Some c"
  shows "\<exists>d. mget (t_certificates (w_store (serve n calls w))) i = Some d \<and>
    cert_SerialNumber d = cert_SerialNumber c \<and> cert_IssuerID d = cert_IssuerID c \<and>
    cert_EnrollmentID d = cert_EnrollmentID c \<and> cert_Subject d = cert_Subject c \<and>
    cert_DNSNames d = cert_DNSNames c \<and> cert_IPAddresses d = cert_IPAddresses c \<and>
    cert_NotBefore d = cert_NotBefore c \<and> cert_NotAfter d = cert_NotAfter c \<and>
    cert_CertificatePEM d = cert_CertificatePEM c \<and>
    (cert_Status c \<in> {CertificateRevoked, CertificateExpired} \<longrightarrow> cert_Status d = cert_Status c)"
  using certs.tab_keeps [OF serve_steps [OF assms(1)] good_inv [OF assms(1)] assms(2)] cert_evolves_fields by blast

theorem certificates_are_permanent_witness:
  "\<exists>d. mget (t_certificates (w_store (serve sample_node sample_calls sample_world))) ''4'' = Some d \<and>
     cert_SerialNumber d = ''01'' \<and> cert_Status d = CertificateRevoked"
  using certificates_are_permanent [OF sample_good, of "''4''" sample_revoked_certificate sample_calls]
  by (auto simp: sample_revoked_certificate_def)

text \<open>
  C4. Every certificate goes back to one approved and issued enrollment that asked for exactly its
  names, no two certificates belong to one enrollment, and no two certificates of an issuer have
  the same serial number.
\<close>

theorem certificates_match_enrollments:
  assumes "good_world n w" and "mget (t_certificates (w_store (serve n calls w))) i = Some c"
  shows "(\<exists>e. mget (t_enrollments (w_store (serve n calls w))) (cert_EnrollmentID c) = Some e \<and>
       enr_Status e = EnrollmentIssued \<and> cert_IdentityID c = enr_IdentityID e \<and> cert_IssuerID c = enr_IssuerID e \<and>
       cert_DNSNames c = enr_RequestedDNSNames e \<and> cert_IPAddresses c = enr_RequestedIPAddresses e) \<and>
    (\<forall>j d. mget (t_certificates (w_store (serve n calls w))) j = Some d \<longrightarrow>
       cert_EnrollmentID d = cert_EnrollmentID c \<or>
       (cert_IssuerID d = cert_IssuerID c \<and> cert_SerialNumber d = cert_SerialNumber c \<and>
        cert_IssuerID c \<noteq> [] \<and> cert_SerialNumber c \<noteq> []) \<longrightarrow> j = i)"
proof -
  let ?s = "w_store (serve n calls w)"
  have e: "enrolled_ok (t_enrollments ?s) (t_certificates ?s)" and u: "serials_ok (t_certificates ?s)"
    using serve_inv [OF assms(1)] by (simp_all add: spec_inv_def)
  obtain e where "mget (t_enrollments ?s) (cert_EnrollmentID c) = Some e" "enr_Status e = EnrollmentIssued"
      "cert_IdentityID c = enr_IdentityID e" "cert_IssuerID c = enr_IssuerID e"
      "cert_DNSNames c = enr_RequestedDNSNames e" "cert_IPAddresses c = enr_RequestedIPAddresses e"
    using e assms(2) unfolding enrolled_ok_def by metis
  moreover from this e have "j = i" if "mget (t_certificates ?s) j = Some d" "cert_EnrollmentID d = cert_EnrollmentID c" for j d
    using that assms(2) unfolding enrolled_ok_def by (metis (no_types, lifting))
  moreover have "j = i" if "mget (t_certificates ?s) j = Some d" "cert_IssuerID d = cert_IssuerID c"
      "cert_SerialNumber d = cert_SerialNumber c" "cert_IssuerID c \<noteq> []" "cert_SerialNumber c \<noteq> []" for j d
    using that assms(2) u unfolding serials_ok_def by metis
  ultimately show ?thesis by blast
qed

theorem certificates_match_enrollments_witness:
  "\<exists>e. mget (t_enrollments sample_store) ''5'' = Some e \<and> enr_Status e = EnrollmentIssued \<and>
     enr_RequestedDNSNames e = [''a.example'']"
  using certificates_match_enrollments [OF sample_good, of "[]" "''6''" sample_valid_certificate]
  by (simp add: sample_valid_certificate_def)

section \<open>Revocation information\<close>

definition entry_of :: "Certificate \<Rightarrow> Revocation \<Rightarrow> RevokedCertificateEntry" where
  "entry_of c r = \<lparr>rce_CertificateID = cert_ID c, rce_SerialNumber = cert_SerialNumber c,
     rce_RevokedAt = rev_RevokedAt r, rce_Reason = rev_Reason r\<rparr>"

lemma in_map_filter: "y \<in> set (List.map_filter f xs) \<longleftrightarrow> (\<exists>x \<in> set xs. f x = Some y)"
  by (induction xs) (auto simp: List.map_filter_simps split: option.splits)

lemma listed_revocation_iff:
  assumes "wf_map revs"
  shows "entry \<in> set (listRevocationsByIssuer certs revs issuer) \<longleftrightarrow>
    (\<exists>k r c. mget revs k = Some r \<and> mget certs (rev_CertificateID r) = Some c \<and> cert_IssuerID c = issuer \<and>
       cert_Status c = CertificateRevoked \<and> entry = entry_of c r)"
proof -
  have sel: "(case mget certs (rev_CertificateID r) of None \<Rightarrow> None
      | Some c \<Rightarrow> if cert_IssuerID c \<noteq> issuer \<or> cert_Status c \<noteq> CertificateRevoked then None else Some (entry_of c r)) = Some entry \<longleftrightarrow>
    (\<exists>c. mget certs (rev_CertificateID r) = Some c \<and> cert_IssuerID c = issuer \<and> cert_Status c = CertificateRevoked \<and>
       entry = entry_of c r)" for r
    by (auto split: option.splits if_splits)
  show ?thesis
    unfolding listRevocationsByIssuer_def in_map_filter entry_of_def [symmetric] sel Bex_def in_vals_iff [OF assms] by blast
qed

lemma revoked_is_listed:
  assumes "spec_inv s"
  shows "(\<exists>entry \<in> set (listRevocationsByIssuer (t_certificates s) (t_revocations s) issuer).
      rce_CertificateID entry = i \<and> rce_SerialNumber entry = serial) \<longleftrightarrow>
    (\<exists>c. mget (t_certificates s) i = Some c \<and> cert_IssuerID c = issuer \<and> cert_SerialNumber c = serial \<and>
       cert_Status c = CertificateRevoked)" (is "?l \<longleftrightarrow> ?r")
proof
  note listed = listed_revocation_iff [OF keyed_wf [OF wf_keyed(14) [OF assms]]]
  show ?r if ?l
    using that own_key(4) [OF assms] by (auto simp: listed entry_of_def)
  show ?l if ?r
  proof -
    from that obtain c where c: "mget (t_certificates s) i = Some c" "cert_IssuerID c = issuer"
      "cert_SerialNumber c = serial" "cert_Status c = CertificateRevoked" by blast
    then obtain k r where "mget (t_revocations s) k = Some r" "rev_CertificateID r = i"
      using assms unfolding spec_inv_def revocations_ok_def by metis
    with c have "entry_of c r \<in> set (listRevocationsByIssuer (t_certificates s) (t_revocations s) issuer)"
      unfolding listed by blast
    with c own_key(4) [OF assms c(1)] show ?l
      by (intro bexI [of _ "entry_of c r"]) (simp_all add: entry_of_def)
  qed
qed

text \<open>
  C5. The entries that a CRL of an issuer is made of are exactly its revoked certificates: every
  revoked certificate is listed, under its serial number, and nothing else is.
\<close>

theorem crl_entries_are_the_revoked_certificates:
  assumes "good_world n w"
  shows "(\<exists>entry \<in> set (listRevocationsByIssuer (t_certificates (w_store (serve n calls w)))
         (t_revocations (w_store (serve n calls w))) issuer). rce_CertificateID entry = i \<and> rce_SerialNumber entry = serial) \<longleftrightarrow>
    (\<exists>c. mget (t_certificates (w_store (serve n calls w))) i = Some c \<and> cert_IssuerID c = issuer \<and>
       cert_SerialNumber c = serial \<and> cert_Status c = CertificateRevoked)"
  by (rule revoked_is_listed [OF serve_inv [OF assms]])

theorem crl_entries_are_the_revoked_certificates_witness:
  "\<exists>entry \<in> set (listRevocationsByIssuer (t_certificates sample_store) (t_revocations sample_store) ''2'').
     rce_CertificateID entry = ''4'' \<and> rce_SerialNumber entry = ''01''"
  using crl_entries_are_the_revoked_certificates [OF sample_good, of "[]" "''2''" "''4''" "''01''"]
  by (simp add: sample_revoked_certificate_def sample_valid_certificate_def)

text \<open>C6. An issuer never has two active OCSP responders.\<close>

theorem one_active_responder_per_issuer:
  assumes "good_world n w"
    and "mget (t_ocspResponders (w_store (serve n calls w))) i = Some a" "rsp_Status a = OCSPResponderActive"
    and "mget (t_ocspResponders (w_store (serve n calls w))) j = Some b" "rsp_Status b = OCSPResponderActive"
    and "rsp_IssuerID a = rsp_IssuerID b"
  shows "i = j"
  using serve_inv [OF assms(1), of calls] assms(2-) unfolding spec_inv_def responders_ok_def by blast

theorem one_active_responder_per_issuer_witness:
  "mget (t_ocspResponders sample_store) ''9'' = Some sample_responder \<and> ''9'' = ''9''"
  using one_active_responder_per_issuer [OF sample_good, of "[]" "''9''" sample_responder "''9''" sample_responder]
  by (simp add: sample_responder_def)

section \<open>ACME\<close>







text \<open>C8. A finalized order has a certificate, for exactly the names of the order.\<close>

theorem valid_orders_have_their_certificate:
  assumes "good_world n w" and "mget (t_acmeOrders (w_store (serve n calls w))) i = Some x"
    and "ord_Status x = ACMEOrderValid"
  shows "\<exists>c. mget (t_certificates (w_store (serve n calls w))) (ord_CertificateID x) = Some c \<and>
    cert_EnrollmentID c = ord_EnrollmentID x \<and> cert_DNSNames c = ord_RequestedDNSNames x \<and>
    cert_IPAddresses c = ord_RequestedIPAddresses x"
  using serve_inv [OF assms(1), of calls] assms(2,3) unfolding spec_inv_def orders_ok_def by blast

theorem valid_orders_have_their_certificate_witness:
  "\<exists>c. mget (t_certificates sample_store) ''6'' = Some c \<and> cert_DNSNames c = [''a.example'']"
  using valid_orders_have_their_certificate [OF sample_good, of "[]" "''12''" sample_order]
  by (auto simp: sample_order_def)

section \<open>Audit log\<close>

text \<open>C9. The verifier accepts the audit log at every moment of a run.\<close>

theorem audit_log_always_verifies:
  assumes "good_world n w" and "t_audit (w_store (serve n calls w)) = (events, state)"
  shows "rep_Valid (verifyAuditState events state)"
  using serve_inv [OF assms(1), of calls] assms(2) unfolding spec_inv_def verifyAuditState_valid by simp

theorem audit_log_always_verifies_witness:
  "rep_Valid (verifyAuditState (fst (t_audit (w_store (serve sample_node sample_calls sample_world))))
     (snd (t_audit (w_store (serve sample_node sample_calls sample_world)))))"
  using audit_log_always_verifies [OF sample_good prod.collapse [symmetric]] by simp

section \<open>API keys\<close>

lemma mapErrE_Inr: "mapErrE g m w = (Inr x, w') \<longleftrightarrow> m w = (Inr x, w')"
  by (auto simp: mapErrE_def split: prod.splits sum.splits)

lemma bind_Inr: "bindE m k w = (Inr y, w'') \<longleftrightarrow> (\<exists>x w'. m w = (Inr x, w') \<and> k x w' = (Inr y, w''))"
  by (auto simp: bindE_def split: prod.splits sum.splits)

lemma failIf_Inr: "failIf b e w = (Inr u, w') \<longleftrightarrow> \<not> b \<and> w' = w"
  by (auto simp: failIf_def returnE_def throwE_def)

lemmas run_Inr = bind_Inr mapErrE_Inr failIf_Inr thenE_def

text \<open>A token is accepted only for a stored, active key that has scopes and an actor and is not past its expiry.\<close>

lemma authenticated_key:
  assumes "AuthenticateAPIKey svc token w = (Inr key, w')"
  shows "(\<exists>k. mget (t_apiKeys (w_store w)) (key_ID key) = Some k \<and> key_Status k = APIKeyActive) \<and>
    key_Scopes key \<noteq> [] \<and> TrimSpace (key_Actor key) \<noteq> []"
proof -
  define used where "used k v = (k\<lparr>key_LastUsedAt := svc_clock svc (w_tick v), key_UpdatedAt := svc_clock svc (w_tick v)\<rparr>)"
    for k :: APIKey and v :: world
  obtain found w1 where get: "getAPIKeyByToken svc (TrimSpace token) w = (Inr found, w1)"
    and upd: "repoE (repo_UpdateAPIKeyIfStatus (used found w1) APIKeyActive) (w1\<lparr>w_tick := Suc (w_tick w1)\<rparr>) = (Inr (), w')"
    and key: "key = used found w1" "key_Scopes found \<noteq> []" "TrimSpace (key_Actor found) \<noteq> []"
    using assms by (auto simp: AuthenticateAPIKey_def Let_def run_Inr drawE_def returnE_def used_def)
  have "w_store w1 = w_store w"
    using quiet_run [OF quiet_getAPIKeyByToken get] by simp
  with upd key show ?thesis
    by (auto simp: repoE_def repo_UpdateAPIKeyIfStatus_def updE_def cas_api_key.upd_success_iff used_def split: sum.splits prod.splits)
qed

text \<open>
  C10. A disabled API key never authenticates again: whatever is requested after it was disabled, no
  token is accepted for it.
\<close>

theorem disabled_keys_stay_out:
  assumes "good_world n w" and "mget (t_apiKeys (w_store w)) i = Some k" and "key_Status k = APIKeyDisabled"
    and "AuthenticateAPIKey svc token (serve n calls w) = (Inr key, w')"
  shows "key_ID key \<noteq> i"
proof
  assume "key_ID key = i"
  then obtain l where l: "mget (t_apiKeys (w_store (serve n calls w))) i = Some l" "key_Status l = APIKeyActive"
    using authenticated_key [OF assms(4)] by blast
  obtain m where "mget (t_apiKeys (w_store (serve n calls w))) i = Some m" "key_evolves k m"
    using keys.tab_keeps [OF serve_steps [OF assms(1)] good_inv [OF assms(1)] assms(2)] by blast
  with l assms(3) show False by (auto simp: key_evolves_def)
qed

lemma sample_authenticates:
  "\<exists>key w'. AuthenticateAPIKey sample_service ''tok'' sample_world = (Inr key, w') \<and> key_ID key = ''16''"
proof -
  have trim: "TrimSpace ''tok'' = ''tok''" "TrimSpace ''ci'' = ''ci''" by code_simp+
  have pepper: "TrimSpace (svc_apiKeyPepper sample_service) = []"
    by (simp add: sample_service_def) code_simp
  have get: "getAPIKeyByToken sample_service ''tok'' sample_world = (Inr sample_active_key, sample_world)"
    by (simp add: getAPIKeyByToken_def pepper repoE_def repo_GetAPIKeyByTokenHash_def readE_def apiKeyByTokenHash_def
      sample_world_def sample_store_def mvals_def sample_active_key_def)
  have upd: "\<exists>t. updateAPIKeyIfStatus (t_apiKeys sample_store) k APIKeyActive = Inr t" if "key_ID k = ''16''" for k
    unfolding cas_api_key.upd_success_iff using that by (simp add: sample_active_key_def)
  have clock: "svc_clock sample_service = int" "w_tick sample_world = 20"
    by (simp_all add: sample_service_def sample_world_def)
  have active: "key_Status sample_active_key = APIKeyActive" "key_Actor sample_active_key = ''ci''"
    "key_Scopes sample_active_key \<noteq> []" "IsZero (key_ExpiresAt sample_active_key)" "key_ID sample_active_key = ''16''"
    by (simp_all add: sample_active_key_def IsZero_def)
  show ?thesis
    using upd [of "sample_active_key\<lparr>key_LastUsedAt := 20, key_UpdatedAt := 20\<rparr>"]
    by (auto simp: AuthenticateAPIKey_def get trim bindE_def thenE_def mapErrE_def failIf_def returnE_def drawE_def
      repoE_def repo_UpdateAPIKeyIfStatus_def updE_def clock active Let_def)
qed

theorem disabled_keys_stay_out_witness:
  "\<exists>key w'. AuthenticateAPIKey sample_service ''tok'' sample_world = (Inr key, w') \<and> key_ID key \<noteq> ''10''"
proof -
  obtain key w' where "AuthenticateAPIKey sample_service ''tok'' sample_world = (Inr key, w')"
    using sample_authenticates by blast
  with disabled_keys_stay_out [OF sample_good, of "''10''" sample_key sample_service "''tok''" "[]" key w'] show ?thesis
    by (auto simp: sample_key_def)
qed

end
