(* ===== verification/HttpProps.thy ===== *)
theory HttpProps
  imports HttpRefine ServiceProps
begin

text \<open>
  What the HTTP interface guarantees: runs of the server refine the lifecycle specification, every
  request gets an answer, a request without a valid key changes nothing but the audit log, and the
  texts of error answers come from a fixed list.
\<close>

section \<open>Answers\<close>

text \<open>Computations that cannot fail, and what their values satisfy.\<close>

definition total :: "('s, 'e, 'a) eff \<Rightarrow> bool" where
  "total m \<longleftrightarrow> (\<forall>s. \<exists>x s'. m s = (Inr x, s'))"

definition returns :: "('a \<Rightarrow> bool) \<Rightarrow> ('s, 'e, 'a) eff \<Rightarrow> bool" where
  "returns P m \<longleftrightarrow> (\<forall>s x s'. m s = (Inr x, s') \<longrightarrow> P x)"

named_theorems total_intros \<open>computations that cannot fail\<close>
named_theorems returns_intros \<open>what computations return\<close>

lemma total_rules [total_intros]:
  "total (returnE x)" "total (attemptE m)" "total (getE f)" "total (updE (\<lambda>s. Inr (g s)))"
  by (auto simp: total_def returnE_def attemptE_def getE_def updE_def split: prod.splits)

lemma total_bindE [total_intros]: "total m \<Longrightarrow> (\<And>x. total (k x)) \<Longrightarrow> total (bindE m k)"
  unfolding total_def bindE_def by (metis (no_types, lifting) case_prod_conv sum.simps(6))

lemma total_thenE [total_intros]: "total m \<Longrightarrow> total n \<Longrightarrow> total (thenE m n)"
  by (simp add: thenE_def total_bindE)

lemma total_branches [total_intros]:
  "total m \<Longrightarrow> total n \<Longrightarrow> total (if c then m else n)"
  "(\<And>e. total (f e)) \<Longrightarrow> (\<And>x. total (g x)) \<Longrightarrow> total (case r of Inl e \<Rightarrow> f e | Inr x \<Rightarrow> g x)"
  "total m \<Longrightarrow> (\<And>x. total (g' x)) \<Longrightarrow> total (case v of None \<Rightarrow> m | Some x \<Rightarrow> g' x)"
  "(\<And>x y. total (h x y)) \<Longrightarrow> total (case p of (x, y) \<Rightarrow> h x y)"
  by (simp_all split: sum.splits option.splits prod.splits)

lemma total_draw [total_intros]: "total (worldE (drawE f))"
  by (simp add: total_def worldE_def drawE_def)

lemma returns_bindE [returns_intros]: "(\<And>x. returns P (k x)) \<Longrightarrow> returns P (bindE m k)"
  unfolding returns_def by (auto simp: bind_Inr)

lemma returns_rules [returns_intros]:
  "P x \<Longrightarrow> returns P (returnE x)" "returns P (throwE e)" "returns P n \<Longrightarrow> returns P (thenE m n)"
  "returns P m' \<Longrightarrow> returns P n' \<Longrightarrow> returns P (if c then m' else n')"
  "(\<And>e. returns P (f e)) \<Longrightarrow> (\<And>x. returns P (g x)) \<Longrightarrow> returns P (case r of Inl e \<Rightarrow> f e | Inr x \<Rightarrow> g x)"
  "returns P m'' \<Longrightarrow> (\<And>x. returns P (g' x)) \<Longrightarrow> returns P (case v of None \<Rightarrow> m'' | Some x \<Rightarrow> g' x)"
  "(\<And>x y. returns P (h x y)) \<Longrightarrow> returns P (case p of (x, y) \<Rightarrow> h x y)"
  by (auto simp: returns_def returnE_def throwE_def thenE_def bind_Inr split: sum.splits option.splits prod.splits)

lemma returnsD: "returns P m \<Longrightarrow> m s = (Inr x, s') \<Longrightarrow> P x"
  unfolding returns_def by blast


lemma total_replay_nonce [total_intros]: "total (replay_nonce srv)"
  unfolding replay_nonce_def by (intro total_intros)

lemma total_writeError [total_intros]: "total (writeError srv q e)"
  unfolding writeError_def writeACMEProblem_def Let_def by (intro total_intros)

lemma total_mux_ServeHTTP [total_intros]: "total (mux_ServeHTTP srv q)"
  unfolding mux_ServeHTTP_def answering_def by (auto split: mux_result.split intro!: total_intros)

lemma total_serveAuthenticated [total_intros]: "total (serveAuthenticated srv md q)"
  unfolding serveAuthenticated_def authorizeRequest_def Let_def by (intro total_intros)

lemma total_requestIDForRequest [total_intros]: "total (requestIDForRequest srv r)"
  unfolding requestIDForRequest_def Let_def by (intro total_intros)

lemma total_metrics [total_intros]: "total (RecordEvent key)" "total (RecordHTTPRequest boundary status)"
  unfolding RecordEvent_def RecordHTTPRequest_def by (intro total_intros)+

lemma total_ServeHTTP: "total (ServeHTTP srv r)"
  unfolding ServeHTTP_def serveRequest_def Let_def by (intro total_intros)

section \<open>Statuses\<close>

text \<open>The statuses that the server answers with.\<close>

abbreviation error_statuses :: "int set" where
  "error_statuses \<equiv> {400, 401, 403, 404, 409, 415, 422, 429, 500, 502}"

abbreviation ok_status :: "response \<Rightarrow> bool" where
  "ok_status resp \<equiv> rs_Status resp \<in> {200, 201}"

lemma statusForError_in: "statusForError e \<in> error_statuses"
proof (cases e)
  case (Svc x)
  have table: "list_all (\<lambda>(t, st). st \<in> error_statuses) status_table"
    by (simp add: status_table_def not_found_errors_def)
  show ?thesis
  proof (cases "find (\<lambda>(t, _). herr_Is e t) status_table")
    case (Some ts)
    then have "ts \<in> set status_table" by (metis find_Some_iff nth_mem)
    with table have "snd ts \<in> error_statuses" by (auto simp: list_all_iff)
    with Some show ?thesis by (auto simp: statusForError_def Svc split: prod.splits)
  qed (simp add: statusForError_def Svc)
qed (simp add: statusForError_def)

lemma returns_writeError: "returns (\<lambda>resp. rs_Status resp = statusForError e) (writeError srv q e)"
  unfolding writeError_def writeACMEProblem_def Let_def by (intro returns_intros) (simp_all add: writeJSON_def)

lemma ok_answer [returns_intros]: "status \<in> {200, 201} \<Longrightarrow> returns ok_status (answer status f m)"
  unfolding answer_def by (intro returns_intros) (simp add: writeJSON_def)

lemma ok_writeACMEJSON [returns_intros]:
  "status \<in> {200, 201} \<Longrightarrow> returns ok_status (writeACMEJSON srv q header status v)"
  unfolding writeACMEJSON_def by (intro returns_intros) (simp add: writeJSON_def)










lemma returns_bind_first: "returns P m \<Longrightarrow> returns (\<lambda>(boundary, resp). P resp) (bindE m (\<lambda>resp. returnE (boundary, resp)))"
  by (auto simp: returns_def bind_Inr returnE_def)




section \<open>Runs\<close>

lemma web_ok_initial:
  assumes "inj (svc_idgen (srv_service srv))" and "w_store (web_world h) = NewMemoryStore"
    and "web_nonces h = []" and "web_rates h = []"
  shows "web_ok srv h"
  using good_initial [OF assms(1,2)] assms(3,4) by (simp add: web_ok_def rates_ok_def)

text \<open>
  C11. A server that starts on the empty store, with a generator of fresh identifiers, takes only steps
  of the lifecycle specification, whatever requests it receives: the invariant holds in every
  store that it reaches, and its audit log verifies.
\<close>

theorem http_runs_refine_specification:
  assumes "inj (svc_idgen (srv_service srv))" and "w_store (web_world h) = NewMemoryStore"
    and "web_nonces h = []" and "web_rates h = []"
    and "s' = w_store (web_world (serve_requests srv requests h))"
  shows "store_steps NewMemoryStore s' \<and> spec_inv s' \<and> rep_Valid (verifyAuditState (fst (t_audit s')) (snd (t_audit s')))"
proof -
  note ok = web_ok_initial [OF assms(1-4)]
  have "spec_inv s'"
    using serve_requests_ok [OF ok] by (simp add: assms(5) web_ok_def good_def)
  moreover from this have "rep_Valid (verifyAuditState (fst (t_audit s')) (snd (t_audit s')))"
    unfolding spec_inv_def verifyAuditState_valid by (simp add: case_prod_beta)
  ultimately show ?thesis
    using serve_requests_steps [OF ok, of requests] assms(2) by (simp add: assms(5))
qed

text \<open>
  C22. The tables of the server itself stay bounded: it never keeps more than 1024 nonces, and no
  bucket of the rate limit counts more requests than the limit, whatever requests arrive.
\<close>

theorem server_tables_are_bounded:
  assumes "web_ok srv h"
  shows "length (web_nonces (serve_requests srv requests h)) \<le> 1024 \<and>
    (\<forall>(client, bucket) \<in> set (web_rates (serve_requests srv requests h)).
       rate_Count bucket \<le> max 0 (acme_RateLimit (srv_acme srv)))"
  using serve_requests_ok [OF assms, of requests]
  by (simp add: web_ok_def rates_ok_def defaultACMENonceCacheSize_def)

section \<open>Errors\<close>

text \<open>The texts that an error answer can have.\<close>

definition answer_texts :: "string set" where
  "answer_texts = insert ''internal server error'' (err_Error ` set public_errors)"

lemma publicErrorMessage_in: "publicErrorMessage e \<in> answer_texts"
proof (cases e)
  case errACMEBadNonce
  then show ?thesis by (simp add: publicErrorMessage_def answer_texts_def public_errors_def)
next
  case (Svc x)
  have "t \<in> set public_errors" if "find (herr_Is e) public_errors = Some t" for t
    using that by (metis find_Some_iff nth_mem)
  then show ?thesis by (auto simp: publicErrorMessage_def answer_texts_def Svc split: option.splits)
qed

text \<open>The text that a client sees in an error answer.\<close>

fun error_text :: "body \<Rightarrow> string option" where
  "error_text (JSON (P_error t)) = Some t"
| "error_text (JSON (P_problem p)) = Some (apr_Detail p)"
| "error_text _ = None"

text \<open>
  C21. An error answer never carries the text of an internal error: for every error of a handler,
  wrapped errors of collaborators included, the answer has the status of the error's class and
  a text from the fixed list of public texts, whatever the state of the server.
\<close>

theorem error_answers_use_public_texts:
  "\<exists>resp h' t. writeError srv q e h = (Inr resp, h') \<and> rs_Status resp = statusForError e \<and>
     statusForError e \<in> error_statuses \<and> error_text (rs_Body resp) = Some t \<and> t \<in> answer_texts"
proof -
  obtain resp h' where run: "writeError srv q e h = (Inr resp, h')"
    using total_writeError unfolding total_def by blast
  have "returns (\<lambda>resp. error_text (rs_Body resp) = Some (publicErrorMessage e)) (writeError srv q e)"
    unfolding writeError_def writeACMEProblem_def Let_def by (intro returns_intros) (simp_all add: writeJSON_def)
  from returnsD [OF this run] returnsD [OF returns_writeError run] run publicErrorMessage_in statusForError_in
  show ?thesis by blast
qed

section \<open>Requests that are refused\<close>

text \<open>
  The relation of a refused request: every table of the store but the audit log is as before, and so
  are the nonces and the rate limit.
\<close>

definition beside_audit :: "memory_store \<Rightarrow> memory_store" where
  "beside_audit s = s\<lparr>t_audit := ([], emptyAuditChainState)\<rparr>"

definition leaves :: "(memory_store \<Rightarrow> 'b) \<Rightarrow> web \<Rightarrow> web \<Rightarrow> bool" where
  "leaves f h h' \<longleftrightarrow>
     f (w_store (web_world h')) = f (w_store (web_world h)) \<and> web_nonces h' = web_nonces h \<and> web_rates h' = web_rates h"

abbreviation only_audited :: "web \<Rightarrow> web \<Rightarrow> bool" where
  "only_audited \<equiv> leaves beside_audit"

interpretation refused: state_preorder "leaves f" for f
  by unfold_locales (auto simp: leaves_def)

named_theorems refused_intros \<open>computations that change nothing but the audit log\<close>

lemma refused_worldE: "framed f m \<Longrightarrow> keeps (leaves f) (worldE m)"
  by (simp add: keeps_def leaves_def worldE_def case_prod_beta)

lemma refused_draws [refused_intros]: "keeps (leaves f) (worldE (drawE d))" "keeps (leaves f) (worldE (callE g))"
  by (intro refused_worldE framed_quiet quiet_drawE quiet_callE)+

lemma refused_metrics [refused_intros]:
  "keeps (leaves f) (RecordEvent key)" "keeps (leaves f) (RecordHTTPRequest boundary status)"
  unfolding RecordEvent_def RecordHTTPRequest_def
  by (intro refused.keeps_updE; auto simp: leaves_def)+

text \<open>A view of the store that does not show the audit log.\<close>

definition ignores_audit :: "(memory_store \<Rightarrow> 'b) \<Rightarrow> bool" where
  "ignores_audit f \<longleftrightarrow> (\<forall>s l. f (s\<lparr>t_audit := l\<rparr>) = f s)"

lemma ignores_beside_audit [simp]: "ignores_audit beside_audit"
  by (simp add: ignores_audit_def beside_audit_def)

lemma framed_RecordAPIFailure:
  assumes "ignores_audit f"
  shows "framed f (RecordAPIFailure svc ctx actor req)"
proof -
  have audit: "framed f (createAuditEventWithResult svc ctx a action rtype rid now flds code ecode)"
    for a action rtype rid now flds code ecode
    unfolding createAuditEventWithResult_def
    using assms by (intro frame.keeps_rules frame.keeps_repoE)
       (auto simp: keeps_def repo_CreateAuditEvent_def ignores_audit_def split: prod.splits)
  show ?thesis
    unfolding RecordAPIFailure_def Let_def by (intro frame.keeps_rules audit)
qed

lemma public_acme_is_public: "isPublicACMEProtocolEndpoint method path \<Longrightarrow> isPublicEndpoint method path"
  by (simp add: isPublicEndpoint_def)

lemmas refused_rules = refused.keeps_bindE refused.keeps_thenE refused.keeps_returnE refused.keeps_throwE
  refused.keeps_attemptE refused.keeps_if refused.keeps_case_sum refused.keeps_case_option refused.keeps_case_prod
  refused_intros

lemma refused_writeError:
  assumes "\<not> isPublicEndpoint (rq_Method (hr_request q)) (rq_Path (hr_request q))" and "ignores_audit f"
  shows "keeps (leaves f) (writeError srv q e)"
proof -
  have "\<not> isPublicACMEProtocolEndpoint (rq_Method (hr_request q)) (rq_Path (hr_request q))"
    using assms public_acme_is_public by blast
  then show ?thesis
    unfolding writeError_def serviceCall_def Let_def
    by simp (intro refused_rules refused_worldE framed_RecordAPIFailure assms)
qed

lemma refused_requestIDForRequest: "keeps (leaves f) (requestIDForRequest srv r)"
  unfolding requestIDForRequest_def Let_def by (intro refused_rules)

lemma keeps_run: "keeps R m \<Longrightarrow> m h = (x, h') \<Longrightarrow> R h h'"
  unfolding keeps_def by (metis snd_conv)

text \<open>
  A request whose authentication fails without an effect is answered with the status of the error
  and changes only the audit log.
\<close>

abbreviation incoming :: "http_request \<Rightarrow> AuditRequestMetadata \<Rightarrow> hreq" where
  "incoming r md \<equiv> \<lparr>hr_request = r, hr_ctx = background\<lparr>ctx_request := Some md\<rparr>, hr_actor = None\<rparr>"

lemma failure_answer:
  assumes "\<not> isPublicEndpoint (rq_Method (hr_request q)) (rq_Path (hr_request q))" and "ignores_audit f"
    and run: "thenE (RecordEvent key) (bindE (writeError srv q e) (\<lambda>resp. returnE (b, resp))) h = (Inr (boundary, resp), h')"
  shows "rs_Status resp = statusForError e \<and> leaves f h h'"
proof -
  let ?m = "thenE (RecordEvent key) (bindE (writeError srv q e) (\<lambda>resp. returnE (b, resp)))"
  have "keeps (leaves f) ?m"
    by (intro refused_rules refused_writeError assms(1,2))
  from keeps_run [OF this run] have "leaves f h h'" .
  moreover have "returns (\<lambda>(boundary, resp). rs_Status resp = statusForError e) ?m"
    by (intro returns_intros returns_bind_first returns_writeError)
  from returnsD [OF this run] have "rs_Status resp = statusForError e" by simp
  ultimately show ?thesis by simp
qed

lemma refused_serveRequest:
  assumes public: "\<not> isPublicEndpoint (rq_Method r) (rq_Path r)" and f: "ignores_audit f"
    and auth: "authenticateRequest srv (incoming r md) h = (Inl e, h1)"
    and run: "serveRequest srv r md h = (Inr (boundary, resp), h')"
  shows "rs_Status resp = statusForError e \<and> leaves f h1 h'"
proof (rule failure_answer [OF _ f])
  show "thenE (RecordEvent ''auth:failure'')
    (bindE (writeError srv (incoming r md\<lparr>hr_actor := Some ''anonymous''\<rparr>) e) (\<lambda>resp. returnE (''auth'', resp))) h1 =
    (Inr (boundary, resp), h')"
    using run auth by (simp add: serveRequest_def Let_def bindE_def attemptE_def)
qed (simp add: public)

lemma refused_ServeHTTP:
  assumes public: "\<not> isPublicEndpoint (rq_Method r) (rq_Path r)"
    and auth: "\<And>md h1. only_audited h h1 \<Longrightarrow> authenticateRequest srv (incoming r md) h1 = (Inl e, h1)"
    and run: "ServeHTTP srv r h = (Inr resp, h')"
  shows "rs_Status resp = statusForError e \<and> only_audited h h'"
proof -
  obtain requestID now boundary resp0 h1 h2 h3 where
    parts: "requestIDForRequest srv r h = (Inr requestID, h1)" "timeNow srv h1 = (Inr now, h2)"
      "serveRequest srv r (request_metadata srv r requestID now) h2 = (Inr (boundary, resp0), h3)"
      "RecordHTTPRequest boundary (rs_Status resp0) h3 = (Inr (), h')"
    and resp: "rs_Status resp = rs_Status resp0"
    using run by (auto simp: ServeHTTP_def bind_Inr thenE_def returnE_def)
  have before: "only_audited h h2"
    using keeps_run [OF refused_requestIDForRequest parts(1)] keeps_run [OF refused_draws(1) parts(2)]
    by (rule refused.R_trans)
  from refused_serveRequest [OF public ignores_beside_audit auth [OF before] parts(3)]
  have "rs_Status resp0 = statusForError e" "only_audited h2 h3" by simp_all
  moreover have "only_audited h3 h'" by (rule keeps_run [OF refused_metrics(2) parts(4)])
  ultimately show ?thesis using before resp by (auto intro: refused.R_trans)
qed

lemma unknown_token:
  assumes "\<forall>key \<in> set (mvals (t_apiKeys (w_store w))).
      key_TokenHash key \<noteq> HashAPIKeyToken (TrimSpace token) \<and> key_TokenHash key \<noteq> hashAPIKeyToken svc (TrimSpace token)"
  shows "AuthenticateAPIKey svc token w = (Inl ErrUnauthorized, w)"
proof -
  have none: "find (\<lambda>key. key_TokenHash key = hash) (mvals (t_apiKeys (w_store w))) = None"
    if "hash = HashAPIKeyToken (TrimSpace token) \<or> hash = hashAPIKeyToken svc (TrimSpace token)" for hash
    using assms that by (auto simp: find_None_iff)
  show ?thesis
    using none by (simp add: AuthenticateAPIKey_def getAPIKeyByToken_def Let_def thenE_def bindE_def failIf_def throwE_def
        returnE_def mapErrE_def attemptE_def repoE_def repo_GetAPIKeyByTokenHash_def readE_def apiKeyByTokenHash_def)
qed

lemma audited_keys: "only_audited h h1 \<Longrightarrow> t_apiKeys (w_store (web_world h1)) = t_apiKeys (w_store (web_world h))"
  unfolding leaves_def beside_audit_def by (cases "w_store (web_world h)"; cases "w_store (web_world h1)") simp

text \<open>The tokens of a request that belong to no stored key.\<close>

definition token_unknown :: "server \<Rightarrow> web \<Rightarrow> http_request \<Rightarrow> bool" where
  "token_unknown srv h r \<longleftrightarrow>
     (case bearerToken (header_Get r ''Authorization'') of
        None \<Rightarrow> True
      | Some token \<Rightarrow> list_all (\<lambda>key.
          key_TokenHash key \<noteq> HashAPIKeyToken (TrimSpace token) \<and>
          key_TokenHash key \<noteq> hashAPIKeyToken (srv_service srv) (TrimSpace token)) (mvals (t_apiKeys (w_store (web_world h)))))"

text \<open>
  C13. With API keys, a request to an endpoint that is not public and without the token of a stored key is
  answered with 401, and it changes nothing but the audit log: no table of the store, no nonce and
  no counter of the rate limit.
\<close>

theorem requests_without_key_are_refused:
  assumes "auth_Mode (srv_auth srv) = AuthModeAPIKey"
    and "\<not> isPublicEndpoint (rq_Method r) (rq_Path r)"
    and "token_unknown srv h r"
    and "ServeHTTP srv r h = (Inr resp, h')"
  shows "rs_Status resp = 401 \<and> only_audited h h'"
proof -
  have mode: "AuthModeAPIKey \<noteq> AuthModeDev" "AuthModeAPIKey \<noteq> []"
    by (simp_all add: AuthModeAPIKey_def AuthModeDev_def)
  have "authenticateRequest srv (incoming r md) h1 = (Inl (Svc ErrUnauthorized), h1)" if "only_audited h h1" for md h1
  proof (cases "bearerToken (header_Get r ''Authorization'')")
    case None
    then show ?thesis using assms(1,2) mode by (simp add: authenticateRequest_def throwE_def)
  next
    case (Some token)
    have "AuthenticateAPIKey (srv_service srv) token (web_world h1) = (Inl ErrUnauthorized, web_world h1)"
      using assms(3) audited_keys [OF that] by (intro unknown_token) (simp add: token_unknown_def Some list_all_iff)
    with Some show ?thesis
      using assms(1,2) mode by (simp add: authenticateRequest_def worldE_def bindE_def)
  qed
  from refused_ServeHTTP [OF assms(2) this assms(4)] show ?thesis
    by (simp add: statusForError_def status_table_def)
qed





section \<open>Views without the keys\<close>





section \<open>Scopes\<close>



section \<open>The authorizer\<close>




section \<open>Samples\<close>

definition sample_crypto :: acme_crypto where
  "sample_crypto =
     \<lparr>cry_ecdsaVerify = (\<lambda>_ _ _ _ _. True), cry_rsaVerify = (\<lambda>_ _ _ _. True), cry_ed25519Verify = (\<lambda>_ _ _. True),
      cry_P256Point = (\<lambda>_ _. True), cry_ParseCertificateRequest = (\<lambda>_. None)\<rparr>"

definition sample_auth :: AuthConfig where
  "sample_auth = \<lparr>auth_Mode = AuthModeAPIKey, auth_TrustedProxies = [], auth_AuthorizationTimeout = 0\<rparr>"

definition sample_acme :: ACMEConfig where
  "sample_acme =
     \<lparr>acme_DefaultIdentityID = [], acme_DefaultIssuerID = [], acme_DefaultCertificateProfileID = [],
      acme_DefaultValidityPeriod = 0, acme_RateLimit = 3, acme_RateLimitWindow = 0\<rparr>"

definition sample_server :: server where
  "sample_server = NewWithAuthorizer sample_service sample_auth sample_acme None (\<lambda>n _. Inr (replicate n 7)) sample_crypto"

definition sample_web :: web where
  "sample_web = \<lparr>web_world = sample_world, web_nonces = [], web_rates = [], web_requests = [], web_events = []\<rparr>"

definition empty_web :: web where
  "empty_web = sample_web\<lparr>web_world := sample_world\<lparr>w_store := NewMemoryStore\<rparr>\<rparr>"

definition sample_call :: "string \<Rightarrow> string \<Rightarrow> (string \<times> string) list \<Rightarrow> http_request" where
  "sample_call method path header =
     \<lparr>rq_Method = method, rq_EscapedPath = path, rq_RawQuery = [], rq_ForceQuery = False, rq_Header = header,
      rq_Host = ''ca'', rq_RemoteAddr = ''192.0.2.1:99'', rq_Body = []\<rparr>"

lemma sample_server_simps [simp]:
  "srv_service sample_server = sample_service" "auth_Mode (srv_auth sample_server) = AuthModeAPIKey"
  "srv_authorizer sample_server = None" "acme_RateLimit (srv_acme sample_server) = 3"
  by (simp_all add: sample_server_def NewWithAuthorizer_def sample_auth_def sample_acme_def AuthModeAPIKey_def)

lemma sample_web_ok: "web_ok sample_server sample_web"
  using sample_good by (simp add: web_ok_def rates_ok_def sample_web_def sample_node_def)

lemma sample_inj: "inj (svc_idgen sample_service)"
  using sample_good by (simp add: good_def sample_node_def)

theorem http_runs_refine_specification_witness:
  "spec_inv (w_store (web_world (serve_requests sample_server
     [sample_call ''POST'' ''/acme/new-account'' [], sample_call ''GET'' ''/identities'' []] empty_web)))"
  by (rule http_runs_refine_specification [OF _ _ _ _ refl, THEN conjunct2, THEN conjunct1])
     (simp_all add: sample_inj empty_web_def sample_web_def)

theorem server_tables_are_bounded_witness:
  "length (web_nonces (serve_requests sample_server (replicate 5 (sample_call ''GET'' ''/acme/new-nonce'' [])) sample_web)) \<le> 1024"
  using server_tables_are_bounded [OF sample_web_ok] by blast

lemma answered: "\<exists>resp h'. ServeHTTP srv r h = (Inr resp, h')"
  using total_ServeHTTP unfolding total_def by blast

lemma sample_private: "\<not> isPublicEndpoint ''POST'' ''/api-keys''"
  by code_simp

lemma sample_path: "rq_Path (sample_call method ''/api-keys'' header) = ''/api-keys''"
  by (simp add: sample_call_def rq_Path_def pathUnescape_def)

theorem requests_without_key_are_refused_witness:
  "\<exists>resp h'. ServeHTTP sample_server (sample_call ''POST'' ''/api-keys'' []) sample_web = (Inr resp, h') \<and>
     rs_Status resp = 401 \<and> only_audited sample_web h'"
proof -
  let ?r = "sample_call ''POST'' ''/api-keys'' []"
  obtain resp h' where run: "ServeHTTP sample_server ?r sample_web = (Inr resp, h')"
    using answered by blast
  have "token_unknown sample_server sample_web ?r"
    by (simp add: token_unknown_def sample_call_def header_Get_def bearerToken_def HasPrefix_def)
  then have "rs_Status resp = 401 \<and> only_audited sample_web h'"
    using sample_private by (intro requests_without_key_are_refused [OF _ _ _ run]) (simp_all add: sample_path, simp add: sample_call_def)
  with run show ?thesis by blast
qed




end
