(* ===== verification/AcmeProps.thy ===== *)
theory AcmeProps
  imports HttpProps
begin

text \<open>
  What the ACME protocol guarantees: a signed request is accepted once, and what it does to an order
  or a certificate is signed with the key of the account that owns it.
\<close>

section \<open>Successful requests\<close>

lemma need_Inr: "need v h = (Inr x, h') \<longleftrightarrow> v = Some x \<and> h' = h"
  by (auto simp: need_def throwE_def returnE_def split: option.splits)

lemma needs_Inr: "needs c h = (Inr u, h') \<longleftrightarrow> c \<and> h' = h"
  by (auto simp: needs_def failIf_Inr)

lemma returnE_Inr: "returnE x h = (Inr y, h') \<longleftrightarrow> y = x \<and> h' = h"
  by (auto simp: returnE_def)

lemma decodeJSON_Inr:
  "decodeJSON r fs z h = (Inr req, h') \<longleftrightarrow>
     length (rq_Body r) \<le> requestBodyLimit r \<and> decode_body fs z (rq_Body r) = Inr req \<and> h' = h"
  by (cases "decode_body fs z (rq_Body r)") (auto simp: decodeJSON_def throwE_def fromSum_def)

lemmas protocol_Inr = bind_Inr thenE_def failIf_Inr need_Inr needs_Inr returnE_Inr decodeJSON_Inr



section \<open>Replay\<close>

lemma consumed_nonce:
  assumes "consumeACMENonce srv nonce h = (Inr True, h')"
  shows "mget (web_nonces h) nonce \<noteq> None \<and> mget (web_nonces h') nonce = None"
proof -
  obtain now h1 where now: "timeNow srv h = (Inr now, h1)"
    and rest: "bindE (getE (\<lambda>h. nonce_Consume nonce now (web_nonces h))) (\<lambda>(ok, nonces).
      thenE (updE (\<lambda>h. Inr (h\<lparr>web_nonces := nonces\<rparr>))) (returnE ok)) h1 = (Inr True :: herr + bool, h')"
    using assms unfolding consumeACMENonce_def by (cases rule: bindE_cases) auto
  obtain ok ns where "nonce_Consume nonce now (web_nonces h1) = (ok, ns)"
    by (cases "nonce_Consume nonce now (web_nonces h1)")
  with rest have use: "nonce_Consume nonce now (web_nonces h1) = (True, web_nonces h')"
    by (auto simp: bindE_def getE_def thenE_def updE_def returnE_def)
  have "web_nonces h1 = web_nonces h"
    using now by (auto simp: worldE_def drawE_def)
  moreover have "mget ns nonce \<noteq> None" if "mget (removeExpiredLocked now ns) nonce = Some v" for ns v
    using that by (auto simp: mget_def removeExpiredLocked_def dest!: map_of_SomeD dest: weak_map_of_SomeI)
  moreover have "web_nonces h' = mdel nonce (removeExpiredLocked now (web_nonces h1))"
    using use by (auto simp: nonce_Consume_def Let_def split: option.splits)
  ultimately show ?thesis
    using use by (auto simp: nonce_Consume_def Let_def split: option.splits)
qed

lemma refused_nonce:
  assumes "mget (web_nonces h) nonce = None"
  shows "fst (consumeACMENonce srv nonce h) = Inr False"
proof -
  have "mget (removeExpiredLocked now (web_nonces h)) nonce = None" for now
    using assms by (auto simp: mget_def removeExpiredLocked_def map_of_eq_None_iff)
  then show ?thesis
    by (simp add: consumeACMENonce_def bindE_def thenE_def worldE_def drawE_def getE_def updE_def returnE_def nonce_Consume_def)
qed

lemma key_keeps_nonces: "keeps (leaves (\<lambda>_. ())) (acmeJWS_key srv r protected payload)"
  unfolding acmeJWS_key_def need_def needs_def failIf_def
  by (intro refused_rules refused_worldE) (simp_all add: keeps_def)

text \<open>
  C19. A signed request is accepted at most once: when its signature was accepted, its nonce had been
  issued and is gone, and the same request is answered with \<open>badNonce\<close> in every later state in which
  the nonce has not been issued again.
\<close>

theorem signed_request_accepted_once:
  assumes "decodeACMEJWS srv q h = (Inr jws, h')"
  shows "\<exists>nonce. mget (web_nonces h) nonce \<noteq> None \<and> mget (web_nonces h') nonce = None \<and>
    (\<forall>h''. mget (web_nonces h'') nonce = None \<longrightarrow> fst (decodeACMEJWS srv q h'') = Inl errACMEBadNonce)"
proof -
  obtain req protected payload k h1 where
    nonce: "consumeACMENonce srv (aph_Nonce protected) h = (Inr True, h1)"
    and key: "acmeJWS_key srv (hr_request q) protected payload h1 = (Inr (k, jws), h')"
    and req: "decode_body acmeJWSRequest_fields zero_acmeJWSRequest (rq_Body (hr_request q)) = Inr req"
    and checks: "length (rq_Body (hr_request q)) \<le> requestBodyLimit (hr_request q)"
      "\<not> (header_Get (hr_request q) ''Content-Type'' \<noteq> [] \<and>
          \<not> HasPrefix (header_Get (hr_request q) ''Content-Type'') ''application/jose+json'')"
      "jwq_Protected req \<noteq> [] \<and> jwq_Signature req \<noteq> []"
      "\<exists>bs. base64_url_decode (jwq_Protected req) = Some bs \<and>
         json_Unmarshal acmeProtectedHeader_fields zero_acmeProtectedHeader (bytes_string bs) = Some protected"
      "isSupportedACMEJWSAlg (aph_Alg protected) \<and> aph_Nonce protected \<noteq> [] \<and> aph_URL protected \<noteq> [] \<and>
         aph_URL protected = requestAbsoluteURL (hr_request q)"
      "(aph_KID protected = []) \<noteq> (aph_JWK protected = None)"
    using assms unfolding decodeACMEJWS_def Let_def protocol_Inr by (fastforce simp: protocol_Inr split: prod.splits)
  have "fst (decodeACMEJWS srv q h'') = Inl errACMEBadNonce" if "mget (web_nonces h'') (aph_Nonce protected) = None" for h''
    using refused_nonce [OF that, of srv] checks req
    by (auto simp: decodeACMEJWS_def Let_def bindE_def thenE_def failIf_def needs_def need_def returnE_def throwE_def
        decodeJSON_def fromSum_def split: prod.splits)
  moreover have "web_nonces h' = web_nonces h1"
    using keeps_run [OF key_keeps_nonces key] by (simp add: leaves_def)
  ultimately show ?thesis using consumed_nonce [OF nonce] by metis
qed

section \<open>Ownership\<close>


















definition sample_post :: "string \<Rightarrow> hreq" where
  "sample_post path = \<lparr>hr_request = sample_call ''POST'' path [], hr_ctx = background, hr_actor = Some ''public''\<rparr>"





lemma worldE_Inr: "worldE m h = (Inr x, h') \<longleftrightarrow> m (web_world h) = (Inr x, web_world h') \<and> h' = h\<lparr>web_world := web_world h'\<rparr>"
  by (cases "m (web_world h)"; cases "fst (m (web_world h))") (auto simp: worldE_def)



section \<open>A signed request\<close>

definition sample_protected :: string where
  "sample_protected =
     ''eyJhbGciOiJFZERTQSIsIm5vbmNlIjoibiIsInVybCI6Imh0dHA6Ly9jYS94Iiwia2lkIjoiaHR0cDovL2NhL2FjbWUvYWNjb3VudC8xIn0''"

definition sample_key_json :: string where
  "sample_key_json = (let q = [CHR 0x22] in
     ''{'' @ q @ ''kty'' @ q @ '':'' @ q @ ''OKP'' @ q @ '','' @ q @ ''crv'' @ q @ '':'' @ q @ ''Ed25519'' @ q @ '','' @ q @ ''x'' @ q @ '':'' @ q @ ''AAAAAAAAAAAAAAAAAAAAAAAAAAAAAAAAAAAAAAAAAAA'' @ q @ ''}'')"

definition sample_jws :: string where
  "sample_jws = (let q = [CHR 0x22] in
     ''{'' @ q @ ''protected'' @ q @ '':'' @ q @ ''eyJhbGciOiJFZERTQSIsIm5vbmNlIjoibiIsInVybCI6Imh0dHA6Ly9jYS94Iiwia2lkIjoiaHR0cDovL2NhL2FjbWUvYWNjb3VudC8xIn0'' @ q @ '','' @ q @ ''payload'' @ q @ '':'' @ q @ q @ '','' @ q @ ''signature'' @ q @ '':'' @ q @ ''AA'' @ q @ ''}'')"

definition sample_signed :: hreq where
  "sample_signed = sample_post ''/x''\<lparr>hr_request := (sample_call ''POST'' ''/x'' [])\<lparr>rq_Body := sample_jws\<rparr>\<rparr>"

definition sample_signing_web :: web where
  "sample_signing_web = empty_web\<lparr>
     web_world := sample_world\<lparr>w_store := NewMemoryStore\<lparr>t_acmeAccounts :=
       [(''1'', sample_account\<lparr>acct_KeyJWKJSON := sample_key_json\<rparr>)]\<rparr>\<rparr>,
     web_nonces := [(''n'', \<lparr>non_IssuedAt = 0, non_ExpiresAt = 1000\<rparr>)]\<rparr>"

lemma sample_body:
  "decode_body acmeJWSRequest_fields zero_acmeJWSRequest sample_jws =
     Inr \<lparr>jwq_Protected = sample_protected, jwq_Payload = [], jwq_Signature = ''AA''\<rparr>"
  by code_simp

lemma sample_header:
  "map_option (\<lambda>bs. json_Unmarshal acmeProtectedHeader_fields zero_acmeProtectedHeader (bytes_string bs))
     (base64_url_decode sample_protected) =
   Some (Some \<lparr>aph_Alg = ''EdDSA'', aph_Nonce = ''n'', aph_URL = ''http://ca/x'',
     aph_KID = ''http://ca/acme/account/1'', aph_JWK = None\<rparr>)"
  by code_simp

lemma sample_jwk:
  "json_Unmarshal acmeJWK_fields zero_acmeJWK sample_key_json =
     Some \<lparr>jwk_KTY = ''OKP'', jwk_CRV = ''Ed25519'', jwk_X = replicate 43 (CHR ''A''), jwk_Y = [], jwk_N = [], jwk_E = []\<rparr>"
  by code_simp

lemma sample_okp:
  "acmeOKPJWKPublicKey \<lparr>jwk_KTY = ''OKP'', jwk_CRV = ''Ed25519'', jwk_X = replicate 43 (CHR ''A''), jwk_Y = [], jwk_N = [], jwk_E = []\<rparr> =
     Some (replicate 32 0)"
  by code_simp

lemma sample_kid: "acmeAccountIDFromKID ''http://ca/acme/account/1'' = Some ''1''"
  by code_simp

lemma sample_urls:
  "requestBaseURL (hr_request sample_signed) = ''http://ca''" "requestAbsoluteURL (hr_request sample_signed) = ''http://ca/x''"
  "header_Get (hr_request sample_signed) ''Content-Type'' = []" "rq_Body (hr_request sample_signed) = sample_jws"
  "requestBodyLimit (hr_request sample_signed) = defaultJSONBodyLimit"
  by (simp_all add: sample_signed_def sample_post_def sample_call_def requestAbsoluteURL_def requestBaseURL_def RequestURI_def
      header_Get_def requestBodyLimit_def rq_Path_def pathUnescape_def)

lemma sample_size: "length sample_jws \<le> defaultJSONBodyLimit"
  by (simp add: sample_jws_def defaultJSONBodyLimit_def)

lemma sample_verifies:
  "verifyACMEJWS sample_crypto ''EdDSA''
     \<lparr>jwk_KTY = ''OKP'', jwk_CRV = ''Ed25519'', jwk_X = replicate 43 (CHR ''A''), jwk_Y = [], jwk_N = [], jwk_E = []\<rparr> input ''AA''"
proof -
  have "base64_url_decode ''AA'' \<noteq> None" by code_simp
  then show ?thesis
    by (auto simp: verifyACMEJWS_def sample_okp sample_crypto_def Let_def)
qed

lemma sample_nonce: "\<exists>h1. consumeACMENonce sample_server ''n'' sample_signing_web = (Inr True, h1) \<and>
    w_store (web_world h1) = w_store (web_world sample_signing_web)"
  by (simp add: consumeACMENonce_def bindE_def thenE_def worldE_def drawE_def getE_def updE_def returnE_def nonce_Consume_def
      removeExpiredLocked_def sample_signing_web_def sample_world_def sample_service_def mget_def After_def)

lemma sample_accepted: "\<exists>jws h'. decodeACMEJWS sample_server sample_signed sample_signing_web = (Inr jws, h')"
proof -
  obtain h1 where nonce: "consumeACMENonce sample_server ''n'' sample_signing_web = (Inr True, h1)"
    and store: "w_store (web_world h1) = w_store (web_world sample_signing_web)"
    using sample_nonce by blast
  obtain bs where bs: "base64_url_decode sample_protected = Some bs"
    and header: "json_Unmarshal acmeProtectedHeader_fields zero_acmeProtectedHeader (bytes_string bs) =
      Some \<lparr>aph_Alg = ''EdDSA'', aph_Nonce = ''n'', aph_URL = ''http://ca/x'', aph_KID = ''http://ca/acme/account/1'', aph_JWK = None\<rparr>"
    using sample_header by (cases "base64_url_decode sample_protected") auto
  have crypto: "srv_crypto sample_server = sample_crypto"
    by (simp add: sample_server_def NewWithAuthorizer_def)
  have empty: "base64_url_decode [] = Some []" "bytes_string [] = []" by code_simp+
  have blank: "\<not> isBlank ''1''" by code_simp
  have account: "worldE (GetACMEAccount ''1'') h1 = (Inr (sample_account\<lparr>acct_KeyJWKJSON := sample_key_json\<rparr>), h1)"
    using store by (simp add: worldE_def GetACMEAccount_def thenE_def bindE_def failIf_def blank returnE_def repoE_def
        repo_GetACMEAccount_def readE_def lookup_def sample_signing_web_def mget_def)
  let ?hdr = "\<lparr>aph_Alg = ''EdDSA'', aph_Nonce = ''n'', aph_URL = ''http://ca/x'', aph_KID = ''http://ca/acme/account/1'', aph_JWK = None\<rparr>"
  have texts: "sample_protected \<noteq> []" "sample_key_json \<noteq> []" "acct_KeyThumbprint sample_account \<noteq> []"
    by (simp_all add: sample_protected_def sample_key_json_def sample_account_def)
  obtain jws where key: "acmeJWS_key sample_server (hr_request sample_signed) ?hdr [] h1 =
      (Inr (\<lparr>jwk_KTY = ''OKP'', jwk_CRV = ''Ed25519'', jwk_X = replicate 43 (CHR ''A''), jwk_Y = [], jwk_N = [], jwk_E = []\<rparr>, jws), h1)"
    using account texts sample_jwk by (simp add: acmeJWS_key_def protocol_Inr sample_urls HasPrefix_def sample_kid)
  have finished: "bindE (needs True) (\<lambda>_. returnE jws) h1 = (Inr jws, h1)"
    by (simp add: protocol_Inr)
  show ?thesis
    unfolding decodeACMEJWS_def Let_def protocol_Inr sample_urls
    using sample_body sample_size bs header texts nonce empty key sample_verifies finished
    by (auto simp: isSupportedACMEJWSAlg_def crypto intro!: exI)
qed

theorem signed_request_accepted_once_witness:
  "\<exists>jws h'. decodeACMEJWS sample_server sample_signed sample_signing_web = (Inr jws, h') \<and>
     fst (decodeACMEJWS sample_server sample_signed h') = Inl errACMEBadNonce"
proof -
  obtain jws h' where run: "decodeACMEJWS sample_server sample_signed sample_signing_web = (Inr jws, h')"
    using sample_accepted by blast
  with signed_request_accepted_once [OF run] show ?thesis by blast
qed

end
