(* ===== verification/RouteProps.thy ===== *)
theory RouteProps
  imports HttpProps
begin

text \<open>
  The route table and the checks of the path agree. Authentication looks at the decoded path of a
  request, the router at the segments of the escaped one; a request that counts as public reaches
  only a public route, and a route for operators is reached only by requests that need the scope
  of an operator.
\<close>

section \<open>Decoded paths\<close>

lemma unescape_slash:
  "unescape EncOther (s @ CHR ''/'' # t) =
     (case (unescape EncOther s, unescape EncOther t) of (Some a, Some b) \<Rightarrow> Some (a @ CHR ''/'' # b) | _ \<Rightarrow> None)"
proof (induction "EncOther" s rule: unescape.induct)
  case 1
  then show ?case by (cases "unescape EncOther t") simp_all
next
  case (2 c s)
  have slash: "hex_value (CHR ''/'') = None" by (simp add: hex_value_def)
  show ?case
  proof (cases "c = CHR ''%''")
    case True
    show ?thesis
    proof (cases s)
      case Nil
      with True slash show ?thesis by (cases t) (auto split: option.splits)
    next
      case (Cons a s')
      note sa = this
      show ?thesis
      proof (cases s')
        case Nil
        with True sa slash show ?thesis by (auto split: option.splits)
      next
        case (Cons d rest)
        with 2(1) [OF True, of a s' d rest] True sa show ?thesis
          by (auto simp: escape_ok_def split: option.splits)
      qed
    qed
  next
    case False
    with 2(2) show ?thesis by (auto split: option.splits)
  qed
qed

lemma Join_Split: "Join (Split s c) [c] = s"
proof (induction s)
  case (Cons x s)
  obtain p ps where "Split s c = p # ps" using Split_nonempty [of s c] by (cases "Split s c") auto
  with Cons show ?case by (cases ps) auto
qed simp

lemma unescape_Join:
  "unescape EncOther (Join segs ''/'') = Some u \<Longrightarrow> segs \<noteq> [] \<Longrightarrow>
   \<exists>us. list_all2 (\<lambda>s v. unescape EncOther s = Some v) segs us \<and> u = Join us ''/''"
proof (induction segs arbitrary: u rule: induct_list012)
  case (3 x y zs)
  then obtain a b where "unescape EncOther x = Some a" "unescape EncOther (Join (y # zs) ''/'') = Some b"
    "u = a @ CHR ''/'' # b"
    by (auto simp: unescape_slash split: option.splits)
  moreover from 3(2) [OF this(2)] obtain us where
    "list_all2 (\<lambda>s v. unescape EncOther s = Some v) (y # zs) us" "b = Join us ''/''" by auto
  ultimately show ?case
    by (intro exI [of _ "a # us"]) (cases us; simp)
qed (auto intro: exI [of _ "[_]"])

text \<open>Decoded segments that fit a pattern.\<close>

fun fits :: "seg list \<Rightarrow> string list \<Rightarrow> bool" where
  "fits [] us \<longleftrightarrow> us = []"
| "fits (Lit l # ps) us \<longleftrightarrow> (\<exists>vs. us = l # vs \<and> fits ps vs)"
| "fits (Wild n # ps) us \<longleftrightarrow> (\<exists>x vs. us = x # vs \<and> fits ps vs)"

text \<open>All segments that fit a pattern.\<close>

primrec over :: "seg list \<Rightarrow> (string list \<Rightarrow> bool) \<Rightarrow> bool" where
  "over [] P = P []"
| "over (p # ps) P = (case p of Lit l \<Rightarrow> over ps (\<lambda>us. P (l # us)) | Wild n \<Rightarrow> (\<forall>x. over ps (\<lambda>us. P (x # us))))"

lemma over_fits: "over ps P \<Longrightarrow> fits ps us \<Longrightarrow> P us"
  by (induction ps us arbitrary: P rule: fits.induct) auto

lemma match_fits:
  "match_segs ps segs = Some b \<Longrightarrow> list_all2 (\<lambda>s v. unescape EncOther s = Some v) segs us \<Longrightarrow> fits ps us"
  by (induction ps segs arbitrary: b us rule: match_segs.induct)
     (auto simp: list_all2_Cons1 pathUnescape_def split: if_splits)

lemma cleanPath_slash: "\<exists>p. cleanPath q = CHR ''/'' # p"
  by (simp add: cleanPath_def Let_def)

lemma find_route_fits:
  "find_route rs method segs = Some (pat, h, b) \<Longrightarrow>
   (method, pat, h) \<in> set rs \<and> match_segs (pattern_segs pat) segs = Some b"
  by (induction rs) (auto simp: find_route_def map_filter_simps route_match_def split: option.splits if_splits list.splits)

lemma route_methods: "(m, pat, h) \<in> set registerRoutes \<Longrightarrow> m = ''GET'' \<or> m = ''POST'' \<or> m = ''HEAD''"
  unfolding registerRoutes_def by auto

lemma dispatched:
  assumes "mux_Handler registerRoutes r = Dispatch pat h b" and "unescape EncOther (rq_EscapedPath r) \<noteq> None"
  obtains m us where "(m, pat, h) \<in> set registerRoutes" "rq_Method r = m \<or> rq_Method r = ''HEAD'' \<and> m = ''GET''"
    "fits (pattern_segs pat) us" "rq_Path r = CHR ''/'' # Join us ''/''"
proof -
  let ?p = "rq_EscapedPath r" and ?segs = "Split (drop 1 (rq_EscapedPath r)) (CHR ''/'')"
  obtain m where m: "(m, pat, h) \<in> set registerRoutes" "match_segs (pattern_segs pat) ?segs = Some b"
    "rq_Method r = m \<or> rq_Method r = ''HEAD'' \<and> m = ''GET''" and clean: "rq_Method r \<noteq> ''CONNECT'' \<longrightarrow> ?p = cleanPath ?p"
    using assms(1) find_route_fits
    by (fastforce simp: mux_Handler_def match_route_def Let_def split: if_splits option.splits)
  have "rq_Method r \<noteq> ''CONNECT''" using route_methods [OF m(1)] m(3) by auto
  with clean cleanPath_slash [of ?p] obtain p where p: "?p = CHR ''/'' # p" by metis
  then have segs: "Join ?segs ''/'' = p" using Join_Split by simp
  obtain u where u: "unescape EncOther p = Some u" "rq_Path r = CHR ''/'' # u"
    using assms(2) p by (auto simp: rq_Path_def pathUnescape_def)
  from unescape_Join [of ?segs u] u(1) segs Split_nonempty obtain us where
    us: "list_all2 (\<lambda>s v. unescape EncOther s = Some v) ?segs us" "u = Join us ''/''" by auto
  from m us match_fits u(2) show ?thesis by (intro that) auto
qed

section \<open>The table\<close>

definition public_routes :: "(string \<times> string) list" where
  "public_routes =
     [(''GET'', ''/acme/directory''), (''HEAD'', ''/acme/new-nonce''), (''GET'', ''/acme/new-nonce''), 
      (''POST'', ''/acme/new-account''), (''POST'', ''/acme/account/{id}''), (''POST'', ''/acme/new-order''), 
      (''POST'', ''/acme/key-change''), (''GET'', ''/acme/order/{id}''), (''POST'', ''/acme/order/{id}''), 
      (''GET'', ''/acme/authz/{id}''), (''POST'', ''/acme/authz/{id}''), (''POST'', ''/acme/challenge/{id}''), 
      (''POST'', ''/acme/order/{id}/finalize''), (''POST'', ''/acme/revoke-cert''), 
      (''GET'', ''/acme/cert/{id}''), (''POST'', ''/acme/cert/{id}''), (''GET'', ''/crls/{id}''), 
      (''GET'', ''/issuers/{id}/crl''), (''POST'', ''/ocsp'')]"

definition operator_routes :: "string list" where
  "operator_routes =
     [''/debug/vars'', ''/outbox/messages'', ''/outbox/messages/dead-letter/replay'', 
      ''/outbox/messages/{id}/retry'', ''/operator/certificate-inventory'', ''/operator/expiry-slo'', 
      ''/api-keys'', ''/api-keys/{id}/rotate'', ''/api-keys/{id}/disable'', ''/certificates/expiration-scan'', 
      ''/audit-events'', ''/audit-events/integrity'', ''/audit-events/retention/prune'', 
      ''/audit-events/repair/issuance'']"

lemma HasPrefix_simps:
  "HasPrefix s []" "HasPrefix (x # s) (y # p) \<longleftrightarrow> x = y \<and> HasPrefix s p" "\<not> HasPrefix [] (y # p)"
  by (auto simp: HasPrefix_def)

lemma HasSuffix_simps:
  "length p \<le> length s \<Longrightarrow> HasSuffix (c # s) p = HasSuffix s p"
  "length p \<le> length s \<Longrightarrow> HasSuffix (a @ s) p = HasSuffix s p"
  by (auto simp: HasSuffix_def Suc_diff_le)

lemma HasSuffix_same: "length p = length s \<Longrightarrow> HasSuffix s p = (s = p)"
  by (auto simp: HasSuffix_def)

lemmas path_simps = HasPrefix_simps HasSuffix_simps HasSuffix_same isPublicEndpoint_def isPublicACMEProtocolEndpoint_def
  requiredScopeForRequest_def

text \<open>The patterns of the table with their segments.\<close>

definition route_shapes :: "(string \<times> string \<times> seg list) list" where
  "route_shapes =
     [(''GET'', ''/debug/vars'', [Lit ''debug'', Lit ''vars'']),
      (''POST'', ''/identities'', [Lit ''identities'']),
      (''GET'', ''/identities'', [Lit ''identities'']),
      (''GET'', ''/identities/{id}'', [Lit ''identities'', Wild ''id'']),
      (''POST'', ''/issuers'', [Lit ''issuers'']),
      (''GET'', ''/issuers/{id}/chain'', [Lit ''issuers'', Wild ''id'', Lit ''chain'']),
      (''POST'', ''/issuers/{id}/ocsp-responders'', [Lit ''issuers'', Wild ''id'', Lit ''ocsp-responders'']),
      (''GET'', ''/issuers/{id}/ocsp-responders'', [Lit ''issuers'', Wild ''id'', Lit ''ocsp-responders'']),
      (''POST'', ''/issuers/{id}/ocsp-responders/rotate'', [Lit ''issuers'', Wild ''id'', Lit ''ocsp-responders'', Lit ''rotate'']),
      (''POST'', ''/issuers/{id}/ocsp-responders/{responderID}/disable'', [Lit ''issuers'', Wild ''id'', Lit ''ocsp-responders'', Wild ''responderID'', Lit ''disable'']),
      (''POST'', ''/notification-endpoints'', [Lit ''notification-endpoints'']),
      (''GET'', ''/notification-endpoints'', [Lit ''notification-endpoints'']),
      (''POST'', ''/notification-endpoints/{id}/disable'', [Lit ''notification-endpoints'', Wild ''id'', Lit ''disable'']),
      (''GET'', ''/outbox/messages'', [Lit ''outbox'', Lit ''messages'']),
      (''POST'', ''/outbox/messages/dead-letter/replay'', [Lit ''outbox'', Lit ''messages'', Lit ''dead-letter'', Lit ''replay'']),
      (''POST'', ''/outbox/messages/{id}/retry'', [Lit ''outbox'', Lit ''messages'', Wild ''id'', Lit ''retry'']),
      (''GET'', ''/operator/certificate-inventory'', [Lit ''operator'', Lit ''certificate-inventory'']),
      (''GET'', ''/operator/expiry-slo'', [Lit ''operator'', Lit ''expiry-slo'']),
      (''POST'', ''/api-keys'', [Lit ''api-keys'']),
      (''GET'', ''/api-keys'', [Lit ''api-keys'']),
      (''POST'', ''/api-keys/{id}/rotate'', [Lit ''api-keys'', Wild ''id'', Lit ''rotate'']),
      (''POST'', ''/api-keys/{id}/disable'', [Lit ''api-keys'', Wild ''id'', Lit ''disable'']),
      (''POST'', ''/acme/accounts'', [Lit ''acme'', Lit ''accounts'']),
      (''GET'', ''/acme/accounts'', [Lit ''acme'', Lit ''accounts'']),
      (''POST'', ''/acme/orders'', [Lit ''acme'', Lit ''orders'']),
      (''GET'', ''/acme/orders/{id}'', [Lit ''acme'', Lit ''orders'', Wild ''id'']),
      (''GET'', ''/acme/orders/{id}/authorizations'', [Lit ''acme'', Lit ''orders'', Wild ''id'', Lit ''authorizations'']),
      (''POST'', ''/acme/orders/{id}/finalize'', [Lit ''acme'', Lit ''orders'', Wild ''id'', Lit ''finalize'']),
      (''GET'', ''/acme/authorizations/{id}/challenges'', [Lit ''acme'', Lit ''authorizations'', Wild ''id'', Lit ''challenges'']),
      (''POST'', ''/acme/challenges/{id}/complete'', [Lit ''acme'', Lit ''challenges'', Wild ''id'', Lit ''complete'']),
      (''GET'', ''/acme/directory'', [Lit ''acme'', Lit ''directory'']),
      (''HEAD'', ''/acme/new-nonce'', [Lit ''acme'', Lit ''new-nonce'']),
      (''GET'', ''/acme/new-nonce'', [Lit ''acme'', Lit ''new-nonce'']),
      (''POST'', ''/acme/new-account'', [Lit ''acme'', Lit ''new-account'']),
      (''POST'', ''/acme/account/{id}'', [Lit ''acme'', Lit ''account'', Wild ''id'']),
      (''POST'', ''/acme/new-order'', [Lit ''acme'', Lit ''new-order'']),
      (''POST'', ''/acme/key-change'', [Lit ''acme'', Lit ''key-change'']),
      (''GET'', ''/acme/order/{id}'', [Lit ''acme'', Lit ''order'', Wild ''id'']),
      (''POST'', ''/acme/order/{id}'', [Lit ''acme'', Lit ''order'', Wild ''id'']),
      (''GET'', ''/acme/authz/{id}'', [Lit ''acme'', Lit ''authz'', Wild ''id'']),
      (''POST'', ''/acme/authz/{id}'', [Lit ''acme'', Lit ''authz'', Wild ''id'']),
      (''POST'', ''/acme/challenge/{id}'', [Lit ''acme'', Lit ''challenge'', Wild ''id'']),
      (''POST'', ''/acme/order/{id}/finalize'', [Lit ''acme'', Lit ''order'', Wild ''id'', Lit ''finalize'']),
      (''POST'', ''/acme/revoke-cert'', [Lit ''acme'', Lit ''revoke-cert'']),
      (''GET'', ''/acme/cert/{id}'', [Lit ''acme'', Lit ''cert'', Wild ''id'']),
      (''POST'', ''/acme/cert/{id}'', [Lit ''acme'', Lit ''cert'', Wild ''id'']),
      (''POST'', ''/certificate-profiles'', [Lit ''certificate-profiles'']),
      (''GET'', ''/certificate-profiles'', [Lit ''certificate-profiles'']),
      (''GET'', ''/certificate-profiles/{id}'', [Lit ''certificate-profiles'', Wild ''id'']),
      (''POST'', ''/enrollments'', [Lit ''enrollments'']),
      (''GET'', ''/enrollments'', [Lit ''enrollments'']),
      (''GET'', ''/enrollments/{id}'', [Lit ''enrollments'', Wild ''id'']),
      (''POST'', ''/enrollments/{id}/approve'', [Lit ''enrollments'', Wild ''id'', Lit ''approve'']),
      (''POST'', ''/enrollments/{id}/reject'', [Lit ''enrollments'', Wild ''id'', Lit ''reject'']),
      (''POST'', ''/certificates'', [Lit ''certificates'']),
      (''GET'', ''/certificates'', [Lit ''certificates'']),
      (''POST'', ''/certificates/expiration-scan'', [Lit ''certificates'', Lit ''expiration-scan'']),
      (''GET'', ''/certificates/{id}'', [Lit ''certificates'', Wild ''id'']),
      (''POST'', ''/certificates/{id}/revoke'', [Lit ''certificates'', Wild ''id'', Lit ''revoke'']),
      (''POST'', ''/certificates/{id}/suspend'', [Lit ''certificates'', Wild ''id'', Lit ''suspend'']),
      (''POST'', ''/certificates/{id}/resume'', [Lit ''certificates'', Wild ''id'', Lit ''resume'']),
      (''POST'', ''/certificates/{id}/renew'', [Lit ''certificates'', Wild ''id'', Lit ''renew'']),
      (''POST'', ''/certificates/{id}/reissue'', [Lit ''certificates'', Wild ''id'', Lit ''reissue'']),
      (''POST'', ''/crls'', [Lit ''crls'']),
      (''GET'', ''/crls/{id}'', [Lit ''crls'', Wild ''id'']),
      (''GET'', ''/issuers/{id}/crl'', [Lit ''issuers'', Wild ''id'', Lit ''crl'']),
      (''POST'', ''/ocsp'', [Lit ''ocsp'']),
      (''GET'', ''/audit-events'', [Lit ''audit-events'']),
      (''GET'', ''/audit-events/integrity'', [Lit ''audit-events'', Lit ''integrity'']),
      (''POST'', ''/audit-events/retention/prune'', [Lit ''audit-events'', Lit ''retention'', Lit ''prune'']),
      (''POST'', ''/audit-events/repair/issuance'', [Lit ''audit-events'', Lit ''repair'', Lit ''issuance'']),
      (''GET'', ''/trust/anchors'', [Lit ''trust'', Lit ''anchors''])]"

abbreviation shape_of :: "string \<times> string \<times> handler \<Rightarrow> string \<times> string \<times> seg list" where
  "shape_of \<equiv> \<lambda>(m, p, h). (m, p, pattern_segs p)"

lemma shapes_of_routes: "map shape_of registerRoutes = route_shapes"
  unfolding registerRoutes_def route_shapes_def by (simp add: pattern_segs_def pattern_seg_def HasPrefix_simps)

lemma route_shape:
  assumes "(m, pat, h) \<in> set registerRoutes"
  shows "(m, pat, pattern_segs pat) \<in> set route_shapes"
proof -
  from imageI [OF assms, of shape_of] have "(m, pat, pattern_segs pat) \<in> set (map shape_of registerRoutes)"
    by (simp only: set_map case_prod_conv)
  then show ?thesis by (simp only: shapes_of_routes)
qed

text \<open>The route of a request from the shapes alone.\<close>

lemma find_shape:
  "find (\<lambda>(m, p, ps). m = method \<and> match_segs ps segs \<noteq> None) (map shape_of rs) = Some (m, pat, ps) \<Longrightarrow>
   \<exists>h b. find_route rs method segs = Some (pat, h, b)"
  by (induction rs) (auto simp: find_route_simps route_match_def split: if_splits option.splits)

lemma dispatch_shape:
  assumes "find (\<lambda>(m, p, ps). m = rq_Method r \<and> match_segs ps (Split (drop 1 (rq_EscapedPath r)) (CHR ''/'')) \<noteq> None) route_shapes =
      Some (m, pat, ps)" and "cleanPath (rq_EscapedPath r) = rq_EscapedPath r"
  shows "\<exists>h b. mux_Handler registerRoutes r = Dispatch pat h b"
  using find_shape [of "rq_Method r" _ registerRoutes, unfolded shapes_of_routes, OF assms(1)] assms(2)
  by (auto simp: mux_Handler_def match_route_def Let_def)

lemma private_paths:
  "list_all (\<lambda>(m, pat, segs). (m, pat) \<in> set public_routes \<or>
     over segs (\<lambda>us. \<not> isPublicEndpoint m (CHR ''/'' # Join us ''/''))) route_shapes"
  unfolding route_shapes_def public_routes_def by (simp add: path_simps)

lemma operator_paths:
  "list_all (\<lambda>(m, pat, segs). pat \<notin> set operator_routes \<or>
     over segs (\<lambda>us. requiredScopeForRequest m (CHR ''/'' # Join us ''/'') = requiredScopeOperator)) route_shapes"
  unfolding route_shapes_def operator_routes_def by (simp add: path_simps)

lemma head_public: "isPublicEndpoint ''HEAD'' p \<Longrightarrow> isPublicEndpoint ''GET'' p"
  by (auto simp: isPublicEndpoint_def isPublicACMEProtocolEndpoint_def)

lemma head_operator:
  "requiredScopeForRequest ''GET'' p = requiredScopeOperator \<Longrightarrow> requiredScopeForRequest ''HEAD'' p = requiredScopeOperator"
  by (auto simp: requiredScopeForRequest_def split: if_splits)

text \<open>
  C14. What needs no key is on the list: a request that authentication lets pass as public is dispatched
  only to one of the nineteen public routes, however its path is escaped, so no other handler
  runs without a key.
\<close>

theorem public_requests_reach_public_routes:
  assumes "mux_Handler registerRoutes r = Dispatch pat h b" and "unescape EncOther (rq_EscapedPath r) \<noteq> None"
    and "isPublicEndpoint (rq_Method r) (rq_Path r)"
  shows "\<exists>m. (m, pat, h) \<in> set registerRoutes \<and> (m, pat) \<in> set public_routes"
proof -
  from assms(1,2) obtain m us where route: "(m, pat, h) \<in> set registerRoutes"
    and m: "rq_Method r = m \<or> rq_Method r = ''HEAD'' \<and> m = ''GET''"
    and us: "fits (pattern_segs pat) us" "rq_Path r = CHR ''/'' # Join us ''/''"
    by (rule dispatched)
  have "isPublicEndpoint m (CHR ''/'' # Join us ''/'')"
    using assms(3) m us(2) head_public by auto
  then have "\<not> over (pattern_segs pat) (\<lambda>us. \<not> isPublicEndpoint m (CHR ''/'' # Join us ''/''))"
    using over_fits [OF _ us(1)] by blast
  with private_paths route_shape [OF route] have "(m, pat) \<in> set public_routes"
    unfolding list_all_iff by fastforce
  with route show ?thesis by blast
qed

text \<open>
  C15. The routes for operators ask for the scope of an operator: a request that is dispatched to one of
  them, however its path is escaped, was checked against this scope.
\<close>

theorem operator_routes_need_operator_scope:
  assumes "mux_Handler registerRoutes r = Dispatch pat h b" and "unescape EncOther (rq_EscapedPath r) \<noteq> None"
    and "pat \<in> set operator_routes"
  shows "requiredScopeForRequest (rq_Method r) (rq_Path r) = requiredScopeOperator"
proof -
  from assms(1,2) obtain m us where route: "(m, pat, h) \<in> set registerRoutes"
    and m: "rq_Method r = m \<or> rq_Method r = ''HEAD'' \<and> m = ''GET''"
    and us: "fits (pattern_segs pat) us" "rq_Path r = CHR ''/'' # Join us ''/''"
    by (rule dispatched)
  from operator_paths route_shape [OF route] assms(3)
  have "over (pattern_segs pat) (\<lambda>us. requiredScopeForRequest m (CHR ''/'' # Join us ''/'') = requiredScopeOperator)"
    unfolding list_all_iff by fastforce
  from over_fits [OF this us(1)] m us(2) head_operator show ?thesis by auto
qed

lemma sample_shapes:
  "find (\<lambda>(m, p, ps). m = ''GET'' \<and> match_segs ps (Split (drop 1 ''/acme/order/a%2Fb'') (CHR ''/'')) \<noteq> None) route_shapes =
     Some (''GET'', ''/acme/order/{id}'', [Lit ''acme'', Lit ''order'', Wild ''id''])"
  "find (\<lambda>(m, p, ps). m = ''GET'' \<and> match_segs ps (Split (drop 1 ''/api%2Dkeys'') (CHR ''/'')) \<noteq> None) route_shapes =
     Some (''GET'', ''/api-keys'', [Lit ''api-keys''])"
  by code_simp+

lemma sample_clean: "cleanPath ''/acme/order/a%2Fb'' = ''/acme/order/a%2Fb''" "cleanPath ''/api%2Dkeys'' = ''/api%2Dkeys''"
  by code_simp+

theorem public_requests_reach_public_routes_witness:
  "\<exists>m. (m, ''/acme/order/{id}'') \<in> set public_routes"
proof -
  let ?r = "sample_call ''GET'' ''/acme/order/a%2Fb'' []"
  have "\<exists>h b. mux_Handler registerRoutes ?r = Dispatch ''/acme/order/{id}'' h b"
    by (rule dispatch_shape) (use sample_shapes(1) sample_clean in \<open>simp_all add: sample_call_def\<close>)
  then obtain h b where "mux_Handler registerRoutes ?r = Dispatch ''/acme/order/{id}'' h b" by blast
  moreover have "unescape EncOther (rq_EscapedPath ?r) \<noteq> None" "isPublicEndpoint (rq_Method ?r) (rq_Path ?r)"
    unfolding sample_call_def by code_simp+
  ultimately show ?thesis using public_requests_reach_public_routes by blast
qed

theorem operator_routes_need_operator_scope_witness:
  "requiredScopeForRequest ''GET'' (rq_Path (sample_call ''GET'' ''/api%2Dkeys'' [])) = requiredScopeOperator"
proof -
  let ?r = "sample_call ''GET'' ''/api%2Dkeys'' []"
  have "\<exists>h b. mux_Handler registerRoutes ?r = Dispatch ''/api-keys'' h b"
    by (rule dispatch_shape) (use sample_shapes(2) sample_clean in \<open>simp_all add: sample_call_def\<close>)
  then obtain h b where "mux_Handler registerRoutes ?r = Dispatch ''/api-keys'' h b" by blast
  moreover have "unescape EncOther (rq_EscapedPath ?r) \<noteq> None"
    unfolding sample_call_def by code_simp
  moreover have "''/api-keys'' \<in> set operator_routes" "rq_Method ?r = ''GET''"
    by (simp_all add: operator_routes_def sample_call_def)
  ultimately show ?thesis using operator_routes_need_operator_scope [of ?r] by metis
qed

end
