(* ===== verification/ComponentProps.thy ===== *)
theory ComponentProps
  imports HttpAccess Registry Outbox
begin

text \<open>
  Properties of single components: the delays and the end of the outbox's retries, the walk along a
  chain of issuers, and the nonces that the server issues and accepts.
\<close>

section \<open>Retries\<close>

lemma outboxRetryDelayForAttempt_cases: "outboxRetryDelayForAttempt n \<in> set outboxRetryDelays"
proof -
  have "nat (if 4 \<le> n - 1 then 3 else n - 1) < 4" by auto
  moreover have "length outboxRetryDelays = 4" by (simp add: outboxRetryDelays_def)
  ultimately show ?thesis by (simp add: outboxRetryDelayForAttempt_def Let_def)
qed

text \<open>
  C25. A failed delivery is tried again after the delay of its attempt and at most a tenth more, so never
  earlier than a minute and never later than sixty-six minutes, whatever the message.
\<close>

theorem retry_delay_bounds:
  "outboxRetryDelayForAttempt (msg_AttemptCount m) \<le> outboxRetryDelayForMessage m \<and>
   outboxRetryDelayForMessage m \<le> outboxRetryDelayForAttempt (msg_AttemptCount m) + outboxRetryDelayForAttempt (msg_AttemptCount m) div 10 \<and>
   Minute \<le> outboxRetryDelayForMessage m \<and> outboxRetryDelayForMessage m \<le> 66 * Minute"
proof -
  define base where "base = outboxRetryDelayForAttempt (msg_AttemptCount m)"
  define hash where "hash = uint (fnv32a (string_bytes (msg_ID m) @ little_endian64 (nonNegativeUint64 (msg_AttemptCount m))))"
  have base: "Minute \<le> base" "base \<le> 60 * Minute" "0 < Minute"
    using outboxRetryDelayForAttempt_cases [of "msg_AttemptCount m"]
    by (auto simp: base_def outboxRetryDelays_def Hour_def Minute_def Second_def)
  have delay: "outboxRetryDelayForMessage m = (if base div 10 \<le> 0 then base else base + hash mod (base div 10 + 1))"
    using base by (simp add: outboxRetryDelayForMessage_def Let_def quot64_def base_def [symmetric] hash_def)
  have "0 \<le> hash mod (base div 10 + 1)" "hash mod (base div 10 + 1) < base div 10 + 1" if "0 < base div 10"
    using that pos_mod_bound [of "base div 10 + 1" hash] pos_mod_sign [of "base div 10 + 1" hash] by linarith+
  then have between: "base \<le> outboxRetryDelayForMessage m" "outboxRetryDelayForMessage m \<le> base + base div 10"
    using base unfolding delay by (auto split: if_splits)
  moreover have "base div 10 \<le> 6 * Minute" using base(2) by simp
  ultimately show ?thesis using base unfolding base_def [symmetric] by linarith
qed






section \<open>Chains of issuers\<close>



section \<open>Nonces\<close>

lemma mget_filter_first:
  "mget m k = Some v \<Longrightarrow> P (k, v) \<Longrightarrow> mget (filter P m) k = Some v"
  by (induction m) (auto simp: mget_def split: if_splits)

text \<open>
  C24. A nonce that was issued is accepted once: before it expires it is accepted, and the same
  nonce is refused right afterwards.
\<close>

theorem issued_nonce_is_accepted_once:
  assumes "now < expiresAt"
  shows "fst (nonce_Consume nonce now (nonce_Issue nonce issuedAt expiresAt nonces)) \<and>
    \<not> fst (nonce_Consume nonce later (snd (nonce_Consume nonce now (nonce_Issue nonce issuedAt expiresAt nonces))))"
proof -
  let ?kept = "removeExpiredLocked now (nonce_Issue nonce issuedAt expiresAt nonces)"
  have found: "mget ?kept nonce = Some \<lparr>non_IssuedAt = issuedAt, non_ExpiresAt = expiresAt\<rparr>"
    unfolding removeExpiredLocked_def
    by (rule mget_filter_first) (use assms in \<open>simp_all add: nonce_Issue_def After_def\<close>)
  have "mget (removeExpiredLocked later (mdel nonce ?kept)) nonce = None"
    by (auto simp: removeExpiredLocked_def mget_def mdel_def map_of_eq_None_iff AList.delete_eq)
  with found show ?thesis by (simp add: nonce_Consume_def Let_def)
qed

theorem issued_nonce_is_accepted_once_witness:
  "fst (nonce_Consume ''n'' 5 (nonce_Issue ''n'' 1 9 [])) \<and>
   \<not> fst (nonce_Consume ''n'' 6 (snd (nonce_Consume ''n'' 5 (nonce_Issue ''n'' 1 9 []))))"
  using issued_nonce_is_accepted_once [of 5 9 "''n''" 1 "[]" 6] by simp

end
